(* ===== verification/Prelude.thy ===== *)
theory Prelude
  imports Main "HOL-Library.List_Lexorder" "HOL-Library.Char_ord" "HOL-Library.Word"
begin

section \<open>Prelude: errors, transactions as state-and-exception actions, shared lemmas\<close>

text \<open>
  Every operation of the transaction processor may throw.  A C++ exception is a value of
  \<open>err\<close>; a computation that reads and writes the processor's state is a function
  \<open>'s \<Rightarrow> (err + 'a) \<times> 's\<close>: a thrown exception keeps the state as the code had
  left it when it threw (nothing is rolled back in the processor itself).
  The collection \<open>act_ok\<close> turns "this action returned normally" into the facts that
  each of its steps established, \<open>act_run\<close> evaluates an action on a state.
\<close>

datatype err =
  InvalidTransaction string  \<comment> \<open>sawtooth::InvalidTransaction: the validator rejects the transaction\<close>
| StdException string        \<comment> \<open>any other C++ exception that leaves the operation\<close>
| Aborted string             \<comment> \<open>the process stops: exit, or a loop that does not return\<close>

type_synonym ('s, 'a) act = "'s \<Rightarrow> (err + 'a) \<times> 's"

named_theorems act_ok "what a normally returning action establishes"
named_theorems act_run "evaluation of actions on a state"

definition ret :: "'a \<Rightarrow> ('s, 'a) act" where
  "ret x = (\<lambda>s. (Inr x, s))"

definition throw :: "err \<Rightarrow> ('s, 'a) act" where
  "throw e = (\<lambda>s. (Inl e, s))"

definition bnd :: "('s, 'a) act \<Rightarrow> ('a \<Rightarrow> ('s, 'b) act) \<Rightarrow> ('s, 'b) act" where
  "bnd m f = (\<lambda>s. case m s of (Inl e, s1) \<Rightarrow> (Inl e, s1) | (Inr x, s1) \<Rightarrow> f x s1)"

definition lift :: "err + 'a \<Rightarrow> ('s, 'a) act" where
  "lift r = (\<lambda>s. (r, s))"

definition reads :: "('s \<Rightarrow> err + 'a) \<Rightarrow> ('s, 'a) act" where
  "reads f = (\<lambda>s. (f s, s))"

definition modifies :: "('s \<Rightarrow> 's) \<Rightarrow> ('s, unit) act" where
  "modifies f = (\<lambda>s. (Inr (), f s))"

definition throwIf :: "bool \<Rightarrow> string \<Rightarrow> ('s, unit) act" where
  \<comment> \<open>if (b) throw sawtooth::InvalidTransaction(msg);\<close>
  "throwIf b msg = (\<lambda>s. if b then (Inl (InvalidTransaction msg), s) else (Inr (), s))"

primrec forEach :: "'b list \<Rightarrow> ('b \<Rightarrow> ('s, unit) act) \<Rightarrow> ('s, unit) act" where
  "forEach [] f = ret ()"
| "forEach (x # xs) f = bnd (f x) (\<lambda>_. forEach xs f)"

text \<open>The same sequencing for computations that do not touch the state.\<close>

definition sbnd :: "err + 'a \<Rightarrow> ('a \<Rightarrow> err + 'b) \<Rightarrow> err + 'b" where
  "sbnd r f = (case r of Inl e \<Rightarrow> Inl e | Inr x \<Rightarrow> f x)"

lemma ret_ok [act_ok]: "ret x s = (Inr y, s') \<longleftrightarrow> y = x \<and> s' = s"
  by (auto simp: ret_def)

lemma throw_ok [act_ok]: "throw e s = (Inr y, s') \<longleftrightarrow> False"
  by (simp add: throw_def)

lemma bnd_ok [act_ok]:
  "bnd m f s = (Inr y, s') \<longleftrightarrow> (\<exists>x s1. m s = (Inr x, s1) \<and> f x s1 = (Inr y, s'))"
  by (auto simp: bnd_def split: prod.splits sum.splits)

lemma bnd_err:
  "bnd m f s = (Inl e, s') \<longleftrightarrow>
     m s = (Inl e, s') \<or> (\<exists>x s1. m s = (Inr x, s1) \<and> f x s1 = (Inl e, s'))"
  by (auto simp: bnd_def split: prod.splits sum.splits)

lemma lift_ok [act_ok]: "lift r s = (Inr y, s') \<longleftrightarrow> r = Inr y \<and> s' = s"
  by (auto simp: lift_def)

lemma reads_ok [act_ok]: "reads f s = (Inr y, s') \<longleftrightarrow> f s = Inr y \<and> s' = s"
  by (auto simp: reads_def)

lemma modifies_ok [act_ok]: "modifies f s = (Inr y, s') \<longleftrightarrow> s' = f s"
  by (auto simp: modifies_def)

lemma throwIf_ok [act_ok]: "throwIf b msg s = (Inr y, s') \<longleftrightarrow> \<not> b \<and> s' = s"
  by (auto simp: throwIf_def)

lemma sbnd_ok [act_ok]: "sbnd r f = Inr y \<longleftrightarrow> (\<exists>x. r = Inr x \<and> f x = Inr y)"
  by (auto simp: sbnd_def split: sum.splits)

lemmas [act_run] = ret_def throw_def bnd_def lift_def reads_def modifies_def throwIf_def sbnd_def

text \<open>
  Running an action step by step: these rules only fire on an action applied to a state, so
  the simplifier follows the control flow and does not unfold what is not reached.
\<close>

named_theorems act_step "one step of a run"

lemma bnd_step [act_step]: "m s = (Inr x, s1) \<Longrightarrow> bnd m f s = f x s1"
  and bnd_step_err [act_step]: "m s = (Inl e, s1) \<Longrightarrow> bnd m f s = (Inl e, s1)"
  and ret_step [act_step]: "ret x s = (Inr x, s)"
  and throw_step [act_step]: "throw e s = (Inl e, s)"
  and lift_step [act_step]: "lift r s = (r, s)"
  and reads_step [act_step]: "reads g s = (g s, s)"
  and modifies_step [act_step]: "modifies h s = (Inr (), h s)"
  and throwIf_step [act_step]:
    "throwIf b msg s = (if b then (Inl (InvalidTransaction msg), s) else (Inr (), s))"
  and lift_value_step [act_step]: "bnd (lift (Inr v)) f s = f v s"
  by (simp_all add: act_run)

lemma forEach_ok_invariant:
  assumes "forEach xs f s = (Inr u, s')" and "P s"
    and "\<And>x s v s1. x \<in> set xs \<Longrightarrow> P s \<Longrightarrow> f x s = (Inr v, s1) \<Longrightarrow> P s1"
  shows "P s'"
  using assms by (induction xs arbitrary: s) (auto simp: act_ok)

lemma forEach_append:
  "forEach (xs @ ys) f = bnd (forEach xs f) (\<lambda>_. forEach ys f)"
  by (induction xs) (auto simp: fun_eq_iff act_run split: prod.splits sum.splits)

subsection \<open>Read-only actions\<close>

text \<open>An action is read-only when it never changes the state, whatever it returns.\<close>

definition pure_act :: "('s, 'a) act \<Rightarrow> bool" where
  "pure_act m \<longleftrightarrow> (\<forall>s. snd (m s) = s)"

lemma pure_act_intros [intro]:
  "pure_act (ret x)" "pure_act (throw e)" "pure_act (lift r)" "pure_act (reads g)"
  "pure_act (throwIf b msg)"
  by (auto simp: pure_act_def act_run)

lemma pure_act_bnd [intro]: "pure_act m \<Longrightarrow> (\<And>x. pure_act (f x)) \<Longrightarrow> pure_act (bnd m f)"
  by (auto simp: pure_act_def bnd_def split: prod.splits sum.splits) (metis snd_conv)+

lemma pure_actD: "pure_act m \<Longrightarrow> m s = (r, s') \<Longrightarrow> s' = s"
  by (metis pure_act_def snd_conv)

subsection \<open>Actions that fail cleanly\<close>

text \<open>
  A handler reads, checks and computes, and writes at its end.  \<open>clean_on\<close> says that a
  failure leaves the state untouched; a total tail (the writes) never fails.
\<close>

definition clean_on :: "('s \<Rightarrow> bool) \<Rightarrow> ('s, 'a) act \<Rightarrow> bool" where
  "clean_on P m \<longleftrightarrow> (\<forall>s e s'. P s \<longrightarrow> m s = (Inl e, s') \<longrightarrow> s' = s)"

definition total_on :: "('s \<Rightarrow> bool) \<Rightarrow> ('s, 'a) act \<Rightarrow> bool" where
  "total_on P m \<longleftrightarrow> (\<forall>s. P s \<longrightarrow> (\<exists>x s'. m s = (Inr x, s') \<and> P s'))"

named_theorems clean "introduction rules for actions that fail cleanly"

lemma clean_total: "total_on P m \<Longrightarrow> clean_on P m"
  by (fastforce simp: total_on_def clean_on_def)

lemma clean_pure: "pure_act m \<Longrightarrow> clean_on P m"
  by (auto simp: clean_on_def dest: pure_actD)

lemma clean_bnd [clean]: "pure_act m \<Longrightarrow> (\<And>x. clean_on P (f x)) \<Longrightarrow> clean_on P (bnd m f)"
  unfolding clean_on_def bnd_err by (metis pure_actD)

lemma total_bnd: "total_on P m \<Longrightarrow> (\<And>x. total_on P (f x)) \<Longrightarrow> total_on P (bnd m f)"
  by (fastforce simp: total_on_def bnd_ok)

lemma pure_act_prod [intro]: "(\<And>a b. pure_act (f a b)) \<Longrightarrow> pure_act (case p of (a, b) \<Rightarrow> f a b)"
  by (cases p) simp

lemma clean_prod [clean]: "(\<And>a b. clean_on P (f a b)) \<Longrightarrow> clean_on P (case p of (a, b) \<Rightarrow> f a b)"
  by (cases p) simp

lemma pure_act_if [intro]: "pure_act m \<Longrightarrow> pure_act n \<Longrightarrow> pure_act (if b then m else n)"
  by simp

lemma clean_if [clean]: "clean_on P m \<Longrightarrow> clean_on P n \<Longrightarrow> clean_on P (if b then m else n)"
  by simp

subsection \<open>Lists\<close>

lemma takeWhile_dropWhile_split: "xs = takeWhile P xs @ dropWhile P xs"
  by simp

definition starts_with :: "string \<Rightarrow> string \<Rightarrow> bool" where
  \<comment> \<open>std::string::rfind(prefix, 0) == 0: the string begins with the prefix\<close>
  "starts_with prefix s \<longleftrightarrow> take (length prefix) s = prefix"

lemma starts_with_append [simp]: "starts_with p (p @ s)"
  by (simp add: starts_with_def)

lemma starts_with_iff: "starts_with p s \<longleftrightarrow> (\<exists>t. s = p @ t)"
  by (metis append_eq_conv_conj append_take_drop_id starts_with_def)

definition substr :: "string \<Rightarrow> nat \<Rightarrow> nat \<Rightarrow> err + string" where
  \<comment> \<open>std::string::substr(pos, n): out_of_range when pos is past the end\<close>
  "substr s pos n = (if pos > length s then Inl (StdException ''basic_string::substr'')
     else Inr (take n (drop pos s)))"

end
