(* ===== verification/Text.thy ===== *)
theory Text
  imports Prelude
begin

section \<open>Text routines of processor.cpp\<close>

text \<open>
  The free functions of \<open>src/ccprocessor/processor.cpp\<close> that work on strings:
  \<open>trimQuotes\<close>, \<open>isHex\<close>, \<open>parseUint64\<close>, \<open>compress\<close>, the check of a connect string and
  the command line.  A \<open>std::string\<close> is a list of bytes (Isabelle's \<open>char\<close> is exactly a
  byte).  The C++ standard library's \<open>isdigit\<close>, \<open>isspace\<close>, \<open>stoi\<close> and the extraction of
  an unsigned integer from a stream are written out as the standard describes them for the
  classic locale.
\<close>

subsection \<open>Characters and numerals\<close>

definition isdigit :: "char \<Rightarrow> bool" where
  "isdigit c \<longleftrightarrow> 48 \<le> (of_char c :: nat) \<and> (of_char c :: nat) \<le> 57"

definition isspace :: "char \<Rightarrow> bool" where
  "isspace c \<longleftrightarrow> (of_char c :: nat) = 32 \<or> (9 \<le> (of_char c :: nat) \<and> (of_char c :: nat) \<le> 13)"

definition digit_val :: "char \<Rightarrow> nat" where
  "digit_val c = of_char c - 48"

definition dec_val :: "string \<Rightarrow> nat" where
  \<comment> \<open>the value of a string of decimal digits\<close>
  "dec_val ds = foldl (\<lambda>n c. 10 * n + digit_val c) 0 ds"

definition digits_only :: "string \<Rightarrow> bool" where
  "digits_only s \<longleftrightarrow> list_all isdigit s"

lemma digit_val_less: "isdigit c \<Longrightarrow> digit_val c < 10"
  by (auto simp: isdigit_def digit_val_def)

lemma isdigit_not_space: "isdigit c \<Longrightarrow> \<not> isspace c"
  by (auto simp: isdigit_def isspace_def)

lemma digits_only_Cons [simp]: "digits_only (c # s) \<longleftrightarrow> isdigit c \<and> digits_only s"
  by (simp add: digits_only_def)

lemma digits_only_Nil [simp]: "digits_only []"
  by (simp add: digits_only_def)

lemma digits_only_append [simp]: "digits_only (s @ t) \<longleftrightarrow> digits_only s \<and> digits_only t"
  by (simp add: digits_only_def)

lemma takeWhile_digits: "digits_only s \<Longrightarrow> takeWhile isdigit s = s"
  and dropWhile_digits: "digits_only s \<Longrightarrow> dropWhile isdigit s = []"
  by (auto simp: digits_only_def list_all_iff)

text \<open>A sign, then decimal digits: the field that \<open>strtol\<close> and \<open>strtoull\<close> read.\<close>

definition split_sign :: "string \<Rightarrow> bool \<times> string" where
  "split_sign s = (case s of [] \<Rightarrow> (False, [])
     | c # cs \<Rightarrow> if c = CHR ''-'' then (True, cs) else if c = CHR ''+'' then (False, cs) else (False, s))"

lemma split_sign_digits: "digits_only s \<Longrightarrow> split_sign s = (False, s)"
  by (cases s) (auto simp: split_sign_def isdigit_def)

subsection \<open>trimQuotes, isHex\<close>

definition trimQuotes :: "bool \<Rightarrow> string \<Rightarrow> err + string" where
  \<comment> \<open>\<open>asserts\<close> tells whether the build keeps \<open>assert\<close> (NDEBUG not defined)\<close>
  "trimQuotes asserts s =
     (if asserts \<and> \<not> (s \<noteq> [] \<and> hd s = CHR 0x22 \<and> last s = CHR 0x22)
      then Inl (Aborted ''assert'')
      else substr s 1 (if length s < 2 then 2 ^ 64 + length s - 2 else length s - 2))"

lemma trimQuotes_quoted [simp]:
  "trimQuotes a (CHR 0x22 # s @ [CHR 0x22]) = Inr s"
  by (simp add: trimQuotes_def substr_def)

definition isHexChar :: "char \<Rightarrow> bool" where
  "isHexChar c \<longleftrightarrow> c \<in> set ''0123456789abcdef''"

definition isHex :: "string \<Rightarrow> bool" where
  "isHex s \<longleftrightarrow> list_all isHexChar s"

definition hex_val :: "char \<Rightarrow> nat" where
  "hex_val c = (if isdigit c then digit_val c else of_char c - 87)"

subsection \<open>parseUint64\<close>

definition read_uint64 :: "string \<Rightarrow> (64 word \<times> string) option" where
  \<comment> \<open>std::istringstream >> uint64: white space, an optional sign, digits; a negative field is
     negated modulo 2^64, a magnitude above 2^64 - 1 fails; the rest of the input is kept\<close>
  "read_uint64 s =
     (let (neg, ds) = split_sign (dropWhile isspace s);
          n = dec_val (takeWhile isdigit ds)
      in if takeWhile isdigit ds = [] \<or> 2 ^ 64 \<le> n then None
         else Some (if neg then - word_of_nat n else word_of_nat n, dropWhile isdigit ds))"

definition parseUint64 :: "string \<Rightarrow> err + 64 word" where
  "parseUint64 s = (case read_uint64 s of
     Some (n, []) \<Rightarrow> Inr n
   | _ \<Rightarrow> Inl (InvalidTransaction ''Invalid number''))"

lemma dropWhile_space_digits: "digits_only s \<Longrightarrow> dropWhile isspace s = s"
  by (cases s) (auto simp: isdigit_not_space)

lemma parseUint64_digits:
  assumes "digits_only s" and "s \<noteq> []"
  shows "parseUint64 s =
     (if dec_val s < 2 ^ 64 then Inr (word_of_nat (dec_val s))
      else Inl (InvalidTransaction ''Invalid number''))"
  using assms
  by (simp add: parseUint64_def read_uint64_def dropWhile_space_digits split_sign_digits
      takeWhile_digits dropWhile_digits)

lemma parseUint64_negative:
  assumes "digits_only s" and "s \<noteq> []" and "dec_val s < 2 ^ 64"
  shows "parseUint64 (CHR ''-'' # s) = Inr (- word_of_nat (dec_val s))"
proof -
  have "dropWhile isspace (CHR ''-'' # s) = CHR ''-'' # s" by (simp add: isspace_def)
  then show ?thesis using assms
    by (simp add: parseUint64_def read_uint64_def split_sign_def takeWhile_digits dropWhile_digits)
qed

subsection \<open>compress\<close>

definition compress :: "string \<Rightarrow> err + string" where
  "compress uncompressed =
     (let marker = take 2 uncompressed;
          bad = Inl (InvalidTransaction ''Unexpected public key format'')
      in if length uncompressed = 2 * (1 + 2 * 32) \<and> isHex uncompressed \<and> marker = ''04''
         then let x = take (2 * 32) (drop (2 * 1) uncompressed);
                  yLast = take (2 * 1) (drop (2 * (1 + 32 + 31)) uncompressed);
                  lst = foldl (\<lambda>n c. 16 * n + hex_val c) 0 yLast
              in if lst mod 2 \<noteq> 0 then Inr (''03'' @ x) else Inr (''02'' @ x)
         else if (marker = ''02'' \<or> marker = ''03'') \<and> length uncompressed = 66
         then Inr uncompressed
         else bad)"

definition compressed_key :: "string \<Rightarrow> bool" where
  "compressed_key k \<longleftrightarrow> length k = 66 \<and> (take 2 k = ''02'' \<or> take 2 k = ''03'')"

lemma compress_result: "compress k = Inr c \<Longrightarrow> compressed_key c"
  by (auto simp: compress_def compressed_key_def Let_def split: if_splits)

lemma compress_fixpoint: "compressed_key c \<Longrightarrow> compress c = Inr c"
  by (auto simp: compress_def compressed_key_def Let_def)

subsection \<open>The connect string\<close>

definition peek :: "string \<Rightarrow> char" where
  \<comment> \<open>*ptr of a C string: NUL at the end\<close>
  "peek s = (case s of [] \<Rightarrow> CHR 0x00 | c # _ \<Rightarrow> c)"

fun octets :: "nat \<Rightarrow> string \<Rightarrow> string option" where
  \<comment> \<open>the loop over the four numbers of a dotted address; the argument counts the ones left\<close>
  "octets 0 ptr = Some ptr"
| "octets (Suc n) ptr =
     (if \<not> isdigit (peek ptr) then None
      else let p1 = tl ptr;
               p2 = (if isdigit (peek p1)
                     then (if isdigit (peek (tl p1)) then tl (tl p1) else tl p1) else p1)
           in if peek p2 \<noteq> (if n = 0 then CHR '':'' else CHR ''.'') then None
              else octets n (tl p2))"

definition connect_host :: "string \<Rightarrow> string option" where
  "connect_host ptr =
     (if \<not> isdigit (peek ptr)
      then (if peek ptr = CHR '':'' \<or> CHR '':'' \<notin> set ptr then None
            else Some (tl (dropWhile (\<lambda>c. c \<noteq> CHR '':'') ptr)))
      else octets 4 ptr)"

function port_rest :: "nat \<Rightarrow> string \<Rightarrow> string option" where
  \<comment> \<open>up to four digits; the first one is required\<close>
  "port_rest i ptr =
     (if 4 \<le> i then Some ptr
      else if \<not> isdigit (peek ptr) then (if i = 0 then None else Some ptr)
      else port_rest (Suc i) (tl ptr))"
  by pat_completeness auto
termination
  by (relation "measure (\<lambda>(i, ptr). 4 - i)") auto

declare port_rest.simps [simp del]

definition testConnectString :: "string \<Rightarrow> bool" where
  "testConnectString str =
     (if take 6 str \<noteq> ''tcp://'' then False
      else case connect_host (drop 6 str) of None \<Rightarrow> False
        | Some ptr \<Rightarrow> (case port_rest 0 ptr of None \<Rightarrow> False | Some r \<Rightarrow> r = []))"

lemma isdigit_peek: "isdigit (peek s) \<longleftrightarrow> (\<exists>c t. s = c # t \<and> isdigit c)"
  by (cases s) (auto simp: peek_def isdigit_def)

lemma port_rest_Nil: "port_rest i p = Some [] \<longleftrightarrow>
    (if 4 \<le> i then p = [] else digits_only p \<and> length p \<le> 4 - i \<and> (i = 0 \<longrightarrow> p \<noteq> []))"
proof (induction i p rule: port_rest.induct)
  case (1 i p)
  show ?case
  proof (cases "4 \<le> i")
    case True
    then show ?thesis by (subst port_rest.simps) simp
  next
    case F: False
    show ?thesis
    proof (cases "isdigit (peek p)")
      case False
      then have "p = [] \<or> \<not> digits_only p"
        by (cases p) (auto simp: isdigit_peek)
      with F False show ?thesis by (subst port_rest.simps) auto
    next
      case True
      then obtain c t where p: "p = c # t" "isdigit c" by (auto simp: isdigit_peek)
      have "port_rest i p = port_rest (Suc i) t"
        using F True p by (subst port_rest.simps) simp
      with "1.IH"[OF F] True F p show ?thesis
        by (cases "Suc i = 4") (auto simp: le_Suc_eq Suc_le_eq)
    qed
  qed
qed

lemma testConnectString_host:
  assumes "host \<noteq> []" and "CHR '':'' \<notin> set host" and "\<not> isdigit (hd host)"
  shows "testConnectString (''tcp://'' @ host @ '':'' @ port)
     \<longleftrightarrow> digits_only port \<and> 1 \<le> length port \<and> length port \<le> 4"
proof -
  obtain c h where host: "host = c # h" using assms(1) by (cases host) auto
  have "c \<noteq> CHR '':''" using assms(2) host by auto
  moreover have "dropWhile (\<lambda>c. c \<noteq> CHR '':'') (host @ '':'' @ port) = '':'' @ port"
    using assms(2) by (induction host) auto
  ultimately have "connect_host (host @ '':'' @ port) = Some port"
    using assms(3) host by (auto simp: connect_host_def peek_def)
  moreover have "(case q of None \<Rightarrow> False | Some r \<Rightarrow> r = []) \<longleftrightarrow> q = Some []" for q :: "string option"
    by (cases q) auto
  ultimately have "testConnectString (''tcp://'' @ host @ '':'' @ port) \<longleftrightarrow> port_rest 0 port = Some []"
    by (simp add: testConnectString_def)
  then show ?thesis
    by (cases port) (auto simp: port_rest_Nil)
qed

subsection \<open>The command line\<close>

definition stoi :: "string \<Rightarrow> err + int" where
  \<comment> \<open>std::stoi: white space, sign, digits; what follows the digits is ignored\<close>
  "stoi s =
     (let (neg, ds) = split_sign (dropWhile isspace s);
          d = takeWhile isdigit ds;
          n = (if neg then - int (dec_val d) else int (dec_val d))
      in if d = [] then Inl (StdException ''invalid_argument'')
         else if n < - (2 ^ 31) \<or> 2 ^ 31 \<le> n then Inl (StdException ''out_of_range'')
         else Inr n)"

record config =
  dealExpFixBlock :: int
  URL_VALIDATOR :: string
  URL_GATEWAY :: string

definition default_config :: config where
  "default_config = \<lparr>dealExpFixBlock = 278890, URL_VALIDATOR = ''tcp://localhost:4004'',
     URL_GATEWAY = ''tcp://localhost:55555''\<rparr>"

definition parseArgs :: "string list \<Rightarrow> config \<Rightarrow> err + config" where
  \<comment> \<open>\<open>argv\<close> with the program's name at its head\<close>
  "parseArgs argv c0 =
     sbnd
       (if 2 \<le> length argv \<and> starts_with ''-dealExpFixBlock:'' (argv ! 1)
        then sbnd (stoi (drop 17 (argv ! 1))) (\<lambda>n. Inr (c0\<lparr>dealExpFixBlock := n\<rparr>, 1))
        else Inr (c0, 0))
       (\<lambda>(c1, shift).
          let argc = length argv - shift;
              c2 = (if 2 \<le> argc then c1\<lparr>URL_VALIDATOR := argv ! (shift + 1)\<rparr> else c1);
              c3 = (if 3 \<le> argc then c2\<lparr>URL_GATEWAY := argv ! (shift + 2)\<rparr> else c2)
          in Inr c3)"

lemma parseArgs_flag:
  assumes "stoi n = Inr k" and "args = [] \<or> \<not> starts_with ''-dealExpFixBlock:'' (hd args)"
  shows "parseArgs (prog # (''-dealExpFixBlock:'' @ n) # args) c =
    parseArgs (prog # args) (c\<lparr>dealExpFixBlock := k\<rparr>)"
  using assms
  by (cases args) (auto simp: parseArgs_def sbnd_def Let_def numeral_eq_Suc starts_with_def)

end
