(* ===== verification/Json.thy ===== *)
theory Json
  imports Text
begin

section \<open>JSON values and the parameters of a command\<close>

text \<open>
  The \<open>nlohmann::json\<close> values a command carries, their compact \<open>dump\<close>
  (\<open>src/xtern/nlohmann/json/json.hpp\<close>), and the accessors of \<open>processor.cpp\<close> that read
  the parameters \<open>p1\<close>, \<open>p2\<close>, ... of a query.  An object is a \<open>std::map\<close>, here the list of
  its members in the order of their keys.  A floating-point number is its 64-bit pattern;
  how the C library prints a finite non-zero one (\<open>snprintf("%.15g")\<close>) is the argument
  \<open>fmt\<close>.
\<close>

datatype json =
  JNull
| JBool bool
| JInteger int
| JUnsigned "64 word"
| JFloat "64 word"
| JString string
| JArray "json list"
| JObject "(string \<times> json) list"

subsection \<open>Dumping strings and numbers\<close>

definition hexify :: "nat \<Rightarrow> char" where
  "hexify d = ''0123456789abcdef'' ! d"

definition escape_char :: "char \<Rightarrow> string" where
  "escape_char c =
     (if c = CHR 0x22 then [CHR 0x5C, CHR 0x22]
      else if c = CHR 0x5C then [CHR 0x5C, CHR 0x5C]
      else if c = CHR 0x08 then [CHR 0x5C, CHR ''b'']
      else if c = CHR 0x0C then [CHR 0x5C, CHR ''f'']
      else if c = CHR 0x0A then [CHR 0x5C, CHR ''n'']
      else if c = CHR 0x0D then [CHR 0x5C, CHR ''r'']
      else if c = CHR 0x09 then [CHR 0x5C, CHR ''t'']
      else if of_char c < (0x20 :: nat) then
        [CHR 0x5C, CHR ''u'', CHR ''0'', CHR ''0'', hexify (of_char c div 16), hexify (of_char c mod 16)]
      else [c])"

definition extra_space :: "string \<Rightarrow> nat" where
  "extra_space s = sum_list (map (\<lambda>c.
     if c \<in> {CHR 0x22, CHR 0x5C, CHR 0x08, CHR 0x0C, CHR 0x0A, CHR 0x0D, CHR 0x09} then 1
     else if of_char c < (0x20 :: nat) then 5 else 0) s)"

definition dump_escaped :: "string \<Rightarrow> string" where
  "dump_escaped s = (if extra_space s = 0 then s else concat (map escape_char s))"

fun dump_digits :: "nat \<Rightarrow> string" where
  \<comment> \<open>the digits of \<open>number_buffer\<close>, least significant first\<close>
  "dump_digits x = (if x = 0 then [] else char_of (48 + x mod 10) # dump_digits (x div 10))"

declare dump_digits.simps [simp del]

definition dump_integer :: "int \<Rightarrow> string" where
  "dump_integer x =
     (if x = 0 then ''0''
      else rev (dump_digits (nat \<bar>x\<bar>) @ (if x < 0 then ''-'' else [])))"

definition float_exponent :: "64 word \<Rightarrow> nat" where
  "float_exponent x = unat (drop_bit 52 x) mod 2048"

definition float_is_zero :: "64 word \<Rightarrow> bool" where
  "float_is_zero x \<longleftrightarrow> take_bit 63 x = 0"

definition dump_float :: "(64 word \<Rightarrow> string) \<Rightarrow> 64 word \<Rightarrow> string" where
  "dump_float fmt x =
     (if float_exponent x = 2047 then ''null''
      else if float_is_zero x then (if bit x 63 then ''-0.0'' else ''0.0'')
      else let s = fmt x in
        if list_all (\<lambda>c. c \<noteq> CHR ''.'' \<and> c \<noteq> CHR ''e'') s then s @ ''.0'' else s)"

subsection \<open>Dumping a value\<close>

fun commas :: "string list \<Rightarrow> string" where
  "commas [] = []"
| "commas [s] = s"
| "commas (s # t # ss) = s @ '','' @ commas (t # ss)"

fun dump :: "(64 word \<Rightarrow> string) \<Rightarrow> json \<Rightarrow> string" where
  "dump fmt JNull = ''null''"
| "dump fmt (JBool b) = (if b then ''true'' else ''false'')"
| "dump fmt (JInteger i) = dump_integer i"
| "dump fmt (JUnsigned u) = dump_integer (uint u)"
| "dump fmt (JFloat x) = dump_float fmt x"
| "dump fmt (JString s) = [CHR 0x22] @ dump_escaped s @ [CHR 0x22]"
| "dump fmt (JArray js) = ''['' @ commas (map (dump fmt) js) @ '']''"
| "dump fmt (JObject ms) =
     ''{'' @ commas (map (\<lambda>(k, j). [CHR 0x22] @ dump_escaped k @ [CHR 0x22] @ '':'' @ dump fmt j) ms) @ ''}''"

subsection \<open>Reading a query\<close>

definition json_find :: "json \<Rightarrow> string \<Rightarrow> json option" where
  \<comment> \<open>\<open>basic_json::find\<close>: the end iterator on anything but an object\<close>
  "json_find j k = (case j of JObject ms \<Rightarrow> map_of ms k | _ \<Rightarrow> None)"

definition getParam :: "(64 word \<Rightarrow> string) \<Rightarrow> json \<Rightarrow> string \<Rightarrow> string \<Rightarrow> err + string" where
  "getParam fmt query key name =
     (case json_find query key of
        None \<Rightarrow> Inl (InvalidTransaction (''Expecting '' @ name))
      | Some param \<Rightarrow> Inr (dump fmt param))"

definition getString :: "(64 word \<Rightarrow> string) \<Rightarrow> bool \<Rightarrow> json \<Rightarrow> string \<Rightarrow> string \<Rightarrow> err + string" where
  "getString fmt asserts query key name = sbnd (getParam fmt query key name) (trimQuotes asserts)"

definition getUint64 :: "(64 word \<Rightarrow> string) \<Rightarrow> bool \<Rightarrow> json \<Rightarrow> string \<Rightarrow> string \<Rightarrow> err + 64 word" where
  "getUint64 fmt asserts query key name = sbnd (getString fmt asserts query key name) parseUint64"

subsection \<open>What an escaped string is\<close>

lemma escape_char_plain:
  "escape_char c = [c] \<longleftrightarrow> c \<notin> {CHR 0x22, CHR 0x5C} \<and> \<not> of_char c < (0x20 :: nat)"
  by (auto simp: escape_char_def)

lemma escape_plain:
  assumes "extra_space s = 0"
  shows "concat (map escape_char s) = s"
  using assms by (induction s) (auto simp: extra_space_def escape_char_def split: if_splits)

lemma dump_escaped_concat: "dump_escaped s = concat (map escape_char s)"
  by (simp add: dump_escaped_def escape_plain)

lemma dump_escaped_length: "length (dump_escaped s) = length s + extra_space s"
  unfolding dump_escaped_concat
  by (induction s) (auto simp: extra_space_def escape_char_def)

lemma extra_space_0:
  "extra_space s = 0 \<longleftrightarrow> list_all (\<lambda>c. c \<notin> {CHR 0x22, CHR 0x5C} \<and> \<not> of_char c < (0x20 :: nat)) s"
  by (induction s) (auto simp: extra_space_def)

definition plain :: "string \<Rightarrow> bool" where
  \<comment> \<open>no quote, no backslash, no control character: the text is dumped as it is\<close>
  "plain s \<longleftrightarrow> list_all (\<lambda>c. c \<notin> {CHR 0x22, CHR 0x5C} \<and> \<not> of_char c < (0x20 :: nat)) s"

lemma dump_escaped_plain: "dump_escaped s = s \<longleftrightarrow> plain s"
proof
  assume "dump_escaped s = s"
  then have "extra_space s = 0" using dump_escaped_length [of s] by simp
  then show "plain s" by (simp add: extra_space_0 plain_def)
qed (simp add: dump_escaped_def extra_space_0 plain_def)

subsection \<open>Integers\<close>

lemma digit_char: "isdigit (char_of (48 + n mod 10))" "digit_val (char_of (48 + n mod 10)) = n mod 10" for n :: nat
proof -
  have "48 + n mod 10 < 256" by (rule le_less_trans [of _ 57]) auto
  then have of: "of_char (char_of (48 + n mod 10) :: char) = 48 + n mod 10" by (simp add: of_char_of)
  show "isdigit (char_of (48 + n mod 10))" using of by (auto simp: isdigit_def)
  show "digit_val (char_of (48 + n mod 10)) = n mod 10" using of by (simp add: digit_val_def)
qed

lemma dump_digits_only: "digits_only (dump_digits n)"
proof (induction n rule: dump_digits.induct)
  case (1 x)
  then show ?case by (subst dump_digits.simps) (simp add: digit_char)
qed

lemma dec_val_snoc: "dec_val (ds @ [c]) = 10 * dec_val ds + digit_val c"
  by (simp add: dec_val_def)

lemma dump_digits_val: "dec_val (rev (dump_digits n)) = n"
proof (induction n rule: dump_digits.induct)
  case (1 x)
  then show ?case by (subst dump_digits.simps) (auto simp: dec_val_snoc digit_char dec_val_def)
qed

lemma dump_digits_Nil [simp]: "dump_digits n = [] \<longleftrightarrow> n = 0"
  by (subst dump_digits.simps) simp

text \<open>The decimal reader that \<open>dump_integer\<close> is a right inverse of.\<close>

definition read_integer :: "string \<Rightarrow> int option" where
  "read_integer s =
     (case split_sign s of (neg, ds) \<Rightarrow>
        if ds \<noteq> [] \<and> digits_only ds then Some (if neg then - int (dec_val ds) else int (dec_val ds)) else None)"

lemma digits_only_rev [simp]: "digits_only (rev s) \<longleftrightarrow> digits_only s"
  by (simp add: digits_only_def)

lemma split_sign_minus: "split_sign (CHR ''-'' # s) = (True, s)"
  by (simp add: split_sign_def)

lemma read_integer_digits:
  "digits_only s \<Longrightarrow> s \<noteq> [] \<Longrightarrow> read_integer s = Some (int (dec_val s))"
  "digits_only s \<Longrightarrow> s \<noteq> [] \<Longrightarrow> read_integer (CHR ''-'' # s) = Some (- int (dec_val s))"
  by (simp_all add: read_integer_def split_sign_digits split_sign_minus)

lemma read_integer_dump: "read_integer (dump_integer x) = Some x"
proof (cases "x = 0")
  case True
  then show ?thesis by (simp add: dump_integer_def read_integer_digits isdigit_def dec_val_def digit_val_def)
next
  case False
  then show ?thesis
    by (simp add: dump_integer_def read_integer_digits dump_digits_val dump_digits_only)
qed

subsection \<open>Parameters that are strings, and others\<close>

lemma getString_string:
  assumes "json_find query key = Some (JString s)"
  shows "getString fmt asserts query key name = Inr (dump_escaped s)"
  using assms trimQuotes_quoted [of asserts "dump_escaped s"] by (simp add: getString_def getParam_def sbnd_def)

lemma dump_integer_head: "dump_integer x \<noteq> [] \<and> hd (dump_integer x) \<noteq> CHR 0x22"
proof -
  have "CHR 0x22 \<notin> set (dump_digits n)" for n
    using dump_digits_only [of n] by (auto simp: digits_only_def list_all_iff isdigit_def)
  then have "CHR 0x22 \<notin> set (dump_integer x)"
    by (auto simp: dump_integer_def)
  moreover have "dump_integer x \<noteq> []" by (simp add: dump_integer_def)
  ultimately show ?thesis by (metis list.set_sel(1))
qed

lemma dump_not_string:
  assumes "\<And>s. j \<noteq> JString s" and "\<And>x. fmt x \<noteq> [] \<and> hd (fmt x) \<noteq> CHR 0x22"
  shows "dump fmt j \<noteq> [] \<and> hd (dump fmt j) \<noteq> CHR 0x22"
proof (cases j)
  case (JFloat x)
  have "fmt x \<noteq> [] \<and> hd (fmt x) \<noteq> CHR 0x22" by fact
  then show ?thesis using JFloat by (auto simp: dump_float_def Let_def)
qed (use assms(1) dump_integer_head in auto)

lemma getString_not_string:
  assumes "json_find query key = Some j" and "\<And>s. j \<noteq> JString s" and "\<And>x. fmt x \<noteq> [] \<and> hd (fmt x) \<noteq> CHR 0x22"
  shows "getString fmt True query key name = Inl (Aborted ''assert'')"
  using assms dump_not_string [of j fmt] by (simp add: getString_def getParam_def sbnd_def trimQuotes_def)

lemma getString_missing:
  "json_find query key = None \<Longrightarrow>
     getString fmt asserts query key name = Inl (InvalidTransaction (''Expecting '' @ name))"
  by (simp add: getString_def getParam_def sbnd_def)

end
