(* ===== verification/Std_Map.thy ===== *)
theory Std_Map
  imports Prelude
begin

section \<open>std::map with string keys\<close>

text \<open>
  A \<open>std::map<std::string, T>\<close> is the list of its entries in the order of the keys, which
  is the order the code iterates in (\<open>std::string\<close> compares byte by byte, as the
  lexicographic order on characters does).  \<open>m[k] = v\<close>, \<open>find\<close> and the range \<open>insert\<close>
  that keeps existing entries are what the processor uses.
\<close>

type_synonym 'a smap = "(string \<times> 'a) list"

fun map_set :: "string \<Rightarrow> 'a \<Rightarrow> 'a smap \<Rightarrow> 'a smap" where
  "map_set k v [] = [(k, v)]"
| "map_set k v ((a, b) # m) =
     (if k < a then (k, v) # (a, b) # m
      else if k = a then (k, v) # m
      else (a, b) # map_set k v m)"

definition map_find :: "'a smap \<Rightarrow> string \<Rightarrow> 'a option" where
  "map_find m k = map_of m k"

fun map_set_all :: "'a smap \<Rightarrow> (string \<times> 'a) list \<Rightarrow> 'a smap" where
  \<comment> \<open>for each (k, v): m[k] = v\<close>
  "map_set_all m [] = m"
| "map_set_all m ((k, v) # kvs) = map_set_all (map_set k v m) kvs"

fun map_insert_range :: "'a smap \<Rightarrow> (string \<times> 'a) list \<Rightarrow> 'a smap" where
  \<comment> \<open>m.insert(other.begin(), other.end()): existing keys keep their value\<close>
  "map_insert_range m [] = m"
| "map_insert_range m ((k, v) # kvs) =
     map_insert_range (if map_find m k = None then map_set k v m else m) kvs"

definition sorted_map :: "'a smap \<Rightarrow> bool" where
  "sorted_map m \<longleftrightarrow> sorted_wrt (<) (map fst m)"

lemma map_find_Nil [simp]: "map_find [] k = None"
  by (simp add: map_find_def)

lemma map_find_set [simp]: "map_find (map_set k v m) a = (if a = k then Some v else map_find m a)"
  by (induction k v m rule: map_set.induct) (auto simp: map_find_def)

lemma map_find_set_all: "map_find (map_set_all m kvs) a = (case map_of (rev kvs) a of Some v \<Rightarrow> Some v | None \<Rightarrow> map_find m a)"
  by (induction m kvs rule: map_set_all.induct) (auto simp: map_add_def split: option.splits)

lemma map_find_insert_range:
  "map_find (map_insert_range m kvs) a = (case map_find m a of Some v \<Rightarrow> Some v | None \<Rightarrow> map_of kvs a)"
  by (induction m kvs rule: map_insert_range.induct) (auto split: option.splits)

lemma set_map_set: "set (map fst (map_set k v m)) = insert k (set (map fst m))"
  by (induction k v m rule: map_set.induct) auto

lemma sorted_map_Nil [simp]: "sorted_map []"
  by (simp add: sorted_map_def)

lemma sorted_map_set [simp]: "sorted_map m \<Longrightarrow> sorted_map (map_set k v m)"
proof (induction k v m rule: map_set.induct)
  case (2 k v a b m)
  then show ?case using set_map_set [of k v m]
    by (auto simp: sorted_map_def)
qed (simp add: sorted_map_def)

lemma sorted_map_set_all [simp]: "sorted_map m \<Longrightarrow> sorted_map (map_set_all m kvs)"
  by (induction m kvs rule: map_set_all.induct) auto

lemma sorted_map_insert_range [simp]: "sorted_map m \<Longrightarrow> sorted_map (map_insert_range m kvs)"
  by (induction m kvs rule: map_insert_range.induct) auto

lemma sorted_map_distinct: "sorted_map m \<Longrightarrow> distinct (map fst m)"
  by (metis sorted_map_def strict_sorted_iff)

lemma sorted_map_entry: "sorted_map m \<Longrightarrow> (k, v) \<in> set m \<longleftrightarrow> map_find m k = Some v"
  by (simp add: map_find_def sorted_map_distinct)

end
