(* ===== verification/Utf8.thy ===== *)
theory Utf8
  imports Prelude
begin

section \<open>The UTF-8 check of the protobuf runtime\<close>

text \<open>
  Protobuf's parsers reject a string field whose bytes are not UTF-8; the check is the
  table-driven scanner of \<open>src/xtern/google/protobuf/stubs/structurally_valid.cc\<close>.
  \<open>utf8_table\<close> is its state table (the row of a state, the column of a byte),
  \<open>UTF8GenericScan\<close> its loop with the exits that back up over a rejected or truncated
  character, \<open>IsStructurallyValidUTF8\<close> the entry point.  The fast paths of the C++ code
  only step over ASCII bytes eight at a time while the scanner is in state 0, where the
  table leaves it in state 0; they are folded into the prefix of ASCII bytes that
  \<open>UTF8GenericScanFastAscii\<close> skips.  The theorem at the end is that the scanner accepts
  exactly the encodings of sequences of Unicode scalar values.
\<close>

subsection \<open>The state table\<close>

definition kExitIllegalStructure :: nat where "kExitIllegalStructure = 240"
definition kExitOK :: nat where "kExitOK = 241"
definition kExitReject :: nat where "kExitReject = 242"

definition is_cont :: "nat \<Rightarrow> bool" where
  \<comment> \<open>(b & 0xc0) == 0x80\<close>
  "is_cont b \<longleftrightarrow> 0x80 \<le> b \<and> b < 0xC0"

definition utf8_table :: "nat \<Rightarrow> nat \<Rightarrow> nat" where
  "utf8_table q b =
     (if q = 0 then
        (if b < 0x80 then 0 else if b < 0xC2 then kExitIllegalStructure
         else if b < 0xE0 then 1 else if b = 0xE0 then 2 else if b = 0xED then 7
         else if b < 0xF0 then 3 else if b = 0xF0 then 4 else if b < 0xF4 then 5
         else if b = 0xF4 then 6 else kExitIllegalStructure)
      else if q = 1 then (if is_cont b then 0 else kExitIllegalStructure)
      else if q = 2 then (if 0xA0 \<le> b \<and> b < 0xC0 then 1 else kExitIllegalStructure)
      else if q = 3 then (if is_cont b then 1 else kExitIllegalStructure)
      else if q = 4 then (if 0x90 \<le> b \<and> b < 0xC0 then 3 else kExitIllegalStructure)
      else if q = 5 then (if is_cont b then 3 else kExitIllegalStructure)
      else if q = 6 then (if 0x80 \<le> b \<and> b < 0x90 then 3 else kExitIllegalStructure)
      else if q = 7 then
        (if 0x80 \<le> b \<and> b < 0xA0 then 1 else if 0xA0 \<le> b \<and> b < 0xC0 then 8
         else kExitIllegalStructure)
      else (if is_cont b then kExitReject else kExitIllegalStructure))"

subsection \<open>The scanner\<close>

fun scan_loop :: "nat \<Rightarrow> nat \<Rightarrow> nat list \<Rightarrow> nat \<Rightarrow> nat \<times> nat \<times> nat" where
  \<comment> \<open>byte-at-a-time scan from state \<open>tbl\<close>: the last entry read, the state and the position\<close>
  "scan_loop tbl e [] pos = (e, tbl, pos)"
| "scan_loop tbl e (c # cs) pos =
     (let e' = utf8_table tbl c
      in if kExitIllegalStructure \<le> e' then (e', tbl, Suc pos) else scan_loop e' e' cs (Suc pos))"

fun back_up :: "nat list \<Rightarrow> nat \<Rightarrow> nat" where
  \<comment> \<open>do src--; while (src > isrc && (src[0] & 0xc0) == 0x80);\<close>
  "back_up bytes 0 = 0"
| "back_up bytes (Suc n) = (if 0 < n \<and> is_cont (bytes ! n) then back_up bytes n else n)"

definition UTF8GenericScan :: "nat list \<Rightarrow> nat \<times> nat" where
  \<comment> \<open>exit reason and bytes consumed\<close>
  "UTF8GenericScan bytes =
     (if bytes = [] then (kExitOK, 0)
      else let (e, tbl, pos) = scan_loop 0 0 bytes 0
        in if kExitIllegalStructure \<le> e
           then (e, if tbl = 0 then pos - 1 else back_up bytes (pos - 1))
           else if tbl \<noteq> 0 then (kExitIllegalStructure, back_up bytes pos)
           else (kExitOK, pos))"

definition UTF8GenericScanFastAscii :: "nat list \<Rightarrow> nat \<times> nat" where
  "UTF8GenericScanFastAscii bytes =
     (if bytes = [] then (kExitOK, 0)
      else let n = length (takeWhile (\<lambda>b. b < 0x80) bytes);
               (exit_reason, rest_consumed) = UTF8GenericScan (drop n bytes)
           in (exit_reason, n + rest_consumed))"

definition bytes_of :: "string \<Rightarrow> nat list" where
  "bytes_of s = map of_char s"

definition IsStructurallyValidUTF8 :: "string \<Rightarrow> bool" where
  "IsStructurallyValidUTF8 s \<longleftrightarrow> snd (UTF8GenericScanFastAscii (bytes_of s)) = length s"

definition VerifyUtf8String :: "string \<Rightarrow> bool" where
  \<comment> \<open>the result; the log message of a failure is not modelled\<close>
  "VerifyUtf8String s \<longleftrightarrow> IsStructurallyValidUTF8 s"

subsection \<open>The scanner as an automaton\<close>

fun utf8_run :: "nat \<Rightarrow> nat list \<Rightarrow> nat option" where
  "utf8_run q [] = Some q"
| "utf8_run q (b # bs) =
     (if kExitIllegalStructure \<le> utf8_table q b then None else utf8_run (utf8_table q b) bs)"

lemma back_up_less: "0 < n \<Longrightarrow> back_up bytes n < n"
  by (induction n rule: back_up.induct [where ?a0.0 = bytes]) (auto simp: less_Suc_eq split: if_splits)

lemma back_up_le: "back_up bytes n \<le> n"
  by (cases "n = 0") (auto dest: back_up_less [of n bytes])

lemma scan_loop_run:
  assumes "scan_loop q e bs pos = (e', tbl, pos')" and "e < kExitIllegalStructure"
  shows "(case utf8_run q bs of
            Some q' \<Rightarrow> e' < kExitIllegalStructure \<and> tbl = q' \<and> pos' = pos + length bs
          | None \<Rightarrow> kExitIllegalStructure \<le> e' \<and> pos < pos' \<and> pos' \<le> pos + length bs)"
  using assms
proof (induction q e bs pos arbitrary: e' tbl pos' rule: scan_loop.induct)
  case (2 tbl0 e c cs pos)
  show ?case
  proof (cases "kExitIllegalStructure \<le> utf8_table tbl0 c")
    case True
    with 2 show ?thesis by auto
  next
    case False
    with "2.prems" "2.IH" [OF refl False, of e' tbl pos'] show ?thesis
      by (auto simp: Let_def split: option.splits)
  qed
qed auto

lemma generic_scan_all:
  "snd (UTF8GenericScan bs) = length bs \<longleftrightarrow> utf8_run 0 bs = Some 0"
proof (cases "bs = []")
  case False
  obtain e tbl pos where s: "scan_loop 0 0 bs 0 = (e, tbl, pos)" by (metis prod_cases3)
  have r: "case utf8_run 0 bs of
            Some q' \<Rightarrow> e < kExitIllegalStructure \<and> tbl = q' \<and> pos = length bs
          | None \<Rightarrow> kExitIllegalStructure \<le> e \<and> 0 < pos \<and> pos \<le> length bs"
    using scan_loop_run [OF s] by (auto simp: kExitIllegalStructure_def split: option.splits)
  show ?thesis
  proof (cases "utf8_run 0 bs")
    case None
    with r have "kExitIllegalStructure \<le> e" "0 < pos" "pos \<le> length bs" by auto
    moreover have "back_up bs (pos - 1) \<le> pos - 1" by (rule back_up_le)
    ultimately show ?thesis using None False s by (auto simp: UTF8GenericScan_def)
  next
    case (Some q)
    with r have e: "e < kExitIllegalStructure" "tbl = q" "pos = length bs" by auto
    moreover have "back_up bs (length bs) < length bs" using False by (simp add: back_up_less)
    ultimately show ?thesis using Some False s by (auto simp: UTF8GenericScan_def)
  qed
qed (simp add: UTF8GenericScan_def)

lemma run_skip_ascii: "utf8_run 0 (dropWhile (\<lambda>b. b < 0x80) bs) = utf8_run 0 bs"
  by (induction bs) (auto simp: utf8_table_def kExitIllegalStructure_def)

lemma valid_iff_run: "IsStructurallyValidUTF8 s \<longleftrightarrow> utf8_run 0 (bytes_of s) = Some 0"
proof (cases "s = []")
  case False
  let ?b = "bytes_of s" and ?p = "takeWhile (\<lambda>b. b < 0x80) (bytes_of s)"
  have ne: "?b \<noteq> []" using False by (simp add: bytes_of_def)
  have d: "drop (length ?p) ?b = dropWhile (\<lambda>b. b < 0x80) ?b"
    by (metis dropWhile_eq_drop)
  have l: "length ?b = length ?p + length (dropWhile (\<lambda>b. b < 0x80) ?b)"
    by (metis length_append takeWhile_dropWhile_id)
  have "IsStructurallyValidUTF8 s \<longleftrightarrow>
      snd (UTF8GenericScan (dropWhile (\<lambda>b. b < 0x80) ?b)) = length (dropWhile (\<lambda>b. b < 0x80) ?b)"
    using ne d l False
    by (auto simp: IsStructurallyValidUTF8_def UTF8GenericScanFastAscii_def Let_def bytes_of_def
        split: prod.splits)
  then show ?thesis by (simp only: generic_scan_all run_skip_ascii)
qed (simp add: IsStructurallyValidUTF8_def UTF8GenericScanFastAscii_def bytes_of_def)

subsection \<open>The specification: encodings of Unicode scalar values\<close>

definition scalar_value :: "nat \<Rightarrow> bool" where
  "scalar_value cp \<longleftrightarrow> cp < 0x110000 \<and> \<not> (0xD800 \<le> cp \<and> cp < 0xE000)"

definition utf8_encode :: "nat \<Rightarrow> nat list" where
  "utf8_encode cp =
     (if cp < 0x80 then [cp]
      else if cp < 0x800 then [0xC0 + cp div 64, 0x80 + cp mod 64]
      else if cp < 0x10000 then [0xE0 + cp div 4096, 0x80 + cp div 64 mod 64, 0x80 + cp mod 64]
      else [0xF0 + cp div 262144, 0x80 + cp div 4096 mod 64, 0x80 + cp div 64 mod 64, 0x80 + cp mod 64])"

definition utf8_text :: "nat list \<Rightarrow> bool" where
  "utf8_text bs \<longleftrightarrow> (\<exists>cps. list_all scalar_value cps \<and> bs = concat (map utf8_encode cps))"

lemmas table_defs = utf8_table_def kExitIllegalStructure_def kExitReject_def is_cont_def

lemma run_cont:
  "b < 64 \<Longrightarrow> utf8_run 1 ((128 + b) # bs) = utf8_run 0 bs"
  "b < 64 \<Longrightarrow> utf8_run 3 ((128 + b) # bs) = utf8_run 1 bs"
  by (simp_all add: table_defs)

lemma run_lead:
  "\<lbrakk>2 \<le> x; x < 32\<rbrakk> \<Longrightarrow> utf8_run 0 ((0xC0 + x) # bs) = utf8_run 1 bs"
  "\<lbrakk>x < 16; y < 64; x = 0 \<Longrightarrow> 32 \<le> y; x = 13 \<Longrightarrow> y < 32\<rbrakk>
     \<Longrightarrow> utf8_run 0 ((0xE0 + x) # (0x80 + y) # bs) = utf8_run 1 bs"
  "\<lbrakk>x < 5; y < 64; x = 0 \<Longrightarrow> 16 \<le> y; x = 4 \<Longrightarrow> y < 16\<rbrakk>
     \<Longrightarrow> utf8_run 0 ((0xF0 + x) # (0x80 + y) # bs) = utf8_run 3 bs"
proof -
  show "\<lbrakk>2 \<le> x; x < 32\<rbrakk> \<Longrightarrow> utf8_run 0 ((0xC0 + x) # bs) = utf8_run 1 bs"
    by (simp add: table_defs)
next
  assume a: "x < 16" "y < 64" "x = 0 \<Longrightarrow> 32 \<le> y" "x = 13 \<Longrightarrow> y < 32"
  consider "x = 0" | "x = 13" | "x \<noteq> 0" "x \<noteq> 13" by blast
  then show "utf8_run 0 ((0xE0 + x) # (0x80 + y) # bs) = utf8_run 1 bs"
    using a by cases (simp_all add: table_defs)
next
  assume a: "x < 5" "y < 64" "x = 0 \<Longrightarrow> 16 \<le> y" "x = 4 \<Longrightarrow> y < 16"
  consider "x = 0" | "x = 4" | "x \<noteq> 0" "x < 4" using a(1) by linarith
  then show "utf8_run 0 ((0xF0 + x) # (0x80 + y) # bs) = utf8_run 3 bs"
    using a by cases (simp_all add: table_defs)
qed

lemma split_64: "cp = 64 * (cp div 64) + cp mod 64" for cp :: nat
  by simp

lemma split_4096: "cp = 4096 * (cp div 4096) + (64 * (cp div 64 mod 64) + cp mod 64)" for cp :: nat
proof -
  have "cp div 64 = 64 * (cp div 4096) + cp div 64 mod 64"
    using split_64 [of "cp div 64"] by (simp add: div_mult2_eq [symmetric])
  then show ?thesis using split_64 [of cp] by linarith
qed

lemma split_262144: "cp = 262144 * (cp div 262144) +
    (4096 * (cp div 4096 mod 64) + (64 * (cp div 64 mod 64) + cp mod 64))" for cp :: nat
proof -
  have "cp div 4096 = 64 * (cp div 262144) + cp div 4096 mod 64"
    using split_64 [of "cp div 4096"] by (simp add: div_mult2_eq [symmetric])
  then show ?thesis using split_4096 [of cp] by linarith
qed

lemma run_encode:
  assumes "scalar_value cp"
  shows "utf8_run 0 (utf8_encode cp @ bs) = utf8_run 0 bs"
proof -
  have m: "cp mod 64 < 64" "cp div 64 mod 64 < 64" "cp div 4096 mod 64 < 64" by simp_all
  consider "cp < 0x80" | "0x80 \<le> cp" "cp < 0x800" | "0x800 \<le> cp" "cp < 0x10000" | "0x10000 \<le> cp"
    by linarith
  then show ?thesis
  proof cases
    case 1
    then show ?thesis by (simp add: utf8_encode_def table_defs)
  next
    case 2
    then have "utf8_encode cp = [0xC0 + cp div 64, 0x80 + cp mod 64]" by (simp add: utf8_encode_def)
    moreover have "2 \<le> cp div 64" "cp div 64 < 32" using 2 split_64 [of cp] m by linarith+
    ultimately show ?thesis by (simp only: append.simps run_lead run_cont m)
  next
    case 3
    then have "utf8_encode cp = [0xE0 + cp div 4096, 0x80 + cp div 64 mod 64, 0x80 + cp mod 64]"
      by (simp add: utf8_encode_def)
    moreover have "cp div 4096 < 16" "cp div 4096 = 0 \<Longrightarrow> 32 \<le> cp div 64 mod 64"
      using 3 split_4096 [of cp] m by linarith+
    moreover have "cp div 4096 = 13 \<Longrightarrow> cp div 64 mod 64 < 32"
      using assms split_4096 [of cp] m unfolding scalar_value_def by linarith
    ultimately show ?thesis by (simp only: append.simps run_lead run_cont m)
  next
    case 4
    then have "utf8_encode cp = [0xF0 + cp div 262144, 0x80 + cp div 4096 mod 64,
        0x80 + cp div 64 mod 64, 0x80 + cp mod 64]"
      by (simp add: utf8_encode_def)
    moreover have "cp div 262144 < 5" "cp div 262144 = 0 \<Longrightarrow> 16 \<le> cp div 4096 mod 64"
      "cp div 262144 = 4 \<Longrightarrow> cp div 4096 mod 64 < 16"
      using 4 assms split_262144 [of cp] m unfolding scalar_value_def by linarith+
    ultimately show ?thesis by (simp only: append.simps run_lead run_cont m)
  qed
qed

lemma encode_two:
  assumes "2 \<le> x" "x < 32" "y < 64"
  shows "utf8_encode (64 * x + y) = [0xC0 + x, 0x80 + y]" and "scalar_value (64 * x + y)"
  using assms by (simp_all add: utf8_encode_def scalar_value_def)

lemma mult_add_div: "(r::nat) < n \<Longrightarrow> (n * k + r) div n = k"
  and mult_add_mod: "(r::nat) < n \<Longrightarrow> (n * k + r) mod n = r"
  by simp_all

lemma encode_three:
  assumes "x < 16" "y < 64" "z < 64" "x = 0 \<Longrightarrow> 32 \<le> y"
  shows "utf8_encode (4096 * x + (64 * y + z)) = [0xE0 + x, 0x80 + y, 0x80 + z]"
    and "(x = 13 \<Longrightarrow> y < 32) \<Longrightarrow> scalar_value (4096 * x + (64 * y + z))"
proof -
  let ?c = "4096 * x + (64 * y + z)"
  have c: "?c = 64 * (64 * x + y) + z" by simp
  have "\<not> ?c < 0x800" "?c < 0x10000" using assms by (cases "x = 0"; simp)+
  moreover have "?c div 4096 = x" using assms by (intro mult_add_div) simp
  moreover have "?c div 64 mod 64 = y" "?c mod 64 = z" using assms by (simp_all only: c mult_add_div mult_add_mod)
  ultimately show "utf8_encode ?c = [0xE0 + x, 0x80 + y, 0x80 + z]"
    by (simp add: utf8_encode_def)
  assume d: "x = 13 \<Longrightarrow> y < 32"
  consider "x \<le> 12" | "x = 13" | "14 \<le> x" by linarith
  then show "scalar_value ?c"
    using assms d by cases (simp_all add: scalar_value_def)
qed

lemma encode_four:
  assumes "x < 5" "y < 64" "z < 64" "w < 64" "x = 0 \<Longrightarrow> 16 \<le> y" "x = 4 \<Longrightarrow> y < 16"
  shows "utf8_encode (262144 * x + (4096 * y + (64 * z + w))) = [0xF0 + x, 0x80 + y, 0x80 + z, 0x80 + w]"
    and "scalar_value (262144 * x + (4096 * y + (64 * z + w)))"
proof -
  let ?c = "262144 * x + (4096 * y + (64 * z + w))"
  have c1: "?c = 64 * (64 * (64 * x + y) + z) + w" and c2: "?c = 4096 * (64 * x + y) + (64 * z + w)" by simp_all
  have lo: "\<not> ?c < 0x10000" using assms by (cases "x = 0") simp_all
  have hi: "?c < 0x110000" using assms by (cases "x = 4") simp_all
  have "?c div 262144 = x" using assms by (intro mult_add_div) simp
  moreover have "?c div 4096 = 64 * x + y" unfolding c2 using assms by (intro mult_add_div) simp
  moreover have "?c div 64 mod 64 = z" "?c mod 64 = w" using assms by (simp_all only: c1 mult_add_div mult_add_mod)
  ultimately show "utf8_encode ?c = [0xF0 + x, 0x80 + y, 0x80 + z, 0x80 + w]"
    using lo assms by (simp add: utf8_encode_def)
  show "scalar_value ?c" using lo hi by (simp add: scalar_value_def)
qed

lemma run_Cons: "utf8_run q bs = Some 0 \<Longrightarrow> q \<noteq> 0 \<Longrightarrow>
   \<exists>b r. bs = b # r \<and> utf8_table q b < 240 \<and> utf8_run (utf8_table q b) r = Some 0"
  by (cases bs) (auto simp: kExitIllegalStructure_def not_le split: if_splits)

lemma run_inv:
  "utf8_run 1 bs = Some 0 \<Longrightarrow> \<exists>y r. bs = y # r \<and> 128 \<le> y \<and> y < 192 \<and> utf8_run 0 r = Some 0"
  "utf8_run 2 bs = Some 0 \<Longrightarrow> \<exists>y r. bs = y # r \<and> 160 \<le> y \<and> y < 192 \<and> utf8_run 1 r = Some 0"
  "utf8_run 3 bs = Some 0 \<Longrightarrow> \<exists>y r. bs = y # r \<and> 128 \<le> y \<and> y < 192 \<and> utf8_run 1 r = Some 0"
  "utf8_run 4 bs = Some 0 \<Longrightarrow> \<exists>y r. bs = y # r \<and> 144 \<le> y \<and> y < 192 \<and> utf8_run 3 r = Some 0"
  "utf8_run 5 bs = Some 0 \<Longrightarrow> \<exists>y r. bs = y # r \<and> 128 \<le> y \<and> y < 192 \<and> utf8_run 3 r = Some 0"
  "utf8_run 6 bs = Some 0 \<Longrightarrow> \<exists>y r. bs = y # r \<and> 128 \<le> y \<and> y < 144 \<and> utf8_run 3 r = Some 0"
  using run_Cons [of 1 bs] run_Cons [of 2 bs] run_Cons [of 3 bs] run_Cons [of 4 bs]
    run_Cons [of 5 bs] run_Cons [of 6 bs]
  by (auto simp: table_defs simp del: utf8_run.simps split: if_splits)

lemma run_8: "utf8_run 8 bs \<noteq> Some 0"
  using run_Cons [of 8 bs] by (auto simp: table_defs split: if_splits)

lemma run_7: "utf8_run 7 bs = Some 0 \<Longrightarrow> \<exists>y r. bs = y # r \<and> 128 \<le> y \<and> y < 160 \<and> utf8_run 1 r = Some 0"
  using run_8 run_Cons [of 7 bs] by (auto simp: table_defs simp del: utf8_run.simps split: if_splits)

text \<open>An accepted string starts with the encoding of a scalar value, and its rest is accepted.\<close>

definition utf8_prefix :: "nat list \<Rightarrow> bool" where
  "utf8_prefix bs \<longleftrightarrow> (\<exists>cp r. scalar_value cp \<and> bs = utf8_encode cp @ r \<and> utf8_run 0 r = Some 0)"

lemma prefixI: "scalar_value cp \<Longrightarrow> utf8_encode cp = e \<Longrightarrow> utf8_run 0 r = Some 0 \<Longrightarrow> utf8_prefix (e @ r)"
  by (auto simp: utf8_prefix_def)

lemma prefix_three:
  assumes "utf8_run 1 bs = Some 0" and "224 \<le> a" "a < 240" "128 \<le> b" "b < 192"
    and "a = 224 \<Longrightarrow> 160 \<le> b" "a = 237 \<Longrightarrow> b < 160"
  shows "utf8_prefix (a # b # bs)"
proof -
  obtain c r where c: "bs = c # r" "128 \<le> c" "c < 192" "utf8_run 0 r = Some 0"
    using run_inv(1) [OF assms(1)] by blast
  let ?x = "a - 224" and ?y = "b - 128" and ?z = "c - 128"
  have "?x < 16" "?y < 64" "?z < 64" "?x = 0 \<Longrightarrow> 32 \<le> ?y"
    using assms c by auto
  moreover have "?x = 13 \<Longrightarrow> ?y < 32" using assms by (cases "a = 237") auto
  ultimately have "utf8_prefix ([0xE0 + ?x, 0x80 + ?y, 0x80 + ?z] @ r)"
    by (intro prefixI [OF encode_three(2) encode_three(1) c(4)])
  then show ?thesis using assms c by simp
qed

lemma prefix_four:
  assumes "utf8_run 3 bs = Some 0" and "240 \<le> a" "a < 245" "128 \<le> b" "b < 192"
    and "a = 240 \<Longrightarrow> 144 \<le> b" "a = 244 \<Longrightarrow> b < 144"
  shows "utf8_prefix (a # b # bs)"
proof -
  obtain c bs' where c: "bs = c # bs'" "128 \<le> c" "c < 192" "utf8_run 1 bs' = Some 0"
    using run_inv(3) [OF assms(1)] by blast
  obtain d r where d: "bs' = d # r" "128 \<le> d" "d < 192" "utf8_run 0 r = Some 0"
    using run_inv(1) [OF c(4)] by blast
  let ?x = "a - 240" and ?y = "b - 128" and ?z = "c - 128" and ?w = "d - 128"
  have "?x < 5" "?y < 64" "?z < 64" "?w < 64" "?x = 0 \<Longrightarrow> 16 \<le> ?y"
    using assms c d by auto
  moreover have "?x = 4 \<Longrightarrow> ?y < 16" using assms by (cases "a = 244") auto
  ultimately have "utf8_prefix ([0xF0 + ?x, 0x80 + ?y, 0x80 + ?z, 0x80 + ?w] @ r)"
    by (intro prefixI [OF encode_four(2) encode_four(1) d(4)])
  then show ?thesis using assms c d by simp
qed

lemma run_prefix:
  assumes "utf8_run 0 (a # bs) = Some 0"
  shows "utf8_prefix (a # bs)"
proof -
  have t: "utf8_table 0 a < 240" and r: "utf8_run (utf8_table 0 a) bs = Some 0"
    using assms by (auto simp: kExitIllegalStructure_def split: if_splits)
  consider "a < 128" | "194 \<le> a" "a < 224" | "a = 224" | "a = 237" | "a = 240" | "a = 244"
    | "241 \<le> a" "a < 244" | "225 \<le> a" "a < 240" "a \<noteq> 237"
    using t by (auto simp: table_defs split: if_splits)
  then show ?thesis
  proof cases
    case 1
    then have "utf8_run 0 bs = Some 0" using r by (simp add: table_defs)
    with 1 show ?thesis
      using prefixI [of a "[a]" bs] by (simp add: utf8_encode_def scalar_value_def)
  next
    case 2
    then have "utf8_run 1 bs = Some 0" using r by (simp add: table_defs)
    then obtain b r' where b: "bs = b # r'" "128 \<le> b" "b < 192" "utf8_run 0 r' = Some 0"
      using run_inv(1) by blast
    show ?thesis
      using prefixI [OF encode_two(2) encode_two(1) b(4), of "a - 192" "b - 128"] 2 b by simp
  next
    case 3
    then show ?thesis using r run_inv(2) [of bs] by (auto simp: table_defs intro!: prefix_three)
  next
    case 4
    then show ?thesis using r run_7 [of bs] by (auto simp: table_defs intro!: prefix_three)
  next
    case 5
    then show ?thesis using r run_inv(4) [of bs] by (auto simp: table_defs intro!: prefix_four)
  next
    case 6
    then show ?thesis using r run_inv(6) [of bs] by (auto simp: table_defs intro!: prefix_four)
  next
    case 7
    then show ?thesis using r run_inv(5) [of bs] by (auto simp: table_defs intro!: prefix_four)
  next
    case 8
    then show ?thesis using r run_inv(3) [of bs] by (auto simp: table_defs intro!: prefix_three)
  qed
qed

lemma run_text: "utf8_run 0 bs = Some 0 \<Longrightarrow> utf8_text bs"
proof (induction bs rule: length_induct)
  case (1 bs)
  show ?case
  proof (cases bs)
    case Nil
    then show ?thesis by (simp add: utf8_text_def exI [of _ "[]"])
  next
    case (Cons a bs')
    with "1.prems" obtain cp r where cp: "scalar_value cp" "bs = utf8_encode cp @ r" "utf8_run 0 r = Some 0"
      using run_prefix [of a bs'] by (auto simp: utf8_prefix_def)
    have "length r < length bs" using cp(2) by (simp add: utf8_encode_def)
    with "1.IH" cp(3) obtain cps where "list_all scalar_value cps" "r = concat (map utf8_encode cps)"
      by (auto simp: utf8_text_def)
    with cp show ?thesis
      unfolding utf8_text_def by (intro exI [of _ "cp # cps"]) simp
  qed
qed

lemma text_run: "utf8_text bs \<Longrightarrow> utf8_run 0 bs = Some 0"
proof -
  have "list_all scalar_value cps \<Longrightarrow> utf8_run 0 (concat (map utf8_encode cps)) = Some 0" for cps
    by (induction cps) (auto simp: run_encode)
  then show "utf8_text bs \<Longrightarrow> utf8_run 0 bs = Some 0" by (auto simp: utf8_text_def)
qed

lemma valid_utf8_iff_text: "IsStructurallyValidUTF8 s \<longleftrightarrow> utf8_text (bytes_of s)"
  using valid_iff_run run_text text_run by blast

subsection \<open>Consequences the message parsers use\<close>

definition ascii :: "string \<Rightarrow> bool" where
  "ascii s \<longleftrightarrow> list_all (\<lambda>c. (of_char c :: nat) < 128) s"

lemma run_ascii: "ascii s \<Longrightarrow> utf8_run 0 (bytes_of s) = Some 0"
  by (induction s) (auto simp: ascii_def bytes_of_def table_defs)

lemma ascii_valid [intro]: "ascii s \<Longrightarrow> VerifyUtf8String s"
  by (simp add: VerifyUtf8String_def valid_iff_run run_ascii)

lemma Nil_valid [simp]: "VerifyUtf8String []"
  by (rule ascii_valid) (simp add: ascii_def)

end
