(* ===== verification/Wire.thy ===== *)
theory Wire
  imports Utf8 Text
begin

unbundle bit_operations_syntax

section \<open>The protobuf wire format\<close>

text \<open>
  What the generated message classes call in the protobuf runtime under
  \<open>src/xtern/google/protobuf\<close>: variable-length integers, tags, strings, the fields a
  message does not know, and the loop of \<open>MergePartialFromCodedStream\<close>.
  \<open>ParseFromString\<close> reads a flat array, so a \<open>CodedInputStream\<close> is the string of bytes
  not yet read: \<open>Refresh\<close> always fails, and an attempt to read a tag at the very end is
  the only legitimate end of a message.  Sizes are below 2^31 (the runtime casts them
  to \<open>int\<close>).  A read that fails ends the parse, so only what it leaves in the message
  matters, and that is modelled.
\<close>

subsection \<open>Variable-length integers\<close>

definition byte :: "'a::len word \<Rightarrow> char" where
  \<comment> \<open>static_cast<uint8>(value)\<close>
  "byte v = char_of (unat (take_bit 8 v))"

lemma unat_shift_7: "unat (drop_bit 7 (v :: 'a::len word)) = unat v div 128"
  by (simp only: unsigned_drop_bit_eq) (simp add: drop_bit_eq_div drop_bit_take_bit take_bit_eq_mod unsigned_drop_bit_eq)

function WriteVarint64ToArray :: "64 word \<Rightarrow> string" where
  "WriteVarint64ToArray v =
     (if 0x80 \<le> v then byte (v OR 0x80) # WriteVarint64ToArray (drop_bit 7 v) else [byte v])"
  by pat_completeness auto
termination
proof (relation "measure unat")
  fix v :: "64 word"
  assume "0x80 \<le> v"
  then have "0x80 \<le> unat v" by (simp add: word_le_nat_alt)
  then show "(drop_bit 7 v, v) \<in> measure unat" by (simp only: in_measure unat_shift_7)
qed simp

declare WriteVarint64ToArray.simps [simp del]

function WriteVarint32ToArray :: "32 word \<Rightarrow> string" where
  "WriteVarint32ToArray v =
     (if 0x80 \<le> v then byte (v OR 0x80) # WriteVarint32ToArray (drop_bit 7 v) else [byte v])"
  by pat_completeness auto
termination
proof (relation "measure unat")
  fix v :: "32 word"
  assume "0x80 \<le> v"
  then have "0x80 \<le> unat v" by (simp add: word_le_nat_alt)
  then show "(drop_bit 7 v, v) \<in> measure unat" by (simp only: in_measure unat_shift_7)
qed simp

declare WriteVarint32ToArray.simps [simp del]

fun ReadVarint64Slow :: "nat \<Rightarrow> 64 word \<Rightarrow> string \<Rightarrow> (64 word \<times> string) option" where
  \<comment> \<open>\<open>count\<close> bytes read so far, \<open>result\<close> accumulated\<close>
  "ReadVarint64Slow count result [] = None"
| "ReadVarint64Slow count result (c # cs) =
     (if count = 10 then None
      else let b = word_of_nat (of_char c) :: 32 word;
               r = result OR push_bit (7 * count) (ucast (b AND 0x7F))
           in if b AND 0x80 \<noteq> 0 then ReadVarint64Slow (Suc count) r cs else Some (r, cs))"

definition ReadVarint64 :: "string \<Rightarrow> (64 word \<times> string) option" where
  "ReadVarint64 s = ReadVarint64Slow 0 0 s"

definition ReadVarint32 :: "string \<Rightarrow> (32 word \<times> string) option" where
  \<comment> \<open>a 64-bit read truncated to 32 bits, as \<open>ReadVarint32Slow\<close> does\<close>
  "ReadVarint32 s = map_option (\<lambda>(v, r). (ucast v, r)) (ReadVarint64 s)"

text \<open>Sizes: floor(log2) times 9 plus 73, over 64, as the runtime computes them.\<close>

fun Log2Floor :: "nat \<Rightarrow> nat" where
  "Log2Floor n = (if n < 2 then 0 else Suc (Log2Floor (n div 2)))"

declare Log2Floor.simps [simp del]

definition VarintSize32 :: "32 word \<Rightarrow> nat" where
  "VarintSize32 v = (Log2Floor (unat (v OR 1)) * 9 + 73) div 64"

definition VarintSize64 :: "64 word \<Rightarrow> nat" where
  "VarintSize64 v = (Log2Floor (unat (v OR 1)) * 9 + 73) div 64"

subsection \<open>The same integers over the natural numbers\<close>

text \<open>
  The base-128 digits of a natural number: the shape on which the round trip and the
  sizes are proved, once for both widths.
\<close>

fun varint_nat :: "nat \<Rightarrow> string" where
  "varint_nat n = (if 128 \<le> n then char_of (128 + n mod 128) # varint_nat (n div 128) else [char_of n])"

declare varint_nat.simps [simp del]

lemma bit_128: "bit (128 :: nat) k \<longleftrightarrow> k = 7"
  using bit_exp_iff [of 7 k, where 'a = nat] by auto

lemma or_0x80_byte: "take_bit 8 (n OR 128 :: nat) = 128 + n mod 128"
proof -
  have a: "n mod 128 = take_bit 7 n" by (simp add: take_bit_eq_mod)
  have "take_bit 8 (n OR 128) = 128 OR take_bit 7 n"
    by (rule bit_eqI) (auto simp: bit_take_bit_iff bit_or_iff bit_128)
  moreover have "128 + take_bit 7 n = 128 OR take_bit 7 n"
    by (rule disjunctive_add_eq_or, rule bit_eqI) (auto simp: bit_take_bit_iff bit_and_iff bit_128)
  ultimately show ?thesis by (simp add: a)
qed

lemma byte_or_0x80_64: "byte (v OR 0x80 :: 64 word) = char_of (128 + unat v mod 128)"
proof -
  have "unat (0x80 :: 64 word) = 128" by simp
  then show ?thesis by (simp only: byte_def unsigned_take_bit_eq unsigned_or_eq or_0x80_byte)
qed

lemma byte_or_0x80_32: "byte (v OR 0x80 :: 32 word) = char_of (128 + unat v mod 128)"
proof -
  have "unat (0x80 :: 32 word) = 128" by simp
  then show ?thesis by (simp only: byte_def unsigned_take_bit_eq unsigned_or_eq or_0x80_byte)
qed

lemma byte_low: "unat v < 128 \<Longrightarrow> byte v = char_of (unat v)"
  by (simp only: byte_def unsigned_take_bit_eq) (simp add: take_bit_eq_mod del: unsigned_take_bit_eq)

lemma WriteVarint64_nat: "WriteVarint64ToArray v = varint_nat (unat v)"
proof (induction v rule: WriteVarint64ToArray.induct)
  case (1 v)
  have le: "0x80 \<le> v \<longleftrightarrow> 128 \<le> unat v" by (simp add: word_le_nat_alt)
  show ?case
  proof (cases "0x80 \<le> v")
    case True
    with 1 le show ?thesis
      by (subst WriteVarint64ToArray.simps, subst varint_nat.simps)
        (simp only: if_True byte_or_0x80_64 unat_shift_7)
  next
    case False
    with le show ?thesis
      by (subst WriteVarint64ToArray.simps, subst varint_nat.simps) (simp add: byte_low)
  qed
qed

lemma WriteVarint32_nat: "WriteVarint32ToArray v = varint_nat (unat v)"
proof (induction v rule: WriteVarint32ToArray.induct)
  case (1 v)
  have le: "0x80 \<le> v \<longleftrightarrow> 128 \<le> unat v" by (simp add: word_le_nat_alt)
  show ?case
  proof (cases "0x80 \<le> v")
    case True
    with 1 le show ?thesis
      by (subst WriteVarint32ToArray.simps, subst varint_nat.simps)
        (simp only: if_True byte_or_0x80_32 unat_shift_7)
  next
    case False
    with le show ?thesis
      by (subst WriteVarint32ToArray.simps, subst varint_nat.simps) (simp add: byte_low)
  qed
qed

subsection \<open>Sizes\<close>

lemma Log2Floor_bounds: "0 < n \<Longrightarrow> 2 ^ Log2Floor n \<le> n \<and> n < 2 ^ Suc (Log2Floor n)"
proof (induction n rule: Log2Floor.induct)
  case (1 n)
  show ?case
  proof (cases "n < 2")
    case True
    with 1 show ?thesis by (simp add: Log2Floor.simps)
  next
    case False
    with 1 have "2 ^ Log2Floor (n div 2) \<le> n div 2 \<and> n div 2 < 2 ^ Suc (Log2Floor (n div 2))" by simp
    with False show ?thesis by (subst (1 2) Log2Floor.simps) auto
  qed
qed

lemma varint_length: "n < 128 ^ k \<Longrightarrow> 0 < k \<Longrightarrow> length (varint_nat n) \<le> k"
proof (induction k arbitrary: n)
  case (Suc k)
  show ?case
  proof (cases "128 \<le> n")
    case True
    then have "n div 128 < 128 ^ k" "0 < k" using Suc.prems
      by (auto simp: less_mult_imp_div_less mult.commute) (cases k; simp)
    with Suc.IH True show ?thesis by (subst varint_nat.simps) simp
  qed (subst varint_nat.simps, simp)
qed simp

lemma varint_length_ge: "128 ^ k \<le> n \<Longrightarrow> Suc k \<le> length (varint_nat n)"
proof (induction k arbitrary: n)
  case 0
  then show ?case by (subst varint_nat.simps) simp
next
  case (Suc k)
  have "(128::nat) \<le> 128 ^ Suc k" by simp
  with Suc.prems have "128 \<le> n" by linarith
  moreover have "128 ^ k \<le> n div 128" using Suc.prems
    by (metis div_le_mono nonzero_mult_div_cancel_left power_Suc zero_neq_numeral)
  ultimately show ?case using Suc.IH by (subst varint_nat.simps) simp
qed

text \<open>The size formula is exact for every logarithm that fits a 64-bit word.\<close>

lemma size_formula:
  assumes "l < 64"
  shows "(l * 9 + 73) div 64 = l div 7 + (1 :: nat)"
proof -
  define q where "q = l div 7"
  have l: "7 * q \<le> l" "l < 7 * q + 7" "q < 10" using assms by (auto simp: q_def)
  then have "64 * (q + 1) \<le> l * 9 + 73" by auto
  moreover have "l * 9 + 73 < 64 * Suc (q + 1)" using l by auto
  ultimately have "(l * 9 + 73) div 64 = q + 1" by (intro div_nat_eqI) simp_all
  then show ?thesis by (simp add: q_def)
qed

lemma less_7_div: "l < 7 * (l div 7 + 1)" for l :: nat
  by simp

lemma varint_size_nat:
  assumes "n < 2 ^ 64"
  shows "(Log2Floor (if n = 0 then 1 else n) * 9 + 73) div 64 = length (varint_nat n)"
proof -
  define m where "m = (if n = 0 then 1 else n)"
  define l where "l = Log2Floor m"
  have m: "0 < m" "m < 2 ^ 64" using assms by (auto simp: m_def)
  then have b: "2 ^ l \<le> m" "m < 2 ^ Suc l" using Log2Floor_bounds by (auto simp: l_def)
  have "l < 64"
    using le_less_trans [OF b(1) m(2)] power_less_imp_less_exp [of "2 :: nat" l 64] by simp
  have "length (varint_nat n) = length (varint_nat m)"
    by (simp add: m_def varint_nat.simps)
  also have "\<dots> = l div 7 + 1"
  proof (rule antisym)
    have "(2::nat) ^ Suc l \<le> 2 ^ (7 * (l div 7 + 1))" by (rule power_increasing) (simp_all add: less_eq_Suc_le [symmetric] less_7_div)
    also have "\<dots> = 128 ^ (l div 7 + 1)" by (simp only: power_mult) simp
    finally show "length (varint_nat m) \<le> l div 7 + 1"
      using b(2) by (intro varint_length) linarith+
    have "(128::nat) ^ (l div 7) = 2 ^ (7 * (l div 7))" by (simp only: power_mult) simp
    also have "\<dots> \<le> 2 ^ l" by (rule power_increasing) simp_all
    finally show "l div 7 + 1 \<le> length (varint_nat m)"
      using varint_length_ge [of "l div 7" m] b(1) by linarith
  qed
  finally show ?thesis using size_formula [OF \<open>l < 64\<close>] by (simp add: l_def m_def)
qed

lemma Log2Floor_or_1: "0 < n \<Longrightarrow> Log2Floor (n OR Suc 0) = Log2Floor n"
  by (subst (1 2) Log2Floor.simps) (auto simp: or_Suc_0_eq elim!: evenE)

lemma VarintSize64_length: "VarintSize64 v = length (WriteVarint64ToArray v)"
proof -
  have "unat (v OR 1) = (if unat v = 0 then 1 else unat v OR 1)"
    by (simp add: unsigned_or_eq)
  then have "VarintSize64 v = (Log2Floor (if unat v = 0 then 1 else unat v) * 9 + 73) div 64"
    by (simp add: VarintSize64_def Log2Floor_or_1)
  also have "\<dots> = length (varint_nat (unat v))"
    using unsigned_less [of v, where ?'a = nat] by (intro varint_size_nat) simp
  finally show ?thesis by (simp add: WriteVarint64_nat)
qed

lemma VarintSize32_length: "VarintSize32 v = length (WriteVarint32ToArray v)"
proof -
  have "unat (v OR 1) = (if unat v = 0 then 1 else unat v OR 1)"
    by (simp add: unsigned_or_eq)
  then have "VarintSize32 v = (Log2Floor (if unat v = 0 then 1 else unat v) * 9 + 73) div 64"
    by (simp add: VarintSize32_def Log2Floor_or_1)
  also have "\<dots> = length (varint_nat (unat v))"
    using unsigned_less [of v, where ?'a = nat] by (intro varint_size_nat) simp
  finally show ?thesis by (simp add: WriteVarint32_nat)
qed

subsection \<open>Reading back what was written\<close>

lemma word_of_nat_low_high:
  "word_of_nat n = word_of_nat (n mod 128) OR push_bit 7 (word_of_nat (n div 128) :: 'a::len word)"
proof -
  have a: "n mod 128 = take_bit 7 n" "n div 128 = drop_bit 7 n"
    by (simp_all add: take_bit_eq_mod drop_bit_eq_div)
  show ?thesis unfolding a by (rule bit_word_eqI) (auto simp: bit_simps)
qed

lemma and_0x7F: "w AND 0x7F = take_bit 7 w" for w :: "32 word"
proof -
  have "mask 7 = (0x7F :: 32 word)" by (simp add: mask_eq_exp_minus_1)
  then show ?thesis by (simp add: take_bit_eq_mask)
qed

lemma bit_0x80: "bit (0x80 :: 32 word) k \<longleftrightarrow> k = 7"
  using bit_exp_iff [of 7 k, where 'a = "32 word"] by (auto dest: bit_imp_le_length)

text \<open>The last byte of a varint, and every other: seven bits of payload, then the flag.\<close>

lemma low_digit:
  assumes "m < 128"
  shows "ucast (word_of_nat m AND 0x7F :: 32 word) = (word_of_nat m :: 64 word)"
    and "word_of_nat m AND 0x80 = (0 :: 32 word)"
proof -
  obtain n where m: "m = take_bit 7 n" 
    using assms by (intro that [of m]) (simp add: take_bit_eq_mod)
  show "ucast (word_of_nat m AND 0x7F :: 32 word) = (word_of_nat m :: 64 word)"
    unfolding and_0x7F m
    by (rule bit_word_eqI) (auto simp only: bit_simps possible_bit_word; simp)
  show "word_of_nat m AND 0x80 = (0 :: 32 word)"
    unfolding m by (rule bit_word_eqI) (auto simp only: bit_simps bit_0x80 possible_bit_word; simp)
qed

lemma high_digit:
  "ucast (word_of_nat (128 + n mod 128) AND 0x7F :: 32 word) = (word_of_nat (n mod 128) :: 64 word)"
  "word_of_nat (128 + n mod 128) AND 0x80 \<noteq> (0 :: 32 word)"
proof -
  have eq: "(128 + n mod 128 :: nat) = take_bit 8 (n OR 128)" by (simp only: or_0x80_byte)
  have m: "n mod 128 = take_bit 7 n" by (simp add: take_bit_eq_mod)
  show "ucast (word_of_nat (128 + n mod 128) AND 0x7F :: 32 word) = (word_of_nat (n mod 128) :: 64 word)"
    unfolding and_0x7F eq unfolding m
    by (rule bit_word_eqI) (auto simp only: bit_simps possible_bit_word bit_128; simp)
  have "bit (word_of_nat (128 + n mod 128) AND 0x80 :: 32 word) 7"
    unfolding eq by (auto simp only: bit_simps bit_0x80 possible_bit_word bit_128; simp)
  then show "word_of_nat (128 + n mod 128) AND 0x80 \<noteq> (0 :: 32 word)" by auto
qed

lemma ReadVarint64Slow_nat:
  assumes "count + length (varint_nat n) \<le> 10"
  shows "ReadVarint64Slow count r (varint_nat n @ rest) =
    Some (r OR push_bit (7 * count) (word_of_nat n), rest)"
  using assms
proof (induction n arbitrary: count r rule: varint_nat.induct)
  case (1 n)
  show ?case
  proof (cases "128 \<le> n")
    case True
    have v: "varint_nat n = char_of (128 + n mod 128) # varint_nat (n div 128)"
      using True by (subst varint_nat.simps) simp
    have of: "of_char (char_of (128 + n mod 128) :: char) = 128 + n mod 128"
      by (simp add: of_char_of)
    have count: "count \<noteq> 10" "Suc count + length (varint_nat (n div 128)) \<le> 10"
      using "1.prems" by (simp_all add: v)
    have "r OR push_bit (7 * count) (word_of_nat n) =
        (r OR push_bit (7 * count) (word_of_nat (n mod 128))) OR
          push_bit (7 * Suc count) (word_of_nat (n div 128) :: 64 word)"
      by (subst word_of_nat_low_high [of n]) (simp add: push_bit_or or.assoc add.commute)
    then show ?thesis using "1.IH" [OF True count(2)] count(1) high_digit [of n]
      by (simp add: v of Let_def)
  next
    case False
    then have v: "varint_nat n = [char_of n]" by (subst varint_nat.simps) simp
    have "count \<noteq> 10" using "1.prems" by (simp add: v)
    then show ?thesis using False low_digit [of n] by (simp add: v of_char_of Let_def)
  qed
qed

lemma ReadVarint64_Write: "ReadVarint64 (WriteVarint64ToArray v @ rest) = Some (v, rest)"
proof -
  have "unat v < 128 ^ 10" using unsigned_less [of v, where ?'a = nat] by simp
  then have "0 + length (varint_nat (unat v)) \<le> 10" using varint_length [of "unat v" 10] by simp
  then show ?thesis
    by (simp only: ReadVarint64_def WriteVarint64_nat ReadVarint64Slow_nat) simp
qed

lemma ReadVarint32_Write: "ReadVarint32 (WriteVarint32ToArray v @ rest) = Some (v, rest)"
proof -
  have "unat v < 128 ^ 10" using unsigned_less [of v, where ?'a = nat] by simp
  then have "0 + length (varint_nat (unat v)) \<le> 10" using varint_length [of "unat v" 10] by simp
  then have "ReadVarint64 (WriteVarint32ToArray v @ rest) = Some (word_of_nat (unat v), rest)"
    by (simp only: ReadVarint64_def WriteVarint32_nat ReadVarint64Slow_nat) simp
  moreover have "ucast (word_of_nat (unat v) :: 64 word) = v"
    by (simp add: unsigned_ucast_eq take_bit_word_eq_self)
  ultimately show ?thesis by (simp add: ReadVarint32_def)
qed

lemma ReadVarint64Slow_shorter: "ReadVarint64Slow k r s = Some (v, t) \<Longrightarrow> length t < length s"
  by (induction k r s rule: ReadVarint64Slow.induct) (fastforce simp: Let_def split: if_splits)+

lemma ReadVarint_shorter:
  "ReadVarint64 s = Some (v, t) \<Longrightarrow> length t < length s"
  "ReadVarint32 s = Some (w, t) \<Longrightarrow> length t < length s"
  by (auto simp: ReadVarint64_def ReadVarint32_def dest: ReadVarint64Slow_shorter)

lemma varint_not_Nil [simp]: "WriteVarint64ToArray v \<noteq> []" "WriteVarint32ToArray w \<noteq> []"
  by (subst WriteVarint64ToArray.simps, simp) (subst WriteVarint32ToArray.simps, simp)

end
