(* ===== verification/Wire_Fields.thy ===== *)
theory Wire_Fields
  imports Wire
begin

unbundle bit_operations_syntax

section \<open>Tags, field parsers, unknown fields and the merge loop\<close>

text \<open>
  A generated \<open>MergePartialFromCodedStream\<close> is a loop: read a tag, switch on its field
  number, check its wire type, read the field into the message; every other tag goes to
  \<open>WireFormat::SkipField\<close>, which keeps what it skipped in the message's unknown field
  set (\<open>proto3_preserve_unknown_\<close> is true in this copy of the runtime).  The switch is a
  table from field numbers to the expected low byte of the tag and the code of the case;
  \<open>merge_loop\<close> is the loop over any such table.  A parse that fails keeps the fields it
  had already set: the processor never looks at the result of \<open>ParseFromString\<close>.
\<close>

subsection \<open>Tags\<close>

definition MakeTag :: "nat \<Rightarrow> nat \<Rightarrow> 32 word" where
  "MakeTag field_number type = push_bit 3 (word_of_nat field_number) OR word_of_nat type"

definition GetTagWireType :: "32 word \<Rightarrow> nat" where
  "GetTagWireType tag = unat (tag AND 7)"

definition GetTagFieldNumber :: "32 word \<Rightarrow> nat" where
  "GetTagFieldNumber tag = unat (drop_bit 3 tag)"

definition ReadTag :: "string \<Rightarrow> 32 word \<times> bool \<times> string" where
  \<comment> \<open>the tag (0 at the end or on failure), whether this is a legitimate end, the rest\<close>
  "ReadTag s =
     (if s = [] then (0, True, [])
      else case ReadVarint32 s of None \<Rightarrow> (0, False, s) | Some (tag, r) \<Rightarrow> (tag, False, r))"

subsection \<open>Strings and fixed-width integers\<close>

definition ReadString :: "string \<Rightarrow> 32 word \<Rightarrow> string \<Rightarrow> bool \<times> string \<times> string" where
  \<comment> \<open>\<open>InternalReadStringInline\<close>: the old contents of the buffer, the size, the input\<close>
  "ReadString buffer len s =
     (if sint len < 0 then (False, buffer, s)
      else if unat len \<le> length s then (True, take (unat len) s, drop (unat len) s)
      else (False, s, []))"

fun ReadLittleEndian :: "nat \<Rightarrow> string \<Rightarrow> (nat \<times> string) option" where
  "ReadLittleEndian 0 s = Some (0, s)"
| "ReadLittleEndian (Suc n) [] = None"
| "ReadLittleEndian (Suc n) (c # cs) =
     map_option (\<lambda>(v, r). (of_char c + 256 * v, r)) (ReadLittleEndian n cs)"

fun WriteLittleEndian :: "nat \<Rightarrow> nat \<Rightarrow> string" where
  "WriteLittleEndian 0 v = []"
| "WriteLittleEndian (Suc n) v = char_of v # WriteLittleEndian n (v div 256)"

subsection \<open>Unknown fields\<close>

datatype ufield =
  UVarint nat "64 word"
| UFixed32 nat "32 word"
| UFixed64 nat "64 word"
| ULengthDelimited nat string
| UGroup nat "ufield list"

text \<open>
  \<open>SkipField\<close> and \<open>SkipMessage\<close> return whether they succeeded, the unknown fields they
  added (also when they failed), and what is left to read; \<open>SkipMessage\<close> also returns the
  last tag.  \<open>k\<close> bounds the number of tags still to read: \<open>skip_fuel\<close> below shows that any
  \<open>k\<close> above the length of the input gives the same result.  \<open>budget\<close> is the recursion
  budget of the stream, 100 at the start.
\<close>

function SkipField :: "nat \<Rightarrow> nat \<Rightarrow> 32 word \<Rightarrow> string \<Rightarrow> bool \<times> ufield list \<times> string"
  and SkipMessage :: "nat \<Rightarrow> nat \<Rightarrow> string \<Rightarrow> bool \<times> ufield list \<times> 32 word \<times> string" where
  "SkipField k budget tag s =
     (let number = GetTagFieldNumber tag; type = GetTagWireType tag in
      if number = 0 then (False, [], s)
      else if type = 0 then
        (case ReadVarint64 s of
           None \<Rightarrow> (False, [], s) | Some (v, r) \<Rightarrow> (True, [UVarint number v], r))
      else if type = 1 then
        (case ReadLittleEndian 8 s of
           None \<Rightarrow> (False, [], s) | Some (v, r) \<Rightarrow> (True, [UFixed64 number (word_of_nat v)], r))
      else if type = 2 then
        (case ReadVarint32 s of
           None \<Rightarrow> (False, [], s)
         | Some (len, r) \<Rightarrow>
             (case ReadString [] len r of
                (ok, value, r1) \<Rightarrow> (ok, [ULengthDelimited number value], r1)))
      else if type = 3 then
        (if budget = 0 then (False, [], s)
         else case SkipMessage k (budget - 1) s of
           (ok, us, last_tag, r) \<Rightarrow>
             (ok \<and> last_tag = MakeTag (GetTagFieldNumber tag) 4, [UGroup number us], r))
      else if type = 5 then
        (case ReadLittleEndian 4 s of
           None \<Rightarrow> (False, [], s) | Some (v, r) \<Rightarrow> (True, [UFixed32 number (word_of_nat v)], r))
      else (False, [], s))"
| "SkipMessage 0 budget s = (False, [], 0, s)"
| "SkipMessage (Suc k) budget s =
     (case ReadTag s of
        (tag, _, r) \<Rightarrow>
          if tag = 0 then (True, [], tag, r)
          else if GetTagWireType tag = 4 then (True, [], tag, r)
          else (case SkipField k budget tag r of
            (False, us, r1) \<Rightarrow> (False, us, tag, r1)
          | (True, us, r1) \<Rightarrow>
              (case SkipMessage k budget r1 of
                 (ok, us1, last_tag, r2) \<Rightarrow> (ok, us @ us1, last_tag, r2))))"
  by pat_completeness auto
termination
  by (relation "measure (\<lambda>x. case x of Inl (k, _) \<Rightarrow> 2 * k + 1 | Inr (k, _) \<Rightarrow> 2 * k)") auto

declare SkipField.simps [simp del] SkipMessage.simps [simp del]

fun SerializeUnknownField :: "ufield \<Rightarrow> string"
  and SerializeUnknownFields :: "ufield list \<Rightarrow> string" where
  "SerializeUnknownField (UVarint n v) = WriteVarint32ToArray (MakeTag n 0) @ WriteVarint64ToArray v"
| "SerializeUnknownField (UFixed32 n v) =
     WriteVarint32ToArray (MakeTag n 5) @ WriteLittleEndian 4 (unat v)"
| "SerializeUnknownField (UFixed64 n v) =
     WriteVarint32ToArray (MakeTag n 1) @ WriteLittleEndian 8 (unat v)"
| "SerializeUnknownField (ULengthDelimited n v) =
     WriteVarint32ToArray (MakeTag n 2) @ WriteVarint32ToArray (word_of_nat (length v)) @ v"
| "SerializeUnknownField (UGroup n us) =
     WriteVarint32ToArray (MakeTag n 3) @ SerializeUnknownFields us @ WriteVarint32ToArray (MakeTag n 4)"
| "SerializeUnknownFields [] = []"
| "SerializeUnknownFields (u # us) = SerializeUnknownField u @ SerializeUnknownFields us"

fun UnknownFieldSize :: "ufield \<Rightarrow> nat"
  and ComputeUnknownFieldsSize :: "ufield list \<Rightarrow> nat" where
  "UnknownFieldSize (UVarint n v) = VarintSize32 (MakeTag n 0) + VarintSize64 v"
| "UnknownFieldSize (UFixed32 n v) = VarintSize32 (MakeTag n 5) + 4"
| "UnknownFieldSize (UFixed64 n v) = VarintSize32 (MakeTag n 1) + 8"
| "UnknownFieldSize (ULengthDelimited n v) =
     VarintSize32 (MakeTag n 2) + VarintSize32 (word_of_nat (length v)) + length v"
| "UnknownFieldSize (UGroup n us) =
     VarintSize32 (MakeTag n 3) + ComputeUnknownFieldsSize us + VarintSize32 (MakeTag n 4)"
| "ComputeUnknownFieldsSize [] = 0"
| "ComputeUnknownFieldsSize (u # us) = UnknownFieldSize u + ComputeUnknownFieldsSize us"

lemma WriteLittleEndian_length [simp]: "length (WriteLittleEndian n v) = n"
  by (induction n arbitrary: v) simp_all

lemma unknown_size:
  "UnknownFieldSize u = length (SerializeUnknownField u)"
  "ComputeUnknownFieldsSize us = length (SerializeUnknownFields us)"
  by (induction u and us rule: SerializeUnknownField_SerializeUnknownFields.induct)
    (simp_all add: VarintSize32_length VarintSize64_length)

subsection \<open>Skipping consumes input, and its fuel does not matter\<close>

lemma ReadTag_shorter: "ReadTag s = (tag, legit, r) \<Longrightarrow> tag \<noteq> 0 \<Longrightarrow> length r < length s"
  by (auto simp: ReadTag_def dest: ReadVarint_shorter split: if_splits option.splits prod.splits)

lemma ReadTag_le: "ReadTag s = (tag, legit, r) \<Longrightarrow> length r \<le> length s"
  by (auto simp: ReadTag_def split: if_splits option.splits dest: ReadVarint_shorter(2))

lemma ReadLittleEndian_shorter: "ReadLittleEndian n s = Some (v, r) \<Longrightarrow> length r \<le> length s"
  by (induction n s arbitrary: v r rule: ReadLittleEndian.induct) fastforce+

lemma ReadString_shorter: "ReadString b len s = (ok, v, r) \<Longrightarrow> length r \<le> length s"
  by (auto simp: ReadString_def split: if_splits)

lemmas shorter = ReadLittleEndian_shorter ReadString_shorter ReadVarint_shorter [THEN less_imp_le_nat]

lemma SkipMessage_Suc:
  assumes "ReadTag s = (tag, legit, r)"
  shows "SkipMessage (Suc k) d s =
     (if tag = 0 \<or> GetTagWireType tag = 4 then (True, [], tag, r)
      else let (ok, us, r1) = SkipField k d tag r in
        if ok then let (ok1, us1, last_tag, r2) = SkipMessage k d r1 in (ok1, us @ us1, last_tag, r2)
        else (False, us, tag, r1))"
  using assms by (simp add: SkipMessage.simps Let_def split: prod.splits bool.splits)

lemma skip_shorter:
  "SkipField k d tag s = (ok, us, r) \<Longrightarrow> length r \<le> length s"
  "SkipMessage k d s = (ok', us', tag', r') \<Longrightarrow> length r' \<le> length s"
proof (induction k d tag s and k d s arbitrary: ok us r and ok' us' tag' r'
    rule: SkipField_SkipMessage.induct)
  case (1 k budget tag s)
  from "1.prems" show ?case
    apply (subst (asm) SkipField.simps)
    apply (simp only: Let_def split: if_splits)
    apply (auto dest: shorter split: option.splits)[4]
    apply (auto split: option.splits prod.splits dest!: shorter)[1]
    apply simp
    apply (auto split: prod.splits intro!: "1.IH")[1]
    apply (auto split: option.splits prod.splits dest!: shorter)
    done
next
  case (2 budget s)
  then show ?case by (simp add: SkipMessage.simps)
next
  case (3 k budget s)
  obtain tag legit r where t: "ReadTag s = (tag, legit, r)" by (cases "ReadTag s") auto
  obtain ok1 us1 r1 where f: "SkipField k budget tag r = (ok1, us1, r1)" by (cases "SkipField k budget tag r") auto
  obtain ok2 us2 t2 r2 where m: "SkipMessage k budget r1 = (ok2, us2, t2, r2)"
    by (cases "SkipMessage k budget r1") auto
  have "length r \<le> length s" using ReadTag_le [OF t] .
  moreover have "length r1 \<le> length r" if "tag \<noteq> 0" "GetTagWireType tag \<noteq> 4"
    using "3.IH"(1) t f that by simp
  moreover have "length r2 \<le> length r1" if "tag \<noteq> 0" "GetTagWireType tag \<noteq> 4" ok1
    using "3.IH"(2) t f m that by simp
  ultimately show ?case using "3.prems" f m
    by (auto simp: SkipMessage_Suc [OF t] split: if_splits)
qed

lemma skip_fuel:
  "length s < k \<Longrightarrow> length s < j \<Longrightarrow> SkipField k d tag s = SkipField j d tag s"
  "length s < k \<Longrightarrow> length s < j \<Longrightarrow> SkipMessage k d s = SkipMessage j d s"
proof (induction k d tag s and k d s arbitrary: j and j rule: SkipField_SkipMessage.induct)
  case (1 k budget tag s)
  have "SkipMessage k (budget - 1) s = SkipMessage j (budget - 1) s"
    if "GetTagWireType tag = 3" "GetTagFieldNumber tag \<noteq> 0" "budget \<noteq> 0"
    using that "1.prems" by (intro "1.IH" [OF refl refl]) simp_all
  then show ?case
    by (subst (1 2) SkipField.simps) (unfold Let_def, intro if_cong refl, simp)
next
  case (2 budget s)
  then show ?case by simp
next
  case (3 k budget s)
  then obtain j' where j: "j = Suc j'" by (cases j) auto
  obtain tag legit r where t: "ReadTag s = (tag, legit, r)" by (cases "ReadTag s") auto
  obtain ok1 us1 r1 where f: "SkipField k budget tag r = (ok1, us1, r1)" by (cases "SkipField k budget tag r") auto
  show ?case
  proof (cases "tag = 0 \<or> GetTagWireType tag = 4")
    case True
    then show ?thesis by (simp add: j SkipMessage_Suc [OF t])
  next
    case False
    then have r: "length r < length s" using ReadTag_shorter [OF t] by simp
    with "3.prems" j have len: "length r < k" "length r < j'" by simp_all
    have F: "SkipField k budget tag r = SkipField j' budget tag r"
      using False len t by (intro "3.IH"(1) [OF t [symmetric] refl]) simp_all
    have "length r1 \<le> length r" using skip_shorter(1) [OF f] .
    then have "SkipMessage k budget r1 = SkipMessage j' budget r1" if ok1
      using that False len t f by (intro "3.IH"(2) [OF t [symmetric] refl]) simp_all
    moreover have "SkipField j' budget tag r = (ok1, us1, r1)" using F f by simp
    ultimately show ?thesis using False f by (simp add: j SkipMessage_Suc [OF t])
  qed
qed

subsection \<open>The parser of one field\<close>

text \<open>
  The code of one \<open>case\<close> of the switch: the message, the input; whether the case succeeded,
  the message with what it assigned, the rest.  A string field is assigned by
  \<open>ReadString\<close> and then checked to be UTF-8; a \<open>uint64\<close> field is read in place (a failed
  varint read stores 0 first); a \<open>bool\<close> is stored only when its varint was read.
\<close>

type_synonym 'm parser = "'m \<Rightarrow> string \<Rightarrow> bool \<times> 'm \<times> string"

type_synonym 'm fields = "(nat \<times> nat \<times> 'm parser) list"

definition str_field :: "('m \<Rightarrow> string) \<Rightarrow> (string \<Rightarrow> 'm \<Rightarrow> 'm) \<Rightarrow> 'm parser" where
  "str_field get upd m s =
     (case ReadVarint32 s of
        None \<Rightarrow> (False, m, s)
      | Some (len, r) \<Rightarrow>
          (case ReadString (get m) len r of
             (ok, v, r1) \<Rightarrow> (ok \<and> VerifyUtf8String v, upd v m, r1)))"

definition u64_field :: "(64 word \<Rightarrow> 'm \<Rightarrow> 'm) \<Rightarrow> 'm parser" where
  "u64_field upd m s =
     (case ReadVarint64 s of None \<Rightarrow> (False, upd 0 m, s) | Some (v, r) \<Rightarrow> (True, upd v m, r))"

definition bool_field :: "(bool \<Rightarrow> 'm \<Rightarrow> 'm) \<Rightarrow> 'm parser" where
  "bool_field upd m s =
     (case ReadVarint64 s of None \<Rightarrow> (False, m, s) | Some (v, r) \<Rightarrow> (True, upd (v \<noteq> 0) m, r))"

subsection \<open>The loop\<close>

definition known_field :: "'m fields \<Rightarrow> 32 word \<Rightarrow> 'm parser option" where
  \<comment> \<open>the tag is at most the cutoff 127, its number has a case, its low byte is the expected one\<close>
  "known_field fs tag =
     (if 1 \<le> tag \<and> tag \<le> 127
      then case map_of fs (GetTagFieldNumber tag) of
             None \<Rightarrow> None
           | Some (low, p) \<Rightarrow> if unat (ucast tag :: 8 word) = low then Some p else None
      else None)"

fun merge_loop ::
  "nat \<Rightarrow> 'm fields \<Rightarrow> (ufield list \<Rightarrow> 'm \<Rightarrow> 'm) \<Rightarrow> 'm \<Rightarrow> string \<Rightarrow> (bool \<times> bool \<times> 'm) option" where
  \<comment> \<open>the result of the loop, whether the input ended legitimately, the message\<close>
  "merge_loop 0 fs add m s = None"
| "merge_loop (Suc k) fs add m s =
     (case ReadTag s of
        (tag, legitimate_end, r) \<Rightarrow>
          (case known_field fs tag of
             Some p \<Rightarrow>
               (case p m r of
                  (True, m1, r1) \<Rightarrow> merge_loop k fs add m1 r1
                | (False, m1, r1) \<Rightarrow> Some (False, False, m1))
           | None \<Rightarrow>
               if tag = 0 then Some (True, legitimate_end, m)
               else (case SkipField (Suc (length r)) 100 tag r of
                  (True, us, r1) \<Rightarrow> merge_loop k fs add (add us m) r1
                | (False, us, r1) \<Rightarrow> Some (False, False, add us m))))"

definition parse_message ::
  "'m fields \<Rightarrow> (ufield list \<Rightarrow> 'm \<Rightarrow> 'm) \<Rightarrow> 'm \<Rightarrow> string \<Rightarrow> bool \<times> 'm" where
  \<comment> \<open>\<open>ParseFromString\<close> on a cleared message: the loop, then \<open>ConsumedEntireMessage\<close>\<close>
  "parse_message fs add m s =
     (case merge_loop (Suc (length s)) fs add m s of
        None \<Rightarrow> (False, m) | Some (ok, legitimate_end, m1) \<Rightarrow> (ok \<and> legitimate_end, m1))"

text \<open>The fuel is enough: no case gives back more input than it got, and every tag takes a byte.\<close>

definition consuming :: "'m fields \<Rightarrow> bool" where
  "consuming fs \<longleftrightarrow> (\<forall>(n, low, p) \<in> set fs. \<forall>m s ok m1 r. p m s = (ok, m1, r) \<longrightarrow> length r \<le> length s)"

lemma consuming_Nil [intro, simp]: "consuming []"
  by (simp add: consuming_def)

lemma consuming_Cons:
  "consuming ((n, low, p) # fs) \<longleftrightarrow> (\<forall>m s ok m1 r. p m s = (ok, m1, r) \<longrightarrow> length r \<le> length s) \<and> consuming fs"
  by (simp add: consuming_def)

lemma str_field_shorter: "str_field get upd m s = (ok, m1, r) \<Longrightarrow> length r \<le> length s"
  by (auto simp: str_field_def split: option.splits prod.splits dest!: ReadVarint_shorter(2) ReadString_shorter)

lemma u64_field_shorter: "u64_field upd m s = (ok, m1, r) \<Longrightarrow> length r \<le> length s"
  by (auto simp: u64_field_def split: option.splits dest!: ReadVarint_shorter(1))

lemma bool_field_shorter: "bool_field upd m s = (ok, m1, r) \<Longrightarrow> length r \<le> length s"
  by (auto simp: bool_field_def split: option.splits dest!: ReadVarint_shorter(1))

lemma consuming_fields [intro, simp]:
  "consuming fs \<Longrightarrow> consuming ((n, low, str_field get upd) # fs)"
  "consuming fs \<Longrightarrow> consuming ((n, low, u64_field upd') # fs)"
  "consuming fs \<Longrightarrow> consuming ((n, low, bool_field upd'') # fs)"
  by (simp_all only: consuming_Cons) (blast intro: str_field_shorter u64_field_shorter bool_field_shorter)+

lemma known_field_consumes:
  "consuming fs \<Longrightarrow> known_field fs tag = Some p \<Longrightarrow> p m s = (ok, m1, r) \<Longrightarrow> length r \<le> length s"
proof -
  assume fs: "consuming fs" and k: "known_field fs tag = Some p" and p: "p m s = (ok, m1, r)"
  from k obtain n low where "map_of fs n = Some (low, p)"
    by (auto simp: known_field_def split: if_splits option.splits)
  then have "(n, low, p) \<in> set fs" by (rule map_of_SomeD)
  with fs p show "length r \<le> length s" by (auto simp: consuming_def)
qed

lemma merge_loop_fuel:
  assumes "consuming fs" and "length s < k"
  shows "\<exists>r. merge_loop k fs add m s = Some r"
  using assms(2)
proof (induction k arbitrary: m s)
  case (Suc k)
  obtain tag legit r where t: "ReadTag s = (tag, legit, r)" by (cases "ReadTag s") auto
  show ?case
  proof (cases "tag = 0")
    case True
    then show ?thesis using t by (auto simp: known_field_def)
  next
    case False
    then have len: "length r < k" using ReadTag_shorter [OF t] Suc.prems by simp
    show ?thesis
    proof (cases "known_field fs tag")
      case None
      obtain ok us r1 where f: "SkipField (Suc (length r)) 100 tag r = (ok, us, r1)"
        by (cases "SkipField (Suc (length r)) 100 tag r") auto
      then have "length r1 < k" using skip_shorter(1) len by fastforce
      then show ?thesis using t None False f Suc.IH by (auto split: bool.split)
    next
      case (Some p)
      obtain ok m1 r1 where p: "p m r = (ok, m1, r1)" by (cases "p m r") auto
      then have "length r1 < k" using known_field_consumes [OF assms(1) Some] len by fastforce
      then show ?thesis using t Some False p Suc.IH by (auto split: bool.split)
    qed
  qed
qed simp

lemma merge_loop_more: "merge_loop k fs add m s = Some r \<Longrightarrow> k \<le> j \<Longrightarrow> merge_loop j fs add m s = Some r"
proof (induction k arbitrary: j m s)
  case (Suc k)
  then obtain i where "j = Suc i" "k \<le> i" by (cases j) auto
  obtain tag legit t where t: "ReadTag s = (tag, legit, t)" by (cases "ReadTag s") auto
  show ?case
  proof (cases "known_field fs tag")
    case None
    obtain ok us u where "SkipField (Suc (length t)) 100 tag t = (ok, us, u)"
      by (cases "SkipField (Suc (length t)) 100 tag t") auto
    with Suc t None \<open>j = Suc i\<close> \<open>k \<le> i\<close> show ?thesis by (cases ok) (simp_all split: if_splits)
  next
    case (Some p)
    obtain ok m1 u where "p m t = (ok, m1, u)" by (cases "p m t") auto
    with Suc t Some \<open>j = Suc i\<close> \<open>k \<le> i\<close> show ?thesis by (cases ok) simp_all
  qed
qed simp

definition merge ::
  "'m fields \<Rightarrow> (ufield list \<Rightarrow> 'm \<Rightarrow> 'm) \<Rightarrow> 'm \<Rightarrow> string \<Rightarrow> (bool \<times> bool \<times> 'm) option" where
  "merge fs add m s = merge_loop (Suc (length s)) fs add m s"

lemma merge_any_fuel:
  assumes "consuming fs" and "length s < k"
  shows "merge_loop k fs add m s = merge fs add m s"
proof -
  obtain r where "merge_loop (Suc (length s)) fs add m s = Some r"
    using merge_loop_fuel [OF assms(1)] by blast
  then show ?thesis using merge_loop_more assms(2) by (metis Suc_leI merge_def)
qed

lemma parse_message_total: "consuming fs \<Longrightarrow> \<exists>ok legit m1. merge fs add m s = Some (ok, legit, m1)"
  using merge_loop_fuel [of fs s "Suc (length s)" add m] by (auto simp: merge_def)

subsection \<open>The writers of one field\<close>

definition WriteStringToArray :: "nat \<Rightarrow> string \<Rightarrow> string" where
  "WriteStringToArray field_number value =
     WriteVarint32ToArray (MakeTag field_number 2) @ WriteVarint32ToArray (word_of_nat (length value)) @ value"

definition WriteUInt64ToArray :: "nat \<Rightarrow> 64 word \<Rightarrow> string" where
  "WriteUInt64ToArray field_number value =
     WriteVarint32ToArray (MakeTag field_number 0) @ WriteVarint64ToArray value"

definition WriteBoolToArray :: "nat \<Rightarrow> bool \<Rightarrow> string" where
  "WriteBoolToArray field_number value =
     WriteVarint32ToArray (MakeTag field_number 0) @ WriteVarint32ToArray (if value then 1 else 0)"

definition StringSize :: "string \<Rightarrow> nat" where
  "StringSize value = length value + VarintSize32 (word_of_nat (length value))"

definition str_out :: "nat \<Rightarrow> string \<Rightarrow> string" where
  "str_out n v = (if 0 < length v then WriteStringToArray n v else [])"

definition u64_out :: "nat \<Rightarrow> 64 word \<Rightarrow> string" where
  "u64_out n v = (if v \<noteq> 0 then WriteUInt64ToArray n v else [])"

definition bool_out :: "nat \<Rightarrow> bool \<Rightarrow> string" where
  "bool_out n b = (if b then WriteBoolToArray n b else [])"

definition str_size :: "string \<Rightarrow> nat" where
  "str_size v = (if 0 < length v then 1 + StringSize v else 0)"

definition u64_size :: "64 word \<Rightarrow> nat" where
  "u64_size v = (if v \<noteq> 0 then 1 + VarintSize64 v else 0)"

definition bool_size :: "bool \<Rightarrow> nat" where
  "bool_size b = (if b then 1 + 1 else 0)"

text \<open>A string a field can hold and give back: UTF-8, with a length that fits an \<open>int\<close>.\<close>

definition wire_str :: "string \<Rightarrow> bool" where
  "wire_str v \<longleftrightarrow> length v < 2 ^ 31 \<and> VerifyUtf8String v"

lemma wire_str_Nil [simp]: "wire_str []"
  by (simp add: wire_str_def)

lemma wire_str_ascii [intro]: "ascii v \<Longrightarrow> length v < 2 ^ 31 \<Longrightarrow> wire_str v"
  by (auto simp: wire_str_def)

subsection \<open>Reading back one field\<close>

lemma MakeTag_nat: "t < 8 \<Longrightarrow> MakeTag n t = word_of_nat (8 * n + t)"
proof -
  assume t: "t < 8"
  then have tt: "t = take_bit 3 t" by (simp add: take_bit_eq_mod)
  have "8 * n + t = push_bit 3 n + take_bit 3 t" using tt by (simp add: push_bit_eq_mult)
  also have "\<dots> = push_bit 3 n OR take_bit 3 t"
    by (rule disjunctive_add_eq_or, rule bit_eqI) (auto simp: bit_simps)
  finally have "word_of_nat (8 * n + t) = (word_of_nat (push_bit 3 n OR take_bit 3 t) :: 32 word)" by simp
  also have "\<dots> = push_bit 3 (word_of_nat n) OR word_of_nat (take_bit 3 t)"
    by (rule bit_word_eqI) (auto simp: bit_simps)
  finally show ?thesis using tt by (simp add: MakeTag_def)
qed

lemma small_tag:
  assumes "0 < n" "n < 16" "t < 8"
  shows "GetTagFieldNumber (MakeTag n t) = n" "1 \<le> MakeTag n t" "MakeTag n t \<le> 127"
    "unat (ucast (MakeTag n t) :: 8 word) = 8 * n + t" "MakeTag n t \<noteq> 0"
    "GetTagWireType (MakeTag n t) = t"
proof -
  have u: "unat (MakeTag n t) = 8 * n + t"
    using assms by (simp only: MakeTag_nat unat_of_nat) simp
  show "GetTagFieldNumber (MakeTag n t) = n" using assms
    unfolding GetTagFieldNumber_def unsigned_drop_bit_eq u
    by (simp add: drop_bit_eq_div take_bit_eq_mod)
  show "1 \<le> MakeTag n t" "MakeTag n t \<le> 127" "MakeTag n t \<noteq> 0" using assms u
    by (auto simp: word_le_nat_alt)
  show "unat (ucast (MakeTag n t) :: 8 word) = 8 * n + t" using assms u
    by (simp add: unsigned_ucast_eq take_bit_eq_mod)
  have "GetTagWireType (MakeTag n t) = take_bit 3 (8 * n + t)"
    unfolding GetTagWireType_def by (simp only: unsigned_and_eq u) (simp add: take_bit_eq_mask mask_eq_exp_minus_1)
  then show "GetTagWireType (MakeTag n t) = t" using assms by (simp add: take_bit_eq_mod)
qed

lemma ReadTag_Write:
  assumes "tag \<noteq> 0"
  shows "ReadTag (WriteVarint32ToArray tag @ rest) = (tag, False, rest)"
  using assms by (simp add: ReadTag_def ReadVarint32_Write)

lemma known_field_small:
  "map_of fs n = Some (8 * n + t, p) \<Longrightarrow> 0 < n \<Longrightarrow> n < 16 \<Longrightarrow> t < 8 \<Longrightarrow> known_field fs (MakeTag n t) = Some p"
  by (simp add: known_field_def small_tag)

lemma merge_step:
  assumes fs: "consuming fs" "map_of fs n = Some (8 * n + t, p)" "0 < n" "n < 16" "t < 8"
    and p: "p m (payload @ rest) = (True, m1, rest)"
  shows "merge fs add m (WriteVarint32ToArray (MakeTag n t) @ payload @ rest) = merge fs add m1 rest"
proof -
  let ?s = "WriteVarint32ToArray (MakeTag n t) @ payload @ rest"
  have "0 < length (WriteVarint32ToArray (MakeTag n t))" by simp
  then have "length rest < length ?s" by simp
  have "merge fs add m ?s = merge_loop (length ?s) fs add m1 rest"
    using fs p by (simp add: merge_def ReadTag_Write small_tag known_field_small)
  then show ?thesis using merge_any_fuel [OF fs(1) \<open>length rest < length ?s\<close>] by simp
qed

lemma ReadString_exact:
  assumes "length v < 2 ^ 31"
  shows "ReadString b (word_of_nat (length v)) (v @ rest) = (True, v, rest)"
proof -
  have u: "unat (word_of_nat (length v) :: 32 word) = length v"
    using assms by (simp only: unat_of_nat) simp
  have "\<not> sint (word_of_nat (length v) :: 32 word) < 0"
    using assms by (simp add: signed_of_nat signed_take_bit_int_eq_self)
  then show ?thesis by (simp add: ReadString_def u)
qed

lemma merge_str:
  assumes "consuming fs" "map_of fs n = Some (8 * n + 2, str_field get upd)" "0 < n" "n < 16"
    and "wire_str v" and "v = [] \<Longrightarrow> upd v m = m"
  shows "merge fs add m (str_out n v @ rest) = merge fs add (upd v m) rest"
proof (cases "v = []")
  case False
  have "str_field get upd m ((WriteVarint32ToArray (word_of_nat (length v)) @ v) @ rest) = (True, upd v m, rest)"
    using assms(5) by (simp add: str_field_def ReadVarint32_Write ReadString_exact wire_str_def)
  then have "merge fs add m (WriteVarint32ToArray (MakeTag n 2) @
      (WriteVarint32ToArray (word_of_nat (length v)) @ v) @ rest) = merge fs add (upd v m) rest"
    using assms(1-4) by (intro merge_step [where p = "str_field get upd"]) simp_all
  with False show ?thesis by (simp add: str_out_def WriteStringToArray_def)
next
  case True
  then have "upd v m = m" using assms(6) by simp
  then show ?thesis using True by (simp add: str_out_def)
qed

lemma merge_u64:
  assumes "consuming fs" "map_of fs n = Some (8 * n, u64_field upd)" "0 < n" "n < 16"
    and "v = 0 \<Longrightarrow> upd v m = m"
  shows "merge fs add m (u64_out n v @ rest) = merge fs add (upd v m) rest"
proof (cases "v = 0")
  case False
  have "u64_field upd m (WriteVarint64ToArray v @ rest) = (True, upd v m, rest)"
    by (simp add: u64_field_def ReadVarint64_Write)
  then have "merge fs add m (WriteVarint32ToArray (MakeTag n 0) @ WriteVarint64ToArray v @ rest) =
      merge fs add (upd v m) rest" using assms by (intro merge_step [where p = "u64_field upd"]) simp_all
  with False show ?thesis by (simp add: u64_out_def WriteUInt64ToArray_def)
next
  case True
  then have "upd v m = m" using assms(5) by simp
  then show ?thesis using True by (simp add: u64_out_def)
qed

lemma ReadVarint64_1: "ReadVarint64 (WriteVarint32ToArray 1 @ rest) = Some (1, rest)"
proof -
  have "WriteVarint32ToArray 1 = WriteVarint64ToArray 1"
    by (simp only: WriteVarint32_nat WriteVarint64_nat unsigned_1)
  then show ?thesis by (simp add: ReadVarint64_Write)
qed

lemma merge_bool:
  assumes "consuming fs" "map_of fs n = Some (8 * n, bool_field upd)" "0 < n" "n < 16"
    and "\<not> b \<Longrightarrow> upd b m = m"
  shows "merge fs add m (bool_out n b @ rest) = merge fs add (upd b m) rest"
proof (cases b)
  case True
  have "bool_field upd m (WriteVarint32ToArray 1 @ rest) = (True, upd True m, rest)"
    by (simp add: bool_field_def ReadVarint64_1)
  then have "merge fs add m (WriteVarint32ToArray (MakeTag n 0) @ WriteVarint32ToArray 1 @ rest) =
      merge fs add (upd True m) rest" using assms by (intro merge_step [where p = "bool_field upd"]) simp_all
  with True show ?thesis by (simp add: bool_out_def WriteBoolToArray_def)
next
  case False
  then have "upd b m = m" using assms(5) by simp
  then show ?thesis using False by (simp add: bool_out_def)
qed

lemma merge_end: "merge fs add m [] = Some (True, True, m)"
  by (simp add: merge_def ReadTag_def known_field_def)

lemma parse_message_merge: "merge fs add m s = Some (ok, legit, m1) \<Longrightarrow> parse_message fs add m s = (ok \<and> legit, m1)"
  by (simp add: parse_message_def merge_def)

subsection \<open>Sizes of fields\<close>

lemma tag_length: "0 < n \<Longrightarrow> n < 16 \<Longrightarrow> t < 8 \<Longrightarrow> length (WriteVarint32ToArray (MakeTag n t)) = 1"
  using small_tag [of n t] by (subst WriteVarint32ToArray.simps) (auto simp: word_le_nat_alt)

lemma varint_1_length: "length (WriteVarint32ToArray 1) = 1"
  by (subst WriteVarint32ToArray.simps) (simp add: word_le_nat_alt)

lemma field_sizes:
  assumes "0 < n" "n < 16"
  shows "length (str_out n v) = str_size v" "length (u64_out n u) = u64_size u" "length (bool_out n b) = bool_size b"
  using assms by (auto simp: str_out_def u64_out_def bool_out_def str_size_def u64_size_def bool_size_def
      StringSize_def WriteStringToArray_def WriteUInt64ToArray_def WriteBoolToArray_def tag_length
      VarintSize32_length VarintSize64_length varint_1_length)

end
