(* ===== verification/Env.thy ===== *)
theory Env
  imports Json Std_Map Wire_Fields "HOL-Library.Signed_Division"
begin

section \<open>What surrounds the processor\<close>

text \<open>
  An \<open>env\<close> holds everything the processor calls that is not in the repository: Crypto++'s
  SHA-512, Boost's big integers (reading and printing; their arithmetic is that of
  \<open>int\<close>, with a division that truncates and throws on zero) and string algorithms, the
  C library's formatting of floating-point numbers, the header of the transaction, the
  validator behind \<open>sawtooth::GlobalState\<close> (its state is of type \<open>'v\<close>) and the two
  gateways.  Whether the build keeps \<open>assert\<close> is part of it.  What the code relies on is
  stated by the predicates at the end; the definitions never use them.
\<close>

record 'v env =
  asserts :: bool
  sha512 :: "string \<Rightarrow> string"
  read_cpp_int :: "string \<Rightarrow> int option"        \<comment> \<open>None: std::runtime_error\<close>
  show_cpp_int :: "int \<Rightarrow> string"
  to_int :: "int \<Rightarrow> int"                         \<comment> \<open>convert_to<int>\<close>
  to_uint64 :: "int \<Rightarrow> 64 word"                  \<comment> \<open>convert_to<uint64>\<close>
  to_lower :: "string \<Rightarrow> string"
  iequals :: "string \<Rightarrow> string \<Rightarrow> bool"
  boost_starts_with :: "string \<Rightarrow> string \<Rightarrow> bool"
  snprintf_g :: "64 word \<Rightarrow> string"
  pow_fixed :: "int \<Rightarrow> string"                   \<comment> \<open>std::fixed << pow(19.0 / 20.0, period)\<close>
  txn_signer_public_key :: string
  txn_payload :: "8 word list"
  txn_nonce :: string
  txn_family_version :: string
  txn_block_signature :: string
  GetState :: "'v \<Rightarrow> string \<Rightarrow> err + (bool \<times> string)"
  SetState :: "(string \<times> string) list \<Rightarrow> 'v \<Rightarrow> (err + unit) \<times> 'v"
  DeleteState :: "string \<Rightarrow> 'v \<Rightarrow> (err + unit) \<times> 'v"
  GetTip :: "'v \<Rightarrow> err + 64 word"
  GetStatesByPrefix :: "'v \<Rightarrow> string \<Rightarrow> string \<Rightarrow> string \<Rightarrow> err + ((string \<times> string) list \<times> string \<times> string)"
  GetSigByNum :: "'v \<Rightarrow> 64 word \<Rightarrow> err + string"
  GetRewardBlockSignatures :: "'v \<Rightarrow> string \<Rightarrow> 64 word \<Rightarrow> 64 word \<Rightarrow> err + string list"
  read_settings :: "string \<Rightarrow> (string \<times> string) list"   \<comment> \<open>the entries of a parsed Setting\<close>
  local_gateway :: "'v \<Rightarrow> string \<Rightarrow> err + string"   \<comment> \<open>the reply, empty when there is none\<close>
  external_gateway :: "'v \<Rightarrow> string \<Rightarrow> string \<Rightarrow> err + string option"

subsection \<open>Constants\<close>

definition WALLET :: string where "WALLET = ''0000''"
definition ADDR :: string where "ADDR = ''1000''"
definition TRANSFER :: string where "TRANSFER = ''2000''"
definition ASK_ORDER :: string where "ASK_ORDER = ''3000''"
definition BID_ORDER :: string where "BID_ORDER = ''4000''"
definition DEAL_ORDER :: string where "DEAL_ORDER = ''5000''"
definition REPAYMENT_ORDER :: string where "REPAYMENT_ORDER = ''6000''"
definition OFFER :: string where "OFFER = ''7000''"
definition ERC20 :: string where "ERC20 = ''8000''"
definition PROCESSED_BLOCK :: string where "PROCESSED_BLOCK = ''9000''"
definition FEE :: string where "FEE = ''0100''"

definition PROCESSED_BLOCK_ID :: string where
  "PROCESSED_BLOCK_ID = replicate 60 CHR ''0''"

definition INTEREST_MULTIPLIER :: int where "INTEREST_MULTIPLIER = 1000000"
definition CONFIRMATION_COUNT :: int where "CONFIRMATION_COUNT = 30"
definition YEAR_OF_BLOCKS :: int where "YEAR_OF_BLOCKS = 60 * 24 * 365"
definition BLOCKS_IN_PERIOD_UPDATE1 :: int where "BLOCKS_IN_PERIOD_UPDATE1 = 2500000"
definition BLOCK_REWARD_PROCESSING_COUNT :: int where "BLOCK_REWARD_PROCESSING_COUNT = 10"
definition TX_FEE :: int where "TX_FEE = 10000000000000000"
definition REWARD_AMOUNT_STRING :: string where "REWARD_AMOUNT_STRING = ''222000000000000000000''"
definition REWARD_AMOUNT :: int where "REWARD_AMOUNT = 222000000000000000000"

lemma TX_FEE_pos: "0 < TX_FEE"
  by (simp add: TX_FEE_def)

subsection \<open>Big integers\<close>

definition getBigint :: "'v env \<Rightarrow> string \<Rightarrow> bool \<Rightarrow> err + int" where
  "getBigint env bigint allowNegative =
     (case read_cpp_int env bigint of
        None \<Rightarrow> Inl (InvalidTransaction ''Invalid number format'')
      | Some n \<Rightarrow>
          if \<not> allowNegative \<and> n < 0 then Inl (InvalidTransaction ''Expecting a positive value'')
          else Inr n)"

definition bigint :: "'v env \<Rightarrow> string \<Rightarrow> err + int" where
  "bigint env s = getBigint env s False"

definition toString :: "'v env \<Rightarrow> int \<Rightarrow> string" where
  "toString env n = show_cpp_int env n"

definition cpp_div :: "int \<Rightarrow> int \<Rightarrow> err + int" where
  \<comment> \<open>operator/ of cpp_int: truncates toward zero; std::overflow_error on a zero divisor\<close>
  "cpp_div a b = (if b = 0 then Inl (StdException ''Division by zero.'') else Inr (a sdiv b))"

subsection \<open>Parameters of a query\<close>

definition query_string :: "'v env \<Rightarrow> json \<Rightarrow> string \<Rightarrow> string \<Rightarrow> err + string" where
  "query_string env query key name = getString (snprintf_g env) (asserts env) query key name"

definition getStringLower :: "'v env \<Rightarrow> json \<Rightarrow> string \<Rightarrow> string \<Rightarrow> err + string" where
  "getStringLower env query key name = sbnd (query_string env query key name) (\<lambda>s. Inr (to_lower env s))"

definition query_uint64 :: "'v env \<Rightarrow> json \<Rightarrow> string \<Rightarrow> string \<Rightarrow> err + 64 word" where
  "query_uint64 env query key name = getUint64 (snprintf_g env) (asserts env) query key name"

definition query_bigint :: "'v env \<Rightarrow> json \<Rightarrow> string \<Rightarrow> string \<Rightarrow> err + (string \<times> int)" where
  \<comment> \<open>the text and its value, which must not be negative\<close>
  "query_bigint env query key name =
     sbnd (query_string env query key name) (\<lambda>s. sbnd (bigint env s) (\<lambda>n. Inr (s, n)))"

subsection \<open>Addresses of the global state\<close>

definition sha512id :: "'v env \<Rightarrow> string \<Rightarrow> err + string" where
  "sha512id env message =
     sbnd (substr (sha512 env message) 68 (2 ^ 64 - 1))
       (\<lambda>r. if asserts env \<and> length r \<noteq> 60 then Inl (Aborted ''assert'') else Inr r)"

definition namespacePrefix :: "'v env \<Rightarrow> string" where
  "namespacePrefix env = take 6 (sha512 env ''CREDITCOIN'')"

definition makeAddress :: "'v env \<Rightarrow> string \<Rightarrow> string \<Rightarrow> err + string" where
  "makeAddress env prefix key =
     sbnd (sha512id env key)
       (\<lambda>idn. let addr = namespacePrefix env @ prefix @ idn
              in if asserts env \<and> length addr \<noteq> 70 then Inl (Aborted ''assert'') else Inr addr)"

definition walletIdOf :: "'v env \<Rightarrow> string \<Rightarrow> string" where
  \<comment> \<open>namespacePrefix + WALLET + sighash\<close>
  "walletIdOf env sighash = namespacePrefix env @ WALLET @ sighash"

subsection \<open>What the code relies on\<close>

definition max_amount :: int where
  \<comment> \<open>numbers whose text a message can store for sure; the supply is far below it\<close>
  "max_amount = 10 ^ 100"

definition bigint_ok :: "'v env \<Rightarrow> bool" where
  \<comment> \<open>a big integer reads back from its own text, which is not empty, and a message can store it;
     only ASCII text is a number, and the empty text is none other than 0\<close>
  "bigint_ok env \<longleftrightarrow>
     (\<forall>n. read_cpp_int env (show_cpp_int env n) = Some n \<and> show_cpp_int env n \<noteq> [] \<and>
          (\<bar>n\<bar> < max_amount \<longrightarrow> wire_str (show_cpp_int env n))) \<and>
     (\<forall>s n. read_cpp_int env s = Some n \<longrightarrow> ascii s \<and> (s = [] \<longrightarrow> n = 0))"

definition sha512_ok :: "'v env \<Rightarrow> bool" where
  \<comment> \<open>a digest of 512 bits in hexadecimal\<close>
  "sha512_ok env \<longleftrightarrow> (\<forall>m. length (sha512 env m) = 128)"

lemma bigint_toString:
  assumes "bigint_ok env" and "0 \<le> n"
  shows "bigint env (toString env n) = Inr n"
  using assms by (simp add: bigint_ok_def bigint_def getBigint_def toString_def)

lemma bigint_nonneg: "bigint env s = Inr n \<Longrightarrow> 0 \<le> n"
  by (auto simp: bigint_def getBigint_def split: option.splits if_splits)

lemma wire_toString: "bigint_ok env \<Longrightarrow> \<bar>n\<bar> < max_amount \<Longrightarrow> wire_str (toString env n)"
  by (simp add: bigint_ok_def toString_def)

text \<open>Decimal text has these properties.\<close>

lemma dump_digits_length: "n < 10 ^ k \<Longrightarrow> length (dump_digits n) \<le> k"
proof (induction k arbitrary: n)
  case (Suc k)
  then have "n div 10 < 10 ^ k" by (simp add: less_mult_imp_div_less mult.commute)
  with Suc.IH show ?case by (subst dump_digits.simps) simp
qed simp

lemma isdigit_ascii: "isdigit c \<Longrightarrow> (of_char c :: nat) < 128"
  by (simp add: isdigit_def)

lemma ascii_digits: "digits_only s \<Longrightarrow> ascii s"
  by (auto simp: digits_only_def ascii_def list_all_iff isdigit_ascii)

lemma ascii_append: "ascii s \<Longrightarrow> ascii t \<Longrightarrow> ascii (s @ t)"
  by (simp add: ascii_def)

lemma dump_integer_wire:
  assumes "\<bar>x\<bar> < max_amount"
  shows "wire_str (dump_integer x)"
proof (rule wire_str_ascii)
  have "ascii (rev (dump_digits (nat \<bar>x\<bar>)))" by (rule ascii_digits) (simp add: dump_digits_only)
  then show "ascii (dump_integer x)"
    by (auto simp: dump_integer_def ascii_def)
  have "nat \<bar>x\<bar> < 10 ^ 100" using assms unfolding max_amount_def by (simp add: nat_less_iff)
  then have "length (dump_digits (nat \<bar>x\<bar>)) \<le> 100" by (rule dump_digits_length)
  then have "length (dump_integer x) \<le> 101" by (auto simp: dump_integer_def)
  then show "length (dump_integer x) < 2 ^ 31" by simp
qed

lemma read_integer_ascii: "read_integer s = Some n \<Longrightarrow> ascii s \<and> (s = [] \<longrightarrow> n = 0)"
proof -
  assume "read_integer s = Some n"
  then obtain neg ds where s: "split_sign s = (neg, ds)" "digits_only ds" "ds \<noteq> []"
    by (auto simp: read_integer_def split: prod.splits if_splits)
  have "s = ds \<or> s = CHR ''-'' # ds \<or> s = CHR ''+'' # ds"
    using s(1) by (auto simp: split_sign_def split: list.splits if_splits)
  then show "ascii s \<and> (s = [] \<longrightarrow> n = 0)" using ascii_digits [OF s(2)] s(3) by (auto simp: ascii_def)
qed

lemma decimal_bigint_ok:
  assumes "read_cpp_int env = read_integer" and "show_cpp_int env = dump_integer"
  shows "bigint_ok env"
  using assms dump_integer_head by (simp add: bigint_ok_def read_integer_dump dump_integer_wire read_integer_ascii)

subsection \<open>Addresses have the shape the validator expects\<close>

lemma sha512id_ok:
  assumes "sha512_ok env"
  shows "\<exists>r. sha512id env m = Inr r \<and> length r = 60"
  using assms by (auto simp: sha512_ok_def sha512id_def substr_def sbnd_def)

lemma namespacePrefix_length: "sha512_ok env \<Longrightarrow> length (namespacePrefix env) = 6"
  by (simp add: sha512_ok_def namespacePrefix_def)

lemma makeAddress_ok:
  assumes "sha512_ok env" and "length prefix = 4"
  shows "\<exists>idn. sha512id env key = Inr idn \<and>
    makeAddress env prefix key = Inr (namespacePrefix env @ prefix @ idn) \<and>
    length (namespacePrefix env @ prefix @ idn) = 70"
proof -
  obtain r where r: "sha512id env key = Inr r" "length r = 60" using sha512id_ok [OF assms(1)] by blast
  then show ?thesis using assms namespacePrefix_length [OF assms(1)]
    by (auto simp: makeAddress_def sbnd_def Let_def)
qed

text \<open>Two addresses of different kinds never coincide.\<close>

lemma makeAddress_kind:
  assumes "makeAddress env p key = Inr a" and "makeAddress env q key' = Inr b"
    and "length p = length q" and "p \<noteq> q"
  shows "a \<noteq> b"
  using assms by (auto simp: makeAddress_def sbnd_def Let_def split: sum.splits if_splits)

lemmas kind_defs = WALLET_def ADDR_def TRANSFER_def ASK_ORDER_def BID_ORDER_def DEAL_ORDER_def
  REPAYMENT_ORDER_def OFFER_def ERC20_def PROCESSED_BLOCK_def FEE_def

lemma wallet_not_address:
  assumes "makeAddress env p key = Inr a" and "length p = 4" and "p \<noteq> WALLET"
  shows "a \<noteq> walletIdOf env sighash"
proof -
  have "length p = length WALLET" using assms(2) by (simp add: WALLET_def)
  then show ?thesis using assms(1,3)
    by (auto simp: makeAddress_def walletIdOf_def sbnd_def Let_def split: sum.splits if_splits)
qed

lemma walletIdOf_inj [simp]: "walletIdOf env a = walletIdOf env b \<longleftrightarrow> a = b"
  by (simp add: walletIdOf_def)

end
