(* ===== verification/Codec.thy ===== *)
theory Codec
  imports Wire_Fields
begin

section \<open>The contract of a message class\<close>

text \<open>
  What the transaction processor relies on when it keeps its data in the global state as
  serialised messages: a well-formed message comes back from its own bytes, and the bytes
  have the announced size.  Every message class of the processor is an interpretation.
\<close>

locale message_codec =
  fixes ser :: "'m \<Rightarrow> string" and par :: "string \<Rightarrow> bool \<times> 'm" and wf :: "'m \<Rightarrow> bool"
  assumes parse_ser: "wf m \<Longrightarrow> par (ser m) = (True, m)"
begin

lemma ser_inj: "wf m \<Longrightarrow> wf m' \<Longrightarrow> ser m = ser m' \<Longrightarrow> m = m'"
  by (metis parse_ser prod.inject)

lemma parsed: "wf m \<Longrightarrow> snd (par (ser m)) = m"
  by (simp add: parse_ser)

end

locale sized_codec = message_codec +
  fixes sz :: "'m \<Rightarrow> nat"
  assumes sz_ser: "wf m \<Longrightarrow> sz m = length (ser m)"
begin

lemma sz_eq: "wf m \<Longrightarrow> wf m' \<Longrightarrow> ser m = ser m' \<Longrightarrow> sz m = sz m'"
  by (simp add: sz_ser)

end

text \<open>One step of a round trip, as introduction rules that walk along a serialised message.\<close>

named_theorems merge_run "walking over the fields of a serialised message"

lemma merge_strI [merge_run]:
  assumes "consuming fs" "map_of fs n = Some (low, str_field get upd)" "low = 8 * n + 2" "0 < n" "n < 16"
    and "wire_str v" "v = [] \<Longrightarrow> upd v m = m"
    and "merge fs add (upd v m) rest = R"
  shows "merge fs add m (str_out n v @ rest) = R"
  using assms merge_str [of fs n get upd v m add rest] by simp

lemma merge_u64I [merge_run]:
  assumes "consuming fs" "map_of fs n = Some (low, u64_field upd)" "low = 8 * n" "0 < n" "n < 16"
    and "v = 0 \<Longrightarrow> upd v m = m"
    and "merge fs add (upd v m) rest = R"
  shows "merge fs add m (u64_out n v @ rest) = R"
  using assms merge_u64 [of fs n upd v m add rest] by simp

lemma merge_boolI [merge_run]:
  assumes "consuming fs" "map_of fs n = Some (low, bool_field upd)" "low = 8 * n" "0 < n" "n < 16"
    and "\<not> b \<Longrightarrow> upd b m = m"
    and "merge fs add (upd b m) rest = R"
  shows "merge fs add m (bool_out n b @ rest) = R"
  using assms merge_bool [of fs n upd b m add rest] by simp

lemma lookup_here: "map_of ((n, x) # fs) n = Some x"
  by simp

lemma lookup_there: "k \<noteq> n \<Longrightarrow> map_of fs n = Some x \<Longrightarrow> map_of ((k, y) # fs) n = Some x"
  by simp

lemma merge_endI [merge_run]: "m = m' \<Longrightarrow> merge fs add m [] = Some (True, True, m')"
  by (simp add: merge_end)

lemma parse_messageI: "merge fs add m s = Some (True, True, m1) \<Longrightarrow> parse_message fs add m s = (True, m1)"
  by (simp add: parse_message_merge)

end
