(* ===== verification/Ledger_Messages.thy ===== *)
theory Ledger_Messages
  imports Codec
begin

section \<open>The messages of the ledger\<close>

text \<open>
  The generated classes \<open>Wallet\<close>, \<open>Fee\<close>, \<open>Address\<close> and \<open>Transfer\<close> of
  \<open>src/ccprocessor/*.pb.cc\<close>: the fields and the unknown fields as a record; the cleared
  message; the cases of \<open>MergePartialFromCodedStream\<close>; \<open>SerializeWithCachedSizes\<close>, whose
  stream and array versions write the same bytes; \<open>ByteSizeLong\<close>; \<open>MergeFrom\<close> and
  \<open>CopyFrom\<close>.  Each class is an interpretation of \<open>sized_codec\<close>.
\<close>

subsection \<open>Wallet: the balance of a sighash\<close>

record Wallet =
  wallet_amount :: string
  wallet_unknown :: "ufield list"

definition Wallet_Clear :: Wallet where
  \<comment> \<open>a new message, and what \<open>Clear\<close> leaves\<close>
  "Wallet_Clear = \<lparr>wallet_amount = [], wallet_unknown = []\<rparr>"

definition Wallet_add_unknown :: "ufield list \<Rightarrow> Wallet \<Rightarrow> Wallet" where
  "Wallet_add_unknown us m = m\<lparr>wallet_unknown := wallet_unknown m @ us\<rparr>"

definition Wallet_fields :: "Wallet fields" where
  "Wallet_fields = [
     (1, 10, str_field wallet_amount (\<lambda>v m. m\<lparr>wallet_amount := v\<rparr>))]"

definition Wallet_ParseFromString :: "string \<Rightarrow> bool \<times> Wallet" where
  "Wallet_ParseFromString s = parse_message Wallet_fields Wallet_add_unknown Wallet_Clear s"

definition Wallet_SerializeToString :: "Wallet \<Rightarrow> string" where
  "Wallet_SerializeToString m =
     str_out 1 (wallet_amount m) @
     SerializeUnknownFields (wallet_unknown m)"

definition Wallet_ByteSizeLong :: "Wallet \<Rightarrow> nat" where
  "Wallet_ByteSizeLong m =
     ComputeUnknownFieldsSize (wallet_unknown m) +
     str_size (wallet_amount m)"

definition Wallet_MergeFrom :: "Wallet \<Rightarrow> Wallet \<Rightarrow> Wallet" where
  "Wallet_MergeFrom this from = \<lparr>
     wallet_amount = (if 0 < length (wallet_amount from) then wallet_amount from else wallet_amount this),
     wallet_unknown = wallet_unknown this @ wallet_unknown from\<rparr>"

definition Wallet_CopyFrom :: "Wallet \<Rightarrow> Wallet \<Rightarrow> Wallet" where
  \<comment> \<open>onto another object; a copy onto itself returns at once\<close>
  "Wallet_CopyFrom this from = Wallet_MergeFrom Wallet_Clear from"

definition Wallet_wf :: "Wallet \<Rightarrow> bool" where
  \<comment> \<open>every string is UTF-8 that the wire can carry; no field of a newer schema\<close>
  "Wallet_wf m \<longleftrightarrow>
     wire_str (wallet_amount m) \<and> wallet_unknown m = []"

lemma Wallet_consuming: "consuming Wallet_fields"
  by (simp add: Wallet_fields_def)

lemma Wallet_parse_serialized:
  "Wallet_wf m \<Longrightarrow> Wallet_ParseFromString (Wallet_SerializeToString m) = (True, m)"
  unfolding Wallet_ParseFromString_def
  by (rule parse_messageI, cases m,
      simp only: Wallet_Clear_def Wallet_fields_def
        Wallet_SerializeToString_def
        Wallet_wf_def Wallet.select_convs SerializeUnknownFields.simps append.simps)
    (rule merge_run | rule lookup_here | rule lookup_there | (simp; fail))+

lemma Wallet_size: "Wallet_ByteSizeLong m = length (Wallet_SerializeToString m)"
  by (simp add: Wallet_ByteSizeLong_def Wallet_SerializeToString_def field_sizes unknown_size)

interpretation wallet_codec: sized_codec Wallet_SerializeToString Wallet_ParseFromString Wallet_wf Wallet_ByteSizeLong
  by unfold_locales (simp_all add: Wallet_parse_serialized Wallet_size)

lemma Wallet_copy: "Wallet_CopyFrom this from = from"
  by (simp add: Wallet_CopyFrom_def Wallet_MergeFrom_def Wallet_Clear_def)

lemma Wallet_wf_Clear [simp]: "Wallet_wf Wallet_Clear"
  by (simp add: Wallet_wf_def Wallet_Clear_def)

subsection \<open>Fee: a fee to return\<close>

record Fee =
  fee_sighash :: string
  fee_block :: string
  fee_unknown :: "ufield list"

definition Fee_Clear :: Fee where
  \<comment> \<open>a new message, and what \<open>Clear\<close> leaves\<close>
  "Fee_Clear = \<lparr>fee_sighash = [], fee_block = [], fee_unknown = []\<rparr>"

definition Fee_add_unknown :: "ufield list \<Rightarrow> Fee \<Rightarrow> Fee" where
  "Fee_add_unknown us m = m\<lparr>fee_unknown := fee_unknown m @ us\<rparr>"

definition Fee_fields :: "Fee fields" where
  "Fee_fields = [
     (1, 10, str_field fee_sighash (\<lambda>v m. m\<lparr>fee_sighash := v\<rparr>)),
     (2, 18, str_field fee_block (\<lambda>v m. m\<lparr>fee_block := v\<rparr>))]"

definition Fee_ParseFromString :: "string \<Rightarrow> bool \<times> Fee" where
  "Fee_ParseFromString s = parse_message Fee_fields Fee_add_unknown Fee_Clear s"

definition Fee_SerializeToString :: "Fee \<Rightarrow> string" where
  "Fee_SerializeToString m =
     str_out 1 (fee_sighash m) @
     str_out 2 (fee_block m) @
     SerializeUnknownFields (fee_unknown m)"

definition Fee_ByteSizeLong :: "Fee \<Rightarrow> nat" where
  "Fee_ByteSizeLong m =
     ComputeUnknownFieldsSize (fee_unknown m) +
     str_size (fee_sighash m) +
     str_size (fee_block m)"

definition Fee_MergeFrom :: "Fee \<Rightarrow> Fee \<Rightarrow> Fee" where
  "Fee_MergeFrom this from = \<lparr>
     fee_sighash = (if 0 < length (fee_sighash from) then fee_sighash from else fee_sighash this),
     fee_block = (if 0 < length (fee_block from) then fee_block from else fee_block this),
     fee_unknown = fee_unknown this @ fee_unknown from\<rparr>"

definition Fee_CopyFrom :: "Fee \<Rightarrow> Fee \<Rightarrow> Fee" where
  \<comment> \<open>onto another object; a copy onto itself returns at once\<close>
  "Fee_CopyFrom this from = Fee_MergeFrom Fee_Clear from"

definition Fee_wf :: "Fee \<Rightarrow> bool" where
  \<comment> \<open>every string is UTF-8 that the wire can carry; no field of a newer schema\<close>
  "Fee_wf m \<longleftrightarrow>
     wire_str (fee_sighash m) \<and> wire_str (fee_block m) \<and> fee_unknown m = []"

lemma Fee_consuming: "consuming Fee_fields"
  by (simp add: Fee_fields_def)

lemma Fee_parse_serialized:
  "Fee_wf m \<Longrightarrow> Fee_ParseFromString (Fee_SerializeToString m) = (True, m)"
  unfolding Fee_ParseFromString_def
  by (rule parse_messageI, cases m,
      simp only: Fee_Clear_def Fee_fields_def
        Fee_SerializeToString_def
        Fee_wf_def Fee.select_convs SerializeUnknownFields.simps append.simps)
    (rule merge_run | rule lookup_here | rule lookup_there | (simp; fail))+

lemma Fee_size: "Fee_ByteSizeLong m = length (Fee_SerializeToString m)"
  by (simp add: Fee_ByteSizeLong_def Fee_SerializeToString_def field_sizes unknown_size)

interpretation fee_codec: sized_codec Fee_SerializeToString Fee_ParseFromString Fee_wf Fee_ByteSizeLong
  by unfold_locales (simp_all add: Fee_parse_serialized Fee_size)

lemma Fee_copy: "Fee_CopyFrom this from = from"
  by (simp add: Fee_CopyFrom_def Fee_MergeFrom_def Fee_Clear_def)

lemma Fee_wf_Clear [simp]: "Fee_wf Fee_Clear"
  by (simp add: Fee_wf_def Fee_Clear_def)

subsection \<open>Address: an address of a sighash on an external blockchain\<close>

record Address =
  address_blockchain :: string
  address_value :: string
  address_network :: string
  address_sighash :: string
  address_unknown :: "ufield list"

definition Address_Clear :: Address where
  \<comment> \<open>a new message, and what \<open>Clear\<close> leaves\<close>
  "Address_Clear = \<lparr>address_blockchain = [], address_value = [], address_network = [], address_sighash = [], address_unknown = []\<rparr>"

definition Address_add_unknown :: "ufield list \<Rightarrow> Address \<Rightarrow> Address" where
  "Address_add_unknown us m = m\<lparr>address_unknown := address_unknown m @ us\<rparr>"

definition Address_fields :: "Address fields" where
  "Address_fields = [
     (1, 10, str_field address_blockchain (\<lambda>v m. m\<lparr>address_blockchain := v\<rparr>)),
     (2, 18, str_field address_value (\<lambda>v m. m\<lparr>address_value := v\<rparr>)),
     (3, 26, str_field address_network (\<lambda>v m. m\<lparr>address_network := v\<rparr>)),
     (4, 34, str_field address_sighash (\<lambda>v m. m\<lparr>address_sighash := v\<rparr>))]"

definition Address_ParseFromString :: "string \<Rightarrow> bool \<times> Address" where
  "Address_ParseFromString s = parse_message Address_fields Address_add_unknown Address_Clear s"

definition Address_SerializeToString :: "Address \<Rightarrow> string" where
  "Address_SerializeToString m =
     str_out 1 (address_blockchain m) @
     str_out 2 (address_value m) @
     str_out 3 (address_network m) @
     str_out 4 (address_sighash m) @
     SerializeUnknownFields (address_unknown m)"

definition Address_ByteSizeLong :: "Address \<Rightarrow> nat" where
  "Address_ByteSizeLong m =
     ComputeUnknownFieldsSize (address_unknown m) +
     str_size (address_blockchain m) +
     str_size (address_value m) +
     str_size (address_network m) +
     str_size (address_sighash m)"

definition Address_MergeFrom :: "Address \<Rightarrow> Address \<Rightarrow> Address" where
  "Address_MergeFrom this from = \<lparr>
     address_blockchain = (if 0 < length (address_blockchain from) then address_blockchain from else address_blockchain this),
     address_value = (if 0 < length (address_value from) then address_value from else address_value this),
     address_network = (if 0 < length (address_network from) then address_network from else address_network this),
     address_sighash = (if 0 < length (address_sighash from) then address_sighash from else address_sighash this),
     address_unknown = address_unknown this @ address_unknown from\<rparr>"

definition Address_CopyFrom :: "Address \<Rightarrow> Address \<Rightarrow> Address" where
  \<comment> \<open>onto another object; a copy onto itself returns at once\<close>
  "Address_CopyFrom this from = Address_MergeFrom Address_Clear from"

definition Address_wf :: "Address \<Rightarrow> bool" where
  \<comment> \<open>every string is UTF-8 that the wire can carry; no field of a newer schema\<close>
  "Address_wf m \<longleftrightarrow>
     wire_str (address_blockchain m) \<and> wire_str (address_value m) \<and> wire_str (address_network m) \<and>
     wire_str (address_sighash m) \<and> address_unknown m = []"

lemma Address_consuming: "consuming Address_fields"
  by (simp add: Address_fields_def)

lemma Address_parse_serialized:
  "Address_wf m \<Longrightarrow> Address_ParseFromString (Address_SerializeToString m) = (True, m)"
  unfolding Address_ParseFromString_def
  by (rule parse_messageI, cases m,
      simp only: Address_Clear_def Address_fields_def
        Address_SerializeToString_def
        Address_wf_def Address.select_convs SerializeUnknownFields.simps append.simps)
    (rule merge_run | rule lookup_here | rule lookup_there | (simp; fail))+

lemma Address_size: "Address_ByteSizeLong m = length (Address_SerializeToString m)"
  by (simp add: Address_ByteSizeLong_def Address_SerializeToString_def field_sizes unknown_size)

interpretation address_codec: sized_codec Address_SerializeToString Address_ParseFromString Address_wf Address_ByteSizeLong
  by unfold_locales (simp_all add: Address_parse_serialized Address_size)

lemma Address_copy: "Address_CopyFrom this from = from"
  by (simp add: Address_CopyFrom_def Address_MergeFrom_def Address_Clear_def)

lemma Address_wf_Clear [simp]: "Address_wf Address_Clear"
  by (simp add: Address_wf_def Address_Clear_def)

subsection \<open>Transfer: a registered external transfer\<close>

record Transfer =
  transfer_blockchain :: string
  transfer_src_address :: string
  transfer_dst_address :: string
  transfer_order :: string
  transfer_amount :: string
  transfer_tx :: string
  transfer_block :: string
  transfer_processed :: bool
  transfer_sighash :: string
  transfer_unknown :: "ufield list"

definition Transfer_Clear :: Transfer where
  \<comment> \<open>a new message, and what \<open>Clear\<close> leaves\<close>
  "Transfer_Clear = \<lparr>transfer_blockchain = [], transfer_src_address = [], transfer_dst_address = [], transfer_order = [], transfer_amount = [], transfer_tx = [], transfer_block = [], transfer_processed = False, transfer_sighash = [], transfer_unknown = []\<rparr>"

definition Transfer_add_unknown :: "ufield list \<Rightarrow> Transfer \<Rightarrow> Transfer" where
  "Transfer_add_unknown us m = m\<lparr>transfer_unknown := transfer_unknown m @ us\<rparr>"

definition Transfer_fields1 :: "Transfer fields" where
  "Transfer_fields1 = [
     (1, 10, str_field transfer_blockchain (\<lambda>v m. m\<lparr>transfer_blockchain := v\<rparr>)),
     (2, 18, str_field transfer_src_address (\<lambda>v m. m\<lparr>transfer_src_address := v\<rparr>)),
     (3, 26, str_field transfer_dst_address (\<lambda>v m. m\<lparr>transfer_dst_address := v\<rparr>)),
     (4, 34, str_field transfer_order (\<lambda>v m. m\<lparr>transfer_order := v\<rparr>)),
     (5, 42, str_field transfer_amount (\<lambda>v m. m\<lparr>transfer_amount := v\<rparr>))]"

definition Transfer_fields2 :: "Transfer fields" where
  "Transfer_fields2 = [
     (6, 50, str_field transfer_tx (\<lambda>v m. m\<lparr>transfer_tx := v\<rparr>)),
     (7, 58, str_field transfer_block (\<lambda>v m. m\<lparr>transfer_block := v\<rparr>)),
     (8, 64, bool_field (\<lambda>v m. m\<lparr>transfer_processed := v\<rparr>)),
     (9, 74, str_field transfer_sighash (\<lambda>v m. m\<lparr>transfer_sighash := v\<rparr>))]"

definition Transfer_fields :: "Transfer fields" where
  "Transfer_fields = Transfer_fields1 @ Transfer_fields2"

definition Transfer_ParseFromString :: "string \<Rightarrow> bool \<times> Transfer" where
  "Transfer_ParseFromString s = parse_message Transfer_fields Transfer_add_unknown Transfer_Clear s"

definition Transfer_Serialize1 :: "Transfer \<Rightarrow> string \<Rightarrow> string" where
  "Transfer_Serialize1 m target =
     str_out 1 (transfer_blockchain m) @
     str_out 2 (transfer_src_address m) @
     str_out 3 (transfer_dst_address m) @
     str_out 4 (transfer_order m) @
     str_out 5 (transfer_amount m) @
     target"

definition Transfer_Serialize2 :: "Transfer \<Rightarrow> string \<Rightarrow> string" where
  "Transfer_Serialize2 m target =
     str_out 6 (transfer_tx m) @
     str_out 7 (transfer_block m) @
     bool_out 8 (transfer_processed m) @
     str_out 9 (transfer_sighash m) @
     target"

definition Transfer_SerializeToString :: "Transfer \<Rightarrow> string" where
  "Transfer_SerializeToString m =
     Transfer_Serialize1 m (Transfer_Serialize2 m (SerializeUnknownFields (transfer_unknown m)))"

definition Transfer_ByteSizeLong :: "Transfer \<Rightarrow> nat" where
  "Transfer_ByteSizeLong m =
     ComputeUnknownFieldsSize (transfer_unknown m) +
     str_size (transfer_blockchain m) +
     str_size (transfer_src_address m) +
     str_size (transfer_dst_address m) +
     str_size (transfer_order m) +
     str_size (transfer_amount m) +
     str_size (transfer_tx m) +
     str_size (transfer_block m) +
     str_size (transfer_sighash m) +
     bool_size (transfer_processed m)"

definition Transfer_MergeFrom :: "Transfer \<Rightarrow> Transfer \<Rightarrow> Transfer" where
  "Transfer_MergeFrom this from = \<lparr>
     transfer_blockchain = (if 0 < length (transfer_blockchain from) then transfer_blockchain from else transfer_blockchain this),
     transfer_src_address = (if 0 < length (transfer_src_address from) then transfer_src_address from else transfer_src_address this),
     transfer_dst_address = (if 0 < length (transfer_dst_address from) then transfer_dst_address from else transfer_dst_address this),
     transfer_order = (if 0 < length (transfer_order from) then transfer_order from else transfer_order this),
     transfer_amount = (if 0 < length (transfer_amount from) then transfer_amount from else transfer_amount this),
     transfer_tx = (if 0 < length (transfer_tx from) then transfer_tx from else transfer_tx this),
     transfer_block = (if 0 < length (transfer_block from) then transfer_block from else transfer_block this),
     transfer_processed = (if transfer_processed from then transfer_processed from else transfer_processed this),
     transfer_sighash = (if 0 < length (transfer_sighash from) then transfer_sighash from else transfer_sighash this),
     transfer_unknown = transfer_unknown this @ transfer_unknown from\<rparr>"

definition Transfer_CopyFrom :: "Transfer \<Rightarrow> Transfer \<Rightarrow> Transfer" where
  \<comment> \<open>onto another object; a copy onto itself returns at once\<close>
  "Transfer_CopyFrom this from = Transfer_MergeFrom Transfer_Clear from"

definition Transfer_wf :: "Transfer \<Rightarrow> bool" where
  \<comment> \<open>every string is UTF-8 that the wire can carry; no field of a newer schema\<close>
  "Transfer_wf m \<longleftrightarrow>
     wire_str (transfer_blockchain m) \<and> wire_str (transfer_src_address m) \<and> wire_str (transfer_dst_address m) \<and>
     wire_str (transfer_order m) \<and> wire_str (transfer_amount m) \<and> wire_str (transfer_tx m) \<and>
     wire_str (transfer_block m) \<and> wire_str (transfer_sighash m) \<and> transfer_unknown m = []"

lemma Transfer_consuming: "consuming Transfer_fields"
  by (simp add: Transfer_fields_def Transfer_fields1_def Transfer_fields2_def)

lemma Transfer_parse_serialized:
  "Transfer_wf m \<Longrightarrow> Transfer_ParseFromString (Transfer_SerializeToString m) = (True, m)"
  unfolding Transfer_ParseFromString_def
  by (rule parse_messageI, cases m,
      simp only: Transfer_Clear_def Transfer_fields_def Transfer_fields1_def Transfer_fields2_def
        Transfer_SerializeToString_def Transfer_Serialize1_def Transfer_Serialize2_def
        Transfer_wf_def Transfer.select_convs SerializeUnknownFields.simps append.simps)
    (rule merge_run | rule lookup_here | rule lookup_there | (simp; fail))+

lemma Transfer_size: "Transfer_ByteSizeLong m = length (Transfer_SerializeToString m)"
  by (simp add: Transfer_ByteSizeLong_def Transfer_SerializeToString_def Transfer_Serialize1_def Transfer_Serialize2_def field_sizes unknown_size)

interpretation transfer_codec: sized_codec Transfer_SerializeToString Transfer_ParseFromString Transfer_wf Transfer_ByteSizeLong
  by unfold_locales (simp_all add: Transfer_parse_serialized Transfer_size)

lemma Transfer_copy: "Transfer_CopyFrom this from = from"
  by (simp add: Transfer_CopyFrom_def Transfer_MergeFrom_def Transfer_Clear_def)

lemma Transfer_wf_Clear [simp]: "Transfer_wf Transfer_Clear"
  by (simp add: Transfer_wf_def Transfer_Clear_def)

end
