(* ===== verification/Market_Messages.thy ===== *)
theory Market_Messages
  imports Ledger_Messages
begin

section \<open>The messages of the loan market\<close>

text \<open>
  The generated classes \<open>AskOrder\<close>, \<open>BidOrder\<close>, \<open>Offer\<close>, \<open>DealOrder\<close> and
  \<open>RepaymentOrder\<close>, in the same shape as those of the ledger.
\<close>

subsection \<open>AskOrder: an offer to lend\<close>

record AskOrder =
  ask_blockchain :: string
  ask_address :: string
  ask_amount :: string
  ask_interest :: string
  ask_maturity :: string
  ask_fee :: string
  ask_expiration :: "64 word"
  ask_block :: string
  ask_sighash :: string
  ask_unknown :: "ufield list"

definition AskOrder_Clear :: AskOrder where
  \<comment> \<open>a new message, and what \<open>Clear\<close> leaves\<close>
  "AskOrder_Clear = \<lparr>ask_blockchain = [], ask_address = [], ask_amount = [], ask_interest = [], ask_maturity = [], ask_fee = [], ask_expiration = 0, ask_block = [], ask_sighash = [], ask_unknown = []\<rparr>"

definition AskOrder_add_unknown :: "ufield list \<Rightarrow> AskOrder \<Rightarrow> AskOrder" where
  "AskOrder_add_unknown us m = m\<lparr>ask_unknown := ask_unknown m @ us\<rparr>"

definition AskOrder_fields1 :: "AskOrder fields" where
  "AskOrder_fields1 = [
     (1, 10, str_field ask_blockchain (\<lambda>v m. m\<lparr>ask_blockchain := v\<rparr>)),
     (2, 18, str_field ask_address (\<lambda>v m. m\<lparr>ask_address := v\<rparr>)),
     (3, 26, str_field ask_amount (\<lambda>v m. m\<lparr>ask_amount := v\<rparr>)),
     (4, 34, str_field ask_interest (\<lambda>v m. m\<lparr>ask_interest := v\<rparr>)),
     (5, 42, str_field ask_maturity (\<lambda>v m. m\<lparr>ask_maturity := v\<rparr>))]"

definition AskOrder_fields2 :: "AskOrder fields" where
  "AskOrder_fields2 = [
     (6, 50, str_field ask_fee (\<lambda>v m. m\<lparr>ask_fee := v\<rparr>)),
     (7, 56, u64_field (\<lambda>v m. m\<lparr>ask_expiration := v\<rparr>)),
     (8, 66, str_field ask_block (\<lambda>v m. m\<lparr>ask_block := v\<rparr>)),
     (9, 74, str_field ask_sighash (\<lambda>v m. m\<lparr>ask_sighash := v\<rparr>))]"

definition AskOrder_fields :: "AskOrder fields" where
  "AskOrder_fields = AskOrder_fields1 @ AskOrder_fields2"

definition AskOrder_ParseFromString :: "string \<Rightarrow> bool \<times> AskOrder" where
  "AskOrder_ParseFromString s = parse_message AskOrder_fields AskOrder_add_unknown AskOrder_Clear s"

definition AskOrder_Serialize1 :: "AskOrder \<Rightarrow> string \<Rightarrow> string" where
  "AskOrder_Serialize1 m target =
     str_out 1 (ask_blockchain m) @
     str_out 2 (ask_address m) @
     str_out 3 (ask_amount m) @
     str_out 4 (ask_interest m) @
     str_out 5 (ask_maturity m) @
     target"

definition AskOrder_Serialize2 :: "AskOrder \<Rightarrow> string \<Rightarrow> string" where
  "AskOrder_Serialize2 m target =
     str_out 6 (ask_fee m) @
     u64_out 7 (ask_expiration m) @
     str_out 8 (ask_block m) @
     str_out 9 (ask_sighash m) @
     target"

definition AskOrder_SerializeToString :: "AskOrder \<Rightarrow> string" where
  "AskOrder_SerializeToString m =
     AskOrder_Serialize1 m (AskOrder_Serialize2 m (SerializeUnknownFields (ask_unknown m)))"

definition AskOrder_ByteSizeLong :: "AskOrder \<Rightarrow> nat" where
  "AskOrder_ByteSizeLong m =
     ComputeUnknownFieldsSize (ask_unknown m) +
     str_size (ask_blockchain m) +
     str_size (ask_address m) +
     str_size (ask_amount m) +
     str_size (ask_interest m) +
     str_size (ask_maturity m) +
     str_size (ask_fee m) +
     str_size (ask_block m) +
     str_size (ask_sighash m) +
     u64_size (ask_expiration m)"

definition AskOrder_MergeFrom :: "AskOrder \<Rightarrow> AskOrder \<Rightarrow> AskOrder" where
  "AskOrder_MergeFrom this from = \<lparr>
     ask_blockchain = (if 0 < length (ask_blockchain from) then ask_blockchain from else ask_blockchain this),
     ask_address = (if 0 < length (ask_address from) then ask_address from else ask_address this),
     ask_amount = (if 0 < length (ask_amount from) then ask_amount from else ask_amount this),
     ask_interest = (if 0 < length (ask_interest from) then ask_interest from else ask_interest this),
     ask_maturity = (if 0 < length (ask_maturity from) then ask_maturity from else ask_maturity this),
     ask_fee = (if 0 < length (ask_fee from) then ask_fee from else ask_fee this),
     ask_expiration = (if ask_expiration from \<noteq> 0 then ask_expiration from else ask_expiration this),
     ask_block = (if 0 < length (ask_block from) then ask_block from else ask_block this),
     ask_sighash = (if 0 < length (ask_sighash from) then ask_sighash from else ask_sighash this),
     ask_unknown = ask_unknown this @ ask_unknown from\<rparr>"

definition AskOrder_CopyFrom :: "AskOrder \<Rightarrow> AskOrder \<Rightarrow> AskOrder" where
  \<comment> \<open>onto another object; a copy onto itself returns at once\<close>
  "AskOrder_CopyFrom this from = AskOrder_MergeFrom AskOrder_Clear from"

definition AskOrder_wf :: "AskOrder \<Rightarrow> bool" where
  \<comment> \<open>every string is UTF-8 that the wire can carry; no field of a newer schema\<close>
  "AskOrder_wf m \<longleftrightarrow>
     wire_str (ask_blockchain m) \<and> wire_str (ask_address m) \<and> wire_str (ask_amount m) \<and>
     wire_str (ask_interest m) \<and> wire_str (ask_maturity m) \<and> wire_str (ask_fee m) \<and>
     wire_str (ask_block m) \<and> wire_str (ask_sighash m) \<and> ask_unknown m = []"

lemma AskOrder_consuming: "consuming AskOrder_fields"
  by (simp add: AskOrder_fields_def AskOrder_fields1_def AskOrder_fields2_def)

lemma AskOrder_parse_serialized:
  "AskOrder_wf m \<Longrightarrow> AskOrder_ParseFromString (AskOrder_SerializeToString m) = (True, m)"
  unfolding AskOrder_ParseFromString_def
  by (rule parse_messageI, cases m,
      simp only: AskOrder_Clear_def AskOrder_fields_def AskOrder_fields1_def AskOrder_fields2_def
        AskOrder_SerializeToString_def AskOrder_Serialize1_def AskOrder_Serialize2_def
        AskOrder_wf_def AskOrder.select_convs SerializeUnknownFields.simps append.simps)
    (rule merge_run | rule lookup_here | rule lookup_there | (simp; fail))+

lemma AskOrder_size: "AskOrder_ByteSizeLong m = length (AskOrder_SerializeToString m)"
  by (simp add: AskOrder_ByteSizeLong_def AskOrder_SerializeToString_def AskOrder_Serialize1_def AskOrder_Serialize2_def field_sizes unknown_size)

interpretation ask_codec: sized_codec AskOrder_SerializeToString AskOrder_ParseFromString AskOrder_wf AskOrder_ByteSizeLong
  by unfold_locales (simp_all add: AskOrder_parse_serialized AskOrder_size)

lemma AskOrder_copy: "AskOrder_CopyFrom this from = from"
  by (simp add: AskOrder_CopyFrom_def AskOrder_MergeFrom_def AskOrder_Clear_def)

lemma AskOrder_wf_Clear [simp]: "AskOrder_wf AskOrder_Clear"
  by (simp add: AskOrder_wf_def AskOrder_Clear_def)

subsection \<open>BidOrder: a request to borrow\<close>

record BidOrder =
  bid_blockchain :: string
  bid_address :: string
  bid_amount :: string
  bid_interest :: string
  bid_maturity :: string
  bid_fee :: string
  bid_expiration :: "64 word"
  bid_block :: string
  bid_sighash :: string
  bid_unknown :: "ufield list"

definition BidOrder_Clear :: BidOrder where
  \<comment> \<open>a new message, and what \<open>Clear\<close> leaves\<close>
  "BidOrder_Clear = \<lparr>bid_blockchain = [], bid_address = [], bid_amount = [], bid_interest = [], bid_maturity = [], bid_fee = [], bid_expiration = 0, bid_block = [], bid_sighash = [], bid_unknown = []\<rparr>"

definition BidOrder_add_unknown :: "ufield list \<Rightarrow> BidOrder \<Rightarrow> BidOrder" where
  "BidOrder_add_unknown us m = m\<lparr>bid_unknown := bid_unknown m @ us\<rparr>"

definition BidOrder_fields1 :: "BidOrder fields" where
  "BidOrder_fields1 = [
     (1, 10, str_field bid_blockchain (\<lambda>v m. m\<lparr>bid_blockchain := v\<rparr>)),
     (2, 18, str_field bid_address (\<lambda>v m. m\<lparr>bid_address := v\<rparr>)),
     (3, 26, str_field bid_amount (\<lambda>v m. m\<lparr>bid_amount := v\<rparr>)),
     (4, 34, str_field bid_interest (\<lambda>v m. m\<lparr>bid_interest := v\<rparr>)),
     (5, 42, str_field bid_maturity (\<lambda>v m. m\<lparr>bid_maturity := v\<rparr>))]"

definition BidOrder_fields2 :: "BidOrder fields" where
  "BidOrder_fields2 = [
     (6, 50, str_field bid_fee (\<lambda>v m. m\<lparr>bid_fee := v\<rparr>)),
     (7, 56, u64_field (\<lambda>v m. m\<lparr>bid_expiration := v\<rparr>)),
     (8, 66, str_field bid_block (\<lambda>v m. m\<lparr>bid_block := v\<rparr>)),
     (9, 74, str_field bid_sighash (\<lambda>v m. m\<lparr>bid_sighash := v\<rparr>))]"

definition BidOrder_fields :: "BidOrder fields" where
  "BidOrder_fields = BidOrder_fields1 @ BidOrder_fields2"

definition BidOrder_ParseFromString :: "string \<Rightarrow> bool \<times> BidOrder" where
  "BidOrder_ParseFromString s = parse_message BidOrder_fields BidOrder_add_unknown BidOrder_Clear s"

definition BidOrder_Serialize1 :: "BidOrder \<Rightarrow> string \<Rightarrow> string" where
  "BidOrder_Serialize1 m target =
     str_out 1 (bid_blockchain m) @
     str_out 2 (bid_address m) @
     str_out 3 (bid_amount m) @
     str_out 4 (bid_interest m) @
     str_out 5 (bid_maturity m) @
     target"

definition BidOrder_Serialize2 :: "BidOrder \<Rightarrow> string \<Rightarrow> string" where
  "BidOrder_Serialize2 m target =
     str_out 6 (bid_fee m) @
     u64_out 7 (bid_expiration m) @
     str_out 8 (bid_block m) @
     str_out 9 (bid_sighash m) @
     target"

definition BidOrder_SerializeToString :: "BidOrder \<Rightarrow> string" where
  "BidOrder_SerializeToString m =
     BidOrder_Serialize1 m (BidOrder_Serialize2 m (SerializeUnknownFields (bid_unknown m)))"

definition BidOrder_ByteSizeLong :: "BidOrder \<Rightarrow> nat" where
  "BidOrder_ByteSizeLong m =
     ComputeUnknownFieldsSize (bid_unknown m) +
     str_size (bid_blockchain m) +
     str_size (bid_address m) +
     str_size (bid_amount m) +
     str_size (bid_interest m) +
     str_size (bid_maturity m) +
     str_size (bid_fee m) +
     str_size (bid_block m) +
     str_size (bid_sighash m) +
     u64_size (bid_expiration m)"

definition BidOrder_MergeFrom :: "BidOrder \<Rightarrow> BidOrder \<Rightarrow> BidOrder" where
  "BidOrder_MergeFrom this from = \<lparr>
     bid_blockchain = (if 0 < length (bid_blockchain from) then bid_blockchain from else bid_blockchain this),
     bid_address = (if 0 < length (bid_address from) then bid_address from else bid_address this),
     bid_amount = (if 0 < length (bid_amount from) then bid_amount from else bid_amount this),
     bid_interest = (if 0 < length (bid_interest from) then bid_interest from else bid_interest this),
     bid_maturity = (if 0 < length (bid_maturity from) then bid_maturity from else bid_maturity this),
     bid_fee = (if 0 < length (bid_fee from) then bid_fee from else bid_fee this),
     bid_expiration = (if bid_expiration from \<noteq> 0 then bid_expiration from else bid_expiration this),
     bid_block = (if 0 < length (bid_block from) then bid_block from else bid_block this),
     bid_sighash = (if 0 < length (bid_sighash from) then bid_sighash from else bid_sighash this),
     bid_unknown = bid_unknown this @ bid_unknown from\<rparr>"

definition BidOrder_CopyFrom :: "BidOrder \<Rightarrow> BidOrder \<Rightarrow> BidOrder" where
  \<comment> \<open>onto another object; a copy onto itself returns at once\<close>
  "BidOrder_CopyFrom this from = BidOrder_MergeFrom BidOrder_Clear from"

definition BidOrder_wf :: "BidOrder \<Rightarrow> bool" where
  \<comment> \<open>every string is UTF-8 that the wire can carry; no field of a newer schema\<close>
  "BidOrder_wf m \<longleftrightarrow>
     wire_str (bid_blockchain m) \<and> wire_str (bid_address m) \<and> wire_str (bid_amount m) \<and>
     wire_str (bid_interest m) \<and> wire_str (bid_maturity m) \<and> wire_str (bid_fee m) \<and>
     wire_str (bid_block m) \<and> wire_str (bid_sighash m) \<and> bid_unknown m = []"

lemma BidOrder_consuming: "consuming BidOrder_fields"
  by (simp add: BidOrder_fields_def BidOrder_fields1_def BidOrder_fields2_def)

lemma BidOrder_parse_serialized:
  "BidOrder_wf m \<Longrightarrow> BidOrder_ParseFromString (BidOrder_SerializeToString m) = (True, m)"
  unfolding BidOrder_ParseFromString_def
  by (rule parse_messageI, cases m,
      simp only: BidOrder_Clear_def BidOrder_fields_def BidOrder_fields1_def BidOrder_fields2_def
        BidOrder_SerializeToString_def BidOrder_Serialize1_def BidOrder_Serialize2_def
        BidOrder_wf_def BidOrder.select_convs SerializeUnknownFields.simps append.simps)
    (rule merge_run | rule lookup_here | rule lookup_there | (simp; fail))+

lemma BidOrder_size: "BidOrder_ByteSizeLong m = length (BidOrder_SerializeToString m)"
  by (simp add: BidOrder_ByteSizeLong_def BidOrder_SerializeToString_def BidOrder_Serialize1_def BidOrder_Serialize2_def field_sizes unknown_size)

interpretation bid_codec: sized_codec BidOrder_SerializeToString BidOrder_ParseFromString BidOrder_wf BidOrder_ByteSizeLong
  by unfold_locales (simp_all add: BidOrder_parse_serialized BidOrder_size)

lemma BidOrder_copy: "BidOrder_CopyFrom this from = from"
  by (simp add: BidOrder_CopyFrom_def BidOrder_MergeFrom_def BidOrder_Clear_def)

lemma BidOrder_wf_Clear [simp]: "BidOrder_wf BidOrder_Clear"
  by (simp add: BidOrder_wf_def BidOrder_Clear_def)

subsection \<open>Offer: an ask order paired with a bid order\<close>

record Offer =
  offer_blockchain :: string
  offer_ask_order :: string
  offer_bid_order :: string
  offer_expiration :: "64 word"
  offer_block :: string
  offer_sighash :: string
  offer_unknown :: "ufield list"

definition Offer_Clear :: Offer where
  \<comment> \<open>a new message, and what \<open>Clear\<close> leaves\<close>
  "Offer_Clear = \<lparr>offer_blockchain = [], offer_ask_order = [], offer_bid_order = [], offer_expiration = 0, offer_block = [], offer_sighash = [], offer_unknown = []\<rparr>"

definition Offer_add_unknown :: "ufield list \<Rightarrow> Offer \<Rightarrow> Offer" where
  "Offer_add_unknown us m = m\<lparr>offer_unknown := offer_unknown m @ us\<rparr>"

definition Offer_fields :: "Offer fields" where
  "Offer_fields = [
     (1, 10, str_field offer_blockchain (\<lambda>v m. m\<lparr>offer_blockchain := v\<rparr>)),
     (2, 18, str_field offer_ask_order (\<lambda>v m. m\<lparr>offer_ask_order := v\<rparr>)),
     (3, 26, str_field offer_bid_order (\<lambda>v m. m\<lparr>offer_bid_order := v\<rparr>)),
     (4, 32, u64_field (\<lambda>v m. m\<lparr>offer_expiration := v\<rparr>)),
     (5, 42, str_field offer_block (\<lambda>v m. m\<lparr>offer_block := v\<rparr>)),
     (6, 50, str_field offer_sighash (\<lambda>v m. m\<lparr>offer_sighash := v\<rparr>))]"

definition Offer_ParseFromString :: "string \<Rightarrow> bool \<times> Offer" where
  "Offer_ParseFromString s = parse_message Offer_fields Offer_add_unknown Offer_Clear s"

definition Offer_SerializeToString :: "Offer \<Rightarrow> string" where
  "Offer_SerializeToString m =
     str_out 1 (offer_blockchain m) @
     str_out 2 (offer_ask_order m) @
     str_out 3 (offer_bid_order m) @
     u64_out 4 (offer_expiration m) @
     str_out 5 (offer_block m) @
     str_out 6 (offer_sighash m) @
     SerializeUnknownFields (offer_unknown m)"

definition Offer_ByteSizeLong :: "Offer \<Rightarrow> nat" where
  "Offer_ByteSizeLong m =
     ComputeUnknownFieldsSize (offer_unknown m) +
     str_size (offer_blockchain m) +
     str_size (offer_ask_order m) +
     str_size (offer_bid_order m) +
     str_size (offer_block m) +
     str_size (offer_sighash m) +
     u64_size (offer_expiration m)"

definition Offer_MergeFrom :: "Offer \<Rightarrow> Offer \<Rightarrow> Offer" where
  "Offer_MergeFrom this from = \<lparr>
     offer_blockchain = (if 0 < length (offer_blockchain from) then offer_blockchain from else offer_blockchain this),
     offer_ask_order = (if 0 < length (offer_ask_order from) then offer_ask_order from else offer_ask_order this),
     offer_bid_order = (if 0 < length (offer_bid_order from) then offer_bid_order from else offer_bid_order this),
     offer_expiration = (if offer_expiration from \<noteq> 0 then offer_expiration from else offer_expiration this),
     offer_block = (if 0 < length (offer_block from) then offer_block from else offer_block this),
     offer_sighash = (if 0 < length (offer_sighash from) then offer_sighash from else offer_sighash this),
     offer_unknown = offer_unknown this @ offer_unknown from\<rparr>"

definition Offer_CopyFrom :: "Offer \<Rightarrow> Offer \<Rightarrow> Offer" where
  \<comment> \<open>onto another object; a copy onto itself returns at once\<close>
  "Offer_CopyFrom this from = Offer_MergeFrom Offer_Clear from"

definition Offer_wf :: "Offer \<Rightarrow> bool" where
  \<comment> \<open>every string is UTF-8 that the wire can carry; no field of a newer schema\<close>
  "Offer_wf m \<longleftrightarrow>
     wire_str (offer_blockchain m) \<and> wire_str (offer_ask_order m) \<and> wire_str (offer_bid_order m) \<and>
     wire_str (offer_block m) \<and> wire_str (offer_sighash m) \<and> offer_unknown m = []"

lemma Offer_consuming: "consuming Offer_fields"
  by (simp add: Offer_fields_def)

lemma Offer_parse_serialized:
  "Offer_wf m \<Longrightarrow> Offer_ParseFromString (Offer_SerializeToString m) = (True, m)"
  unfolding Offer_ParseFromString_def
  by (rule parse_messageI, cases m,
      simp only: Offer_Clear_def Offer_fields_def
        Offer_SerializeToString_def
        Offer_wf_def Offer.select_convs SerializeUnknownFields.simps append.simps)
    (rule merge_run | rule lookup_here | rule lookup_there | (simp; fail))+

lemma Offer_size: "Offer_ByteSizeLong m = length (Offer_SerializeToString m)"
  by (simp add: Offer_ByteSizeLong_def Offer_SerializeToString_def field_sizes unknown_size)

interpretation offer_codec: sized_codec Offer_SerializeToString Offer_ParseFromString Offer_wf Offer_ByteSizeLong
  by unfold_locales (simp_all add: Offer_parse_serialized Offer_size)

lemma Offer_copy: "Offer_CopyFrom this from = from"
  by (simp add: Offer_CopyFrom_def Offer_MergeFrom_def Offer_Clear_def)

lemma Offer_wf_Clear [simp]: "Offer_wf Offer_Clear"
  by (simp add: Offer_wf_def Offer_Clear_def)

subsection \<open>DealOrder: an agreed loan\<close>

record DealOrder =
  deal_blockchain :: string
  deal_src_address :: string
  deal_dst_address :: string
  deal_amount :: string
  deal_interest :: string
  deal_maturity :: string
  deal_fee :: string
  deal_expiration :: "64 word"
  deal_block :: string
  deal_loan_transfer :: string
  deal_repayment_transfer :: string
  deal_lock :: string
  deal_sighash :: string
  deal_unknown :: "ufield list"

definition DealOrder_Clear :: DealOrder where
  \<comment> \<open>a new message, and what \<open>Clear\<close> leaves\<close>
  "DealOrder_Clear = \<lparr>deal_blockchain = [], deal_src_address = [], deal_dst_address = [], deal_amount = [], deal_interest = [], deal_maturity = [], deal_fee = [], deal_expiration = 0, deal_block = [], deal_loan_transfer = [], deal_repayment_transfer = [], deal_lock = [], deal_sighash = [], deal_unknown = []\<rparr>"

definition DealOrder_add_unknown :: "ufield list \<Rightarrow> DealOrder \<Rightarrow> DealOrder" where
  "DealOrder_add_unknown us m = m\<lparr>deal_unknown := deal_unknown m @ us\<rparr>"

definition DealOrder_fields1 :: "DealOrder fields" where
  "DealOrder_fields1 = [
     (1, 10, str_field deal_blockchain (\<lambda>v m. m\<lparr>deal_blockchain := v\<rparr>)),
     (2, 18, str_field deal_src_address (\<lambda>v m. m\<lparr>deal_src_address := v\<rparr>)),
     (3, 26, str_field deal_dst_address (\<lambda>v m. m\<lparr>deal_dst_address := v\<rparr>)),
     (4, 34, str_field deal_amount (\<lambda>v m. m\<lparr>deal_amount := v\<rparr>)),
     (5, 42, str_field deal_interest (\<lambda>v m. m\<lparr>deal_interest := v\<rparr>)),
     (6, 50, str_field deal_maturity (\<lambda>v m. m\<lparr>deal_maturity := v\<rparr>))]"

definition DealOrder_fields2 :: "DealOrder fields" where
  "DealOrder_fields2 = [
     (7, 58, str_field deal_fee (\<lambda>v m. m\<lparr>deal_fee := v\<rparr>)),
     (8, 64, u64_field (\<lambda>v m. m\<lparr>deal_expiration := v\<rparr>)),
     (9, 74, str_field deal_block (\<lambda>v m. m\<lparr>deal_block := v\<rparr>)),
     (10, 82, str_field deal_loan_transfer (\<lambda>v m. m\<lparr>deal_loan_transfer := v\<rparr>)),
     (11, 90, str_field deal_repayment_transfer (\<lambda>v m. m\<lparr>deal_repayment_transfer := v\<rparr>)),
     (12, 98, str_field deal_lock (\<lambda>v m. m\<lparr>deal_lock := v\<rparr>)),
     (13, 106, str_field deal_sighash (\<lambda>v m. m\<lparr>deal_sighash := v\<rparr>))]"

definition DealOrder_fields :: "DealOrder fields" where
  "DealOrder_fields = DealOrder_fields1 @ DealOrder_fields2"

definition DealOrder_ParseFromString :: "string \<Rightarrow> bool \<times> DealOrder" where
  "DealOrder_ParseFromString s = parse_message DealOrder_fields DealOrder_add_unknown DealOrder_Clear s"

definition DealOrder_Serialize1 :: "DealOrder \<Rightarrow> string \<Rightarrow> string" where
  "DealOrder_Serialize1 m target =
     str_out 1 (deal_blockchain m) @
     str_out 2 (deal_src_address m) @
     str_out 3 (deal_dst_address m) @
     str_out 4 (deal_amount m) @
     str_out 5 (deal_interest m) @
     str_out 6 (deal_maturity m) @
     target"

definition DealOrder_Serialize2 :: "DealOrder \<Rightarrow> string \<Rightarrow> string" where
  "DealOrder_Serialize2 m target =
     str_out 7 (deal_fee m) @
     u64_out 8 (deal_expiration m) @
     str_out 9 (deal_block m) @
     str_out 10 (deal_loan_transfer m) @
     str_out 11 (deal_repayment_transfer m) @
     str_out 12 (deal_lock m) @
     str_out 13 (deal_sighash m) @
     target"

definition DealOrder_SerializeToString :: "DealOrder \<Rightarrow> string" where
  "DealOrder_SerializeToString m =
     DealOrder_Serialize1 m (DealOrder_Serialize2 m (SerializeUnknownFields (deal_unknown m)))"

definition DealOrder_ByteSizeLong :: "DealOrder \<Rightarrow> nat" where
  "DealOrder_ByteSizeLong m =
     ComputeUnknownFieldsSize (deal_unknown m) +
     str_size (deal_blockchain m) +
     str_size (deal_src_address m) +
     str_size (deal_dst_address m) +
     str_size (deal_amount m) +
     str_size (deal_interest m) +
     str_size (deal_maturity m) +
     str_size (deal_fee m) +
     str_size (deal_block m) +
     str_size (deal_loan_transfer m) +
     str_size (deal_repayment_transfer m) +
     str_size (deal_lock m) +
     str_size (deal_sighash m) +
     u64_size (deal_expiration m)"

definition DealOrder_MergeFrom :: "DealOrder \<Rightarrow> DealOrder \<Rightarrow> DealOrder" where
  "DealOrder_MergeFrom this from = \<lparr>
     deal_blockchain = (if 0 < length (deal_blockchain from) then deal_blockchain from else deal_blockchain this),
     deal_src_address = (if 0 < length (deal_src_address from) then deal_src_address from else deal_src_address this),
     deal_dst_address = (if 0 < length (deal_dst_address from) then deal_dst_address from else deal_dst_address this),
     deal_amount = (if 0 < length (deal_amount from) then deal_amount from else deal_amount this),
     deal_interest = (if 0 < length (deal_interest from) then deal_interest from else deal_interest this),
     deal_maturity = (if 0 < length (deal_maturity from) then deal_maturity from else deal_maturity this),
     deal_fee = (if 0 < length (deal_fee from) then deal_fee from else deal_fee this),
     deal_expiration = (if deal_expiration from \<noteq> 0 then deal_expiration from else deal_expiration this),
     deal_block = (if 0 < length (deal_block from) then deal_block from else deal_block this),
     deal_loan_transfer = (if 0 < length (deal_loan_transfer from) then deal_loan_transfer from else deal_loan_transfer this),
     deal_repayment_transfer = (if 0 < length (deal_repayment_transfer from) then deal_repayment_transfer from else deal_repayment_transfer this),
     deal_lock = (if 0 < length (deal_lock from) then deal_lock from else deal_lock this),
     deal_sighash = (if 0 < length (deal_sighash from) then deal_sighash from else deal_sighash this),
     deal_unknown = deal_unknown this @ deal_unknown from\<rparr>"

definition DealOrder_CopyFrom :: "DealOrder \<Rightarrow> DealOrder \<Rightarrow> DealOrder" where
  \<comment> \<open>onto another object; a copy onto itself returns at once\<close>
  "DealOrder_CopyFrom this from = DealOrder_MergeFrom DealOrder_Clear from"

definition DealOrder_wf :: "DealOrder \<Rightarrow> bool" where
  \<comment> \<open>every string is UTF-8 that the wire can carry; no field of a newer schema\<close>
  "DealOrder_wf m \<longleftrightarrow>
     wire_str (deal_blockchain m) \<and> wire_str (deal_src_address m) \<and> wire_str (deal_dst_address m) \<and>
     wire_str (deal_amount m) \<and> wire_str (deal_interest m) \<and> wire_str (deal_maturity m) \<and>
     wire_str (deal_fee m) \<and> wire_str (deal_block m) \<and> wire_str (deal_loan_transfer m) \<and>
     wire_str (deal_repayment_transfer m) \<and> wire_str (deal_lock m) \<and> wire_str (deal_sighash m) \<and>
     deal_unknown m = []"

lemma DealOrder_consuming: "consuming DealOrder_fields"
  by (simp add: DealOrder_fields_def DealOrder_fields1_def DealOrder_fields2_def)

lemma DealOrder_parse_serialized:
  "DealOrder_wf m \<Longrightarrow> DealOrder_ParseFromString (DealOrder_SerializeToString m) = (True, m)"
  unfolding DealOrder_ParseFromString_def
  by (rule parse_messageI, cases m,
      simp only: DealOrder_Clear_def DealOrder_fields_def DealOrder_fields1_def DealOrder_fields2_def
        DealOrder_SerializeToString_def DealOrder_Serialize1_def DealOrder_Serialize2_def
        DealOrder_wf_def DealOrder.select_convs SerializeUnknownFields.simps append.simps)
    (rule merge_run | rule lookup_here | rule lookup_there | (simp; fail))+

lemma DealOrder_size: "DealOrder_ByteSizeLong m = length (DealOrder_SerializeToString m)"
  by (simp add: DealOrder_ByteSizeLong_def DealOrder_SerializeToString_def DealOrder_Serialize1_def DealOrder_Serialize2_def field_sizes unknown_size)

interpretation deal_codec: sized_codec DealOrder_SerializeToString DealOrder_ParseFromString DealOrder_wf DealOrder_ByteSizeLong
  by unfold_locales (simp_all add: DealOrder_parse_serialized DealOrder_size)

lemma DealOrder_copy: "DealOrder_CopyFrom this from = from"
  by (simp add: DealOrder_CopyFrom_def DealOrder_MergeFrom_def DealOrder_Clear_def)

lemma DealOrder_wf_Clear [simp]: "DealOrder_wf DealOrder_Clear"
  by (simp add: DealOrder_wf_def DealOrder_Clear_def)

subsection \<open>RepaymentOrder: an agreement to buy a loan out\<close>

record RepaymentOrder =
  repayment_blockchain :: string
  repayment_src_address :: string
  repayment_dst_address :: string
  repayment_amount :: string
  repayment_expiration :: "64 word"
  repayment_block :: string
  repayment_deal :: string
  repayment_previous_owner :: string
  repayment_transfer :: string
  repayment_sighash :: string
  repayment_unknown :: "ufield list"

definition RepaymentOrder_Clear :: RepaymentOrder where
  \<comment> \<open>a new message, and what \<open>Clear\<close> leaves\<close>
  "RepaymentOrder_Clear = \<lparr>repayment_blockchain = [], repayment_src_address = [], repayment_dst_address = [], repayment_amount = [], repayment_expiration = 0, repayment_block = [], repayment_deal = [], repayment_previous_owner = [], repayment_transfer = [], repayment_sighash = [], repayment_unknown = []\<rparr>"

definition RepaymentOrder_add_unknown :: "ufield list \<Rightarrow> RepaymentOrder \<Rightarrow> RepaymentOrder" where
  "RepaymentOrder_add_unknown us m = m\<lparr>repayment_unknown := repayment_unknown m @ us\<rparr>"

definition RepaymentOrder_fields1 :: "RepaymentOrder fields" where
  "RepaymentOrder_fields1 = [
     (1, 10, str_field repayment_blockchain (\<lambda>v m. m\<lparr>repayment_blockchain := v\<rparr>)),
     (2, 18, str_field repayment_src_address (\<lambda>v m. m\<lparr>repayment_src_address := v\<rparr>)),
     (3, 26, str_field repayment_dst_address (\<lambda>v m. m\<lparr>repayment_dst_address := v\<rparr>)),
     (4, 34, str_field repayment_amount (\<lambda>v m. m\<lparr>repayment_amount := v\<rparr>)),
     (5, 40, u64_field (\<lambda>v m. m\<lparr>repayment_expiration := v\<rparr>))]"

definition RepaymentOrder_fields2 :: "RepaymentOrder fields" where
  "RepaymentOrder_fields2 = [
     (6, 50, str_field repayment_block (\<lambda>v m. m\<lparr>repayment_block := v\<rparr>)),
     (7, 58, str_field repayment_deal (\<lambda>v m. m\<lparr>repayment_deal := v\<rparr>)),
     (8, 66, str_field repayment_previous_owner (\<lambda>v m. m\<lparr>repayment_previous_owner := v\<rparr>)),
     (9, 74, str_field repayment_transfer (\<lambda>v m. m\<lparr>repayment_transfer := v\<rparr>)),
     (10, 82, str_field repayment_sighash (\<lambda>v m. m\<lparr>repayment_sighash := v\<rparr>))]"

definition RepaymentOrder_fields :: "RepaymentOrder fields" where
  "RepaymentOrder_fields = RepaymentOrder_fields1 @ RepaymentOrder_fields2"

definition RepaymentOrder_ParseFromString :: "string \<Rightarrow> bool \<times> RepaymentOrder" where
  "RepaymentOrder_ParseFromString s = parse_message RepaymentOrder_fields RepaymentOrder_add_unknown RepaymentOrder_Clear s"

definition RepaymentOrder_Serialize1 :: "RepaymentOrder \<Rightarrow> string \<Rightarrow> string" where
  "RepaymentOrder_Serialize1 m target =
     str_out 1 (repayment_blockchain m) @
     str_out 2 (repayment_src_address m) @
     str_out 3 (repayment_dst_address m) @
     str_out 4 (repayment_amount m) @
     u64_out 5 (repayment_expiration m) @
     target"

definition RepaymentOrder_Serialize2 :: "RepaymentOrder \<Rightarrow> string \<Rightarrow> string" where
  "RepaymentOrder_Serialize2 m target =
     str_out 6 (repayment_block m) @
     str_out 7 (repayment_deal m) @
     str_out 8 (repayment_previous_owner m) @
     str_out 9 (repayment_transfer m) @
     str_out 10 (repayment_sighash m) @
     target"

definition RepaymentOrder_SerializeToString :: "RepaymentOrder \<Rightarrow> string" where
  "RepaymentOrder_SerializeToString m =
     RepaymentOrder_Serialize1 m (RepaymentOrder_Serialize2 m (SerializeUnknownFields (repayment_unknown m)))"

definition RepaymentOrder_ByteSizeLong :: "RepaymentOrder \<Rightarrow> nat" where
  "RepaymentOrder_ByteSizeLong m =
     ComputeUnknownFieldsSize (repayment_unknown m) +
     str_size (repayment_blockchain m) +
     str_size (repayment_src_address m) +
     str_size (repayment_dst_address m) +
     str_size (repayment_amount m) +
     str_size (repayment_block m) +
     str_size (repayment_deal m) +
     str_size (repayment_previous_owner m) +
     str_size (repayment_transfer m) +
     str_size (repayment_sighash m) +
     u64_size (repayment_expiration m)"

definition RepaymentOrder_MergeFrom :: "RepaymentOrder \<Rightarrow> RepaymentOrder \<Rightarrow> RepaymentOrder" where
  "RepaymentOrder_MergeFrom this from = \<lparr>
     repayment_blockchain = (if 0 < length (repayment_blockchain from) then repayment_blockchain from else repayment_blockchain this),
     repayment_src_address = (if 0 < length (repayment_src_address from) then repayment_src_address from else repayment_src_address this),
     repayment_dst_address = (if 0 < length (repayment_dst_address from) then repayment_dst_address from else repayment_dst_address this),
     repayment_amount = (if 0 < length (repayment_amount from) then repayment_amount from else repayment_amount this),
     repayment_expiration = (if repayment_expiration from \<noteq> 0 then repayment_expiration from else repayment_expiration this),
     repayment_block = (if 0 < length (repayment_block from) then repayment_block from else repayment_block this),
     repayment_deal = (if 0 < length (repayment_deal from) then repayment_deal from else repayment_deal this),
     repayment_previous_owner = (if 0 < length (repayment_previous_owner from) then repayment_previous_owner from else repayment_previous_owner this),
     repayment_transfer = (if 0 < length (repayment_transfer from) then repayment_transfer from else repayment_transfer this),
     repayment_sighash = (if 0 < length (repayment_sighash from) then repayment_sighash from else repayment_sighash this),
     repayment_unknown = repayment_unknown this @ repayment_unknown from\<rparr>"

definition RepaymentOrder_CopyFrom :: "RepaymentOrder \<Rightarrow> RepaymentOrder \<Rightarrow> RepaymentOrder" where
  \<comment> \<open>onto another object; a copy onto itself returns at once\<close>
  "RepaymentOrder_CopyFrom this from = RepaymentOrder_MergeFrom RepaymentOrder_Clear from"

definition RepaymentOrder_wf :: "RepaymentOrder \<Rightarrow> bool" where
  \<comment> \<open>every string is UTF-8 that the wire can carry; no field of a newer schema\<close>
  "RepaymentOrder_wf m \<longleftrightarrow>
     wire_str (repayment_blockchain m) \<and> wire_str (repayment_src_address m) \<and> wire_str (repayment_dst_address m) \<and>
     wire_str (repayment_amount m) \<and> wire_str (repayment_block m) \<and> wire_str (repayment_deal m) \<and>
     wire_str (repayment_previous_owner m) \<and> wire_str (repayment_transfer m) \<and> wire_str (repayment_sighash m) \<and>
     repayment_unknown m = []"

lemma RepaymentOrder_consuming: "consuming RepaymentOrder_fields"
  by (simp add: RepaymentOrder_fields_def RepaymentOrder_fields1_def RepaymentOrder_fields2_def)

lemma RepaymentOrder_parse_serialized:
  "RepaymentOrder_wf m \<Longrightarrow> RepaymentOrder_ParseFromString (RepaymentOrder_SerializeToString m) = (True, m)"
  unfolding RepaymentOrder_ParseFromString_def
  by (rule parse_messageI, cases m,
      simp only: RepaymentOrder_Clear_def RepaymentOrder_fields_def RepaymentOrder_fields1_def RepaymentOrder_fields2_def
        RepaymentOrder_SerializeToString_def RepaymentOrder_Serialize1_def RepaymentOrder_Serialize2_def
        RepaymentOrder_wf_def RepaymentOrder.select_convs SerializeUnknownFields.simps append.simps)
    (rule merge_run | rule lookup_here | rule lookup_there | (simp; fail))+

lemma RepaymentOrder_size: "RepaymentOrder_ByteSizeLong m = length (RepaymentOrder_SerializeToString m)"
  by (simp add: RepaymentOrder_ByteSizeLong_def RepaymentOrder_SerializeToString_def RepaymentOrder_Serialize1_def RepaymentOrder_Serialize2_def field_sizes unknown_size)

interpretation repayment_codec: sized_codec RepaymentOrder_SerializeToString RepaymentOrder_ParseFromString RepaymentOrder_wf RepaymentOrder_ByteSizeLong
  by unfold_locales (simp_all add: RepaymentOrder_parse_serialized RepaymentOrder_size)

lemma RepaymentOrder_copy: "RepaymentOrder_CopyFrom this from = from"
  by (simp add: RepaymentOrder_CopyFrom_def RepaymentOrder_MergeFrom_def RepaymentOrder_Clear_def)

lemma RepaymentOrder_wf_Clear [simp]: "RepaymentOrder_wf RepaymentOrder_Clear"
  by (simp add: RepaymentOrder_wf_def RepaymentOrder_Clear_def)

end
