(* ===== verification/World.thy ===== *)
theory World
  imports Env Market_Messages
begin

section \<open>The state of the processor and its access to the global state\<close>

text \<open>
  \<open>world\<close> holds the member \<open>ctx\<close> of the \<open>Applicator\<close>, the static variables of
  \<open>processor.cpp\<close> and the state of the validator.  In normal operation the processor reads
  and writes the validator.  While it revalidates an old chain (\<open>transitioning\<close>) it keeps
  its own copy of the global state in three layers: \<open>currentState\<close> of the running
  transaction, \<open>tipCurrentState\<close> of the block, \<open>transitioningState\<close> of the blocks below;
  an empty string stands for a deleted entry.  The locale \<open>store\<close> is the contract both
  modes keep towards the handlers: a mapping from addresses to data, empty when absent.
\<close>

record Tx =
  tx_sighash :: string
  tx_guid :: string
  tx_payload :: "8 word list"

record SimpleBlock =
  block_signer :: string
  block_txs :: "Tx list"

record TxPos =
  pos_block :: int
  pos_txIdx :: int

record Ctx =
  ctx_sighash :: string
  ctx_guid :: string
  ctx_tip :: int
  ctx_replaying :: bool
  ctx_transitioning :: bool
  ctx_currentState :: "string smap"

record 'v world =
  validator :: 'v
  ctx :: Ctx
  tipCurrentState :: "string smap"
  transitioningState :: "string smap"
  settings :: "string smap"
  externalGatewayAddress :: string
  v2block :: int
  transitioning :: bool
  blocks :: "SimpleBlock list"
  txguid2prevblockidx :: "TxPos smap"
  updatedBlockIdx :: int
  updatedTxIdx :: int
  dealExpFixBlock :: int

definition new_Ctx :: "bool \<Rightarrow> Ctx" where
  \<comment> \<open>the constructor: a copy of the static flag\<close>
  "new_Ctx transit = \<lparr>ctx_sighash = [], ctx_guid = [], ctx_tip = 0, ctx_replaying = False,
     ctx_transitioning = transit, ctx_currentState = []\<rparr>"

subsection \<open>Reading\<close>

definition overlay :: "'v world \<Rightarrow> string \<Rightarrow> string option" where
  "overlay w k =
     (case map_find (ctx_currentState (ctx w)) k of
        Some d \<Rightarrow> Some d
      | None \<Rightarrow> (case map_find (tipCurrentState w) k of
          Some d \<Rightarrow> Some d
        | None \<Rightarrow> map_find (transitioningState w) k))"

definition getState :: "'v env \<Rightarrow> string \<Rightarrow> ('v world, bool \<times> string) act" where
  \<comment> \<open>the result of the call and \<open>*stateData\<close>, empty before the call\<close>
  "getState env k = reads (\<lambda>w.
     if ctx_transitioning (ctx w)
     then Inr (True, case overlay w k of Some d \<Rightarrow> d | None \<Rightarrow> [])
     else GetState env (validator w) k)"

definition getStateData :: "'v env \<Rightarrow> string \<Rightarrow> bool \<Rightarrow> ('v world, string) act" where
  "getStateData env k existing =
     bnd (getState env k) (\<lambda>(found, stateData).
     bnd (throwIf (existing \<and> stateData = []) (''Existing state expected '' @ k)) (\<lambda>_.
     ret stateData))"

definition lastBlockInt :: "'v env \<Rightarrow> ('v world, int) act" where
  "lastBlockInt env = reads (\<lambda>w.
     if ctx_transitioning (ctx w) then Inr (ctx_tip (ctx w))
     else sbnd (GetTip env (validator w)) (\<lambda>tip. Inr (uint (tip - 1))))"

definition lastBlock :: "'v env \<Rightarrow> ('v world, string) act" where
  "lastBlock env = bnd (lastBlockInt env) (\<lambda>n. ret (toString env n))"

subsection \<open>Writing\<close>

definition on_validator :: "('v \<Rightarrow> (err + unit) \<times> 'v) \<Rightarrow> ('v world, unit) act" where
  "on_validator f w = (case f (validator w) of (r, v) \<Rightarrow> (r, w\<lparr>validator := v\<rparr>))"

definition set_current :: "(string \<times> string) list \<Rightarrow> 'v world \<Rightarrow> 'v world" where
  "set_current kvs w =
     w\<lparr>ctx := (ctx w)\<lparr>ctx_currentState := map_set_all (ctx_currentState (ctx w)) kvs\<rparr>\<rparr>"

definition unless_replaying :: "('v world, unit) act \<Rightarrow> ('v world, unit) act" where
  "unless_replaying m = (\<lambda>w. if ctx_replaying (ctx w) then (Inr (), w) else m w)"

definition setStates :: "'v env \<Rightarrow> (string \<times> string) list \<Rightarrow> ('v world, unit) act" where
  \<comment> \<open>setState(state, states)\<close>
  "setStates env states =
     bnd (modifies (\<lambda>w. if ctx_transitioning (ctx w) then set_current states w else w)) (\<lambda>_.
     unless_replaying (on_validator (SetState env states)))"

definition setState_raw :: "'v env \<Rightarrow> string \<Rightarrow> string \<Rightarrow> ('v world, unit) act" where
  \<comment> \<open>setState(GlobalState* state, stateData, id): the data first, then the address\<close>
  "setState_raw env stateData k =
     bnd (modifies (\<lambda>w. if ctx_transitioning (ctx w) then set_current [(k, stateData)] w else w)) (\<lambda>_.
     unless_replaying (on_validator (SetState env [(k, stateData)])))"

definition setState_uptr :: "'v env \<Rightarrow> string \<Rightarrow> string \<Rightarrow> ('v world, unit) act" where
  \<comment> \<open>setState(GlobalStateUPtr const& state, stateData, id) exchanges its arguments: called with
     the address first, it reaches the other overload in that one's order\<close>
  "setState_uptr env stateData k = setState_raw env k stateData"

definition deleteState :: "'v env \<Rightarrow> string \<Rightarrow> ('v world, unit) act" where
  "deleteState env k =
     bnd (modifies (\<lambda>w. if ctx_transitioning (ctx w) then set_current [(k, [])] w else w)) (\<lambda>_.
     unless_replaying (on_validator (DeleteState env k)))"

subsection \<open>Listing the entries under a prefix\<close>

text \<open>
  The validator lists in pages and may take forever, so the loop over pages is a partial
  function; a call that does not return is the error \<open>Aborted\<close>.  The lister runs between
  two pages and may write; \<open>val\<close> finds the validator in what it works on.
\<close>

type_synonym 's lister = "string \<Rightarrow> string \<Rightarrow> ('s, unit) act"

partial_function (option) filter_pages ::
  "'v env \<Rightarrow> ('s \<Rightarrow> 'v) \<Rightarrow> string \<Rightarrow> 's lister \<Rightarrow> string \<Rightarrow> string \<Rightarrow> 's \<Rightarrow> ((err + unit) \<times> 's) option" where
  "filter_pages env val prefix lister root start w =
     (case GetStatesByPrefix env (val w) prefix root start of
        Inl e \<Rightarrow> Some (Inl e, w)
      | Inr (page, root1, start1) \<Rightarrow>
          (case forEach page (\<lambda>(k, d). lister k d) w of
             (Inl e, w1) \<Rightarrow> Some (Inl e, w1)
           | (Inr _, w1) \<Rightarrow>
               if start1 = [] then Some (Inr (), w1)
               else filter_pages env val prefix lister root1 start1 w1))"

definition overlay_entries :: "'v world \<Rightarrow> string \<Rightarrow> (string \<times> string) list" where
  \<comment> \<open>what the listing visits while transitioning, in its order\<close>
  "overlay_entries w prefix =
     (let currentState = map_insert_range (ctx_currentState (ctx w)) (tipCurrentState w);
          live = (\<lambda>(k, d). starts_with prefix k \<and> 0 < length d)
      in List.filter (\<lambda>e. map_find currentState (fst e) = None \<and> live e) (transitioningState w) @
         List.filter live currentState)"

definition to_invalid :: "err + 'a \<Rightarrow> err + 'a" where
  \<comment> \<open>catch (std::exception const& e) throw sawtooth::InvalidTransaction(e.what())\<close>
  "to_invalid r = (case r of Inl (StdException m) \<Rightarrow> Inl (InvalidTransaction m) | _ \<Rightarrow> r)"

definition filter_states :: "'v env \<Rightarrow> bool \<Rightarrow> string \<Rightarrow> 'v world lister \<Rightarrow> ('v world, unit) act" where
  \<comment> \<open>filter(ctx, prefix, lister); the flag is that of the \<open>Ctx\<close> passed\<close>
  "filter_states env transit prefix lister = (\<lambda>w.
     if transit then forEach (overlay_entries w prefix) (\<lambda>(k, d). lister k d) w
     else case filter_pages env validator prefix lister [] [] w of
       None \<Rightarrow> (Inl (Aborted ''filter''), w)
     | Some (r, w1) \<Rightarrow> (to_invalid r, w1))"

subsection \<open>The handlers' view of the global state\<close>

definition view :: "'v env \<Rightarrow> 'v world \<Rightarrow> string \<Rightarrow> string" where
  "view env w k =
     (if ctx_transitioning (ctx w) then (case overlay w k of Some d \<Rightarrow> d | None \<Rightarrow> [])
      else case GetState env (validator w) k of Inr (_, d) \<Rightarrow> d | Inl _ \<Rightarrow> [])"

fun write_all :: "(string \<times> string) list \<Rightarrow> (string \<Rightarrow> string) \<Rightarrow> string \<Rightarrow> string" where
  "write_all [] g = g"
| "write_all ((k, d) # kvs) g = write_all kvs (g(k := d))"

text \<open>A validator that answers: reads succeed, writes take effect, nothing else changes.\<close>

definition stored :: "'v env \<Rightarrow> 'v \<Rightarrow> string \<Rightarrow> string" where
  "stored env v k = (case GetState env v k of Inr (_, d) \<Rightarrow> d | Inl _ \<Rightarrow> [])"

definition validator_ok :: "'v env \<Rightarrow> bool" where
  "validator_ok env \<longleftrightarrow>
     (\<forall>v k. \<exists>found. GetState env v k = Inr (found, stored env v k)) \<and>
     (\<forall>v kvs. \<exists>v'. SetState env kvs v = (Inr (), v') \<and>
        stored env v' = write_all kvs (stored env v) \<and> GetTip env v' = GetTip env v) \<and>
     (\<forall>v k. \<exists>v'. DeleteState env k v = (Inr (), v') \<and>
        stored env v' = (stored env v)(k := []) \<and> GetTip env v' = GetTip env v) \<and>
     (\<forall>v. \<exists>tip. GetTip env v = Inr tip)"

definition tip_of :: "'v env \<Rightarrow> 'v world \<Rightarrow> int" where
  \<comment> \<open>what \<open>lastBlockInt\<close> returns\<close>
  "tip_of env w =
     (if ctx_transitioning (ctx w) then ctx_tip (ctx w)
      else case GetTip env (validator w) of Inr tip \<Rightarrow> uint (tip - 1) | Inl _ \<Rightarrow> 0)"

text \<open>What a transaction may change when it only writes: the validator and \<open>currentState\<close>.\<close>

definition same_session :: "'v env \<Rightarrow> 'v world \<Rightarrow> 'v world \<Rightarrow> bool" where
  "same_session env w w' \<longleftrightarrow>
     w' = w\<lparr>validator := validator w',
        ctx := (ctx w)\<lparr>ctx_currentState := ctx_currentState (ctx w')\<rparr>\<rparr> \<and>
     GetTip env (validator w') = GetTip env (validator w)"

locale store =
  fixes inv :: "'w \<Rightarrow> bool"
    and same :: "'w \<Rightarrow> 'w \<Rightarrow> bool"
    and get :: "'w \<Rightarrow> string \<Rightarrow> string"
    and rd :: "string \<Rightarrow> bool \<Rightarrow> ('w, string) act"
    and wr :: "(string \<times> string) list \<Rightarrow> ('w, unit) act"
    and del :: "string \<Rightarrow> ('w, unit) act"
  assumes rd: "inv w \<Longrightarrow> rd k existing w =
      (if existing \<and> get w k = [] then (Inl (InvalidTransaction (''Existing state expected '' @ k)), w)
       else (Inr (get w k), w))"
    and wr: "inv w \<Longrightarrow>
      \<exists>w'. wr kvs w = (Inr (), w') \<and> inv w' \<and> same w w' \<and> get w' = write_all kvs (get w)"
    and del: "inv w \<Longrightarrow>
      \<exists>w'. del k w = (Inr (), w') \<and> inv w' \<and> same w w' \<and> get w' = (get w)(k := [])"
    and same_refl: "same w w"
    and same_trans: "same w w1 \<Longrightarrow> same w1 w2 \<Longrightarrow> same w w2"
begin

lemma rd_ok:
  "inv w \<Longrightarrow> rd k existing w = (Inr d, w') \<longleftrightarrow> w' = w \<and> d = get w k \<and> (existing \<longrightarrow> d \<noteq> [])"
  by (auto simp: rd)

lemma rd_run: "inv w \<Longrightarrow> existing \<longrightarrow> get w k \<noteq> [] \<Longrightarrow> rd k existing w = (Inr (get w k), w)"
  by (simp add: rd)

lemma rd_missing:
  "inv w \<Longrightarrow> get w k = [] \<Longrightarrow>
     rd k True w = (Inl (InvalidTransaction (''Existing state expected '' @ k)), w)"
  by (simp add: rd)

lemma wr_ok:
  assumes "inv w" and "wr kvs w = (Inr u, w')"
  shows "inv w' \<and> same w w' \<and> get w' = write_all kvs (get w)"
  using wr [OF assms(1), of kvs] assms(2) by auto

lemma wr_no_error: "inv w \<Longrightarrow> wr kvs w = (Inl e, w') \<longleftrightarrow> False"
  using wr [of w kvs] by auto

lemma del_ok:
  assumes "inv w" and "del k w = (Inr u, w')"
  shows "inv w' \<and> same w w' \<and> get w' = (get w)(k := [])"
  using del [OF assms(1), of k] assms(2) by auto

lemma del_no_error: "inv w \<Longrightarrow> del k w = (Inl e, w') \<longleftrightarrow> False"
  using del [of w k] by auto

end

lemma view_overlay: "ctx_transitioning (ctx w) \<Longrightarrow> view env w k = (case overlay w k of Some d \<Rightarrow> d | None \<Rightarrow> [])"
  and view_validator: "\<not> ctx_transitioning (ctx w) \<Longrightarrow> view env w k = stored env (validator w) k"
  by (simp_all add: view_def stored_def)

lemma write_all_Nil_map_of:
  "write_all kvs g k = (case map_of (rev kvs) k of Some d \<Rightarrow> d | None \<Rightarrow> g k)"
  by (induction kvs g rule: write_all.induct) (auto simp: map_add_def fun_upd_def split: option.splits)

lemma overlay_set_current:
  "overlay (set_current kvs w) k = (case map_of (rev kvs) k of Some d \<Rightarrow> Some d | None \<Rightarrow> overlay w k)"
  by (auto simp: overlay_def set_current_def map_find_set_all split: option.splits)

lemma view_set_current:
  "ctx_transitioning (ctx w) \<Longrightarrow> view env (set_current kvs w) = write_all kvs (view env w)"
proof
  fix k
  assume t: "ctx_transitioning (ctx w)"
  then have "ctx_transitioning (ctx (set_current kvs w))" by (simp add: set_current_def)
  then show "view env (set_current kvs w) k = write_all kvs (view env w) k" using t
    by (simp add: view_overlay overlay_set_current write_all_Nil_map_of split: option.split)
qed

lemma view_validator_update:
  "ctx_transitioning (ctx w) \<Longrightarrow> view env (w\<lparr>validator := v\<rparr>) = view env w"
  by (rule ext) (simp add: view_def overlay_def split: option.split)

lemma getStateData_eq:
  assumes "validator_ok env"
  shows "getStateData env k existing w =
      (if existing \<and> view env w k = [] then (Inl (InvalidTransaction (''Existing state expected '' @ k)), w)
       else (Inr (view env w k), w))"
proof -
  obtain found where "GetState env (validator w) k = Inr (found, stored env (validator w) k)"
    using assms unfolding validator_ok_def by blast
  then show ?thesis
    by (cases "ctx_transitioning (ctx w)")
      (simp_all add: getStateData_def getState_def act_run view_overlay view_validator)
qed

lemma validator_set:
  assumes "validator_ok env"
  shows "\<exists>v'. SetState env kvs v = (Inr (), v') \<and> stored env v' = write_all kvs (stored env v) \<and>
    GetTip env v' = GetTip env v"
  using assms unfolding validator_ok_def by blast

lemma validator_delete:
  assumes "validator_ok env"
  shows "\<exists>v'. DeleteState env k v = (Inr (), v') \<and> stored env v' = (stored env v)(k := []) \<and>
    GetTip env v' = GetTip env v"
  using assms unfolding validator_ok_def by blast

lemma set_current_simps [simp]:
  "ctx_transitioning (ctx (set_current kvs w)) = ctx_transitioning (ctx w)"
  "ctx_replaying (ctx (set_current kvs w)) = ctx_replaying (ctx w)"
  "validator (set_current kvs w) = validator w"
  by (simp_all add: set_current_def)

lemma same_session_refl [simp]: "same_session env w w"
  by (simp add: same_session_def)

lemma same_session_set_current: "same_session env w (set_current kvs w)"
  by (simp add: same_session_def set_current_def)

lemma same_session_validator:
  "GetTip env v = GetTip env (validator w) \<Longrightarrow> same_session env w (w\<lparr>validator := v\<rparr>)"
  by (simp add: same_session_def)

lemma same_session_trans:
  assumes "same_session env w w1" "same_session env w1 w2"
  shows "same_session env w w2"
proof -
  obtain v c where w1: "w1 = w\<lparr>validator := v, ctx := (ctx w)\<lparr>ctx_currentState := c\<rparr>\<rparr>"
    and v: "GetTip env v = GetTip env (validator w)"
    using assms(1) unfolding same_session_def by metis
  obtain v' c' where w2: "w2 = w1\<lparr>validator := v', ctx := (ctx w1)\<lparr>ctx_currentState := c'\<rparr>\<rparr>"
    and v': "GetTip env v' = GetTip env (validator w1)"
    using assms(2) unfolding same_session_def by metis
  show ?thesis using v v' by (simp add: same_session_def w1 w2)
qed

lemma same_session_simps:
  assumes "same_session env w w'"
  shows "ctx_transitioning (ctx w') = ctx_transitioning (ctx w)"
    and "ctx_replaying (ctx w') = ctx_replaying (ctx w)"
    and "ctx_tip (ctx w') = ctx_tip (ctx w)" and "ctx_sighash (ctx w') = ctx_sighash (ctx w)"
    and "ctx_guid (ctx w') = ctx_guid (ctx w)" and "settings w' = settings w"
    and "v2block w' = v2block w" and "transitioning w' = transitioning w" and "blocks w' = blocks w"
    and "dealExpFixBlock w' = dealExpFixBlock w" and "tip_of env w' = tip_of env w"
    and "tipCurrentState w' = tipCurrentState w" and "transitioningState w' = transitioningState w"
proof -
  obtain v c where w': "w' = w\<lparr>validator := v, ctx := (ctx w)\<lparr>ctx_currentState := c\<rparr>\<rparr>"
    and v: "GetTip env v = GetTip env (validator w)"
    using assms unfolding same_session_def by metis
  show "ctx_transitioning (ctx w') = ctx_transitioning (ctx w)"
    "ctx_replaying (ctx w') = ctx_replaying (ctx w)"
    "ctx_tip (ctx w') = ctx_tip (ctx w)" "ctx_sighash (ctx w') = ctx_sighash (ctx w)"
    "ctx_guid (ctx w') = ctx_guid (ctx w)" "settings w' = settings w"
    "v2block w' = v2block w" "transitioning w' = transitioning w" "blocks w' = blocks w"
    "dealExpFixBlock w' = dealExpFixBlock w" "tip_of env w' = tip_of env w"
    "tipCurrentState w' = tipCurrentState w" "transitioningState w' = transitioningState w"
    using v by (simp_all add: w' tip_of_def)
qed

text \<open>
  A session in which the store works: the validator answers, and writes are withheld from it
  only while transitioning.
\<close>

definition session_ok :: "'v env \<Rightarrow> 'v world \<Rightarrow> bool" where
  "session_ok env w \<longleftrightarrow> validator_ok env \<and> (ctx_replaying (ctx w) \<longrightarrow> ctx_transitioning (ctx w))"

lemma session_same: "session_ok env w \<Longrightarrow> same_session env w w' \<Longrightarrow> session_ok env w'"
  by (simp add: session_ok_def same_session_simps)

lemma write_through:
  assumes "session_ok env w"
    and f: "f (validator w) = (Inr (), v)" "stored env v = write_all kvs (stored env (validator w))"
      "GetTip env v = GetTip env (validator w)"
  shows "\<exists>w'. bnd (modifies (\<lambda>w. if ctx_transitioning (ctx w) then set_current kvs w else w))
      (\<lambda>_. unless_replaying (on_validator f)) w = (Inr (), w') \<and>
    same_session env w w' \<and> view env w' = write_all kvs (view env w)"
proof (cases "ctx_transitioning (ctx w)")
  case True
  let ?w = "set_current kvs w" and ?v = "(set_current kvs w)\<lparr>validator := v\<rparr>"
  have "view env ?w = write_all kvs (view env w)" "view env ?v = view env ?w"
    using True by (simp_all add: view_set_current view_validator_update)
  moreover have "same_session env w ?w" "same_session env w ?v"
    using f(3) same_session_validator [of env v ?w] same_session_set_current
    by (auto intro: same_session_trans)
  moreover have "bnd (modifies (\<lambda>w. if ctx_transitioning (ctx w) then set_current kvs w else w))
      (\<lambda>_. unless_replaying (on_validator f)) w = (Inr (), if ctx_replaying (ctx w) then ?w else ?v)"
    using True f(1) by (simp add: act_run unless_replaying_def on_validator_def)
  ultimately show ?thesis by (cases "ctx_replaying (ctx w)") auto
next
  case False
  then have "\<not> ctx_replaying (ctx w)" using assms(1) by (simp add: session_ok_def)
  moreover have "view env (w\<lparr>validator := v\<rparr>) = write_all kvs (view env w)"
    using False f(2) by (simp add: view_validator fun_eq_iff)
      (metis (no_types) view_validator ext)
  ultimately show ?thesis using False f same_session_validator [OF f(3)]
    by (auto simp: act_run unless_replaying_def on_validator_def)
qed

lemma setStates_effect:
  assumes "session_ok env w"
  shows "\<exists>w'. setStates env kvs w = (Inr (), w') \<and> session_ok env w' \<and> same_session env w w' \<and>
    view env w' = write_all kvs (view env w)"
proof -
  have "validator_ok env" using assms by (simp add: session_ok_def)
  then obtain v where "SetState env kvs (validator w) = (Inr (), v)"
      "stored env v = write_all kvs (stored env (validator w))" "GetTip env v = GetTip env (validator w)"
    using validator_set [of env kvs "validator w"] by blast
  from write_through [where f = "SetState env kvs", OF assms this] obtain w' where
    "setStates env kvs w = (Inr (), w')" "same_session env w w'" "view env w' = write_all kvs (view env w)"
    unfolding setStates_def by (elim exE conjE)
  then show ?thesis using session_same [OF assms] by blast
qed

lemma setState_raw_effect:
  assumes "session_ok env w"
  shows "\<exists>w'. setState_raw env d k w = (Inr (), w') \<and> session_ok env w' \<and> same_session env w w' \<and>
    view env w' = (view env w)(k := d)"
  using setStates_effect [OF assms, of "[(k, d)]"] by (simp add: setStates_def setState_raw_def)

lemma deleteState_effect:
  assumes "session_ok env w"
  shows "\<exists>w'. deleteState env k w = (Inr (), w') \<and> session_ok env w' \<and> same_session env w w' \<and>
    view env w' = (view env w)(k := [])"
proof -
  have "validator_ok env" using assms by (simp add: session_ok_def)
  then obtain v where "DeleteState env k (validator w) = (Inr (), v)"
      "stored env v = write_all [(k, [])] (stored env (validator w))" "GetTip env v = GetTip env (validator w)"
    using validator_delete [of env k "validator w"] by auto
  from write_through [where f = "DeleteState env k", OF assms this] obtain w' where
    "deleteState env k w = (Inr (), w')" "same_session env w w'" "view env w' = (view env w)(k := [])"
    unfolding deleteState_def write_all.simps by (elim exE conjE)
  then show ?thesis using session_same [OF assms] by blast
qed

interpretation state: store "session_ok env" "same_session env" "view env" "getStateData env"
    "setStates env" "deleteState env" for env :: "'v env"
proof unfold_locales
  fix w :: "'v world" and k existing kvs
  assume w: "session_ok env w"
  then show "getStateData env k existing w =
      (if existing \<and> view env w k = [] then (Inl (InvalidTransaction (''Existing state expected '' @ k)), w)
       else (Inr (view env w k), w))"
    by (intro getStateData_eq) (simp add: session_ok_def)
  show "\<exists>w'. setStates env kvs w = (Inr (), w') \<and> session_ok env w' \<and> same_session env w w' \<and>
      view env w' = write_all kvs (view env w)"
    using w by (rule setStates_effect)
  show "\<exists>w'. deleteState env k w = (Inr (), w') \<and> session_ok env w' \<and> same_session env w w' \<and>
      view env w' = (view env w)(k := [])"
    using w by (rule deleteState_effect)
qed (auto intro: same_session_trans)

lemma lastBlockInt_eq:
  assumes "validator_ok env"
  shows "lastBlockInt env w = (Inr (tip_of env w), w)"
proof -
  obtain tip where "GetTip env (validator w) = Inr tip"
    using assms unfolding validator_ok_def by blast
  then show ?thesis by (simp add: lastBlockInt_def tip_of_def act_run)
qed

lemma lastBlock_eq: "validator_ok env \<Longrightarrow> lastBlock env w = (Inr (toString env (tip_of env w)), w)"
  by (simp add: lastBlock_def lastBlockInt_eq act_run)

end
