(* ===== verification/Ledger.thy ===== *)
theory Ledger
  imports World
begin

section \<open>Wallets, fees, gateways and rewards\<close>

text \<open>
  The private helpers of the \<open>Applicator\<close> that several transactions share: who signs, the
  fee of a transaction, the check of an external transfer by the gateways, the reward of a
  block, the settings.  A message is parsed without looking at the result of
  \<open>ParseFromString\<close>, so every parse yields a message.
\<close>

subsection \<open>Messages from state data\<close>

definition wallet_from :: "string \<Rightarrow> Wallet" where "wallet_from d = snd (Wallet_ParseFromString d)"
definition fee_from :: "string \<Rightarrow> Fee" where "fee_from d = snd (Fee_ParseFromString d)"
definition address_from :: "string \<Rightarrow> Address" where "address_from d = snd (Address_ParseFromString d)"
definition transfer_from :: "string \<Rightarrow> Transfer" where "transfer_from d = snd (Transfer_ParseFromString d)"
definition ask_from :: "string \<Rightarrow> AskOrder" where "ask_from d = snd (AskOrder_ParseFromString d)"
definition bid_from :: "string \<Rightarrow> BidOrder" where "bid_from d = snd (BidOrder_ParseFromString d)"
definition offer_from :: "string \<Rightarrow> Offer" where "offer_from d = snd (Offer_ParseFromString d)"
definition deal_from :: "string \<Rightarrow> DealOrder" where "deal_from d = snd (DealOrder_ParseFromString d)"
definition repayment_from :: "string \<Rightarrow> RepaymentOrder" where
  "repayment_from d = snd (RepaymentOrder_ParseFromString d)"

lemmas from_defs = wallet_from_def fee_from_def address_from_def transfer_from_def ask_from_def
  bid_from_def offer_from_def deal_from_def repayment_from_def

lemma from_serialized [simp]:
  "Wallet_wf a \<Longrightarrow> wallet_from (Wallet_SerializeToString a) = a"
  "Fee_wf b \<Longrightarrow> fee_from (Fee_SerializeToString b) = b"
  "Address_wf c \<Longrightarrow> address_from (Address_SerializeToString c) = c"
  "Transfer_wf d \<Longrightarrow> transfer_from (Transfer_SerializeToString d) = d"
  "AskOrder_wf e \<Longrightarrow> ask_from (AskOrder_SerializeToString e) = e"
  "BidOrder_wf f \<Longrightarrow> bid_from (BidOrder_SerializeToString f) = f"
  "Offer_wf g \<Longrightarrow> offer_from (Offer_SerializeToString g) = g"
  "DealOrder_wf h \<Longrightarrow> deal_from (DealOrder_SerializeToString h) = h"
  "RepaymentOrder_wf i \<Longrightarrow> repayment_from (RepaymentOrder_SerializeToString i) = i"
  by (simp_all add: from_defs wallet_codec.parsed fee_codec.parsed address_codec.parsed
      transfer_codec.parsed ask_codec.parsed bid_codec.parsed offer_codec.parsed deal_codec.parsed
      repayment_codec.parsed)

subsection \<open>Who signs, and which transaction it is\<close>

definition getSighash :: "'v env \<Rightarrow> ('v world, string) act" where
  "getSighash env = reads (\<lambda>w.
     if ctx_transitioning (ctx w) then Inr (ctx_sighash (ctx w))
     else sbnd (compress (txn_signer_public_key env)) (sha512id env))"

definition getGuid :: "'v env \<Rightarrow> ('v world, string) act" where
  "getGuid env = reads (\<lambda>w. Inr (if ctx_transitioning (ctx w) then ctx_guid (ctx w) else txn_nonce env))"

subsection \<open>The fee of a transaction\<close>

definition addFee :: "'v env \<Rightarrow> string \<Rightarrow> (string \<times> string) list \<Rightarrow> ('v world, (string \<times> string) list) act" where
  "addFee env sighash states =
     bnd (getGuid env) (\<lambda>guid.
     bnd (lift (makeAddress env FEE guid)) (\<lambda>feeId.
     bnd (lastBlock env) (\<lambda>block.
     ret (states @ [(feeId, Fee_SerializeToString (Fee_Clear\<lparr>fee_sighash := sighash, fee_block := block\<rparr>))]))))"

definition addFee_wallet ::
  "'v env \<Rightarrow> string \<Rightarrow> (string \<times> string) list \<Rightarrow> string \<Rightarrow> Wallet \<Rightarrow> ('v world, (string \<times> string) list) act" where
  "addFee_wallet env sighash states walletId wallet =
     bnd (addFee env sighash states) (\<lambda>states1.
     ret (states1 @ [(walletId, Wallet_SerializeToString wallet)]))"

definition charge :: "'v env \<Rightarrow> string \<Rightarrow> ('v world, string \<times> Wallet) act" where
  "charge env sighash =
     (let walletId = walletIdOf env sighash in
      bnd (getStateData env walletId True) (\<lambda>stateData.
      let wallet = wallet_from stateData in
      bnd (lift (bigint env (wallet_amount wallet))) (\<lambda>balance.
      bnd (throwIf (balance - TX_FEE < 0) ''Insufficient funds'') (\<lambda>_.
      ret (walletId, wallet\<lparr>wallet_amount := toString env (balance - TX_FEE)\<rparr>)))))"

definition credit :: "'v env \<Rightarrow> string \<Rightarrow> string \<Rightarrow> int \<Rightarrow> ('v world, Wallet) act" where
  \<comment> \<open>the wallet with an amount (and its text) added: a new wallet when there is no data\<close>
  "credit env stateData amountString amount =
     (if stateData = [] then ret (Wallet_Clear\<lparr>wallet_amount := amountString\<rparr>)
      else let wallet = wallet_from stateData in
        bnd (lift (bigint env (wallet_amount wallet))) (\<lambda>balance.
        ret (wallet\<lparr>wallet_amount := toString env (balance + amount)\<rparr>)))"

subsection \<open>Settings\<close>

definition apply_settings :: "'v env \<Rightarrow> string smap \<Rightarrow> 'v world \<Rightarrow> 'v world" where
  \<comment> \<open>the new settings are in force; a bad \<open>v2block\<close> throws, and the exception is swallowed\<close>
  "apply_settings env newSettings w =
     (let w1 = w\<lparr>settings := newSettings\<rparr>;
          w2 = (case map_find newSettings ''sawtooth.validator.gateway'' of
                  None \<Rightarrow> w1
                | Some a \<Rightarrow> w1\<lparr>externalGatewayAddress := if starts_with ''tcp://'' a then a else ''tcp://'' @ a\<rparr>)
      in case map_find newSettings ''creditcoin.v2block'' of
           None \<Rightarrow> w2
         | Some b \<Rightarrow> (case bigint env b of Inl e \<Rightarrow> w2 | Inr n \<Rightarrow> w2\<lparr>v2block := n\<rparr>))"

definition collect_settings :: "'v env \<Rightarrow> ('v \<times> string smap) lister" where
  "collect_settings env = (\<lambda>address protobuf.
     modifies (\<lambda>(v, m). (v, map_set_all m (read_settings env protobuf))))"

definition doUpdateSettings :: "'v env \<Rightarrow> ('v world, unit) act" where
  "doUpdateSettings env = (\<lambda>w.
     if transitioning w then
       (if asserts env then (Inl (Aborted ''assert''), w)
        else (case forEach (overlay_entries (w\<lparr>ctx := new_Ctx True\<rparr>) ''000000'')
                (\<lambda>(k, d). collect_settings env k d) (validator w, []) of
          (_, (_, m)) \<Rightarrow> (Inr (), apply_settings env m w)))
     else (case filter_pages env fst ''000000'' (collect_settings env) [] [] (validator w, []) of
       None \<Rightarrow> (Inl (Aborted ''filter''), w)
     | Some (Inl (Aborted m), _) \<Rightarrow> (Inl (Aborted m), w)
     | Some (Inl e, _) \<Rightarrow> (Inr (), w)
     | Some (Inr _, (_, m)) \<Rightarrow> (Inr (), apply_settings env m w)))"

definition verifyGatewaySigner :: "'v env \<Rightarrow> ('v world, unit) act" where
  "verifyGatewaySigner env = (\<lambda>w.
     if transitioning w then (Inr (), w)
     else bnd (getSighash env) (\<lambda>mySighash.
          bnd (\<lambda>w. case map_find (settings w) ''sawtooth.gateway.sighash'' of
                 Some _ \<Rightarrow> (Inr (), w) | None \<Rightarrow> doUpdateSettings env w) (\<lambda>_.
          bnd (reads (\<lambda>w. case map_find (settings w) ''sawtooth.gateway.sighash'' of
                 None \<Rightarrow> Inl (InvalidTransaction ''Gateway sighash is not configured'') | Some s \<Rightarrow> Inr s)) (\<lambda>setting.
          throwIf (mySighash \<noteq> setting) ''Only gateway sighash can perform this operation''))) w)"

subsection \<open>Asking the gateways\<close>

definition verify :: "'v env \<Rightarrow> string \<Rightarrow> ('v world, unit) act" where
  "verify env gatewayCommand = (\<lambda>w.
     if transitioning w then (Inr (), w)
     else bnd (reads (\<lambda>w. local_gateway env (validator w) gatewayCommand)) (\<lambda>response.
          bnd (reads (\<lambda>w.
            if (response = [] \<or> response = ''miss'') \<and> externalGatewayAddress w \<noteq> []
            then sbnd (external_gateway env (validator w) (externalGatewayAddress w) gatewayCommand)
                   (\<lambda>reply. Inr (case reply of None \<Rightarrow> response | Some r \<Rightarrow> r))
            else Inr response)) (\<lambda>response1.
          throwIf (response1 \<noteq> ''good'') ''Couldn't validate the transaction'')) w)"

subsection \<open>Rewards\<close>

definition find_dot :: "string \<Rightarrow> nat" where
  \<comment> \<open>std::string::find('.'), npos when there is none\<close>
  "find_dot s = (if CHR ''.'' \<in> set s then length (takeWhile (\<lambda>c. c \<noteq> CHR ''.'') s) else 2 ^ 64 - 1)"

definition pad_right :: "nat \<Rightarrow> string \<Rightarrow> string" where
  \<comment> \<open>std::left, std::setfill('0'), std::setw(n)\<close>
  "pad_right n s = s @ replicate (n - length s) CHR ''0''"

definition fractionInWei :: "string \<Rightarrow> string" where
  "fractionInWei s =
     (let pos = find_dot s in
      if s = [] \<or> hd s \<noteq> CHR ''0'' then take pos s @ pad_right 18 (drop (Suc pos mod 2 ^ 64) s)
      else let pos = 2 + length (takeWhile (\<lambda>c. c = CHR ''0'') (drop 2 s))
           in pad_right (20 - pos) (drop pos s))"

definition award :: "'v env \<Rightarrow> bool \<Rightarrow> int \<Rightarrow> string \<Rightarrow> ('v world, unit) act" where
  "award env newFormula blockIdx signer =
     bnd (if newFormula then
            (let fraction = pow_fixed env (to_int env (blockIdx sdiv BLOCKS_IN_PERIOD_UPDATE1)) in
             if asserts env \<and> find_dot fraction = 0 then throw (Aborted ''assert'')
             else (case read_cpp_int env (fractionInWei fraction) of
                     None \<Rightarrow> throw (StdException ''cpp_int'')
                   | Some n \<Rightarrow> ret (28 * n, toString env (28 * n))))
          else ret (REWARD_AMOUNT, REWARD_AMOUNT_STRING)) (\<lambda>(reward, rewardString).
     if reward > 0 then
       bnd (lift (sha512id env signer)) (\<lambda>signerSighash.
       let walletId = walletIdOf env signerSighash in
       bnd (getStateData env walletId False) (\<lambda>stateData.
       bnd (credit env stateData rewardString reward) (\<lambda>wallet.
       setStates env [(walletId, Wallet_SerializeToString wallet)])))
     else ret ())"

definition award_block :: "'v env \<Rightarrow> bool \<Rightarrow> int \<Rightarrow> ('v world, unit) act" where
  \<comment> \<open>the signer of \<open>blocks[idx]\<close>; an index out of range is undefined behaviour\<close>
  "award_block env newFormula i =
     (let idx = to_int env i in
      bnd (reads (\<lambda>w. if 0 \<le> idx \<and> nat idx < length (blocks w) then Inr (block_signer (blocks w ! nat idx))
                     else Inl (Aborted ''blocks[idx]''))) (award env newFormula i))"

definition to_rpc_failure :: "err + 'a \<Rightarrow> err + 'a" where
  \<comment> \<open>catch (...) throw sawtooth::InvalidTransaction(RPC_FAILURE)\<close>
  "to_rpc_failure r = (case r of Inl (StdException m) \<Rightarrow> Inl (InvalidTransaction ''Failed to process RPC response'') | _ \<Rightarrow> r)"

definition reward_transitioning :: "'v env \<Rightarrow> int \<Rightarrow> int \<Rightarrow> ('v world, unit) act" where
  "reward_transitioning env processedBlockIdx uptoBlockIdx =
     bnd (reads (\<lambda>w. Inr (ctx_tip (ctx w)))) (\<lambda>tip.
     let updateBlock = if 278890 \<le> tip \<and> tip \<le> 278904 then 277800 else 278910;
         newFormula = updateBlock + 500 < processedBlockIdx
     in forEach (rev [processedBlockIdx + 1 .. uptoBlockIdx]) (award_block env newFormula))"

definition reward_normal :: "'v env \<Rightarrow> int \<Rightarrow> int \<Rightarrow> ('v world, unit) act" where
  "reward_normal env processedBlockIdx uptoBlockIdx =
     bnd (reads (\<lambda>w. case map_find (settings w) ''sawtooth.validator.update1'' of
            None \<Rightarrow> Inr False
          | Some s \<Rightarrow> sbnd (bigint env s) (\<lambda>updateBlock. Inr (updateBlock + 500 < processedBlockIdx)))) (\<lambda>newFormula.
     let lastBlockIdx = if uptoBlockIdx = 0 then processedBlockIdx + BLOCK_REWARD_PROCESSING_COUNT else uptoBlockIdx in
     if txn_block_signature env = [] then
       forEach [processedBlockIdx + 1 .. lastBlockIdx] (\<lambda>i.
         bnd (reads (\<lambda>w. GetSigByNum env (validator w) (to_uint64 env i))) (award env newFormula i))
     else
       bnd (reads (\<lambda>w. GetRewardBlockSignatures env (validator w) (txn_block_signature env)
              (to_uint64 env lastBlockIdx) (to_uint64 env (processedBlockIdx + 1)))) (\<lambda>signatures.
       forEach (zip [processedBlockIdx + 1 .. processedBlockIdx + int (length signatures)] signatures)
         (\<lambda>(i, signature). award env newFormula i signature)))"

definition reward :: "'v env \<Rightarrow> int \<Rightarrow> int \<Rightarrow> ('v world, unit) act" where
  "reward env processedBlockIdx uptoBlockIdx = (\<lambda>w.
     if asserts env \<and> \<not> (uptoBlockIdx = 0 \<or> uptoBlockIdx > processedBlockIdx) then (Inl (Aborted ''assert''), w)
     else case (if ctx_transitioning (ctx w) then reward_transitioning env processedBlockIdx uptoBlockIdx w
                else reward_normal env processedBlockIdx uptoBlockIdx w) of
       (r, w1) \<Rightarrow> (to_rpc_failure r, w1))"

subsection \<open>Compound interest\<close>

function calcInterest_loop :: "int \<Rightarrow> int \<Rightarrow> int \<Rightarrow> int \<Rightarrow> int" where
  "calcInterest_loop i ticks interest amt =
     (if i < ticks then calcInterest_loop (i + 1) ticks interest (amt + (amt * interest) sdiv INTEREST_MULTIPLIER)
      else amt)"
  by pat_completeness auto
termination by (relation "measure (\<lambda>(i, ticks, _, _). nat (ticks - i))") auto

declare calcInterest_loop.simps [simp del]

definition calcInterest :: "int \<Rightarrow> int \<Rightarrow> int \<Rightarrow> int" where
  "calcInterest amount ticks interest = calcInterest_loop 0 ticks interest amount"

end
