(* ===== verification/Transactions.thy ===== *)
theory Transactions
  imports Ledger
begin

section \<open>The transactions of the loan market\<close>

text \<open>
  One definition per handler of \<open>class Applicator\<close>, in the order of the code: the
  parameters of the query are read, the state is read, each condition that rejects the
  transaction is a \<open>throwIf\<close> with its message, and one \<open>setState\<close> writes the result.
\<close>

subsection \<open>Coins and addresses\<close>

definition SendFunds :: "'v env \<Rightarrow> json \<Rightarrow> ('v world, unit) act" where
  "SendFunds env query =
     bnd (lift (query_bigint env query ''p1'' ''amount'')) (\<lambda>(amountString, amount).
     bnd (lift (getStringLower env query ''p2'' ''sighash'')) (\<lambda>sighash.
     bnd (getSighash env) (\<lambda>mySighash.
     bnd (throwIf (sighash = mySighash) ''Invalid destination'') (\<lambda>_.
     let srcWalletId = walletIdOf env mySighash in
     bnd (getStateData env srcWalletId True) (\<lambda>stateData.
     let srcWallet = wallet_from stateData in
     bnd (lift (bigint env (wallet_amount srcWallet))) (\<lambda>srcBalance.
     bnd (throwIf (srcBalance < amount + TX_FEE) ''Insufficient funds'') (\<lambda>_.
     let srcWallet = srcWallet\<lparr>wallet_amount := toString env (srcBalance - (amount + TX_FEE))\<rparr>;
         dstWalletId = walletIdOf env sighash in
     bnd (getStateData env dstWalletId False) (\<lambda>stateData.
     bnd (credit env stateData amountString amount) (\<lambda>dstWallet.
     bnd (addFee_wallet env mySighash [(dstWalletId, Wallet_SerializeToString dstWallet)] srcWalletId srcWallet) (\<lambda>states.
     setStates env states))))))))))"

definition RegisterAddress :: "'v env \<Rightarrow> json \<Rightarrow> ('v world, unit) act" where
  "RegisterAddress env query =
     bnd (lift (getStringLower env query ''p1'' ''blockchain'')) (\<lambda>blockchain.
     bnd (lift (query_string env query ''p2'' ''address'')) (\<lambda>addressString.
     bnd (lift (getStringLower env query ''p3'' ''network'')) (\<lambda>network.
     let addressStringLower = to_lower env addressString in
     bnd (getSighash env) (\<lambda>mySighash.
     bnd (charge env mySighash) (\<lambda>(walletId, wallet).
     bnd (lift (makeAddress env ADDR (blockchain @ addressStringLower @ network))) (\<lambda>idn.
     bnd (getStateData env idn False) (\<lambda>stateData.
     bnd (throwIf (stateData \<noteq> []) ''The address has been already registered'') (\<lambda>_.
     let address = Address_Clear\<lparr>address_blockchain := blockchain, address_value := addressString,
           address_network := network, address_sighash := mySighash\<rparr> in
     bnd (addFee env mySighash
       [(idn, Address_SerializeToString address), (walletId, Wallet_SerializeToString wallet)]) (\<lambda>states.
     setStates env states)))))))))"

text \<open>The order a transfer pays, its two addresses and the amount agreed on.\<close>

definition transfer_parties ::
  "'v env \<Rightarrow> string \<Rightarrow> int \<Rightarrow> string \<Rightarrow> err + (string \<times> string \<times> string)" where
  "transfer_parties env orderId gain stateData =
     (if boost_starts_with env orderId (namespacePrefix env @ DEAL_ORDER) then
        let order = deal_from stateData in
        Inr (if gain = 0 then (deal_src_address order, deal_dst_address order, deal_amount order)
             else (deal_dst_address order, deal_src_address order, deal_amount order))
      else if boost_starts_with env orderId (namespacePrefix env @ REPAYMENT_ORDER) then
        if gain \<noteq> 0 then Inl (InvalidTransaction ''gain must be 0 for repayment orders'')
        else let order = repayment_from stateData in
          Inr (repayment_src_address order, repayment_dst_address order, repayment_amount order)
      else Inl (InvalidTransaction ''unexpected referred order''))"

definition gateway_command ::
  "Address \<Rightarrow> Address \<Rightarrow> string \<Rightarrow> string \<Rightarrow> string \<Rightarrow> string" where
  "gateway_command srcAddress dstAddress orderId amountString blockchainTxId =
     address_blockchain srcAddress @ '' verify '' @ address_value srcAddress @ '' '' @
     address_value dstAddress @ '' '' @ orderId @ '' '' @ amountString @ '' '' @ blockchainTxId @ '' '' @
     address_network srcAddress"

definition RegisterTransfer :: "'v env \<Rightarrow> json \<Rightarrow> ('v world, unit) act" where
  "RegisterTransfer env query =
     bnd (getSighash env) (\<lambda>mySighash.
     bnd (charge env mySighash) (\<lambda>(walletId, wallet).
     bnd (lift (query_string env query ''p1'' ''gain'')) (\<lambda>gainString.
     bnd (lift (getBigint env gainString True)) (\<lambda>gain.
     bnd (lift (getStringLower env query ''p2'' ''orderId'')) (\<lambda>orderId.
     bnd (lift (getStringLower env query ''p3'' ''blockchainTxId'')) (\<lambda>blockchainTxId.
     bnd (getStateData env orderId True) (\<lambda>stateData.
     bnd (lift (transfer_parties env orderId gain stateData)) (\<lambda>(srcAddressId, dstAddressId, amountString).
     bnd (getStateData env srcAddressId True) (\<lambda>stateData.
     let srcAddress = address_from stateData in
     bnd (getStateData env dstAddressId True) (\<lambda>stateData.
     let dstAddress = address_from stateData in
     bnd (throwIf (address_sighash srcAddress \<noteq> mySighash) ''Only the owner can register'') (\<lambda>_.
     bnd (throwIf (address_blockchain dstAddress \<noteq> address_blockchain srcAddress)
       ''Source and destination addresses must be on the same blockchain'') (\<lambda>_.
     bnd (throwIf (address_network dstAddress \<noteq> address_network srcAddress)
       ''Source and destination addresses must be on the same network'') (\<lambda>_.
     bnd (lift (makeAddress env TRANSFER
       (address_blockchain srcAddress @ blockchainTxId @ address_network srcAddress))) (\<lambda>transferId.
     bnd (getStateData env transferId False) (\<lambda>stateData.
     bnd (throwIf (stateData \<noteq> []) ''The transfer has been already registered'') (\<lambda>_.
     bnd (if blockchainTxId = ''0'' then ret ''0''
          else bnd (lift (bigint env amountString)) (\<lambda>amount.
               let amountString = toString env (amount + gain) in
               bnd (verify env (gateway_command srcAddress dstAddress orderId amountString blockchainTxId)) (\<lambda>_.
               ret amountString))) (\<lambda>amountString.
     bnd (lastBlock env) (\<lambda>block.
     let transfer = Transfer_Clear\<lparr>transfer_blockchain := address_blockchain srcAddress,
           transfer_src_address := srcAddressId, transfer_dst_address := dstAddressId,
           transfer_order := orderId, transfer_amount := amountString, transfer_tx := blockchainTxId,
           transfer_block := block, transfer_processed := False, transfer_sighash := mySighash\<rparr> in
     bnd (addFee_wallet env mySighash [(transferId, Transfer_SerializeToString transfer)] walletId wallet) (\<lambda>states.
     setStates env states)))))))))))))))))))"

definition CollectCoins :: "'v env \<Rightarrow> json \<Rightarrow> ('v world, unit) act" where
  "CollectCoins env query =
     bnd (lift (getStringLower env query ''p1'' ''ethAddress'')) (\<lambda>ethAddress.
     bnd (lift (query_bigint env query ''p2'' ''amount'')) (\<lambda>(amountString, amount).
     bnd (lift (getStringLower env query ''p3'' ''blockchainTxId'')) (\<lambda>blockchainTxId.
     bnd (lift (makeAddress env ERC20 blockchainTxId)) (\<lambda>idn.
     bnd (getStateData env idn False) (\<lambda>stateData.
     bnd (throwIf (stateData \<noteq> []) ''Already collected'') (\<lambda>_.
     bnd (getSighash env) (\<lambda>mySighash.
     bnd (verify env (''ethereum verify '' @ ethAddress @ '' creditcoin '' @ mySighash @ '' '' @
       amountString @ '' '' @ blockchainTxId @ '' unused'')) (\<lambda>_.
     let walletId = walletIdOf env mySighash in
     bnd (getStateData env walletId False) (\<lambda>stateData.
     bnd (credit env stateData amountString amount) (\<lambda>wallet.
     setStates env [(walletId, Wallet_SerializeToString wallet), (idn, amountString)]))))))))))"

subsection \<open>Orders\<close>

definition AddAskOrder :: "'v env \<Rightarrow> json \<Rightarrow> ('v world, unit) act" where
  "AddAskOrder env query =
     bnd (getSighash env) (\<lambda>mySighash.
     bnd (charge env mySighash) (\<lambda>(walletId, wallet).
     bnd (lift (getStringLower env query ''p1'' ''addressId'')) (\<lambda>addressId.
     bnd (lift (query_bigint env query ''p2'' ''amount'')) (\<lambda>(amountString, _).
     bnd (lift (query_bigint env query ''p3'' ''interest'')) (\<lambda>(interest, _).
     bnd (lift (query_bigint env query ''p4'' ''maturity'')) (\<lambda>(maturity, _).
     bnd (lift (query_bigint env query ''p5'' ''fee'')) (\<lambda>(fee, _).
     bnd (lift (query_uint64 env query ''p6'' ''expiration'')) (\<lambda>expiration.
     bnd (getGuid env) (\<lambda>guid.
     bnd (lift (makeAddress env ASK_ORDER guid)) (\<lambda>idn.
     bnd (getStateData env idn False) (\<lambda>stateData.
     bnd (throwIf (stateData \<noteq> []) ''Duplicate id'') (\<lambda>_.
     bnd (getStateData env addressId True) (\<lambda>stateData.
     let address = address_from stateData in
     bnd (throwIf (address_sighash address \<noteq> mySighash) ''The address doesn't belong to the party'') (\<lambda>_.
     bnd (lastBlock env) (\<lambda>block.
     let askOrder = AskOrder_Clear\<lparr>ask_blockchain := address_blockchain address, ask_address := addressId,
           ask_amount := amountString, ask_interest := interest, ask_maturity := maturity, ask_fee := fee,
           ask_expiration := expiration, ask_block := block, ask_sighash := mySighash\<rparr> in
     bnd (addFee_wallet env mySighash [(idn, AskOrder_SerializeToString askOrder)] walletId wallet) (\<lambda>states.
     setStates env states))))))))))))))))"

definition AddBidOrder :: "'v env \<Rightarrow> json \<Rightarrow> ('v world, unit) act" where
  "AddBidOrder env query =
     bnd (getSighash env) (\<lambda>mySighash.
     bnd (charge env mySighash) (\<lambda>(walletId, wallet).
     bnd (lift (getStringLower env query ''p1'' ''addressId'')) (\<lambda>addressId.
     bnd (lift (query_bigint env query ''p2'' ''amount'')) (\<lambda>(amountString, _).
     bnd (lift (query_bigint env query ''p3'' ''interest'')) (\<lambda>(interest, _).
     bnd (lift (query_bigint env query ''p4'' ''maturity'')) (\<lambda>(maturity, _).
     bnd (lift (query_bigint env query ''p5'' ''fee'')) (\<lambda>(fee, _).
     bnd (lift (query_uint64 env query ''p6'' ''expiration'')) (\<lambda>expiration.
     bnd (getGuid env) (\<lambda>guid.
     bnd (lift (makeAddress env BID_ORDER guid)) (\<lambda>idn.
     bnd (getStateData env idn False) (\<lambda>stateData.
     bnd (throwIf (stateData \<noteq> []) ''Duplicate id'') (\<lambda>_.
     bnd (getStateData env addressId True) (\<lambda>stateData.
     let address = address_from stateData in
     bnd (throwIf (address_sighash address \<noteq> mySighash) ''The address doesn't belong to the party'') (\<lambda>_.
     bnd (lastBlock env) (\<lambda>block.
     let bidOrder = BidOrder_Clear\<lparr>bid_blockchain := address_blockchain address, bid_address := addressId,
           bid_amount := amountString, bid_interest := interest, bid_maturity := maturity, bid_fee := fee,
           bid_expiration := expiration, bid_block := block, bid_sighash := mySighash\<rparr> in
     bnd (addFee_wallet env mySighash [(idn, BidOrder_SerializeToString bidOrder)] walletId wallet) (\<lambda>states.
     setStates env states))))))))))))))))"

definition order_expired :: "'v env \<Rightarrow> string \<Rightarrow> 64 word \<Rightarrow> int \<Rightarrow> err + bool" where
  \<comment> \<open>start = getBigint(block); elapsed = head - start; expiration < elapsed\<close>
  "order_expired env block expiration head =
     sbnd (bigint env block) (\<lambda>start. Inr (uint expiration < head - start))"

definition rate :: "'v env \<Rightarrow> string \<Rightarrow> string \<Rightarrow> err + int" where
  \<comment> \<open>getBigint(interest) / getBigint(maturity)\<close>
  "rate env interest maturity =
     sbnd (bigint env interest) (\<lambda>i. sbnd (bigint env maturity) (\<lambda>m. cpp_div i m))"

definition orders_mismatch :: "'v env \<Rightarrow> AskOrder \<Rightarrow> BidOrder \<Rightarrow> err + bool" where
  \<comment> \<open>the fees are compared as strings\<close>
  "orders_mismatch env askOrder bidOrder =
     (if ask_amount askOrder \<noteq> bid_amount bidOrder \<or> ask_fee askOrder > bid_fee bidOrder then Inr True
      else sbnd (rate env (ask_interest askOrder) (ask_maturity askOrder)) (\<lambda>a.
           sbnd (rate env (bid_interest bidOrder) (bid_maturity bidOrder)) (\<lambda>b. Inr (a > b))))"

definition AddOffer :: "'v env \<Rightarrow> json \<Rightarrow> ('v world, unit) act" where
  "AddOffer env query =
     bnd (getSighash env) (\<lambda>mySighash.
     bnd (charge env mySighash) (\<lambda>(walletId, wallet).
     bnd (lift (getStringLower env query ''p1'' ''askOrderId'')) (\<lambda>askOrderId.
     bnd (lift (getStringLower env query ''p2'' ''bidOrderId'')) (\<lambda>bidOrderId.
     bnd (lift (query_uint64 env query ''p3'' ''expiration'')) (\<lambda>expiration.
     bnd (lift (makeAddress env OFFER (askOrderId @ bidOrderId))) (\<lambda>idn.
     bnd (getStateData env idn False) (\<lambda>stateData.
     bnd (throwIf (stateData \<noteq> []) ''Duplicate id'') (\<lambda>_.
     bnd (getStateData env askOrderId True) (\<lambda>stateData.
     let askOrder = ask_from stateData in
     bnd (throwIf (ask_sighash askOrder \<noteq> mySighash) ''Only an investor can add an offer'') (\<lambda>_.
     bnd (lastBlockInt env) (\<lambda>head.
     bnd (lift (order_expired env (ask_block askOrder) (ask_expiration askOrder) head)) (\<lambda>expired.
     bnd (throwIf expired ''The order has expired'') (\<lambda>_.
     bnd (getStateData env (ask_address askOrder) True) (\<lambda>stateData.
     let srcAddress = address_from stateData in
     bnd (getStateData env bidOrderId True) (\<lambda>stateData.
     let bidOrder = bid_from stateData in
     bnd (throwIf (bid_sighash bidOrder = mySighash) ''The ask and bid orders are from the same party'') (\<lambda>_.
     bnd (lift (order_expired env (bid_block bidOrder) (bid_expiration bidOrder) head)) (\<lambda>expired.
     bnd (throwIf expired ''The order has expired'') (\<lambda>_.
     bnd (getStateData env (bid_address bidOrder) True) (\<lambda>stateData.
     let dstAddress = address_from stateData in
     bnd (throwIf (address_blockchain srcAddress \<noteq> address_blockchain dstAddress \<or>
         address_network srcAddress \<noteq> address_network dstAddress)
       ''The ask and bid orders must be on the same blockchain and network'') (\<lambda>_.
     bnd (lift (orders_mismatch env askOrder bidOrder)) (\<lambda>mismatch.
     bnd (throwIf mismatch ''The ask and bid orders do not match'') (\<lambda>_.
     bnd (lastBlock env) (\<lambda>block.
     let offer = Offer_Clear\<lparr>offer_blockchain := address_blockchain srcAddress, offer_ask_order := askOrderId,
           offer_bid_order := bidOrderId, offer_expiration := expiration, offer_block := block,
           offer_sighash := mySighash\<rparr> in
     bnd (addFee_wallet env mySighash
       [(idn, stateData), (idn, Offer_SerializeToString offer)] walletId wallet) (\<lambda>states.
     setStates env states))))))))))))))))))))))))"

subsection \<open>Deals\<close>

definition AddDealOrder :: "'v env \<Rightarrow> json \<Rightarrow> ('v world, unit) act" where
  "AddDealOrder env query =
     bnd (lift (getStringLower env query ''p1'' ''offerId'')) (\<lambda>offerId.
     bnd (lift (query_uint64 env query ''p2'' ''expiration'')) (\<lambda>expiration.
     bnd (lift (makeAddress env DEAL_ORDER offerId)) (\<lambda>idn.
     bnd (getStateData env idn False) (\<lambda>stateData.
     bnd (throwIf (stateData \<noteq> []) ''Duplicate id'') (\<lambda>_.
     bnd (getSighash env) (\<lambda>mySighash.
     bnd (getStateData env offerId True) (\<lambda>stateData.
     let offer = offer_from stateData in
     bnd (lastBlockInt env) (\<lambda>head.
     bnd (lift (order_expired env (offer_block offer) (offer_expiration offer) head)) (\<lambda>expired.
     bnd (throwIf expired ''The order has expired'') (\<lambda>_.
     bnd (getStateData env (offer_bid_order offer) True) (\<lambda>stateData.
     let bidOrder = bid_from stateData in
     bnd (throwIf (bid_sighash bidOrder \<noteq> mySighash) ''Only a fundraiser can add a deal order'') (\<lambda>_.
     bnd (getStateData env (offer_ask_order offer) True) (\<lambda>stateData.
     let askOrder = ask_from stateData;
         walletId = walletIdOf env mySighash in
     bnd (getStateData env walletId True) (\<lambda>stateData.
     let wallet = wallet_from stateData in
     bnd (lift (bigint env (wallet_amount wallet))) (\<lambda>balance.
     bnd (lift (bigint env (bid_fee bidOrder))) (\<lambda>bidFee.
     bnd (throwIf (balance < bidFee + TX_FEE) ''Insufficient funds'') (\<lambda>_.
     let wallet = wallet\<lparr>wallet_amount := toString env (balance - (bidFee + TX_FEE))\<rparr> in
     bnd (lastBlock env) (\<lambda>block.
     let dealOrder = DealOrder_Clear\<lparr>deal_blockchain := offer_blockchain offer,
           deal_src_address := ask_address askOrder, deal_dst_address := bid_address bidOrder,
           deal_amount := bid_amount bidOrder, deal_interest := bid_interest bidOrder,
           deal_maturity := bid_maturity bidOrder, deal_fee := bid_fee bidOrder,
           deal_expiration := expiration, deal_block := block, deal_sighash := mySighash\<rparr> in
     bnd (addFee_wallet env mySighash [(idn, DealOrder_SerializeToString dealOrder)] walletId wallet) (\<lambda>states.
     bnd (setStates env states) (\<lambda>_.
     bnd (deleteState env (offer_ask_order offer)) (\<lambda>_.
     bnd (deleteState env (offer_bid_order offer)) (\<lambda>_.
     deleteState env offerId))))))))))))))))))))))"

end
