(* ===== verification/Deals.thy ===== *)
theory Deals
  imports Transactions
begin

section \<open>The life of a deal and its resale\<close>

text \<open>
  The handlers that complete, lock, close and exempt a deal, and those of the repayment
  order, by which an investor sells a running loan: the collector pays the investor, the
  deal gets the collector's address and is unlocked.
\<close>

definition CompleteDealOrder :: "'v env \<Rightarrow> json \<Rightarrow> ('v world, unit) act" where
  "CompleteDealOrder env query =
     bnd (lift (getStringLower env query ''p1'' ''dealOrderId'')) (\<lambda>dealOrderId.
     bnd (lift (getStringLower env query ''p2'' ''transferId'')) (\<lambda>transferId.
     bnd (getSighash env) (\<lambda>mySighash.
     bnd (getStateData env dealOrderId True) (\<lambda>stateData.
     let dealOrder = deal_from stateData in
     bnd (throwIf (deal_loan_transfer dealOrder \<noteq> []) ''The deal has been already completed'') (\<lambda>_.
     bnd (getStateData env (deal_src_address dealOrder) True) (\<lambda>stateData.
     let srcAddress = address_from stateData in
     bnd (throwIf (address_sighash srcAddress \<noteq> mySighash) ''Only an investor can complete a deal'') (\<lambda>_.
     bnd (lastBlockInt env) (\<lambda>head.
     bnd (lift (order_expired env (deal_block dealOrder) (deal_expiration dealOrder) head)) (\<lambda>expired.
     bnd (throwIf expired ''The order has expired'') (\<lambda>_.
     bnd (getStateData env transferId True) (\<lambda>stateData.
     let transfer = transfer_from stateData in
     bnd (throwIf (transfer_order transfer \<noteq> dealOrderId \<or> transfer_amount transfer \<noteq> deal_amount dealOrder)
       ''The transfer doesn't match the deal order'') (\<lambda>_.
     bnd (throwIf (transfer_sighash transfer \<noteq> mySighash) ''The transfer doesn't match the signer'') (\<lambda>_.
     bnd (throwIf (transfer_processed transfer) ''The transfer has been already processed'') (\<lambda>_.
     let transfer = transfer\<lparr>transfer_processed := True\<rparr>;
         walletId = walletIdOf env mySighash in
     bnd (getStateData env walletId True) (\<lambda>stateData.
     bnd (lift (bigint env (deal_fee dealOrder))) (\<lambda>dealFee.
     let fee = dealFee - TX_FEE in
     bnd (if stateData = [] then
            bnd (throwIf (fee < 0) ''Insufficient funds'') (\<lambda>_.
            ret (Wallet_Clear\<lparr>wallet_amount := toString env fee\<rparr>))
          else let wallet = wallet_from stateData in
            bnd (lift (bigint env (wallet_amount wallet))) (\<lambda>balance.
            bnd (throwIf (balance + fee < 0) ''Insufficient funds'') (\<lambda>_.
            ret (wallet\<lparr>wallet_amount := toString env (balance + fee)\<rparr>)))) (\<lambda>wallet.
     bnd (lastBlock env) (\<lambda>block.
     let dealOrder = dealOrder\<lparr>deal_loan_transfer := transferId, deal_block := block\<rparr> in
     bnd (addFee_wallet env mySighash
       [(dealOrderId, DealOrder_SerializeToString dealOrder), (transferId, Transfer_SerializeToString transfer)]
       walletId wallet) (\<lambda>states.
     setStates env states)))))))))))))))))))"

definition LockDealOrder :: "'v env \<Rightarrow> json \<Rightarrow> ('v world, unit) act" where
  "LockDealOrder env query =
     bnd (getSighash env) (\<lambda>mySighash.
     bnd (charge env mySighash) (\<lambda>(walletId, wallet).
     bnd (lift (getStringLower env query ''p1'' ''dealOrderId'')) (\<lambda>dealOrderId.
     bnd (getStateData env dealOrderId True) (\<lambda>stateData.
     let dealOrder = deal_from stateData in
     bnd (throwIf (deal_lock dealOrder \<noteq> []) ''The deal has been already locked'') (\<lambda>_.
     bnd (throwIf (deal_loan_transfer dealOrder = []) ''The deal has not been completed yet'') (\<lambda>_.
     bnd (throwIf (mySighash \<noteq> deal_sighash dealOrder) ''Only a fundraiser can lock a deal'') (\<lambda>_.
     let dealOrder = dealOrder\<lparr>deal_lock := mySighash\<rparr> in
     bnd (addFee_wallet env mySighash [(dealOrderId, DealOrder_SerializeToString dealOrder)] walletId wallet) (\<lambda>states.
     setStates env states))))))))"

definition CloseDealOrder :: "'v env \<Rightarrow> json \<Rightarrow> ('v world, unit) act" where
  "CloseDealOrder env query =
     bnd (getSighash env) (\<lambda>mySighash.
     bnd (charge env mySighash) (\<lambda>(walletId, wallet).
     bnd (lift (getStringLower env query ''p1'' ''dealOrderId'')) (\<lambda>dealOrderId.
     bnd (lift (getStringLower env query ''p2'' ''transferId'')) (\<lambda>transferId.
     bnd (getStateData env dealOrderId True) (\<lambda>stateData.
     let dealOrder = deal_from stateData in
     bnd (throwIf (deal_repayment_transfer dealOrder \<noteq> []) ''The deal has been already closed'') (\<lambda>_.
     bnd (throwIf (mySighash \<noteq> deal_sighash dealOrder) ''Only a fundraiser can close a deal'') (\<lambda>_.
     bnd (throwIf (deal_lock dealOrder \<noteq> mySighash) ''The deal must be locked first'') (\<lambda>_.
     bnd (getStateData env transferId True) (\<lambda>stateData.
     let repaymentTransfer = transfer_from stateData in
     bnd (throwIf (transfer_order repaymentTransfer \<noteq> dealOrderId) ''The transfer doesn't match the order'') (\<lambda>_.
     bnd (throwIf (transfer_sighash repaymentTransfer \<noteq> mySighash) ''The transfer doesn't match the signer'') (\<lambda>_.
     bnd (throwIf (transfer_processed repaymentTransfer) ''The transfer has been already processed'') (\<lambda>_.
     bnd (getStateData env (deal_loan_transfer dealOrder) True) (\<lambda>stateData.
     let loanTransfer = transfer_from stateData in
     bnd (lastBlockInt env) (\<lambda>head.
     bnd (lift (bigint env (transfer_block loanTransfer))) (\<lambda>start.
     bnd (lift (bigint env (deal_maturity dealOrder))) (\<lambda>maturity.
     bnd (lift (cpp_div ((head - start) + maturity) maturity)) (\<lambda>ticks.
     bnd (lift (bigint env (deal_amount dealOrder))) (\<lambda>principal.
     bnd (lift (bigint env (deal_interest dealOrder))) (\<lambda>interest.
     bnd (lift (bigint env (transfer_amount repaymentTransfer))) (\<lambda>repaid.
     bnd (throwIf (repaid < calcInterest principal ticks interest) ''The transfer doesn't match the order'') (\<lambda>_.
     bnd (addFee_wallet env mySighash
       [(dealOrderId, DealOrder_SerializeToString (dealOrder\<lparr>deal_repayment_transfer := transferId\<rparr>)),
        (transferId, Transfer_SerializeToString (repaymentTransfer\<lparr>transfer_processed := True\<rparr>))]
       walletId wallet) (\<lambda>states.
     setStates env states))))))))))))))))))))))"

definition Exempt :: "'v env \<Rightarrow> json \<Rightarrow> ('v world, unit) act" where
  "Exempt env query =
     bnd (getSighash env) (\<lambda>mySighash.
     bnd (charge env mySighash) (\<lambda>(walletId, wallet).
     bnd (lift (getStringLower env query ''p1'' ''dealOrderId'')) (\<lambda>dealOrderId.
     bnd (lift (getStringLower env query ''p2'' ''transferId'')) (\<lambda>transferId.
     bnd (getStateData env dealOrderId True) (\<lambda>stateData.
     let dealOrder = deal_from stateData in
     bnd (throwIf (deal_repayment_transfer dealOrder \<noteq> []) ''The deal has been already closed'') (\<lambda>_.
     bnd (getStateData env transferId True) (\<lambda>stateData.
     let transfer = transfer_from stateData in
     bnd (throwIf (transfer_order transfer \<noteq> dealOrderId) ''The transfer doesn't match the order'') (\<lambda>_.
     bnd (throwIf (transfer_processed transfer) ''The transfer has been already processed'') (\<lambda>_.
     bnd (getStateData env (deal_src_address dealOrder) True) (\<lambda>stateData.
     let address = address_from stateData in
     bnd (throwIf (mySighash \<noteq> address_sighash address) ''Only an investor can exempt a deal'') (\<lambda>_.
     bnd (addFee_wallet env mySighash
       [(dealOrderId, DealOrder_SerializeToString (dealOrder\<lparr>deal_repayment_transfer := transferId\<rparr>)),
        (transferId, Transfer_SerializeToString (transfer\<lparr>transfer_processed := True\<rparr>))]
       walletId wallet) (\<lambda>states.
     setStates env states))))))))))))"

subsection \<open>Selling a loan\<close>

definition AddRepaymentOrder :: "'v env \<Rightarrow> json \<Rightarrow> ('v world, unit) act" where
  "AddRepaymentOrder env query =
     bnd (getSighash env) (\<lambda>mySighash.
     bnd (charge env mySighash) (\<lambda>(walletId, wallet).
     bnd (lift (getStringLower env query ''p1'' ''dealOrderId'')) (\<lambda>dealOrderId.
     bnd (lift (getStringLower env query ''p2'' ''addressId'')) (\<lambda>addressId.
     bnd (lift (query_bigint env query ''p3'' ''amount'')) (\<lambda>(amount, _).
     bnd (lift (query_uint64 env query ''p4'' ''expiration'')) (\<lambda>expiration.
     bnd (getGuid env) (\<lambda>guid.
     bnd (lift (makeAddress env REPAYMENT_ORDER guid)) (\<lambda>idn.
     bnd (getStateData env idn False) (\<lambda>stateData.
     bnd (throwIf (stateData \<noteq> []) ''Duplicated id'') (\<lambda>_.
     bnd (getStateData env dealOrderId False) (\<lambda>stateData.
     let dealOrder = deal_from stateData in
     bnd (throwIf (deal_sighash dealOrder = mySighash) ''Fundraisers cannot create repayment orders'') (\<lambda>_.
     bnd (throwIf (deal_loan_transfer dealOrder = [] \<or> deal_repayment_transfer dealOrder \<noteq> [])
       ''A repayment order can be created only for a deal with an active loan'') (\<lambda>_.
     bnd (getStateData env (deal_src_address dealOrder) False) (\<lambda>stateData.
     let srcAddress = address_from stateData in
     bnd (throwIf (address_sighash srcAddress = mySighash) ''Investors cannot create repayment orders'') (\<lambda>_.
     bnd (getStateData env addressId False) (\<lambda>stateData.
     let newAddress = address_from stateData in
     bnd (throwIf (address_blockchain srcAddress \<noteq> address_blockchain newAddress \<or>
         address_network srcAddress \<noteq> address_network newAddress \<or>
         address_value srcAddress = address_value newAddress) ''Invalid address'') (\<lambda>_.
     bnd (lastBlock env) (\<lambda>block.
     let repaymentOrder = RepaymentOrder_Clear\<lparr>repayment_blockchain := address_blockchain srcAddress,
           repayment_src_address := addressId, repayment_dst_address := deal_src_address dealOrder,
           repayment_amount := amount, repayment_expiration := expiration, repayment_block := block,
           repayment_deal := dealOrderId, repayment_sighash := mySighash\<rparr> in
     bnd (addFee_wallet env mySighash [(idn, RepaymentOrder_SerializeToString repaymentOrder)] walletId wallet) (\<lambda>states.
     setStates env states)))))))))))))))))))"

definition CompleteRepaymentOrder :: "'v env \<Rightarrow> json \<Rightarrow> ('v world, unit) act" where
  "CompleteRepaymentOrder env query =
     bnd (getSighash env) (\<lambda>mySighash.
     bnd (charge env mySighash) (\<lambda>(walletId, wallet).
     bnd (lift (getStringLower env query ''p1'' ''repaymentOrderId'')) (\<lambda>repaymentOrderId.
     bnd (getStateData env repaymentOrderId True) (\<lambda>stateData.
     let repaymentOrder = repayment_from stateData in
     bnd (getStateData env (repayment_dst_address repaymentOrder) True) (\<lambda>stateData.
     let address = address_from stateData in
     bnd (throwIf (address_sighash address \<noteq> mySighash) ''Only an investor can complete a repayment order'') (\<lambda>_.
     bnd (getStateData env (repayment_deal repaymentOrder) True) (\<lambda>stateData.
     let dealOrder = deal_from stateData in
     bnd (throwIf (deal_lock dealOrder \<noteq> []) ''The deal has been already locked'') (\<lambda>_.
     bnd (addFee_wallet env mySighash
       [(repaymentOrderId, RepaymentOrder_SerializeToString (repaymentOrder\<lparr>repayment_previous_owner := mySighash\<rparr>)),
        (repayment_deal repaymentOrder, DealOrder_SerializeToString (dealOrder\<lparr>deal_lock := mySighash\<rparr>))]
       walletId wallet) (\<lambda>states.
     setStates env states)))))))))"

definition CloseRepaymentOrder :: "'v env \<Rightarrow> json \<Rightarrow> ('v world, unit) act" where
  "CloseRepaymentOrder env query =
     bnd (getSighash env) (\<lambda>mySighash.
     bnd (charge env mySighash) (\<lambda>(walletId, wallet).
     bnd (lift (getStringLower env query ''p1'' ''repaymentOrderId'')) (\<lambda>repaymentOrderId.
     bnd (lift (getStringLower env query ''p2'' ''transferId'')) (\<lambda>transferId.
     bnd (getStateData env repaymentOrderId True) (\<lambda>stateData.
     let repaymentOrder = repayment_from stateData in
     bnd (throwIf (repayment_sighash repaymentOrder \<noteq> mySighash)
       ''Only a collector can close a repayment order'') (\<lambda>_.
     bnd (getStateData env transferId True) (\<lambda>stateData.
     let transfer = transfer_from stateData in
     bnd (throwIf (transfer_order transfer \<noteq> repaymentOrderId \<or>
         transfer_amount transfer \<noteq> repayment_amount repaymentOrder)
       ''The transfer doesn't match the order'') (\<lambda>_.
     bnd (throwIf (transfer_sighash transfer \<noteq> mySighash) ''The transfer doesn't match the signer'') (\<lambda>_.
     bnd (throwIf (transfer_processed transfer) ''The transfer has been already processed'') (\<lambda>_.
     bnd (getStateData env (repayment_deal repaymentOrder) True) (\<lambda>stateData.
     let dealOrder = deal_from stateData in
     bnd (getStateData env (deal_src_address dealOrder) True) (\<lambda>stateData.
     let srcAddress = address_from stateData in
     bnd (throwIf (deal_lock dealOrder \<noteq> address_sighash srcAddress) ''The deal must be locked'') (\<lambda>_.
     let dealOrder = dealOrder\<lparr>deal_src_address := repayment_src_address repaymentOrder, deal_lock := []\<rparr> in
     bnd (addFee_wallet env mySighash
       [(repaymentOrderId, RepaymentOrder_SerializeToString (repaymentOrder\<lparr>repayment_transfer := transferId\<rparr>)),
        (repayment_deal repaymentOrder, DealOrder_SerializeToString dealOrder),
        (transferId, Transfer_SerializeToString (transfer\<lparr>transfer_processed := True\<rparr>))]
       walletId wallet) (\<lambda>states.
     setStates env states))))))))))))))"

end
