(* ===== verification/Housekeeping.thy ===== *)
theory Housekeeping
  imports Deals
begin

section \<open>Housekeeping\<close>

text \<open>
  Two callers: block 0 asks for the rewards of the next ten blocks, any other block number
  comes from the gateway, which confirms the chain up to that block: expired orders go,
  the fees of a year ago go back, every block up to it is rewarded.
\<close>

definition expired_at :: "'v env \<Rightarrow> int \<Rightarrow> string \<Rightarrow> 64 word \<Rightarrow> ('v world, bool) act" where
  "expired_at env blockIdx block expiration = lift (order_expired env block expiration blockIdx)"

definition house_ask :: "'v env \<Rightarrow> int \<Rightarrow> 'v world lister" where
  "house_ask env blockIdx address protobuf =
     (let askOrder = ask_from protobuf in
      bnd (expired_at env blockIdx (ask_block askOrder) (ask_expiration askOrder)) (\<lambda>expired.
      if expired then deleteState env address else ret ()))"

definition house_bid :: "'v env \<Rightarrow> int \<Rightarrow> 'v world lister" where
  "house_bid env blockIdx address protobuf =
     (let bidOrder = bid_from protobuf in
      bnd (expired_at env blockIdx (bid_block bidOrder) (bid_expiration bidOrder)) (\<lambda>expired.
      if expired then deleteState env address else ret ()))"

definition house_offer :: "'v env \<Rightarrow> int \<Rightarrow> 'v world lister" where
  "house_offer env blockIdx address protobuf =
     (let offer = offer_from protobuf in
      bnd (expired_at env blockIdx (offer_block offer) (offer_expiration offer)) (\<lambda>expired.
      if expired then deleteState env address else ret ()))"

definition refunding :: "'v world \<Rightarrow> bool" where
  \<comment> \<open>!ctx.tip || ctx.tip && ctx.tip > dealExpFixBlock\<close>
  "refunding w \<longleftrightarrow> ctx_tip (ctx w) = 0 \<or> ctx_tip (ctx w) > dealExpFixBlock w"

definition house_deal :: "'v env \<Rightarrow> int \<Rightarrow> 'v world lister" where
  "house_deal env blockIdx address protobuf =
     (let dealOrder = deal_from protobuf in
      bnd (expired_at env blockIdx (deal_block dealOrder) (deal_expiration dealOrder)) (\<lambda>expired.
      if expired \<and> deal_loan_transfer dealOrder = [] then
        bnd (reads (\<lambda>w. Inr (refunding w))) (\<lambda>refund.
        bnd (if refund then
               let walletId = walletIdOf env (deal_sighash dealOrder) in
               bnd (getStateData env walletId True) (\<lambda>stateData.
               let wallet = wallet_from stateData in
               bnd (lift (bigint env (wallet_amount wallet))) (\<lambda>balance.
               bnd (lift (bigint env (deal_fee dealOrder))) (\<lambda>fee.
               setStates env [(walletId,
                 Wallet_SerializeToString (wallet\<lparr>wallet_amount := toString env (balance + fee)\<rparr>))])))
             else ret ()) (\<lambda>_.
        deleteState env address))
      else ret ()))"

definition house_repayment :: "'v env \<Rightarrow> int \<Rightarrow> 'v world lister" where
  "house_repayment env blockIdx address protobuf =
     (let repaymentOrder = repayment_from protobuf in
      bnd (expired_at env blockIdx (repayment_block repaymentOrder) (repayment_expiration repaymentOrder)) (\<lambda>expired.
      if expired \<and> repayment_previous_owner repaymentOrder = [] then deleteState env address else ret ()))"

definition house_fee :: "'v env \<Rightarrow> int \<Rightarrow> 'v world lister" where
  \<comment> \<open>the block is read by the constructor of cpp_int, not by getBigint; setState is called with
     the raw pointer, the address first\<close>
  "house_fee env blockIdx address protobuf =
     (let fee = fee_from protobuf in
      bnd (lift (case read_cpp_int env (fee_block fee) of
             None \<Rightarrow> Inl (StdException ''cpp_int'') | Some start \<Rightarrow> Inr start)) (\<lambda>start.
      if YEAR_OF_BLOCKS < blockIdx - start then
        let walletId = walletIdOf env (fee_sighash fee) in
        bnd (getState env walletId) (\<lambda>(found, stateData).
        bnd (throwIf (\<not> found \<or> stateData = []) (''Existing state expected '' @ walletId)) (\<lambda>_.
        let wallet = wallet_from stateData in
        bnd (lift (bigint env (wallet_amount wallet))) (\<lambda>balance.
        let stateData = Wallet_SerializeToString (wallet\<lparr>wallet_amount := toString env (balance + TX_FEE)\<rparr>) in
        bnd (setState_raw env walletId stateData) (\<lambda>_.
        deleteState env address))))
      else ret ()))"

definition filter_kind :: "'v env \<Rightarrow> string \<Rightarrow> 'v world lister \<Rightarrow> ('v world, unit) act" where
  \<comment> \<open>filter(ctx, namespacePrefix + kind, lister)\<close>
  "filter_kind env kind lister =
     (\<lambda>w. filter_states env (ctx_transitioning (ctx w)) (namespacePrefix env @ kind) lister w)"

definition processedBlockAddress :: "'v env \<Rightarrow> string" where
  "processedBlockAddress env = namespacePrefix env @ PROCESSED_BLOCK @ PROCESSED_BLOCK_ID"

definition housekeeping_confirmed :: "'v env \<Rightarrow> int \<Rightarrow> int \<Rightarrow> ('v world, unit) act" where
  \<comment> \<open>the part for a confirmed block number, from the filters to the end\<close>
  "housekeeping_confirmed env lastProcessedBlockIdx blockIdx =
     bnd (filter_kind env ASK_ORDER (house_ask env blockIdx)) (\<lambda>_.
     bnd (filter_kind env BID_ORDER (house_bid env blockIdx)) (\<lambda>_.
     bnd (filter_kind env OFFER (house_offer env blockIdx)) (\<lambda>_.
     bnd (filter_kind env DEAL_ORDER (house_deal env blockIdx)) (\<lambda>_.
     bnd (filter_kind env REPAYMENT_ORDER (house_repayment env blockIdx)) (\<lambda>_.
     bnd (filter_kind env FEE (house_fee env blockIdx)) (\<lambda>_.
     bnd (reward env lastProcessedBlockIdx blockIdx) (\<lambda>_.
     setState_uptr env (processedBlockAddress env) (toString env blockIdx))))))))"

definition Housekeeping :: "'v env \<Rightarrow> json \<Rightarrow> ('v world, unit) act" where
  "Housekeeping env query =
     bnd (lift (query_bigint env query ''p1'' ''blockIdx'')) (\<lambda>(_, blockIdx).
     bnd (getStateData env (processedBlockAddress env) False) (\<lambda>stateData.
     bnd (if stateData = [] then ret 0 else lift (bigint env stateData)) (\<lambda>lastProcessedBlockIdx.
     if blockIdx = 0 then
       bnd (lastBlockInt env) (\<lambda>head.
       if lastProcessedBlockIdx + CONFIRMATION_COUNT * 2 + BLOCK_REWARD_PROCESSING_COUNT < head then
         bnd (reward env lastProcessedBlockIdx 0) (\<lambda>_.
         setState_uptr env (processedBlockAddress env)
           (toString env (lastProcessedBlockIdx + BLOCK_REWARD_PROCESSING_COUNT)))
       else ret ())
     else
       bnd (verifyGatewaySigner env) (\<lambda>_.
       if blockIdx < CONFIRMATION_COUNT * 2 \<or> blockIdx \<le> lastProcessedBlockIdx then ret ()
       else bnd (lastBlockInt env) (\<lambda>tip.
         if blockIdx \<ge> tip - CONFIRMATION_COUNT then ret ()
         else housekeeping_confirmed env lastProcessedBlockIdx blockIdx)))))"

end
