(* ===== verification/Cbor.thy ===== *)
theory Cbor
  imports Json Std_Map Wire
begin

unbundle bit_operations_syntax

section \<open>CBOR\<close>

text \<open>
  \<open>nlohmann::json::from_cbor\<close>, which decodes the payload of a transaction, and the encoder
  \<open>to_cbor\<close> of the same library (\<open>src/xtern/nlohmann/json/json.hpp\<close>).  The decoder
  works on the bytes not yet read.  Its recursion is bounded by the argument \<open>k\<close>:
  \<open>from_cbor\<close> starts with twice the length of the input plus two, and every two levels
  consume a byte.  A \<open>parse_error\<close> or \<open>type_error\<close> of the library is a
  \<open>StdException\<close> with the number of the error.
\<close>

type_synonym bytes = "8 word list"

definition parse_error :: "string \<Rightarrow> err + 'a" where
  "parse_error n = Inl (StdException (''parse_error.'' @ n))"

definition be_nat :: "bytes \<Rightarrow> nat" where
  "be_nat bs = foldl (\<lambda>a b. 256 * a + unat b) 0 bs"

definition get_from_vector :: "nat \<Rightarrow> bytes \<Rightarrow> err + (nat \<times> bytes)" where
  \<comment> \<open>\<open>check_length\<close>, then the bytes most significant first\<close>
  "get_from_vector n v = (if n \<le> length v then Inr (be_nat (take n v), drop n v) else parse_error ''110'')"

definition string_of :: "bytes \<Rightarrow> string" where
  "string_of bs = map (\<lambda>b. char_of (unat b)) bs"

definition bytes_from :: "string \<Rightarrow> bytes" where
  "bytes_from s = map (\<lambda>c. word_of_nat (of_char c)) s"

definition get_string :: "nat \<Rightarrow> bytes \<Rightarrow> err + (string \<times> bytes)" where
  "get_string n v = (if n \<le> length v then Inr (string_of (take n v), drop n v) else parse_error ''110'')"

definition cbor_length :: "nat \<Rightarrow> bytes \<Rightarrow> err + (nat \<times> bytes)" where
  \<comment> \<open>the low five bits of the initial byte: the number itself below 24, else 1, 2, 4 or 8 bytes follow\<close>
  "cbor_length info v = (if info < 24 then Inr (info, v) else get_from_vector (2 ^ (info - 24)) v)"

subsection \<open>Floating-point numbers\<close>

definition double_bits :: "nat \<Rightarrow> int \<Rightarrow> 64 word" where
  \<comment> \<open>the bits of m * 2^e (a normal number, exactly representable), 0 for m = 0\<close>
  "double_bits m e =
     (if m = 0 then 0
      else let k = Log2Floor m
           in push_bit 52 (word_of_int (1023 + int k + e)) OR push_bit (52 - k) (word_of_nat (m - 2 ^ k)))"

definition neg_double :: "64 word \<Rightarrow> 64 word" where
  "neg_double x = x XOR push_bit 63 1"

definition half_to_double :: "nat \<Rightarrow> 64 word" where
  "half_to_double half =
     (let exp = half div 1024 mod 32; mant = half mod 1024;
          val = (if exp = 0 then double_bits mant (- 24)
                 else if exp \<noteq> 31 then double_bits (mant + 1024) (int exp - 25)
                 else if mant = 0 then 0x7FF0000000000000 else 0x7FF8000000000000)
      in if half div 32768 mod 2 \<noteq> 0 then neg_double val else val)"

definition float_to_double :: "nat \<Rightarrow> 64 word" where
  \<comment> \<open>the conversion from float to double of IEEE 754; a NaN becomes quiet and keeps its payload\<close>
  "float_to_double f =
     (let exp = f div 2 ^ 23 mod 256; mant = f mod 2 ^ 23;
          val = (if exp = 0 then double_bits mant (- 149)
                 else if exp \<noteq> 255 then double_bits (mant + 2 ^ 23) (int exp - 150)
                 else if mant = 0 then 0x7FF0000000000000
                 else 0x7FF8000000000000 OR push_bit 29 (word_of_nat mant))
      in if f div 2 ^ 31 mod 2 \<noteq> 0 then neg_double val else val)"

subsection \<open>Decoding\<close>

definition cbor_expect_string :: "bytes \<Rightarrow> err + unit" where
  "cbor_expect_string v =
     (case v of [] \<Rightarrow> parse_error ''110''
      | b # _ \<Rightarrow> if 0x60 \<le> b \<and> b \<le> 0x7b \<or> b = 0x7f then Inr () else parse_error ''113'')"

definition cbor_more :: "nat option \<Rightarrow> bytes \<Rightarrow> err + (bool \<times> nat option \<times> bytes)" where
  \<comment> \<open>the condition of a loop over elements: so many are left, or (None) until a byte 0xff\<close>
  "cbor_more left v =
     (case left of
        Some n \<Rightarrow> Inr (0 < n, Some (n - 1), v)
      | None \<Rightarrow> (case v of
            [] \<Rightarrow> parse_error ''110''
          | b # r \<Rightarrow> if b = 0xff then Inr (False, None, r) else Inr (True, None, v)))"

definition cbor_atom :: "nat \<Rightarrow> bytes \<Rightarrow> err + (json \<times> bytes)" where
  \<comment> \<open>the cases without recursion: numbers, strings of known length, constants, floats\<close>
  "cbor_atom b r =
     (if b \<le> 0x1b then sbnd (cbor_length b r) (\<lambda>(n, r). Inr (JUnsigned (word_of_nat n), r))
      else if 0x20 \<le> b \<and> b \<le> 0x3a then
        sbnd (cbor_length (b - 0x20) r) (\<lambda>(n, r). Inr (JInteger (- 1 - int n), r))
      else if b = 0x3b then
        sbnd (get_from_vector 8 r) (\<lambda>(n, r). Inr (JInteger (- 1 - sint (word_of_nat n :: 64 word)), r))
      else if 0x60 \<le> b \<and> b \<le> 0x7b then
        sbnd (cbor_length (b - 0x60) r) (\<lambda>(n, r). sbnd (get_string n r) (\<lambda>(s, r). Inr (JString s, r)))
      else if b = 0xf4 then Inr (JBool False, r)
      else if b = 0xf5 then Inr (JBool True, r)
      else if b = 0xf6 then Inr (JNull, r)
      else if b = 0xf9 then sbnd (get_from_vector 2 r) (\<lambda>(n, r). Inr (JFloat (half_to_double n), r))
      else if b = 0xfa then sbnd (get_from_vector 4 r) (\<lambda>(n, r). Inr (JFloat (float_to_double n), r))
      else if b = 0xfb then sbnd (get_from_vector 8 r) (\<lambda>(n, r). Inr (JFloat (word_of_nat n), r))
      else parse_error ''112'')"

function from_cbor_internal :: "nat \<Rightarrow> bytes \<Rightarrow> err + (json \<times> bytes)"
  and cbor_array :: "nat \<Rightarrow> nat option \<Rightarrow> json list \<Rightarrow> bytes \<Rightarrow> err + (json \<times> bytes)"
  and cbor_object :: "nat \<Rightarrow> nat option \<Rightarrow> json smap \<Rightarrow> bytes \<Rightarrow> err + (json \<times> bytes)"
  and cbor_chunks :: "nat \<Rightarrow> string \<Rightarrow> bytes \<Rightarrow> err + (json \<times> bytes)" where
  "from_cbor_internal 0 v = Inl (Aborted ''fuel'')"
| "from_cbor_internal (Suc k) v =
     (case v of [] \<Rightarrow> parse_error ''110''
      | c # r \<Rightarrow>
        let b = unat c in
        if b = 0x7f then cbor_chunks k [] r
        else if 0x80 \<le> b \<and> b \<le> 0x9b then
          sbnd (cbor_length (b - 0x80) r) (\<lambda>(n, r). cbor_array k (Some n) [] r)
        else if b = 0x9f then cbor_array k None [] r
        else if 0xa0 \<le> b \<and> b \<le> 0xbb then
          sbnd (cbor_length (b - 0xa0) r) (\<lambda>(n, r). cbor_object k (Some n) [] r)
        else if b = 0xbf then cbor_object k None [] r
        else cbor_atom b r)"
| "cbor_array 0 left js v = Inl (Aborted ''fuel'')"
| "cbor_array (Suc k) left js v =
     sbnd (cbor_more left v) (\<lambda>(more, left, v).
       if more then sbnd (from_cbor_internal k v) (\<lambda>(j, v). cbor_array k left (js @ [j]) v)
       else Inr (JArray js, v))"
| "cbor_object 0 left ms v = Inl (Aborted ''fuel'')"
| "cbor_object (Suc k) left ms v =
     sbnd (cbor_more left v) (\<lambda>(more, left, v).
       if more then
         sbnd (cbor_expect_string v) (\<lambda>_.
         sbnd (from_cbor_internal k v) (\<lambda>(key, v).
         sbnd (from_cbor_internal k v) (\<lambda>(j, v).
           case key of
             JString s \<Rightarrow> cbor_object k left (map_set s j ms) v
           | _ \<Rightarrow> Inl (StdException ''type_error.302''))))
       else Inr (JObject ms, v))"
| "cbor_chunks 0 s v = Inl (Aborted ''fuel'')"
| "cbor_chunks (Suc k) s v =
     sbnd (cbor_more None v) (\<lambda>(more, _, v).
       if more then
         sbnd (from_cbor_internal k v) (\<lambda>(j, v).
           case j of JString t \<Rightarrow> cbor_chunks k (s @ t) v | _ \<Rightarrow> Inl (StdException ''type_error.302''))
       else Inr (JString s, v))"
  by pat_completeness auto
termination
  by (relation "measure (\<lambda>x. case x of
      Inl (Inl (k, _)) \<Rightarrow> k | Inl (Inr (k, _)) \<Rightarrow> k | Inr (Inl (k, _)) \<Rightarrow> k | Inr (Inr (k, _)) \<Rightarrow> k)") simp_all

definition from_cbor :: "bytes \<Rightarrow> err + json" where
  "from_cbor v = sbnd (from_cbor_internal (2 * length v + 2) v) (\<lambda>(j, _). Inr j)"

subsection \<open>Encoding\<close>

fun add_to_vector :: "nat \<Rightarrow> nat \<Rightarrow> bytes" where
  \<comment> \<open>so many bytes of a number, most significant first\<close>
  "add_to_vector 0 number = []"
| "add_to_vector (Suc n) number = add_to_vector n (number div 256) @ [word_of_nat number]"

definition cbor_head :: "nat \<Rightarrow> nat \<Rightarrow> bytes" where
  \<comment> \<open>an initial byte (base plus the number, or plus 24 to 27) and the bytes of the number\<close>
  "cbor_head base n =
     (if n \<le> 0x17 then [word_of_nat (base + n)]
      else if n \<le> 0xff then word_of_nat (base + 0x18) # add_to_vector 1 n
      else if n \<le> 0xffff then word_of_nat (base + 0x19) # add_to_vector 2 n
      else if n \<le> 0xffffffff then word_of_nat (base + 0x1a) # add_to_vector 4 n
      else word_of_nat (base + 0x1b) # add_to_vector 8 n)"

fun to_cbor :: "json \<Rightarrow> bytes" where
  "to_cbor JNull = [0xf6]"
| "to_cbor (JBool b) = [if b then 0xf5 else 0xf4]"
| "to_cbor (JInteger i) = (if 0 \<le> i then cbor_head 0 (nat i) else cbor_head 0x20 (nat (- 1 - i)))"
| "to_cbor (JUnsigned u) = cbor_head 0 (unat u)"
| "to_cbor (JFloat x) = 0xfb # add_to_vector 8 (unat x)"
| "to_cbor (JString s) = cbor_head 0x60 (length s) @ bytes_from s"
| "to_cbor (JArray js) = cbor_head 0x80 (length js) @ concat (map to_cbor js)"
| "to_cbor (JObject ms) =
     cbor_head 0xa0 (length ms) @
     concat (map (\<lambda>(k, j). cbor_head 0x60 (length k) @ bytes_from k @ to_cbor j) ms)"

end
