(* ===== verification/Base64.thy ===== *)
theory Base64
  imports Text
begin

unbundle bit_operations_syntax

section \<open>Base64\<close>

text \<open>
  \<open>encodeBase64\<close> and \<open>decodeBase64\<close> of \<open>processor.cpp\<close>.  The accumulator \<open>val\<close> is
  an unsigned int (32 bits, it wraps: only its low bits are ever used), \<open>valb\<close> the signed
  count of pending bits.  The round trip relates the accumulators of the two loops: the
  decoder's accumulator, shifted by the bits it has not emitted yet, is the encoder's.
\<close>

subsection \<open>The code\<close>

definition base64lookupString :: string where
  "base64lookupString = ''ABCDEFGHIJKLMNOPQRSTUVWXYZabcdefghijklmnopqrstuvwxyz0123456789+/''"

definition base64char :: "32 word \<Rightarrow> char" where
  \<comment> \<open>base64lookupString[v & 0x3F]\<close>
  "base64char v = base64lookupString ! unat (v AND 0x3F)"

fun position :: "'a \<Rightarrow> 'a list \<Rightarrow> nat option" where
  "position x [] = None"
| "position x (y # ys) = (if x = y then Some 0 else map_option Suc (position x ys))"

definition base64lookupTable :: "char \<Rightarrow> nat option" where
  \<comment> \<open>the table of 256 entries built by MakeBase64lookupTable; None is its \<open>-1\<close>\<close>
  "base64lookupTable c = position c base64lookupString"

fun encode_emit :: "nat \<Rightarrow> 32 word \<Rightarrow> string \<times> nat" where
  \<comment> \<open>while (valb >= 0): \<open>bits\<close> is \<open>valb + 6\<close>, the number of pending bits\<close>
  "encode_emit bits val =
     (if bits < 6 then ([], bits)
      else let (out, b) = encode_emit (bits - 6) val in (base64char (drop_bit (bits - 6) val) # out, b))"

declare encode_emit.simps [simp del]

fun encode_loop :: "8 word list \<Rightarrow> 32 word \<Rightarrow> nat \<Rightarrow> string" where
  "encode_loop [] val bits =
     (if 0 < bits then [base64char (drop_bit (bits + 2) (push_bit 8 val))] else [])"
| "encode_loop (c # cs) val bits =
     (let v = push_bit 8 val + ucast c;
          (out, b) = encode_emit (bits + 8) v
      in out @ encode_loop cs v b)"

definition encodeBase64 :: "8 word list \<Rightarrow> string" where
  "encodeBase64 inp = encode_loop inp 0 0 @ replicate (length inp mod 3) (CHR ''='')"

fun decode_loop :: "string \<Rightarrow> 32 word \<Rightarrow> nat \<Rightarrow> err + 8 word list" where
  \<comment> \<open>\<open>bits\<close> is \<open>valb + 8\<close>\<close>
  "decode_loop [] val bits = Inr []"
| "decode_loop (c # cs) val bits =
     (if c = CHR ''='' then Inr []
      else case base64lookupTable c of
        None \<Rightarrow> Inl (InvalidTransaction ''Invalid character in base64'')
      | Some lookup \<Rightarrow>
          let v = push_bit 6 val + word_of_nat lookup
          in if 8 \<le> bits + 6
             then sbnd (decode_loop cs v (bits - 2)) (\<lambda>r. Inr (ucast (drop_bit (bits - 2) v AND 0xFF) # r))
             else decode_loop cs v (bits + 6))"

definition decodeBase64 :: "string \<Rightarrow> err + 8 word list" where
  "decodeBase64 inp = decode_loop inp 0 0"

subsection \<open>The alphabet\<close>

lemma position_nth: "distinct xs \<Longrightarrow> i < length xs \<Longrightarrow> position (xs ! i) xs = Some i"
proof (induction xs arbitrary: i)
  case (Cons y ys)
  then show ?case by (cases i) (auto simp: nth_mem)
qed simp

lemma position_None: "position x xs = None \<longleftrightarrow> x \<notin> set xs"
  by (induction xs) auto

lemma distinct_base64: "distinct base64lookupString"
  by code_simp

lemma length_base64: "length base64lookupString = 64"
  by code_simp

lemma base64_no_pad: "CHR ''='' \<notin> set base64lookupString"
  by code_simp

lemma and_3F_less: "unat (v AND 0x3F :: 32 word) < 64"
proof -
  have "v AND 0x3F \<le> (0x3F :: 32 word)" by (rule word_and_le1)
  then have "unat (v AND 0x3F) \<le> unat (0x3F :: 32 word)" by (simp only: word_le_nat_alt)
  then show ?thesis by simp
qed

lemma base64char_lookup [simp]: "base64lookupTable (base64char v) = Some (unat (v AND 0x3F))"
  by (simp add: base64lookupTable_def base64char_def position_nth distinct_base64 length_base64 and_3F_less)

lemma base64char_not_pad [simp]: "base64char v \<noteq> CHR ''=''"
  by (metis base64_no_pad base64char_def and_3F_less length_base64 nth_mem)

subsection \<open>Round trip\<close>

text \<open>Shift and add is shift and or: the added number fits in the freed bits.\<close>

lemma mask_6: "(0x3F :: 32 word) = mask 6"
  and mask_8: "(0xFF :: 32 word) = mask 8"
  by (simp_all add: mask_eq_exp_minus_1)

lemma bit_ucast_byte: "bit (ucast (c :: 8 word) :: 32 word) n \<longleftrightarrow> n < 8 \<and> bit c n"
  using bit_imp_le_length [of c n] by (auto simp: bit_simps)

lemma push_add_byte:
  "push_bit 8 v + (ucast (c :: 8 word) :: 32 word) = push_bit 8 v OR ucast c"
  by (rule disjunctive_add_eq_or, rule bit_word_eqI) (auto simp: bit_ucast_byte bit_push_bit_iff bit_and_iff)

lemma push_add_sextet:
  "push_bit 6 v + (w AND mask 6 :: 32 word) = push_bit 6 v OR (w AND mask 6)"
  by (rule disjunctive_add_eq_or, rule bit_word_eqI) (auto simp: bit_simps)

lemmas base64_or = mask_6 mask_8 push_add_byte push_add_sextet
lemmas base64_bits = bit_simps bit_ucast_byte

text \<open>Three bytes are four characters, and back, whatever the accumulators held before.\<close>

lemma less8_cases: "n < 8 \<Longrightarrow> n = 0 \<or> n = Suc 0 \<or> n = 2 \<or> n = 3
    \<or> n = 4 \<or> n = 5 \<or> n = 6 \<or> n = 7"
  by arith

lemma byte_high_bits [simp]: "8 \<le> n \<Longrightarrow> \<not> bit (c :: 8 word) n"
  using bit_imp_le_length [of c n] by auto

lemma bit_low: "bit (c :: 8 word) (Suc (Suc 0)) = bit c 2" "bit c (Suc (Suc (Suc 0))) = bit c 3"
  by (simp_all add: numeral_2_eq_2 numeral_3_eq_3)

lemma sextets_first:
  fixes a b :: "8 word" and v d :: "32 word"
  shows "ucast (drop_bit 4 (push_bit 6 (push_bit 6 d + (drop_bit 2 (push_bit 8 v + ucast a) AND 0x3F)) +
    (drop_bit 4 (push_bit 8 (push_bit 8 v + ucast a) + ucast b) AND 0x3F)) AND 0xFF) = a"
  unfolding base64_or
  by (rule bit_word_eqI) (auto simp: base64_bits  bit_low dest!: less8_cases)

lemma sextets_second:
  fixes b c :: "8 word" and v d :: "32 word"
  shows "ucast (drop_bit 2 (push_bit 6 (push_bit 6 d + (drop_bit 4 (push_bit 8 v + ucast b) AND 0x3F)) +
    (drop_bit 6 (push_bit 8 (push_bit 8 v + ucast b) + ucast c) AND 0x3F)) AND 0xFF) = b"
  unfolding base64_or
  by (rule bit_word_eqI) (auto simp: base64_bits  bit_low dest!: less8_cases)

lemma sextets_third:
  fixes c :: "8 word" and v d :: "32 word"
  shows "ucast ((push_bit 6 (push_bit 6 d + (drop_bit 6 (push_bit 8 v + ucast c) AND 0x3F)) +
    ((push_bit 8 v + ucast c) AND 0x3F)) AND 0xFF) = c"
  unfolding base64_or
  by (rule bit_word_eqI) (auto simp: base64_bits  bit_low dest!: less8_cases)

lemma sextets_first_last:
  "ucast (drop_bit 4 (push_bit 6 (push_bit 6 d + (drop_bit 2 (push_bit 8 v + ucast a) AND 0x3F)) +
    (drop_bit 4 (push_bit 8 (push_bit 8 v + ucast (a :: 8 word))) AND 0x3F :: 32 word)) AND 0xFF) = a"
  using sextets_first [of d v a 0] by simp

lemma sextets_second_last:
  "ucast (drop_bit 2 (push_bit 6 (push_bit 6 d + (drop_bit 4 (push_bit 8 v + ucast b) AND 0x3F)) +
    (drop_bit 6 (push_bit 8 (push_bit 8 v + ucast (b :: 8 word))) AND 0x3F :: 32 word)) AND 0xFF) = b"
  using sextets_second [of d v b 0] by simp

lemma encode_emit_steps:
  "encode_emit 8 v = ([base64char (drop_bit 2 v)], 2)"
  "encode_emit 10 v = ([base64char (drop_bit 4 v)], 4)"
  "encode_emit 12 v = ([base64char (drop_bit 6 v), base64char v], 0)"
  by (simp_all add: encode_emit.simps)

lemma decode_char:
  "decode_loop (base64char v # cs) d bits =
     (let e = push_bit 6 d + (v AND 0x3F)
      in if 8 \<le> bits + 6
         then sbnd (decode_loop cs e (bits - 2)) (\<lambda>r. Inr (ucast (drop_bit (bits - 2) e AND 0xFF) # r))
         else decode_loop cs e (bits + 6))"
  by simp

fun triples :: "'a list \<Rightarrow> nat" where
  "triples (a # b # c # cs) = Suc (triples cs)"
| "triples _ = 0"

lemma decode_pad: "decode_loop (replicate n (CHR ''='')) v bits = Inr []"
  by (cases n) auto

lemma decode_encode_loop:
  "decode_loop (encode_loop bs v 0 @ replicate n (CHR ''='')) d 0 = Inr bs"
proof (induction bs arbitrary: v d rule: triples.induct [case_names three none one two])
  case (three a b c cs)
  then show ?case
    by (simp add: Let_def encode_emit_steps decode_char sbnd_def
        sextets_first sextets_second sextets_third del: decode_loop.simps)
next
  case none
  show ?case by (simp add: decode_pad)
next
  case (one a)
  show ?case
    by (simp add: Let_def encode_emit_steps decode_char sbnd_def decode_pad
        sextets_first_last del: decode_loop.simps)
next
  case (two a b)
  show ?case
    by (simp add: Let_def encode_emit_steps decode_char sbnd_def decode_pad
        sextets_first sextets_second_last del: decode_loop.simps)
qed

lemma decode_bad_char:
  assumes "CHR ''='' \<notin> set s" and "\<not> set s \<subseteq> set base64lookupString"
  shows "decodeBase64 s = Inl (InvalidTransaction ''Invalid character in base64'')"
proof -
  have "decode_loop s v bits = Inl (InvalidTransaction ''Invalid character in base64'')" for v bits
    using assms
  proof (induction s arbitrary: v bits)
    case (Cons c s)
    show ?case
    proof (cases "base64lookupTable c")
      case None
      with Cons.prems show ?thesis by auto
    next
      case (Some i)
      then have "c \<in> set base64lookupString"
        by (metis base64lookupTable_def option.distinct(1) position_None)
      with Cons Some show ?thesis by (auto simp: sbnd_def Let_def)
    qed
  qed simp
  then show ?thesis by (simp add: decodeBase64_def)
qed

text \<open>
  The number of pad characters is \<open>size % 3\<close>, where the base64 format asks for
  \<open>(3 - size % 3) % 3\<close>: one byte is padded to three characters.  The decoder stops at the
  first pad character, so it does not notice.
\<close>

lemma encode_one_byte_padding: "length (encodeBase64 [b]) = 3"
  by (simp add: encodeBase64_def Let_def encode_emit_steps)

end
