(* ===== verification/Dispatch.thy ===== *)
theory Dispatch
  imports Housekeeping Cbor Base64
begin

section \<open>Dispatch, replay and set-up\<close>

text \<open>
  How a transaction reaches its handler: \<open>Apply()\<close> decodes the payload, \<open>Apply(cmd, query,
  guid, sighash)\<close> replays what the chain being revalidated had between the last
  transaction seen and this one, \<open>doApply\<close> runs one command and merges what it wrote into
  the state of its block, and \<open>Apply(cmd, query)\<close> chooses the handler.  An \<open>Applicator\<close>
  is made for every transaction, with a fresh \<open>Ctx\<close>.  An index outside a vector, which is
  undefined behaviour, is \<open>Aborted\<close>.
\<close>

definition unless_version_1 :: "'v env \<Rightarrow> ('v world, unit) act" where
  "unless_version_1 env = (\<lambda>w.
     if v2block w \<noteq> 0 then
       bnd (lastBlockInt env) (\<lambda>head.
       throwIf (head > v2block w \<and> txn_family_version env \<noteq> [] \<and> hd (txn_family_version env) = CHR ''1'')
         ''Version 1 transactions are not accepted after 2.0'') w
     else (Inr (), w))"

definition handlers :: "'v env \<Rightarrow> (string \<times> (json \<Rightarrow> ('v world, unit) act)) list" where
  "handlers env =
     [(''SendFunds'', SendFunds env), (''RegisterAddress'', RegisterAddress env),
      (''RegisterTransfer'', RegisterTransfer env), (''AddAskOrder'', AddAskOrder env),
      (''AddBidOrder'', AddBidOrder env), (''AddOffer'', AddOffer env),
      (''AddDealOrder'', AddDealOrder env), (''CompleteDealOrder'', CompleteDealOrder env),
      (''LockDealOrder'', LockDealOrder env), (''CloseDealOrder'', CloseDealOrder env),
      (''Exempt'', Exempt env), (''AddRepaymentOrder'', AddRepaymentOrder env),
      (''CompleteRepaymentOrder'', CompleteRepaymentOrder env),
      (''CloseRepaymentOrder'', CloseRepaymentOrder env), (''CollectCoins'', CollectCoins env),
      (''Housekeeping'', Housekeeping env)]"

definition Apply_cmd :: "'v env \<Rightarrow> string \<Rightarrow> json \<Rightarrow> ('v world, unit) act" where
  "Apply_cmd env cmd query =
     bnd (unless_version_1 env) (\<lambda>_.
     case List.find (\<lambda>(name, h). iequals env cmd name) (handlers env) of
       Some (name, h) \<Rightarrow> h query
     | None \<Rightarrow> throw (InvalidTransaction (''invalid command: '' @ [CHR 0x27] @ cmd @ [CHR 0x27])))"

definition commit_ctx :: "'v world \<Rightarrow> 'v world" where
  \<comment> \<open>the entries of the transaction win over those of the block; then \<open>currentState\<close> is empty\<close>
  "commit_ctx w =
     w\<lparr>tipCurrentState := map_insert_range (ctx_currentState (ctx w)) (tipCurrentState w),
       ctx := (ctx w)\<lparr>ctx_currentState := []\<rparr>\<rparr>"

definition doApply :: "'v env \<Rightarrow> string \<Rightarrow> json \<Rightarrow> string \<Rightarrow> string \<Rightarrow> ('v world, unit) act" where
  "doApply env cmd query guid sighash =
     bnd (modifies (\<lambda>w. w\<lparr>ctx := (ctx w)\<lparr>ctx_guid := guid, ctx_sighash := sighash\<rparr>\<rparr>)) (\<lambda>_.
     bnd (Apply_cmd env cmd query) (\<lambda>_.
     modifies commit_ctx))"

definition cborToParams :: "'v env \<Rightarrow> 8 word list \<Rightarrow> err + (json \<times> string)" where
  "cborToParams env payload =
     sbnd (from_cbor payload) (\<lambda>query.
     case query of
       JObject ms \<Rightarrow>
         (case json_find query ''v'' of
            None \<Rightarrow> Inl (InvalidTransaction ''verb is required'')
          | Some verb \<Rightarrow> sbnd (trimQuotes (asserts env) (dump (snprintf_g env) verb)) (\<lambda>cmd. Inr (query, cmd)))
     | _ \<Rightarrow> Inl (InvalidTransaction ''CBOR Object as the encoded command''))"

definition set_replaying :: "bool \<Rightarrow> ('v world, unit) act" where
  "set_replaying b = modifies (\<lambda>w. w\<lparr>ctx := (ctx w)\<lparr>ctx_replaying := b\<rparr>\<rparr>)"

definition execute :: "'v env \<Rightarrow> 8 word list \<Rightarrow> string \<Rightarrow> string \<Rightarrow> ('v world, unit) act" where
  "execute env payload guid sighash =
     (if payload \<noteq> [] \<and> guid \<noteq> [] then
        bnd (lift (cborToParams env payload)) (\<lambda>(query, cmd).
        bnd (set_replaying True) (\<lambda>_.
        bnd (doApply env cmd query guid sighash) (\<lambda>_.
        set_replaying False)))
      else ret ())"

subsection \<open>Replaying the old chain\<close>

definition block_at :: "int \<Rightarrow> ('v world, SimpleBlock) act" where
  \<comment> \<open>blocks[i]\<close>
  "block_at i = reads (\<lambda>w.
     if 0 \<le> i \<and> nat i < length (blocks w) then Inr (blocks w ! nat i) else Inl (Aborted ''blocks[i]''))"

definition tx_at :: "int \<Rightarrow> int \<Rightarrow> ('v world, Tx) act" where
  \<comment> \<open>blocks[i].txs[j]\<close>
  "tx_at i j =
     bnd (block_at i) (\<lambda>b.
     if 0 \<le> j \<and> nat j < length (block_txs b) then ret (block_txs b ! nat j) else throw (Aborted ''txs[j]''))"

definition execute_tx :: "'v env \<Rightarrow> Tx \<Rightarrow> ('v world, unit) act" where
  "execute_tx env tx =
     (if tx_sighash tx \<noteq> [] then execute env (tx_payload tx) (tx_guid tx) (tx_sighash tx) else ret ())"

definition execute_range :: "'v env \<Rightarrow> int \<Rightarrow> int \<Rightarrow> int \<Rightarrow> ('v world, unit) act" where
  \<comment> \<open>the transactions first, ..., till - 1 of block i\<close>
  "execute_range env i first till =
     forEach [first .. till - 1] (\<lambda>j. bnd (tx_at i j) (execute_tx env))"

definition flush_tip :: "'v world \<Rightarrow> 'v world" where
  "flush_tip w =
     w\<lparr>transitioningState := map_set_all (transitioningState w) (tipCurrentState w), tipCurrentState := []\<rparr>"

definition set_tip :: "int \<Rightarrow> ('v world, unit) act" where
  "set_tip tip = modifies (\<lambda>w. w\<lparr>ctx := (ctx w)\<lparr>ctx_tip := tip\<rparr>\<rparr>)"

definition replay_new_block :: "'v env \<Rightarrow> int \<Rightarrow> int \<Rightarrow> int \<Rightarrow> ('v world, unit) act" where
  \<comment> \<open>the branch currentBlockIdx > updatedBlockIdx; the last loop reads blocks[updatedBlockIdx]\<close>
  "replay_new_block env currentBlockIdx txIdx tip =
     bnd (reads (\<lambda>w. Inr (updatedBlockIdx w, updatedTxIdx w))) (\<lambda>(updated, updatedTx).
     bnd (set_tip (updated - 1)) (\<lambda>_.
     bnd (block_at updated) (\<lambda>b.
     bnd (execute_range env updated (updatedTx + 1) (int (length (block_txs b)))) (\<lambda>_.
     bnd (modifies flush_tip) (\<lambda>_.
     bnd (forEach [updated + 1 .. currentBlockIdx - 1] (\<lambda>i.
            bnd (set_tip (i - 1)) (\<lambda>_.
            bnd (block_at i) (\<lambda>b.
            bnd (forEach (block_txs b) (execute_tx env)) (\<lambda>_.
            modifies flush_tip))))) (\<lambda>_.
     bnd (set_tip tip) (\<lambda>_.
     execute_range env updated 0 txIdx)))))))"

definition replay_same_block :: "'v env \<Rightarrow> int \<Rightarrow> int \<Rightarrow> ('v world, unit) act" where
  \<comment> \<open>the branch currentBlockIdx == updatedBlockIdx\<close>
  "replay_same_block env txIdx tip =
     bnd (reads (\<lambda>w. Inr (updatedBlockIdx w, updatedTxIdx w))) (\<lambda>(updated, updatedTx).
     bnd (set_tip tip) (\<lambda>_.
     if txIdx \<le> updatedTx then
       bnd (modifies (\<lambda>w. w\<lparr>tipCurrentState := []\<rparr>)) (\<lambda>_.
       execute_range env updated 0 txIdx)
     else execute_range env updated (updatedTx + 1) txIdx))"

definition Apply_guid :: "'v env \<Rightarrow> string \<Rightarrow> json \<Rightarrow> string \<Rightarrow> string \<Rightarrow> ('v world, unit) act" where
  "Apply_guid env cmd query guid sighash = (\<lambda>w.
     if \<not> ctx_transitioning (ctx w) then Apply_cmd env cmd query w
     else case map_find (txguid2prevblockidx w) guid of
       None \<Rightarrow> (Inl (Aborted ''exit''), w)
     | Some pos \<Rightarrow>
         (let tip = pos_block pos; currentBlockIdx = tip + 1; txIdx = pos_txIdx pos in
          bnd (if currentBlockIdx > updatedBlockIdx w then replay_new_block env currentBlockIdx txIdx tip
               else if currentBlockIdx = updatedBlockIdx w then replay_same_block env txIdx tip
               else ret ()) (\<lambda>_.
          bnd (doApply env cmd query guid sighash) (\<lambda>_.
          modifies (\<lambda>w. w\<lparr>updatedBlockIdx := currentBlockIdx, updatedTxIdx := txIdx\<rparr>))) w))"

definition Apply :: "'v env \<Rightarrow> ('v world, unit) act" where
  \<comment> \<open>Apply() of a new Applicator\<close>
  "Apply env =
     bnd (modifies (\<lambda>w. w\<lparr>ctx := new_Ctx (transitioning w)\<rparr>)) (\<lambda>_.
     bnd (lift (cborToParams env (txn_payload env))) (\<lambda>(query, cmd).
     bnd (lift (sbnd (compress (txn_signer_public_key env)) (sha512id env))) (\<lambda>sighash.
     Apply_guid env cmd query (txn_nonce env) sighash)))"

subsection \<open>Reading the chain to revalidate\<close>

fun next_line :: "string list \<Rightarrow> string \<times> string list" where
  \<comment> \<open>std::getline: the empty string at the end of the file\<close>
  "next_line [] = ([], [])"
| "next_line (l # ls) = (l, ls)"

fun read_txs ::
  "nat \<Rightarrow> int \<Rightarrow> int \<Rightarrow> Tx list \<Rightarrow> TxPos smap \<Rightarrow> string list \<Rightarrow> err + (Tx list \<times> TxPos smap \<times> string list)" where
  \<comment> \<open>at the end of the file the loop never sees the final dot\<close>
  "read_txs 0 blockIdx txCount txs m ls = Inl (Aborted ''endless transaction list'')"
| "read_txs (Suc k) blockIdx txCount txs m ls =
     (case next_line ls of (guid, ls1) \<Rightarrow>
        if guid = ''.'' then Inr (txs, m, ls1)
        else case next_line ls1 of (sighash, ls2) \<Rightarrow>
          (case next_line ls2 of (line, ls3) \<Rightarrow>
             sbnd (decodeBase64 line) (\<lambda>payload.
             read_txs k blockIdx (txCount + 1)
               (txs @ [\<lparr>tx_sighash = sighash, tx_guid = guid, tx_payload = payload\<rparr>])
               (map_set guid \<lparr>pos_block = blockIdx - 1, pos_txIdx = txCount\<rparr> m) ls3)))"

definition set_block :: "nat \<Rightarrow> SimpleBlock \<Rightarrow> SimpleBlock list \<Rightarrow> SimpleBlock list" where
  \<comment> \<open>blocks.resize when too short, then blocks[i] = b\<close>
  "set_block i b bs = (bs @ replicate (Suc i - length bs) \<lparr>block_signer = [], block_txs = []\<rparr>)[i := b]"

fun read_blocks ::
  "nat \<Rightarrow> 'v env \<Rightarrow> SimpleBlock list \<Rightarrow> TxPos smap \<Rightarrow> string list \<Rightarrow> err + (SimpleBlock list \<times> TxPos smap)" where
  "read_blocks 0 env bs m ls = Inl (Aborted ''fuel'')"
| "read_blocks (Suc k) env bs m ls =
     (case next_line ls of (line, ls1) \<Rightarrow>
        if line = [] then Inr (bs, m)
        else sbnd (bigint env line) (\<lambda>n.
          let blockIdx = to_int env n in
          (case next_line ls1 of (signer, ls2) \<Rightarrow>
             sbnd (read_txs (Suc (length ls2)) blockIdx 0 [] m ls2) (\<lambda>(txs, m1, ls3).
             if blockIdx < 0 then Inl (Aborted ''blocks[blockIdx]'')
             else read_blocks k env (set_block (nat blockIdx) \<lparr>block_signer = signer, block_txs = txs\<rparr> bs) m1 ls3))))"

definition setupSettingsAndExternalGatewayAddress ::
  "'v env \<Rightarrow> string list option \<Rightarrow> ('v world, unit) act" where
  \<comment> \<open>the lines of the transition file, None when it cannot be read (normal operation)\<close>
  "setupSettingsAndExternalGatewayAddress env file = (\<lambda>w.
     case file of
       None \<Rightarrow> (Inr (), w)
     | Some ls \<Rightarrow>
         (let w = w\<lparr>transitioning := True\<rparr> in
          case read_blocks (Suc (length ls)) env (blocks w) (txguid2prevblockidx w) ls of
            Inl e \<Rightarrow> (Inl e, w)
          | Inr (bs, m) \<Rightarrow>
              (let w = w\<lparr>blocks := bs, txguid2prevblockidx := m\<rparr> in
               if bs = [] then (Inl (Aborted ''blocks[0]''), w)
               else (Inr (), w\<lparr>updatedBlockIdx := 0, updatedTxIdx := int (length (block_txs (hd bs))) - 1\<rparr>))))"

end
