(* ===== verification/Effects.thy ===== *)
theory Effects
  imports Dispatch
begin

section \<open>What the shared steps of the handlers establish\<close>

text \<open>
  Elimination lemmas for an action that returned normally, in a session in which the store
  works: reading the signer, charging the fee, the writes at the end.  A handler's effect
  is a few applications of them.
\<close>

definition signer :: "'v env \<Rightarrow> 'v world \<Rightarrow> err + string" where
  "signer env w =
     (if ctx_transitioning (ctx w) then Inr (ctx_sighash (ctx w))
      else sbnd (compress (txn_signer_public_key env)) (sha512id env))"

definition guid_of :: "'v env \<Rightarrow> 'v world \<Rightarrow> string" where
  "guid_of env w = (if ctx_transitioning (ctx w) then ctx_guid (ctx w) else txn_nonce env)"

lemma getSighash_ok [act_ok]: "getSighash env w = (Inr s, w') \<longleftrightarrow> w' = w \<and> signer env w = Inr s"
  by (auto simp: getSighash_def signer_def act_ok)

lemma getGuid_ok [act_ok]: "getGuid env w = (Inr g, w') \<longleftrightarrow> w' = w \<and> g = guid_of env w"
  by (auto simp: getGuid_def guid_of_def act_ok)

lemma tip_read: "session_ok env w \<Longrightarrow> lastBlockInt env w = (Inr (tip_of env w), w)"
  "session_ok env w \<Longrightarrow> lastBlock env w = (Inr (toString env (tip_of env w)), w)"
  by (simp_all add: session_ok_def lastBlockInt_eq lastBlock_eq)

definition balance :: "'v env \<Rightarrow> (string \<Rightarrow> string) \<Rightarrow> string \<Rightarrow> int" where
  \<comment> \<open>the balance of a sighash in a state; 0 when it has no wallet\<close>
  "balance env st sighash =
     (let d = st (walletIdOf env sighash) in
      if d = [] then 0
      else case bigint env (wallet_amount (wallet_from d)) of Inr n \<Rightarrow> n | Inl _ \<Rightarrow> 0)"

lemma balance_nonneg: "0 \<le> balance env st s"
  by (auto simp: balance_def Let_def split: sum.splits dest: bigint_nonneg)

lemma balance_same: "st' (walletIdOf env s) = st (walletIdOf env s) \<Longrightarrow> balance env st' s = balance env st s"
  by (simp add: balance_def)

lemma balance_stored:
  "st (walletIdOf env s) \<noteq> [] \<Longrightarrow> bigint env (wallet_amount (wallet_from (st (walletIdOf env s)))) = Inr n
    \<Longrightarrow> balance env st s = n"
  by (simp add: balance_def)

text \<open>
  Wallets of the state carry no unknown fields: the processor is the only writer, and every
  wallet it writes is one it read or a new one.
\<close>

definition clean_wallets :: "'v env \<Rightarrow> (string \<Rightarrow> string) \<Rightarrow> bool" where
  "clean_wallets env st \<longleftrightarrow> (\<forall>s. wallet_unknown (wallet_from (st (walletIdOf env s))) = [])"

lemma wallet_from_Nil: "wallet_from [] = Wallet_Clear"
  by (simp add: wallet_from_def Wallet_ParseFromString_def parse_message_merge merge_end)

lemma balance_written:
  assumes "bigint_ok env" and "wire_str (wallet_amount wallet)" and "wallet_unknown wallet = []"
    and "bigint env (wallet_amount wallet) = Inr n"
    and "st (walletIdOf env s) = Wallet_SerializeToString wallet"
  shows "balance env st s = n"
proof (cases "Wallet_SerializeToString wallet = []")
  case True
  have wf: "Wallet_wf wallet" using assms by (simp add: Wallet_wf_def)
  have "wallet = wallet_from []" using from_serialized(1) [OF wf] True by simp
  then have "wallet_amount wallet = []" by (simp add: wallet_from_Nil Wallet_Clear_def)
  then have "n = 0" using assms(1,4)
    by (auto simp: bigint_ok_def bigint_def getBigint_def split: option.splits if_splits)
  then show ?thesis using True assms(5) by (simp add: balance_def)
next
  case False
  have "Wallet_wf wallet" using assms by (simp add: Wallet_wf_def)
  then show ?thesis using False assms(4,5) by (simp add: balance_def)
qed

lemma wallet_written:
  assumes "wire_str (wallet_amount wallet)" and "wallet_unknown wallet = []"
  shows "wallet_from (Wallet_SerializeToString wallet) = wallet"
  using assms by (simp add: Wallet_wf_def)

subsection \<open>Charging, and the writes at the end\<close>

lemma charge_ok:
  assumes "session_ok env w"
  shows "charge env s w = (Inr (k, wallet), w') \<longleftrightarrow>
    w' = w \<and> k = walletIdOf env s \<and> view env w k \<noteq> [] \<and>
    (\<exists>n. bigint env (wallet_amount (wallet_from (view env w k))) = Inr n \<and> TX_FEE \<le> n \<and>
         wallet = (wallet_from (view env w k))\<lparr>wallet_amount := toString env (n - TX_FEE)\<rparr>)"
  by (auto simp: charge_def Let_def act_ok state.rd_ok [OF assms])

lemma charge_balance:
  assumes "session_ok env w" and "charge env s w = (Inr (k, wallet), w')"
  shows "TX_FEE \<le> balance env (view env w) s"
    and "wallet_amount wallet = toString env (balance env (view env w) s - TX_FEE)"
    and "wallet_unknown wallet = wallet_unknown (wallet_from (view env w k))"
  using assms(2) unfolding charge_ok [OF assms(1)] by (auto simp: balance_def Let_def)

definition fee_data :: "'v env \<Rightarrow> 'v world \<Rightarrow> string \<Rightarrow> string" where
  "fee_data env w s =
     Fee_SerializeToString (Fee_Clear\<lparr>fee_sighash := s, fee_block := toString env (tip_of env w)\<rparr>)"

lemma addFee_ok:
  assumes "session_ok env w"
  shows "addFee env s states w = (Inr states1, w') \<longleftrightarrow>
    w' = w \<and> (\<exists>feeId. makeAddress env FEE (guid_of env w) = Inr feeId \<and>
      states1 = states @ [(feeId, fee_data env w s)])"
proof -
  have "validator_ok env" using assms by (simp add: session_ok_def)
  then show ?thesis by (auto simp: addFee_def act_ok lastBlock_eq fee_data_def)
qed

lemma addFee_wallet_ok:
  assumes "session_ok env w"
  shows "addFee_wallet env s states k wallet w = (Inr states1, w') \<longleftrightarrow>
    w' = w \<and> (\<exists>feeId. makeAddress env FEE (guid_of env w) = Inr feeId \<and>
      states1 = states @ [(feeId, fee_data env w s), (k, Wallet_SerializeToString wallet)])"
  by (auto simp: addFee_wallet_def act_ok addFee_ok [OF assms])

lemma fee_not_wallet: "makeAddress env FEE g = Inr a \<Longrightarrow> a \<noteq> walletIdOf env s"
  by (erule wallet_not_address) (simp_all add: FEE_def WALLET_def)

lemma write_all_append: "write_all (xs @ ys) g = write_all ys (write_all xs g)"
  by (induction xs g rule: write_all.induct) (auto simp: fun_upd_def)

text \<open>Crediting a wallet.\<close>

definition credited :: "'v env \<Rightarrow> string \<Rightarrow> string \<Rightarrow> int \<Rightarrow> Wallet \<Rightarrow> bool" where
  "credited env d amountString amount wallet \<longleftrightarrow>
     (if d = [] then wallet = Wallet_Clear\<lparr>wallet_amount := amountString\<rparr>
      else \<exists>n. bigint env (wallet_amount (wallet_from d)) = Inr n \<and>
        wallet = (wallet_from d)\<lparr>wallet_amount := toString env (n + amount)\<rparr>)"

lemma credit_ok [act_ok]:
  "credit env d amountString amount w = (Inr wallet, w') \<longleftrightarrow> w' = w \<and> credited env d amountString amount wallet"
  by (auto simp: credit_def credited_def Let_def act_ok)

lemma credited_balance:
  assumes ok: "bigint_ok env" and c: "credited env (st (walletIdOf env s)) amountString amount wallet"
    and amount: "bigint env amountString = Inr amount" "length amountString < 2 ^ 31"
    and clean: "wallet_unknown (wallet_from (st (walletIdOf env s))) = []"
    and small: "balance env st s + amount < max_amount"
    and st': "st' (walletIdOf env s) = Wallet_SerializeToString wallet"
  shows "balance env st' s = balance env st s + amount" "wallet_unknown (wallet_from (st' (walletIdOf env s))) = []"
proof -
  have "0 \<le> amount" using amount(1) by (rule bigint_nonneg)
  have "wire_str (wallet_amount wallet) \<and> wallet_unknown wallet = [] \<and>
      bigint env (wallet_amount wallet) = Inr (balance env st s + amount)"
  proof (cases "st (walletIdOf env s) = []")
    case True
    have "ascii amountString" using ok amount(1)
      by (auto simp: bigint_ok_def bigint_def getBigint_def split: option.splits)
    then show ?thesis using True c amount
      by (auto simp: credited_def balance_def Wallet_Clear_def)
  next
    case False
    then obtain n where n: "bigint env (wallet_amount (wallet_from (st (walletIdOf env s)))) = Inr n"
        "wallet = (wallet_from (st (walletIdOf env s)))\<lparr>wallet_amount := toString env (n + amount)\<rparr>"
      using c by (auto simp: credited_def)
    have b: "balance env st s = n" using False n(1) by (rule balance_stored)
    have "0 \<le> n" using n(1) by (rule bigint_nonneg)
    with \<open>0 \<le> amount\<close> b small show ?thesis using n(2) clean ok
      by (simp add: wire_toString bigint_toString)
  qed
  then show "balance env st' s = balance env st s + amount"
    and "wallet_unknown (wallet_from (st' (walletIdOf env s))) = []"
    using balance_written [OF ok] st' wallet_written [of wallet] by auto
qed

text \<open>Debiting one.\<close>

lemma debited_balance:
  assumes ok: "bigint_ok env"
    and st: "st (walletIdOf env s) \<noteq> []" "wallet_unknown (wallet_from (st (walletIdOf env s))) = []"
    and n: "bigint env (wallet_amount (wallet_from (st (walletIdOf env s)))) = Inr n" "0 \<le> n - m" "0 \<le> m" "n < max_amount"
    and st': "st' (walletIdOf env s) =
      Wallet_SerializeToString ((wallet_from (st (walletIdOf env s)))\<lparr>wallet_amount := toString env (n - m)\<rparr>)"
  shows "balance env st' s = balance env st s - m" "wallet_unknown (wallet_from (st' (walletIdOf env s))) = []"
proof -
  let ?w = "(wallet_from (st (walletIdOf env s)))\<lparr>wallet_amount := toString env (n - m)\<rparr>"
  have "balance env st s = n" using st(1) n(1) by (rule balance_stored)
  moreover have w: "wire_str (wallet_amount ?w)" "wallet_unknown ?w = []"
      "bigint env (wallet_amount ?w) = Inr (n - m)"
    using ok n st(2) by (simp_all add: wire_toString bigint_toString)
  ultimately show "balance env st' s = balance env st s - m"
    using balance_written [where st = st' and s = s, OF ok w st'] by simp
  show "wallet_unknown (wallet_from (st' (walletIdOf env s))) = []"
    using wallet_written [OF w(1,2)] w(2) st' by simp
qed

text \<open>The end of a handler: the fee record, the wallet, one write.\<close>

lemma finish_ok:
  assumes ok: "session_ok env w" and run: "setStates env (states @ [(feeId, d), (k, d')]) w = (Inr u, w')"
  shows "session_ok env w' \<and> same_session env w w' \<and>
    view env w' = (write_all states (view env w))(feeId := d, k := d')"
  using state.wr_ok [OF ok run] by (simp add: write_all_append)

end
