(* ===== verification/Sample.thy ===== *)
theory Sample
  imports Effects
begin

section \<open>A concrete environment\<close>

text \<open>
  An instance of \<open>env\<close> in which everything computes and every law holds: decimal numbers, a
  padding in place of the digest, a validator that is a mapping.  The hypotheses of the
  properties are satisfiable because they hold here.
\<close>

definition lower_char :: "char \<Rightarrow> char" where
  "lower_char c = (if 65 \<le> (of_char c :: nat) \<and> of_char c \<le> (90 :: nat) then char_of (of_char c + (32 :: nat)) else c)"

definition pad_digest :: "string \<Rightarrow> string" where
  "pad_digest m = map lower_char (take 128 (rev m @ replicate 128 CHR ''0''))"

definition sample_env :: "(string \<Rightarrow> string) env" where
  "sample_env = \<lparr>asserts = True, sha512 = pad_digest, read_cpp_int = read_integer,
     show_cpp_int = dump_integer, to_int = (\<lambda>n. n), to_uint64 = word_of_int,
     to_lower = map lower_char, iequals = (\<lambda>a b. map lower_char a = map lower_char b),
     boost_starts_with = (\<lambda>s p. starts_with p s), snprintf_g = (\<lambda>_. ''1.5''),
     pow_fixed = (\<lambda>p. if p = 0 then ''1.000000'' else ''0.950000''),
     txn_signer_public_key = ''02'' @ replicate 64 CHR ''a'', txn_payload = [], txn_nonce = ''nonce'',
     txn_family_version = ''1.7'', txn_block_signature = [],
     GetState = (\<lambda>v k. Inr (v k \<noteq> [], v k)), SetState = (\<lambda>kvs v. (Inr (), write_all kvs v)),
     DeleteState = (\<lambda>k v. (Inr (), v(k := []))), GetTip = (\<lambda>v. Inr 1000),
     GetStatesByPrefix = (\<lambda>v prefix root start. Inr ([], [], [])),
     GetSigByNum = (\<lambda>v n. Inr ''miner''), GetRewardBlockSignatures = (\<lambda>v s a b. Inr []),
     read_settings = (\<lambda>_. []), local_gateway = (\<lambda>v cmd. Inr ''good''),
     external_gateway = (\<lambda>v a cmd. Inr None)\<rparr>"

definition sample_world :: "string smap \<Rightarrow> string \<Rightarrow> (string \<Rightarrow> string) world" where
  \<comment> \<open>transitioning at block 100, over the given state, with the given signer\<close>
  "sample_world st me = \<lparr>validator = (\<lambda>_. []),
     ctx = \<lparr>ctx_sighash = me, ctx_guid = ''guid'', ctx_tip = 100, ctx_replaying = False,
       ctx_transitioning = True, ctx_currentState = []\<rparr>,
     tipCurrentState = [], transitioningState = st, settings = [], externalGatewayAddress = [],
     v2block = 0, transitioning = True, blocks = [], txguid2prevblockidx = [],
     updatedBlockIdx = 0, updatedTxIdx = 0, dealExpFixBlock = 278890\<rparr>"

lemma sample_bigint_ok [simp]: "bigint_ok sample_env"
  by (rule decimal_bigint_ok) (simp_all add: sample_env_def)

lemma sample_sha512_ok [simp]: "sha512_ok sample_env"
  by (auto simp: sha512_ok_def sample_env_def pad_digest_def min_def)

lemma sample_stored [simp]: "stored sample_env v = v"
  by (simp add: stored_def sample_env_def fun_eq_iff)

lemma sample_validator_ok [simp]: "validator_ok sample_env"
  by (simp add: validator_ok_def) (simp add: sample_env_def)

lemma sample_session_ok [simp]: "session_ok sample_env (sample_world st me)"
  by (simp add: session_ok_def sample_world_def)

lemma sample_view [simp]:
  "view sample_env (sample_world st me) k = (case map_find st k of Some d \<Rightarrow> d | None \<Rightarrow> [])"
  by (simp add: view_def overlay_def sample_world_def)

lemma sample_signer [simp]:
  "signer sample_env (sample_world st me) = Inr me" "guid_of sample_env (sample_world st me) = ''guid''"
  "tip_of sample_env (sample_world st me) = 100"
  by (simp_all add: signer_def guid_of_def tip_of_def sample_world_def)

lemma sample_read [simp]: "getStateData sample_env k existing (sample_world st me) =
    (if existing \<and> view sample_env (sample_world st me) k = []
     then (Inl (InvalidTransaction (''Existing state expected '' @ k)), sample_world st me)
     else (Inr (view sample_env (sample_world st me) k), sample_world st me))"
  by (simp add: getStateData_eq del: sample_view)

lemma sample_getSighash [simp]:
  "getSighash sample_env (sample_world st me) = (Inr me, sample_world st me)"
  "getGuid sample_env (sample_world st me) = (Inr ''guid'', sample_world st me)"
  "lastBlockInt sample_env (sample_world st me) = (Inr 100, sample_world st me)"
  "lastBlock sample_env (sample_world st me) = (Inr (toString sample_env 100), sample_world st me)"
  by (simp_all add: getSighash_ok getGuid_ok lastBlockInt_eq lastBlock_eq)

lemma sample_write: "\<exists>w'. setStates sample_env kvs (sample_world st me) = (Inr (), w')"
  using setStates_effect [OF sample_session_ok] by blast

text \<open>Numbers and text.\<close>

lemma sample_toString: "toString sample_env n = dump_integer n"
  by (simp add: toString_def sample_env_def)

lemma sample_bigint: "bigint sample_env s = (case read_integer s of None \<Rightarrow> Inl (InvalidTransaction ''Invalid number format'')
     | Some n \<Rightarrow> if n < 0 then Inl (InvalidTransaction ''Expecting a positive value'') else Inr n)"
  by (simp add: bigint_def getBigint_def sample_env_def split: option.split)

lemma sample_bigint_dump [simp]: "0 \<le> n \<Longrightarrow> bigint sample_env (dump_integer n) = Inr n"
  by (simp add: sample_bigint read_integer_dump)

lemma plain_digits: "digits_only s \<Longrightarrow> plain s"
  by (auto simp: digits_only_def plain_def list_all_iff isdigit_def)

lemma plain_dump: "0 \<le> n \<Longrightarrow> plain (dump_integer n)"
  by (rule plain_digits) (auto simp: dump_integer_def dump_digits_only isdigit_def)

lemma sample_query_string:
  assumes "map_of ms key = Some (JString s)" and "plain s"
  shows "query_string sample_env (JObject ms) key name = Inr s"
  using getString_string [of "JObject ms" key s] assms
  by (simp add: query_string_def json_find_def dump_escaped_plain)

lemma sample_query_lower:
  assumes "map_of ms key = Some (JString s)" and "plain s"
  shows "getStringLower sample_env (JObject ms) key name = Inr (map lower_char s)"
proof -
  have "to_lower sample_env = map lower_char" by (simp add: sample_env_def)
  then show ?thesis by (simp add: getStringLower_def sample_query_string [OF assms] sbnd_def)
qed

lemma sample_query_bigint:
  assumes "map_of ms key = Some (JString (dump_integer n))" and "0 \<le> n"
  shows "query_bigint sample_env (JObject ms) key name = Inr (dump_integer n, n)"
  by (simp add: query_bigint_def sample_query_string [OF assms(1) plain_dump] assms(2) sbnd_def)

definition wallet_of :: "int \<Rightarrow> string" where
  \<comment> \<open>the data of a wallet with a balance\<close>
  "wallet_of n = Wallet_SerializeToString (Wallet_Clear\<lparr>wallet_amount := dump_integer n\<rparr>)"

lemma wallet_of_from: "\<bar>n\<bar> < max_amount \<Longrightarrow> wallet_from (wallet_of n) = Wallet_Clear\<lparr>wallet_amount := dump_integer n\<rparr>"
  by (simp add: wallet_of_def Wallet_wf_def Wallet_Clear_def dump_integer_wire)

lemma wallet_of_not_Nil: "wallet_of n \<noteq> []"
  using dump_integer_head [of n]
  by (simp add: wallet_of_def Wallet_SerializeToString_def str_out_def WriteStringToArray_def Wallet_Clear_def)

lemma wallet_of_simps [simp]:
  "0 \<le> n \<Longrightarrow> n < max_amount \<Longrightarrow> bigint sample_env (wallet_amount (wallet_from (wallet_of n))) = Inr n"
  "0 \<le> n \<Longrightarrow> n < max_amount \<Longrightarrow> wallet_unknown (wallet_from (wallet_of n)) = []"
  "wallet_from [] = Wallet_Clear" "wallet_unknown Wallet_Clear = []"
  by (simp_all add: wallet_of_from Wallet_Clear_def) (simp add: wallet_from_Nil Wallet_Clear_def)

lemma max_amount_big: "n \<le> 10 ^ 40 \<Longrightarrow> n < max_amount"
  by (simp add: max_amount_def)

text \<open>A state in which one sighash has a wallet.\<close>

definition one_wallet :: "string \<Rightarrow> int \<Rightarrow> string smap" where
  "one_wallet s n = [(walletIdOf sample_env s, wallet_of n)]"

lemma one_wallet_find [simp]:
  "map_find (one_wallet s n) k = (if k = walletIdOf sample_env s then Some (wallet_of n) else None)"
  by (simp add: one_wallet_def map_find_def)

lemma one_wallet_balance:
  assumes "0 \<le> n" "n < max_amount"
  shows "balance sample_env (view sample_env (sample_world (one_wallet s n) me)) t = (if t = s then n else 0)"
  using assms by (simp add: balance_def Let_def wallet_of_not_Nil)

lemma one_wallet_clean:
  assumes "0 \<le> n" "n < max_amount"
  shows "clean_wallets sample_env (view sample_env (sample_world (one_wallet s n) me))"
  using assms by (auto simp: clean_wallets_def)

subsection \<open>Queries of text, and states with several records\<close>

definition text_query :: "(string \<times> string) list \<Rightarrow> json" where
  "text_query ps = JObject (map (\<lambda>(k, v). (k, JString v)) ps)"

lemma text_query_find: "json_find (text_query ps) key = (case map_of ps key of None \<Rightarrow> None | Some v \<Rightarrow> Some (JString v))"
  by (induction ps) (auto simp: text_query_def json_find_def)

lemma text_query_string:
  assumes "\<forall>(k, v) \<in> set ps. plain v"
  shows "query_string sample_env (text_query ps) key nm =
    (case map_of ps key of None \<Rightarrow> Inl (InvalidTransaction (''Expecting '' @ nm)) | Some v \<Rightarrow> Inr v)"
proof (cases "map_of ps key")
  case None
  then show ?thesis by (simp add: query_string_def getString_def getParam_def text_query_find sbnd_def)
next
  case (Some v)
  then have "plain v" using assms map_of_SomeD [OF Some] by auto
  moreover have "json_find (text_query ps) key = Some (JString v)" using Some by (simp add: text_query_find)
  ultimately show ?thesis using getString_string [of "text_query ps" key v] Some
    by (simp add: query_string_def dump_escaped_plain)
qed

lemma text_query_lower:
  assumes "\<forall>(k, v) \<in> set ps. plain v"
  shows "getStringLower sample_env (text_query ps) key nm =
    (case map_of ps key of None \<Rightarrow> Inl (InvalidTransaction (''Expecting '' @ nm)) | Some v \<Rightarrow> Inr (map lower_char v))"
proof -
  have "to_lower sample_env = map lower_char" by (simp add: sample_env_def)
  then show ?thesis by (simp add: getStringLower_def text_query_string [OF assms] sbnd_def split: option.split)
qed

lemma lower_char_ascii: "(of_char c :: nat) < 128 \<Longrightarrow> (of_char (lower_char c) :: nat) < 128"
  by (auto simp: lower_char_def)

lemma text_query_wire:
  assumes "\<forall>(k, v) \<in> set ps. plain v \<and> ascii v \<and> length v < 2 ^ 31"
    and "query_string sample_env (text_query ps) key nm = Inr s \<or> getStringLower sample_env (text_query ps) key nm = Inr s"
  shows "wire_str s"
proof -
  have p: "\<forall>(k, v) \<in> set ps. plain v" using assms(1) by auto
  obtain v where v: "map_of ps key = Some v" "s = v \<or> s = map lower_char v"
    using assms(2) by (auto simp: text_query_string [OF p] text_query_lower [OF p] split: option.splits)
  have "ascii v" "length v < 2 ^ 31" using assms(1) map_of_SomeD [OF v(1)] by auto
  then show ?thesis using v(2) lower_char_ascii by (auto simp: ascii_def list_all_iff intro!: wire_str_ascii)
qed

lemma sample_prefix [simp]: "namespacePrefix sample_env = ''niocti''"
  by code_simp

lemma sample_wallet_id: "walletIdOf sample_env s = ''niocti0000'' @ s"
  by (simp add: walletIdOf_def WALLET_def)

end
