(* ===== verification/Funds.thy ===== *)
theory Funds
  imports Sample
begin

section \<open>Moving coins\<close>

text \<open>
  What \<open>SendFunds\<close>, \<open>CollectCoins\<close> and the charging of a fee do to the balances.
\<close>

lemma SendFunds_ok:
  assumes ok: "session_ok env w"
    and q1: "query_bigint env query ''p1'' ''amount'' = Inr (amountString, amount)"
    and q2: "getStringLower env query ''p2'' ''sighash'' = Inr dst"
    and q3: "signer env w = Inr src"
    and run: "SendFunds env query w = (Inr u, w')"
  shows "\<exists>n feeId dstWallet.
    src \<noteq> dst \<and> view env w (walletIdOf env src) \<noteq> [] \<and>
    bigint env (wallet_amount (wallet_from (view env w (walletIdOf env src)))) = Inr n \<and>
    amount + TX_FEE \<le> n \<and> makeAddress env FEE (guid_of env w) = Inr feeId \<and>
    credited env (view env w (walletIdOf env dst)) amountString amount dstWallet \<and>
    session_ok env w' \<and> same_session env w w' \<and>
    view env w' = (view env w)
      (walletIdOf env dst := Wallet_SerializeToString dstWallet,
       feeId := fee_data env w src,
       walletIdOf env src := Wallet_SerializeToString
         ((wallet_from (view env w (walletIdOf env src)))\<lparr>wallet_amount := toString env (n - (amount + TX_FEE))\<rparr>))"
  using run unfolding SendFunds_def
  by (auto simp: act_ok Let_def q1 q2 q3 state.rd_ok [OF ok] addFee_wallet_ok [OF ok]
      dest!: state.wr_ok [OF ok])

text \<open>C2. A transfer of coins that is accepted moves exactly the amount: the sender loses it and
  the transaction fee, the receiver gains it, every other balance is unchanged; the sender
  had enough, and does not pay itself.\<close>

theorem SendFunds_moves_coins:
  assumes ok: "session_ok env w" "bigint_ok env" "clean_wallets env (view env w)"
    and q1: "query_bigint env query ''p1'' ''amount'' = Inr (amountString, amount)"
    and q2: "getStringLower env query ''p2'' ''sighash'' = Inr dst"
    and q3: "signer env w = Inr src"
    and small: "\<forall>s. balance env (view env w) s + amount < max_amount" "length amountString < 2 ^ 31"
    and run: "SendFunds env query w = (Inr u, w')"
  shows "src \<noteq> dst \<and> amount + TX_FEE \<le> balance env (view env w) src \<and>
    balance env (view env w') src = balance env (view env w) src - (amount + TX_FEE) \<and>
    balance env (view env w') dst = balance env (view env w) dst + amount \<and>
    (\<forall>s. s \<noteq> src \<and> s \<noteq> dst \<longrightarrow> balance env (view env w') s = balance env (view env w) s) \<and>
    clean_wallets env (view env w')"
proof -
  obtain n feeId dstWallet where ne: "src \<noteq> dst" and data: "view env w (walletIdOf env src) \<noteq> []"
    and n: "bigint env (wallet_amount (wallet_from (view env w (walletIdOf env src)))) = Inr n"
    and enough: "amount + TX_FEE \<le> n" and feeId: "makeAddress env FEE (guid_of env w) = Inr feeId"
    and dst: "credited env (view env w (walletIdOf env dst)) amountString amount dstWallet"
    and w': "view env w' = (view env w)
      (walletIdOf env dst := Wallet_SerializeToString dstWallet,
       feeId := fee_data env w src,
       walletIdOf env src := Wallet_SerializeToString
         ((wallet_from (view env w (walletIdOf env src)))\<lparr>wallet_amount := toString env (n - (amount + TX_FEE))\<rparr>))"
    using SendFunds_ok [OF ok(1) q1 q2 q3 run] by blast
  have fee: "feeId \<noteq> walletIdOf env s" for s using fee_not_wallet [OF feeId] .
  have clean: "wallet_unknown (wallet_from (view env w (walletIdOf env s))) = []" for s
    using ok(3) by (simp add: clean_wallets_def)
  have amount: "bigint env amountString = Inr amount"
    using q1 by (auto simp: query_bigint_def sbnd_ok)
  then have "0 \<le> amount" by (rule bigint_nonneg)
  have b: "balance env (view env w) src = n" using data n by (rule balance_stored)
  then have "n < max_amount" using small(1) [rule_format, of src] \<open>0 \<le> amount\<close> by linarith
  note debit = debited_balance [where st = "view env w" and st' = "view env w'" and s = src and n = n and m = "amount + TX_FEE"]
  note credit = credited_balance [where st = "view env w" and st' = "view env w'" and s = dst]
  have src: "view env w' (walletIdOf env src) = Wallet_SerializeToString
      ((wallet_from (view env w (walletIdOf env src)))\<lparr>wallet_amount := toString env (n - (amount + TX_FEE))\<rparr>)"
    by (simp add: w')
  have dst': "view env w' (walletIdOf env dst) = Wallet_SerializeToString dstWallet"
    using ne fee by (simp add: w' fee [symmetric])
  have other: "view env w' (walletIdOf env s) = view env w (walletIdOf env s)" if "s \<noteq> src" "s \<noteq> dst" for s
    using that fee by (simp add: w' fee [symmetric])
  have src_balance: "balance env (view env w') src = balance env (view env w) src - (amount + TX_FEE)"
    "wallet_unknown (wallet_from (view env w' (walletIdOf env src))) = []"
    using debit [OF ok(2) data clean n _ _ \<open>n < max_amount\<close> src] enough \<open>0 \<le> amount\<close> TX_FEE_pos by linarith+
  have dst_balance: "balance env (view env w') dst = balance env (view env w) dst + amount"
    "wallet_unknown (wallet_from (view env w' (walletIdOf env dst))) = []"
    using credit [OF ok(2) dst amount small(2) clean _ dst'] small(1) by auto
  have "clean_wallets env (view env w')"
    unfolding clean_wallets_def using src_balance(2) dst_balance(2) other clean by metis
  then show ?thesis
    using ne enough b src_balance dst_balance other balance_same by metis
qed

lemma sample_SendFunds_run:
  "\<exists>w'. SendFunds sample_env (JObject [(''p1'', JString (dump_integer 500)), (''p2'', JString ''bob'')])
     (sample_world (one_wallet ''alice'' (TX_FEE + 700)) ''alice'') = (Inr (), w')"
proof -
  define q where "q = JObject [(''p1'', JString (dump_integer 500)), (''p2'', JString ''bob'')]"
  let ?q = q
  let ?w = "sample_world (one_wallet ''alice'' (TX_FEE + 700)) ''alice''"
  have q1: "query_bigint sample_env ?q ''p1'' ''amount'' = Inr (dump_integer 500, 500)"
    unfolding q_def by (rule sample_query_bigint) simp_all
  have q2: "getStringLower sample_env ?q ''p2'' ''sighash'' = Inr ''bob''"
    unfolding q_def
    by (subst sample_query_lower [where s = "''bob''"]) (simp_all add: plain_def lower_char_def)
  obtain feeId where feeId: "makeAddress sample_env FEE ''guid'' = Inr feeId"
    using makeAddress_ok [OF sample_sha512_ok, of FEE "''guid''"] by (auto simp: FEE_def)
  have b: "bigint sample_env (wallet_amount (wallet_from (wallet_of (TX_FEE + 700)))) = Inr (TX_FEE + 700)"
    by (simp add: TX_FEE_def max_amount_def)
  obtain w1 where "setStates sample_env
      [(walletIdOf sample_env ''bob'', Wallet_SerializeToString (Wallet_Clear\<lparr>wallet_amount := dump_integer 500\<rparr>)),
       (feeId, fee_data sample_env ?w ''alice''),
       (walletIdOf sample_env ''alice'', Wallet_SerializeToString
         ((wallet_from (wallet_of (TX_FEE + 700)))\<lparr>wallet_amount := toString sample_env 200\<rparr>))] ?w = (Inr (), w1)"
    using sample_write by blast
  then have "SendFunds sample_env ?q ?w = (Inr (), w1)"
    by (simp add: SendFunds_def act_step q1 q2 wallet_of_not_Nil b credit_def addFee_wallet_def addFee_def
        feeId fee_data_def Let_def)
  then show ?thesis unfolding q_def by blast
qed

theorem SendFunds_moves_coins_witness:
  "\<exists>w'. balance sample_env (view sample_env w') ''alice'' = 200 \<and> balance sample_env (view sample_env w') ''bob'' = 500"
proof -
  let ?q = "JObject [(''p1'', JString (dump_integer 500)), (''p2'', JString ''bob'')]"
  let ?w = "sample_world (one_wallet ''alice'' (TX_FEE + 700)) ''alice''"
  obtain w' where run: "SendFunds sample_env ?q ?w = (Inr (), w')" using sample_SendFunds_run by blast
  have n: "0 \<le> TX_FEE + 700" "TX_FEE + 700 < max_amount" "TX_FEE + 700 + 500 < max_amount"
    by (simp_all add: TX_FEE_def max_amount_def)
  have q1: "query_bigint sample_env ?q ''p1'' ''amount'' = Inr (dump_integer 500, 500)"
    by (rule sample_query_bigint) simp_all
  have q2: "getStringLower sample_env ?q ''p2'' ''sighash'' = Inr ''bob''"
    by (subst sample_query_lower [where s = "''bob''"]) (simp_all add: plain_def lower_char_def)
  have small: "\<forall>s. balance sample_env (view sample_env ?w) s + 500 < max_amount"
    using n by (simp add: one_wallet_balance)
  have len: "length (dump_integer 500) < 2 ^ 31"
    using dump_integer_wire [of 500] by (simp add: wire_str_def max_amount_def)
  have "balance sample_env (view sample_env w') ''alice'' =
        balance sample_env (view sample_env ?w) ''alice'' - (500 + TX_FEE) \<and>
      balance sample_env (view sample_env w') ''bob'' = balance sample_env (view sample_env ?w) ''bob'' + 500"
    using SendFunds_moves_coins [OF sample_session_ok sample_bigint_ok one_wallet_clean [OF n(1,2)] q1 q2
        sample_signer(1) small len run] by blast
  then show ?thesis by (intro exI [of _ w']) (simp add: one_wallet_balance [OF n(1,2)])
qed

end
