(* ===== verification/Atomicity.thy ===== *)
theory Atomicity
  imports Funds
begin

section \<open>A rejected transaction leaves no trace\<close>

text \<open>
  Every handler but \<open>Housekeeping\<close> reads and checks before its first write, and its writes
  do not fail when the validator works.  So a handler that throws has changed nothing.
\<close>

named_theorems pure_steps "the reading steps of the handlers"

lemma pure_store [pure_steps]:
  "pure_act (getState env k)" "pure_act (getSighash env)" "pure_act (getGuid env)" "pure_act (lastBlockInt env)"
  by (auto simp: getState_def getSighash_def getGuid_def lastBlockInt_def)

lemma pure_getStateData [pure_steps]: "pure_act (getStateData env k existing)"
  unfolding getStateData_def by (intro pure_act_bnd pure_act_prod pure_act_intros pure_steps)

lemma pure_lastBlock [pure_steps]: "pure_act (lastBlock env)"
  unfolding lastBlock_def by (intro pure_act_bnd pure_act_intros pure_steps)

lemma pure_charge [pure_steps]: "pure_act (charge env s)"
  unfolding charge_def Let_def by (intro pure_act_bnd pure_act_intros pure_steps)

lemma pure_credit [pure_steps]: "pure_act (credit env d t n)"
  unfolding credit_def Let_def by (intro pure_act_if pure_act_bnd pure_act_intros)

lemma pure_addFee [pure_steps]: "pure_act (addFee env s states)" "pure_act (addFee_wallet env s states k wallet)"
  unfolding addFee_wallet_def addFee_def by (intro pure_act_bnd pure_act_intros pure_steps)+

lemma pure_verify [pure_steps]: "pure_act (verify env cmd)"
proof -
  let ?m = "bnd (reads (\<lambda>w. local_gateway env (validator w) cmd)) (\<lambda>response.
          bnd (reads (\<lambda>w.
            if (response = [] \<or> response = ''miss'') \<and> externalGatewayAddress w \<noteq> []
            then sbnd (external_gateway env (validator w) (externalGatewayAddress w) cmd)
                   (\<lambda>reply. Inr (case reply of None \<Rightarrow> response | Some r \<Rightarrow> r))
            else Inr response)) (\<lambda>response1.
          throwIf (response1 \<noteq> ''good'') ''Couldn't validate the transaction''))"
  have "pure_act ?m" by (intro pure_act_bnd pure_act_intros)
  then show ?thesis by (auto simp: pure_act_def verify_def)
qed

lemma total_setStates: "total_on (session_ok env) (setStates env states)"
  using setStates_effect by (fastforce simp: total_on_def)

lemma total_deleteState: "total_on (session_ok env) (deleteState env k)"
  using deleteState_effect by (fastforce simp: total_on_def)

lemmas clean_writes = clean_total [OF total_setStates] clean_total [OF total_deleteState]

lemmas pure_rules = pure_act_bnd pure_act_prod pure_act_if pure_act_intros pure_steps

lemma clean_handlers:
  "clean_on (session_ok env) (SendFunds env query)"
  "clean_on (session_ok env) (RegisterAddress env query)"
  "clean_on (session_ok env) (RegisterTransfer env query)"
  "clean_on (session_ok env) (CollectCoins env query)"
  "clean_on (session_ok env) (AddAskOrder env query)"
  "clean_on (session_ok env) (AddBidOrder env query)"
  "clean_on (session_ok env) (AddOffer env query)"
  "clean_on (session_ok env) (CompleteDealOrder env query)"
  "clean_on (session_ok env) (LockDealOrder env query)"
  "clean_on (session_ok env) (CloseDealOrder env query)"
  "clean_on (session_ok env) (Exempt env query)"
  "clean_on (session_ok env) (AddRepaymentOrder env query)"
  "clean_on (session_ok env) (CompleteRepaymentOrder env query)"
  "clean_on (session_ok env) (CloseRepaymentOrder env query)"
  unfolding SendFunds_def RegisterAddress_def RegisterTransfer_def CollectCoins_def AddAskOrder_def
    AddBidOrder_def AddOffer_def CompleteDealOrder_def LockDealOrder_def CloseDealOrder_def Exempt_def
    AddRepaymentOrder_def CompleteRepaymentOrder_def CloseRepaymentOrder_def Let_def
  by (intro clean_bnd clean_prod clean_writes pure_rules)+

lemma clean_deal_writes:
  "clean_on (session_ok env) (bnd (setStates env states) (\<lambda>_. bnd (deleteState env a) (\<lambda>_.
     bnd (deleteState env b) (\<lambda>_. deleteState env c))))"
  by (intro clean_total total_bnd total_setStates total_deleteState)

lemma clean_AddDealOrder: "clean_on (session_ok env) (AddDealOrder env query)"
  unfolding AddDealOrder_def Let_def
  by ((rule clean_deal_writes | rule clean_bnd | rule clean_prod | rule pure_rules)+)

text \<open>C8. A transaction that a handler rejects leaves the processor and the validator as they
  were: whatever fails, nothing has been written.  This holds for every command but
  \<open>Housekeeping\<close>, which deletes and refunds as it goes.\<close>

theorem rejected_transaction_has_no_effect:
  assumes "session_ok env w" and "(name, h) \<in> set (handlers env)" and "name \<noteq> ''Housekeeping''"
    and "h query w = (Inl e, w')"
  shows "w' = w"
proof -
  from assms(2) have "clean_on (session_ok env) (h query) \<or> name = ''Housekeeping''"
    unfolding handlers_def list.set insert_iff empty_iff prod.inject
    by (elim disjE conjE FalseE) (simp_all only: clean_handlers clean_AddDealOrder simp_thms)
  then have "clean_on (session_ok env) (h query)" using assms(3) by blast
  then show ?thesis using assms(1,4) by (auto simp: clean_on_def)
qed

theorem rejected_transaction_has_no_effect_witness:
  "SendFunds sample_env (JObject [(''p1'', JString (dump_integer 500)), (''p2'', JString ''alice'')])
     (sample_world [] ''alice'') = (Inl (InvalidTransaction ''Invalid destination''), sample_world [] ''alice'')"
proof -
  define q where "q = JObject [(''p1'', JString (dump_integer 500)), (''p2'', JString ''alice'')]"
  have q1: "query_bigint sample_env q ''p1'' ''amount'' = Inr (dump_integer 500, 500)"
    unfolding q_def by (rule sample_query_bigint) simp_all
  have q2: "getStringLower sample_env q ''p2'' ''sighash'' = Inr ''alice''"
    unfolding q_def
    by (subst sample_query_lower [where s = "''alice''"]) (simp_all add: plain_def lower_char_def)
  have run: "fst (SendFunds sample_env q (sample_world [] ''alice'')) = Inl (InvalidTransaction ''Invalid destination'')"
    by (simp add: SendFunds_def act_step q1 q2)
  then obtain w' where w': "SendFunds sample_env q (sample_world [] ''alice'') =
      (Inl (InvalidTransaction ''Invalid destination''), w')"
    by (metis prod.collapse)
  have "(''SendFunds'', SendFunds sample_env) \<in> set (handlers sample_env)"
    by (simp add: handlers_def)
  from rejected_transaction_has_no_effect [OF sample_session_ok this _ w']
  have "w' = sample_world [] ''alice''" by simp
  with w' show ?thesis by (simp add: q_def)
qed

end
