(* ===== verification/Order_Effects.thy ===== *)
theory Order_Effects
  imports Atomicity
begin

section \<open>What the handlers that add records do\<close>

text \<open>
  One elimination lemma per handler: if it accepted the transaction, these checks held, the
  record it adds is this one, and this is the state it leaves.
\<close>

definition new_address :: "string \<Rightarrow> string \<Rightarrow> string \<Rightarrow> string \<Rightarrow> Address" where
  "new_address blockchain addressString network my =
     Address_Clear\<lparr>address_blockchain := blockchain, address_value := addressString,
       address_network := network, address_sighash := my\<rparr>"

lemma RegisterAddress_ok:
  assumes ok: "session_ok env w" and run: "RegisterAddress env query w = (Inr u, w')"
  shows "\<exists>my blockchain addressString network wallet addressId feeId.
    getStringLower env query ''p1'' ''blockchain'' = Inr blockchain \<and>
    query_string env query ''p2'' ''address'' = Inr addressString \<and>
    getStringLower env query ''p3'' ''network'' = Inr network \<and>
    signer env w = Inr my \<and> charge env my w = (Inr (walletIdOf env my, wallet), w) \<and>
    makeAddress env ADDR (blockchain @ to_lower env addressString @ network) = Inr addressId \<and>
    view env w addressId = [] \<and> makeAddress env FEE (guid_of env w) = Inr feeId \<and>
    session_ok env w' \<and> same_session env w w' \<and>
    view env w' = (view env w)
      (addressId := Address_SerializeToString (new_address blockchain addressString network my),
       walletIdOf env my := Wallet_SerializeToString wallet, feeId := fee_data env w my)"
  using run unfolding RegisterAddress_def
  apply (clarsimp simp: act_ok Let_def charge_ok [OF ok] state.rd_ok [OF ok] addFee_ok [OF ok])
  apply (drule state.wr_ok [OF ok])
  apply (auto simp: new_address_def)
  done

definition new_transfer ::
  "'v env \<Rightarrow> int \<Rightarrow> Address \<Rightarrow> string \<Rightarrow> string \<Rightarrow> string \<Rightarrow> string \<Rightarrow> string \<Rightarrow> string \<Rightarrow> Transfer" where
  "new_transfer env tip src srcId dstId orderId amountString tx my =
     Transfer_Clear\<lparr>transfer_blockchain := address_blockchain src, transfer_src_address := srcId,
       transfer_dst_address := dstId, transfer_order := orderId, transfer_amount := amountString,
       transfer_tx := tx, transfer_block := toString env tip, transfer_processed := False,
       transfer_sighash := my\<rparr>"

lemma verify_pure: "verify env c w = (r, w') \<Longrightarrow> w' = w"
  by (rule pure_actD [OF pure_verify])

definition verified :: "'v env \<Rightarrow> string \<Rightarrow> 'v world \<Rightarrow> bool" where
  \<comment> \<open>a gateway vouches for the command (while transitioning none is asked)\<close>
  "verified env c w \<longleftrightarrow> (\<exists>w'. verify env c w = (Inr (), w'))"

lemma verify_ok [act_ok]: "verify env c w = (Inr u, w') \<longleftrightarrow> w' = w \<and> verified env c w"
  unfolding verified_def using verify_pure by fastforce

lemma transferred_amount_ok:
  "(if tx = ''0'' then ret ''0''
    else bnd (lift (bigint env agreed)) (\<lambda>amount.
         bnd (verify env (gateway_command src dst orderId (toString env (amount + gain)) tx)) (\<lambda>_. ret (toString env (amount + gain))))) w
     = (Inr a, w1) \<longleftrightarrow>
   w1 = w \<and> (if tx = ''0'' then a = ''0''
     else \<exists>amount. bigint env agreed = Inr amount \<and> a = toString env (amount + gain) \<and>
       verified env (gateway_command src dst orderId (toString env (amount + gain)) tx) w)"
  by (auto simp: act_ok)

lemma RegisterTransfer_ok:
  assumes ok: "session_ok env w" and run: "RegisterTransfer env query w = (Inr u, w')"
  shows "\<exists>my wallet gainString gain orderId tx srcId dstId agreed src transferId amountString feeId.
    signer env w = Inr my \<and> charge env my w = (Inr (walletIdOf env my, wallet), w) \<and>
    query_string env query ''p1'' ''gain'' = Inr gainString \<and> getBigint env gainString True = Inr gain \<and>
    getStringLower env query ''p2'' ''orderId'' = Inr orderId \<and>
    getStringLower env query ''p3'' ''blockchainTxId'' = Inr tx \<and> view env w orderId \<noteq> [] \<and>
    transfer_parties env orderId gain (view env w orderId) = Inr (srcId, dstId, agreed) \<and>
    view env w srcId \<noteq> [] \<and> src = address_from (view env w srcId) \<and> address_sighash src = my \<and>
    makeAddress env TRANSFER (address_blockchain src @ tx @ address_network src) = Inr transferId \<and>
    view env w transferId = [] \<and>
    (if tx = ''0'' then amountString = ''0''
     else \<exists>amount. bigint env agreed = Inr amount \<and> amountString = toString env (amount + gain) \<and>
       verified env (gateway_command src (address_from (view env w dstId)) orderId amountString tx) w) \<and>
    makeAddress env FEE (guid_of env w) = Inr feeId \<and>
    session_ok env w' \<and> same_session env w w' \<and>
    view env w' = (view env w)
      (transferId := Transfer_SerializeToString
         (new_transfer env (tip_of env w) src srcId dstId orderId amountString tx my),
       feeId := fee_data env w my, walletIdOf env my := Wallet_SerializeToString wallet)"
  using run unfolding RegisterTransfer_def Let_def
  apply (simp add: act_ok transferred_amount_ok charge_ok [OF ok] state.rd_ok [OF ok] addFee_wallet_ok [OF ok]
      tip_read [OF ok] split_beta split del: if_split)
  apply (elim exE conjE)
  apply (clarsimp split del: if_split)
  apply (drule state.wr_ok [OF ok])
  apply (clarsimp simp: new_transfer_def split del: if_split)
  apply (rule exI, rule conjI)
   defer
   apply (rule refl)
  apply (fastforce split: if_splits)
  done

lemma CollectCoins_ok:
  assumes ok: "session_ok env w" and run: "CollectCoins env query w = (Inr u, w')"
  shows "\<exists>my ethAddress amountString amount tx idn wallet.
    getStringLower env query ''p1'' ''ethAddress'' = Inr ethAddress \<and>
    query_bigint env query ''p2'' ''amount'' = Inr (amountString, amount) \<and>
    getStringLower env query ''p3'' ''blockchainTxId'' = Inr tx \<and>
    makeAddress env ERC20 tx = Inr idn \<and> view env w idn = [] \<and> signer env w = Inr my \<and>
    verified env (''ethereum verify '' @ ethAddress @ '' creditcoin '' @ my @ '' '' @ amountString @ '' '' @ tx @ '' unused'') w \<and>
    credited env (view env w (walletIdOf env my)) amountString amount wallet \<and>
    session_ok env w' \<and> same_session env w w' \<and>
    view env w' = (view env w)(walletIdOf env my := Wallet_SerializeToString wallet, idn := amountString)"
  using run unfolding CollectCoins_def
  apply (clarsimp simp: act_ok Let_def state.rd_ok [OF ok])
  apply (drule state.wr_ok [OF ok])
  apply auto
  done

subsection \<open>Orders and offers\<close>

definition new_ask ::
  "'v env \<Rightarrow> int \<Rightarrow> Address \<Rightarrow> string \<Rightarrow> string \<Rightarrow> string \<Rightarrow> string \<Rightarrow> string \<Rightarrow> 64 word \<Rightarrow> string \<Rightarrow> AskOrder" where
  "new_ask env tip address addressId amount interest maturity fee expiration my =
     AskOrder_Clear\<lparr>ask_blockchain := address_blockchain address, ask_address := addressId,
       ask_amount := amount, ask_interest := interest, ask_maturity := maturity, ask_fee := fee,
       ask_expiration := expiration, ask_block := toString env tip, ask_sighash := my\<rparr>"

definition new_bid ::
  "'v env \<Rightarrow> int \<Rightarrow> Address \<Rightarrow> string \<Rightarrow> string \<Rightarrow> string \<Rightarrow> string \<Rightarrow> string \<Rightarrow> 64 word \<Rightarrow> string \<Rightarrow> BidOrder" where
  "new_bid env tip address addressId amount interest maturity fee expiration my =
     BidOrder_Clear\<lparr>bid_blockchain := address_blockchain address, bid_address := addressId,
       bid_amount := amount, bid_interest := interest, bid_maturity := maturity, bid_fee := fee,
       bid_expiration := expiration, bid_block := toString env tip, bid_sighash := my\<rparr>"

lemma AddAskOrder_ok:
  assumes ok: "session_ok env w" and run: "AddAskOrder env query w = (Inr u, w')"
  shows "\<exists>my wallet addressId amount interest maturity fee expiration idn feeId address.
    signer env w = Inr my \<and> charge env my w = (Inr (walletIdOf env my, wallet), w) \<and>
    getStringLower env query ''p1'' ''addressId'' = Inr addressId \<and>
    (\<exists>n. query_bigint env query ''p2'' ''amount'' = Inr (amount, n)) \<and>
    (\<exists>n. query_bigint env query ''p3'' ''interest'' = Inr (interest, n)) \<and>
    (\<exists>n. query_bigint env query ''p4'' ''maturity'' = Inr (maturity, n)) \<and>
    (\<exists>n. query_bigint env query ''p5'' ''fee'' = Inr (fee, n)) \<and>
    query_uint64 env query ''p6'' ''expiration'' = Inr expiration \<and>
    makeAddress env ASK_ORDER (guid_of env w) = Inr idn \<and> view env w idn = [] \<and>
    view env w addressId \<noteq> [] \<and> address = address_from (view env w addressId) \<and>
    address_sighash address = my \<and> makeAddress env FEE (guid_of env w) = Inr feeId \<and>
    session_ok env w' \<and> same_session env w w' \<and>
    view env w' = (view env w)
      (idn := AskOrder_SerializeToString
         (new_ask env (tip_of env w) address addressId amount interest maturity fee expiration my),
       feeId := fee_data env w my, walletIdOf env my := Wallet_SerializeToString wallet)"
  using run unfolding AddAskOrder_def Let_def
  apply (simp add: act_ok charge_ok [OF ok] state.rd_ok [OF ok] addFee_wallet_ok [OF ok] tip_read [OF ok] split_beta)
  apply (elim exE conjE)
  apply (clarsimp split: prod.splits)
  apply (drule state.wr_ok [OF ok])
  apply (simp add: new_ask_def)
  done

lemma AddBidOrder_ok:
  assumes ok: "session_ok env w" and run: "AddBidOrder env query w = (Inr u, w')"
  shows "\<exists>my wallet addressId amount interest maturity fee expiration idn feeId address.
    signer env w = Inr my \<and> charge env my w = (Inr (walletIdOf env my, wallet), w) \<and>
    getStringLower env query ''p1'' ''addressId'' = Inr addressId \<and>
    (\<exists>n. query_bigint env query ''p2'' ''amount'' = Inr (amount, n)) \<and>
    (\<exists>n. query_bigint env query ''p3'' ''interest'' = Inr (interest, n)) \<and>
    (\<exists>n. query_bigint env query ''p4'' ''maturity'' = Inr (maturity, n)) \<and>
    (\<exists>n. query_bigint env query ''p5'' ''fee'' = Inr (fee, n)) \<and>
    query_uint64 env query ''p6'' ''expiration'' = Inr expiration \<and>
    makeAddress env BID_ORDER (guid_of env w) = Inr idn \<and> view env w idn = [] \<and>
    view env w addressId \<noteq> [] \<and> address = address_from (view env w addressId) \<and>
    address_sighash address = my \<and> makeAddress env FEE (guid_of env w) = Inr feeId \<and>
    session_ok env w' \<and> same_session env w w' \<and>
    view env w' = (view env w)
      (idn := BidOrder_SerializeToString
         (new_bid env (tip_of env w) address addressId amount interest maturity fee expiration my),
       feeId := fee_data env w my, walletIdOf env my := Wallet_SerializeToString wallet)"
  using run unfolding AddBidOrder_def Let_def
  apply (simp add: act_ok charge_ok [OF ok] state.rd_ok [OF ok] addFee_wallet_ok [OF ok] tip_read [OF ok] split_beta)
  apply (elim exE conjE)
  apply (clarsimp split: prod.splits)
  apply (drule state.wr_ok [OF ok])
  apply (simp add: new_bid_def)
  done

definition offerable :: "'v env \<Rightarrow> 'v world \<Rightarrow> string \<Rightarrow> AskOrder \<Rightarrow> BidOrder \<Rightarrow> bool" where
  \<comment> \<open>the investor's ask and another's bid, both running, on one network, with terms that meet\<close>
  "offerable env w my ask bid \<longleftrightarrow>
     (let src = address_from (view env w (ask_address ask)); dst = address_from (view env w (bid_address bid)) in
      ask_sighash ask = my \<and> bid_sighash bid \<noteq> my \<and>
      order_expired env (ask_block ask) (ask_expiration ask) (tip_of env w) = Inr False \<and>
      order_expired env (bid_block bid) (bid_expiration bid) (tip_of env w) = Inr False \<and>
      address_blockchain src = address_blockchain dst \<and> address_network src = address_network dst \<and>
      orders_mismatch env ask bid = Inr False)"

definition new_offer ::
  "'v env \<Rightarrow> int \<Rightarrow> Address \<Rightarrow> string \<Rightarrow> string \<Rightarrow> 64 word \<Rightarrow> string \<Rightarrow> Offer" where
  "new_offer env tip src askId bidId expiration my =
     Offer_Clear\<lparr>offer_blockchain := address_blockchain src, offer_ask_order := askId,
       offer_bid_order := bidId, offer_expiration := expiration, offer_block := toString env tip,
       offer_sighash := my\<rparr>"

lemma AddOffer_ok:
  assumes ok: "session_ok env w" and run: "AddOffer env query w = (Inr u, w')"
  shows "\<exists>my wallet askId bidId expiration idn feeId ask bid.
    signer env w = Inr my \<and> charge env my w = (Inr (walletIdOf env my, wallet), w) \<and>
    getStringLower env query ''p1'' ''askOrderId'' = Inr askId \<and>
    getStringLower env query ''p2'' ''bidOrderId'' = Inr bidId \<and>
    query_uint64 env query ''p3'' ''expiration'' = Inr expiration \<and>
    makeAddress env OFFER (askId @ bidId) = Inr idn \<and> view env w idn = [] \<and>
    view env w askId \<noteq> [] \<and> ask = ask_from (view env w askId) \<and>
    view env w bidId \<noteq> [] \<and> bid = bid_from (view env w bidId) \<and> offerable env w my ask bid \<and>
    makeAddress env FEE (guid_of env w) = Inr feeId \<and>
    session_ok env w' \<and> same_session env w w' \<and>
    view env w' = (view env w)
      (idn := Offer_SerializeToString
         (new_offer env (tip_of env w) (address_from (view env w (ask_address ask))) askId bidId expiration my),
       feeId := fee_data env w my, walletIdOf env my := Wallet_SerializeToString wallet)"
  using run unfolding AddOffer_def Let_def
  apply (simp add: act_ok charge_ok [OF ok] state.rd_ok [OF ok] addFee_wallet_ok [OF ok] tip_read [OF ok] split_beta)
  apply (elim exE conjE)
  apply (clarsimp split: prod.splits)
  apply (drule state.wr_ok [OF ok])
  apply (simp add: new_offer_def offerable_def)
  done

definition new_repayment ::
  "'v env \<Rightarrow> int \<Rightarrow> Address \<Rightarrow> string \<Rightarrow> DealOrder \<Rightarrow> string \<Rightarrow> 64 word \<Rightarrow> string \<Rightarrow> string \<Rightarrow> RepaymentOrder" where
  "new_repayment env tip src addressId deal amount expiration dealId my =
     RepaymentOrder_Clear\<lparr>repayment_blockchain := address_blockchain src,
       repayment_src_address := addressId, repayment_dst_address := deal_src_address deal,
       repayment_amount := amount, repayment_expiration := expiration, repayment_block := toString env tip,
       repayment_deal := dealId, repayment_sighash := my\<rparr>"

lemma AddRepaymentOrder_ok:
  assumes ok: "session_ok env w" and run: "AddRepaymentOrder env query w = (Inr u, w')"
  shows "\<exists>my wallet dealId addressId amount expiration idn feeId d src new.
    signer env w = Inr my \<and> charge env my w = (Inr (walletIdOf env my, wallet), w) \<and>
    getStringLower env query ''p1'' ''dealOrderId'' = Inr dealId \<and>
    getStringLower env query ''p2'' ''addressId'' = Inr addressId \<and>
    (\<exists>n. query_bigint env query ''p3'' ''amount'' = Inr (amount, n)) \<and>
    query_uint64 env query ''p4'' ''expiration'' = Inr expiration \<and>
    makeAddress env REPAYMENT_ORDER (guid_of env w) = Inr idn \<and> view env w idn = [] \<and>
    d = deal_from (view env w dealId) \<and> deal_sighash d \<noteq> my \<and>
    deal_loan_transfer d \<noteq> [] \<and> deal_repayment_transfer d = [] \<and>
    src = address_from (view env w (deal_src_address d)) \<and> address_sighash src \<noteq> my \<and>
    new = address_from (view env w addressId) \<and> address_blockchain new = address_blockchain src \<and>
    address_network new = address_network src \<and> address_value new \<noteq> address_value src \<and>
    makeAddress env FEE (guid_of env w) = Inr feeId \<and>
    session_ok env w' \<and> same_session env w w' \<and>
    view env w' = (view env w)
      (idn := RepaymentOrder_SerializeToString
         (new_repayment env (tip_of env w) src addressId d amount expiration dealId my),
       feeId := fee_data env w my, walletIdOf env my := Wallet_SerializeToString wallet)"
  using run unfolding AddRepaymentOrder_def Let_def
  apply (simp add: act_ok charge_ok [OF ok] state.rd_ok [OF ok] addFee_wallet_ok [OF ok] tip_read [OF ok] split_beta)
  apply (elim exE conjE)
  apply (clarsimp split: prod.splits)
  apply (drule state.wr_ok [OF ok])
  apply (simp add: new_repayment_def)
  done

end
