(* ===== verification/Deal_Effects.thy ===== *)
theory Deal_Effects
  imports Order_Effects
begin

section \<open>What the handlers of a deal do\<close>

text \<open>
  One elimination lemma per handler: if it accepted the transaction, these checks held, and
  this is the state it leaves.
\<close>

definition new_deal ::
  "'v env \<Rightarrow> int \<Rightarrow> Offer \<Rightarrow> AskOrder \<Rightarrow> BidOrder \<Rightarrow> 64 word \<Rightarrow> string \<Rightarrow> DealOrder" where
  \<comment> \<open>the deal that an offer becomes\<close>
  "new_deal env tip ofr ask bid expiration my =
     DealOrder_Clear\<lparr>deal_blockchain := offer_blockchain ofr,
       deal_src_address := ask_address ask, deal_dst_address := bid_address bid,
       deal_amount := bid_amount bid, deal_interest := bid_interest bid,
       deal_maturity := bid_maturity bid, deal_fee := bid_fee bid,
       deal_expiration := expiration, deal_block := toString env tip, deal_sighash := my\<rparr>"

lemma AddDealOrder_ok:
  assumes ok: "session_ok env w" and run: "AddDealOrder env query w = (Inr u, w')"
  shows "\<exists>my offerId expiration dealId feeId ofr bid ask start wallet n bidFee.
    getStringLower env query ''p1'' ''offerId'' = Inr offerId \<and>
    query_uint64 env query ''p2'' ''expiration'' = Inr expiration \<and>
    makeAddress env DEAL_ORDER offerId = Inr dealId \<and> view env w dealId = [] \<and>
    signer env w = Inr my \<and>
    view env w offerId \<noteq> [] \<and> ofr = offer_from (view env w offerId) \<and>
    bigint env (offer_block ofr) = Inr start \<and> tip_of env w - start \<le> uint (offer_expiration ofr) \<and>
    view env w (offer_bid_order ofr) \<noteq> [] \<and> bid = bid_from (view env w (offer_bid_order ofr)) \<and>
    bid_sighash bid = my \<and>
    view env w (offer_ask_order ofr) \<noteq> [] \<and> ask = ask_from (view env w (offer_ask_order ofr)) \<and>
    view env w (walletIdOf env my) \<noteq> [] \<and> wallet = wallet_from (view env w (walletIdOf env my)) \<and>
    bigint env (wallet_amount wallet) = Inr n \<and> bigint env (bid_fee bid) = Inr bidFee \<and>
    bidFee + TX_FEE \<le> n \<and>
    makeAddress env FEE (guid_of env w) = Inr feeId \<and>
    session_ok env w' \<and> same_session env w w' \<and>
    view env w' = (view env w)
      (dealId := DealOrder_SerializeToString (new_deal env (tip_of env w) ofr ask bid expiration my),
       feeId := fee_data env w my,
       walletIdOf env my := Wallet_SerializeToString (wallet\<lparr>wallet_amount := toString env (n - (bidFee + TX_FEE))\<rparr>),
       offer_ask_order ofr := [], offer_bid_order ofr := [], offerId := [])"
  using run unfolding AddDealOrder_def order_expired_def
  apply (clarsimp simp: act_ok Let_def state.rd_ok [OF ok] addFee_wallet_ok [OF ok] tip_read [OF ok])
  apply (drule state.wr_ok [OF ok])
  apply (elim conjE)
  apply (drule (1) state.del_ok)
  apply (elim conjE)
  apply (drule (1) state.del_ok)
  apply (elim conjE)
  apply (drule (1) state.del_ok)
  apply (auto simp: not_less new_deal_def intro: same_session_trans)
  done

lemma CompleteDealOrder_ok:
  assumes ok: "session_ok env w" and run: "CompleteDealOrder env query w = (Inr u, w')"
  shows "\<exists>my dealId transferId feeId d t wallet n dealFee start.
    getStringLower env query ''p1'' ''dealOrderId'' = Inr dealId \<and>
    getStringLower env query ''p2'' ''transferId'' = Inr transferId \<and>
    signer env w = Inr my \<and>
    view env w dealId \<noteq> [] \<and> d = deal_from (view env w dealId) \<and> deal_loan_transfer d = [] \<and>
    address_sighash (address_from (view env w (deal_src_address d))) = my \<and>
    bigint env (deal_block d) = Inr start \<and> tip_of env w - start \<le> uint (deal_expiration d) \<and>
    view env w transferId \<noteq> [] \<and> t = transfer_from (view env w transferId) \<and>
    transfer_order t = dealId \<and> transfer_amount t = deal_amount d \<and> transfer_sighash t = my \<and>
    \<not> transfer_processed t \<and>
    view env w (walletIdOf env my) \<noteq> [] \<and> wallet = wallet_from (view env w (walletIdOf env my)) \<and>
    bigint env (wallet_amount wallet) = Inr n \<and> bigint env (deal_fee d) = Inr dealFee \<and>
    0 \<le> n + (dealFee - TX_FEE) \<and>
    makeAddress env FEE (guid_of env w) = Inr feeId \<and>
    session_ok env w' \<and> same_session env w w' \<and>
    view env w' = (view env w)
      (dealId := DealOrder_SerializeToString
         (d\<lparr>deal_loan_transfer := transferId, deal_block := toString env (tip_of env w)\<rparr>),
       transferId := Transfer_SerializeToString (t\<lparr>transfer_processed := True\<rparr>),
       feeId := fee_data env w my,
       walletIdOf env my := Wallet_SerializeToString (wallet\<lparr>wallet_amount := toString env (n + (dealFee - TX_FEE))\<rparr>))"
  using run unfolding CompleteDealOrder_def order_expired_def
  apply (clarsimp simp: act_ok Let_def state.rd_ok [OF ok] addFee_wallet_ok [OF ok] tip_read [OF ok])
  apply (drule state.wr_ok [OF ok])
  apply (auto simp: not_less)
  done

lemma LockDealOrder_ok:
  assumes ok: "session_ok env w" and run: "LockDealOrder env query w = (Inr u, w')"
  shows "\<exists>my dealId wallet feeId d.
    signer env w = Inr my \<and> charge env my w = (Inr (walletIdOf env my, wallet), w) \<and>
    getStringLower env query ''p1'' ''dealOrderId'' = Inr dealId \<and>
    view env w dealId \<noteq> [] \<and> d = deal_from (view env w dealId) \<and>
    deal_lock d = [] \<and> deal_loan_transfer d \<noteq> [] \<and> deal_sighash d = my \<and>
    makeAddress env FEE (guid_of env w) = Inr feeId \<and>
    session_ok env w' \<and> same_session env w w' \<and>
    view env w' = (view env w)
      (dealId := DealOrder_SerializeToString (d\<lparr>deal_lock := my\<rparr>),
       feeId := fee_data env w my, walletIdOf env my := Wallet_SerializeToString wallet)"
  using run unfolding LockDealOrder_def
  by (auto simp: act_ok Let_def charge_ok [OF ok] state.rd_ok [OF ok] addFee_wallet_ok [OF ok]
      dest!: state.wr_ok [OF ok])

lemma CloseDealOrder_ok:
  assumes ok: "session_ok env w" and run: "CloseDealOrder env query w = (Inr u, w')"
  shows "\<exists>my dealId transferId wallet feeId d t start maturity ticks principal interest repaid.
    signer env w = Inr my \<and> charge env my w = (Inr (walletIdOf env my, wallet), w) \<and>
    getStringLower env query ''p1'' ''dealOrderId'' = Inr dealId \<and>
    getStringLower env query ''p2'' ''transferId'' = Inr transferId \<and>
    view env w dealId \<noteq> [] \<and> d = deal_from (view env w dealId) \<and>
    view env w transferId \<noteq> [] \<and> t = transfer_from (view env w transferId) \<and>
    deal_repayment_transfer d = [] \<and> deal_sighash d = my \<and> deal_lock d = my \<and>
    transfer_order t = dealId \<and> transfer_sighash t = my \<and> \<not> transfer_processed t \<and>
    bigint env (transfer_block (transfer_from (view env w (deal_loan_transfer d)))) = Inr start \<and>
    bigint env (deal_maturity d) = Inr maturity \<and>
    cpp_div ((tip_of env w - start) + maturity) maturity = Inr ticks \<and>
    bigint env (deal_amount d) = Inr principal \<and> bigint env (deal_interest d) = Inr interest \<and>
    bigint env (transfer_amount t) = Inr repaid \<and> calcInterest principal ticks interest \<le> repaid \<and>
    makeAddress env FEE (guid_of env w) = Inr feeId \<and>
    session_ok env w' \<and> same_session env w w' \<and>
    view env w' = (view env w)
      (dealId := DealOrder_SerializeToString (d\<lparr>deal_repayment_transfer := transferId\<rparr>),
       transferId := Transfer_SerializeToString (t\<lparr>transfer_processed := True\<rparr>),
       feeId := fee_data env w my, walletIdOf env my := Wallet_SerializeToString wallet)"
  using run unfolding CloseDealOrder_def
  apply (simp add: act_ok Let_def charge_ok [OF ok] state.rd_ok [OF ok] addFee_wallet_ok [OF ok] tip_read [OF ok])
  apply (elim exE conjE)
  apply (drule state.wr_ok [OF ok])
  apply fastforce
  done

lemma Exempt_ok:
  assumes ok: "session_ok env w" and run: "Exempt env query w = (Inr u, w')"
  shows "\<exists>my dealId transferId wallet feeId d t.
    signer env w = Inr my \<and> charge env my w = (Inr (walletIdOf env my, wallet), w) \<and>
    getStringLower env query ''p1'' ''dealOrderId'' = Inr dealId \<and>
    getStringLower env query ''p2'' ''transferId'' = Inr transferId \<and>
    view env w dealId \<noteq> [] \<and> d = deal_from (view env w dealId) \<and>
    view env w transferId \<noteq> [] \<and> t = transfer_from (view env w transferId) \<and>
    deal_repayment_transfer d = [] \<and> transfer_order t = dealId \<and> \<not> transfer_processed t \<and>
    address_sighash (address_from (view env w (deal_src_address d))) = my \<and>
    makeAddress env FEE (guid_of env w) = Inr feeId \<and>
    session_ok env w' \<and> same_session env w w' \<and>
    view env w' = (view env w)
      (dealId := DealOrder_SerializeToString (d\<lparr>deal_repayment_transfer := transferId\<rparr>),
       transferId := Transfer_SerializeToString (t\<lparr>transfer_processed := True\<rparr>),
       feeId := fee_data env w my, walletIdOf env my := Wallet_SerializeToString wallet)"
  using run unfolding Exempt_def
  apply (simp add: act_ok Let_def charge_ok [OF ok] state.rd_ok [OF ok] addFee_wallet_ok [OF ok])
  apply (elim exE conjE)
  apply (drule state.wr_ok [OF ok])
  apply fastforce
  done

lemma CompleteRepaymentOrder_ok:
  assumes ok: "session_ok env w" and run: "CompleteRepaymentOrder env query w = (Inr u, w')"
  shows "\<exists>my repaymentId wallet feeId r d.
    signer env w = Inr my \<and> charge env my w = (Inr (walletIdOf env my, wallet), w) \<and>
    getStringLower env query ''p1'' ''repaymentOrderId'' = Inr repaymentId \<and>
    view env w repaymentId \<noteq> [] \<and> r = repayment_from (view env w repaymentId) \<and>
    address_sighash (address_from (view env w (repayment_dst_address r))) = my \<and>
    view env w (repayment_deal r) \<noteq> [] \<and> d = deal_from (view env w (repayment_deal r)) \<and>
    deal_lock d = [] \<and> makeAddress env FEE (guid_of env w) = Inr feeId \<and>
    session_ok env w' \<and> same_session env w w' \<and>
    view env w' = (view env w)
      (repaymentId := RepaymentOrder_SerializeToString (r\<lparr>repayment_previous_owner := my\<rparr>),
       repayment_deal r := DealOrder_SerializeToString (d\<lparr>deal_lock := my\<rparr>),
       feeId := fee_data env w my, walletIdOf env my := Wallet_SerializeToString wallet)"
  using run unfolding CompleteRepaymentOrder_def
  apply (simp add: act_ok Let_def charge_ok [OF ok] state.rd_ok [OF ok] addFee_wallet_ok [OF ok])
  apply (elim exE conjE)
  apply (drule state.wr_ok [OF ok])
  apply fastforce
  done

lemma CloseRepaymentOrder_ok:
  assumes ok: "session_ok env w" and run: "CloseRepaymentOrder env query w = (Inr u, w')"
  shows "\<exists>my repaymentId transferId wallet feeId r t d.
    signer env w = Inr my \<and> charge env my w = (Inr (walletIdOf env my, wallet), w) \<and>
    getStringLower env query ''p1'' ''repaymentOrderId'' = Inr repaymentId \<and>
    getStringLower env query ''p2'' ''transferId'' = Inr transferId \<and>
    view env w repaymentId \<noteq> [] \<and> r = repayment_from (view env w repaymentId) \<and>
    repayment_sighash r = my \<and>
    view env w transferId \<noteq> [] \<and> t = transfer_from (view env w transferId) \<and>
    transfer_order t = repaymentId \<and> transfer_amount t = repayment_amount r \<and>
    transfer_sighash t = my \<and> \<not> transfer_processed t \<and>
    view env w (repayment_deal r) \<noteq> [] \<and> d = deal_from (view env w (repayment_deal r)) \<and>
    deal_lock d = address_sighash (address_from (view env w (deal_src_address d))) \<and>
    makeAddress env FEE (guid_of env w) = Inr feeId \<and>
    session_ok env w' \<and> same_session env w w' \<and>
    view env w' = (view env w)
      (repaymentId := RepaymentOrder_SerializeToString (r\<lparr>repayment_transfer := transferId\<rparr>),
       repayment_deal r := DealOrder_SerializeToString (d\<lparr>deal_src_address := repayment_src_address r, deal_lock := []\<rparr>),
       transferId := Transfer_SerializeToString (t\<lparr>transfer_processed := True\<rparr>),
       feeId := fee_data env w my, walletIdOf env my := Wallet_SerializeToString wallet)"
  using run unfolding CloseRepaymentOrder_def
  apply (simp add: act_ok Let_def charge_ok [OF ok] state.rd_ok [OF ok] addFee_wallet_ok [OF ok])
  apply (elim exE conjE)
  apply (drule state.wr_ok [OF ok])
  apply fastforce
  done
end
