(* ===== verification/State_Types.thy ===== *)
theory State_Types
  imports Deal_Effects
begin

section \<open>A well-formed state stays well-formed\<close>

text \<open>
  The global state is untyped: an address says by its kind which message its data is, and
  nothing checks it.  \<open>state_wf\<close> is the invariant the processor relies on: the data of an
  address parses back as the message of its kind, with no unknown fields, and the ids stored
  in it are of the kinds they should be.
\<close>

subsection \<open>Kinds of addresses\<close>

definition at_kind :: "'v env \<Rightarrow> string \<Rightarrow> string \<Rightarrow> bool" where
  "at_kind env kind k = starts_with (namespacePrefix env @ kind) k"

lemma at_kind_unique: "at_kind env p k \<Longrightarrow> at_kind env q k \<Longrightarrow> length p = length q \<Longrightarrow> p = q"
  by (auto simp: at_kind_def starts_with_iff)

lemma at_kind_makeAddress: "makeAddress env p key = Inr a \<Longrightarrow> at_kind env p a"
  by (auto simp: at_kind_def starts_with_iff makeAddress_def sbnd_def Let_def split: sum.splits if_splits)

lemma at_kind_wallet [simp]: "at_kind env WALLET (walletIdOf env s)"
  by (simp add: at_kind_def starts_with_iff walletIdOf_def)

lemma kind_lengths [simp]:
  "length WALLET = 4" "length ADDR = 4" "length TRANSFER = 4" "length ASK_ORDER = 4" "length BID_ORDER = 4"
  "length DEAL_ORDER = 4" "length REPAYMENT_ORDER = 4" "length OFFER = 4" "length ERC20 = 4" "length FEE = 4"
  by (simp_all add: kind_defs)

lemma kinds_distinct:
  "distinct [WALLET, ADDR, TRANSFER, ASK_ORDER, BID_ORDER, DEAL_ORDER,
    REPAYMENT_ORDER, OFFER, ERC20, PROCESSED_BLOCK, FEE]"
  "distinct [FEE, PROCESSED_BLOCK, ERC20, OFFER, REPAYMENT_ORDER, DEAL_ORDER,
    BID_ORDER, ASK_ORDER, TRANSFER, ADDR, WALLET]"
  by (simp_all add: kind_defs)

lemmas kinds_ne [simp] = kinds_distinct [simplified distinct.simps list.set insert_iff empty_iff
  de_Morgan_disj simp_thms conj_assoc]

lemma at_kind_only:
  assumes "at_kind env p k" and "length p = 4" and "length q = 4" and "p \<noteq> q"
  shows "\<not> at_kind env q k"
  using assms at_kind_unique [of env p k q] by auto

lemma at_kind_differs:
  "at_kind env p a \<Longrightarrow> at_kind env q b \<Longrightarrow> length p = 4 \<Longrightarrow> length q = 4 \<Longrightarrow> p \<noteq> q \<Longrightarrow> a \<noteq> b"
  using at_kind_only by blast

subsection \<open>The invariant\<close>

definition entry_ok :: "'v env \<Rightarrow> string \<Rightarrow> string \<Rightarrow> bool" where
  "entry_ok env k d \<longleftrightarrow>
     (at_kind env WALLET k \<longrightarrow> Wallet_wf (wallet_from d)) \<and>
     (at_kind env ADDR k \<longrightarrow> Address_wf (address_from d)) \<and>
     (at_kind env TRANSFER k \<longrightarrow> Transfer_wf (transfer_from d)) \<and>
     (at_kind env ASK_ORDER k \<longrightarrow> AskOrder_wf (ask_from d) \<and> at_kind env ADDR (ask_address (ask_from d))) \<and>
     (at_kind env BID_ORDER k \<longrightarrow> BidOrder_wf (bid_from d) \<and> at_kind env ADDR (bid_address (bid_from d))) \<and>
     (at_kind env DEAL_ORDER k \<longrightarrow> DealOrder_wf (deal_from d) \<and> at_kind env ADDR (deal_src_address (deal_from d)) \<and>
        at_kind env ADDR (deal_dst_address (deal_from d))) \<and>
     (at_kind env REPAYMENT_ORDER k \<longrightarrow> RepaymentOrder_wf (repayment_from d) \<and>
        at_kind env ADDR (repayment_src_address (repayment_from d)) \<and>
        at_kind env ADDR (repayment_dst_address (repayment_from d)) \<and>
        at_kind env DEAL_ORDER (repayment_deal (repayment_from d))) \<and>
     (at_kind env OFFER k \<longrightarrow> Offer_wf (offer_from d) \<and>
        at_kind env ASK_ORDER (offer_ask_order (offer_from d)) \<and>
        at_kind env BID_ORDER (offer_bid_order (offer_from d))) \<and>
     (at_kind env FEE k \<longrightarrow> Fee_wf (fee_from d))"

definition state_wf :: "'v env \<Rightarrow> (string \<Rightarrow> string) \<Rightarrow> bool" where
  "state_wf env st \<longleftrightarrow> (\<forall>k. st k \<noteq> [] \<longrightarrow> entry_ok env k (st k))"

lemma state_wf_upd: "state_wf env st \<Longrightarrow> d = [] \<or> entry_ok env k d \<Longrightarrow> state_wf env (st(k := d))"
  by (auto simp: state_wf_def)

lemma entry_at:
  assumes "at_kind env p k" and "length p = 4"
  shows "entry_ok env k d \<longleftrightarrow>
     (p = WALLET \<longrightarrow> Wallet_wf (wallet_from d)) \<and>
     (p = ADDR \<longrightarrow> Address_wf (address_from d)) \<and>
     (p = TRANSFER \<longrightarrow> Transfer_wf (transfer_from d)) \<and>
     (p = ASK_ORDER \<longrightarrow> AskOrder_wf (ask_from d) \<and> at_kind env ADDR (ask_address (ask_from d))) \<and>
     (p = BID_ORDER \<longrightarrow> BidOrder_wf (bid_from d) \<and> at_kind env ADDR (bid_address (bid_from d))) \<and>
     (p = DEAL_ORDER \<longrightarrow> DealOrder_wf (deal_from d) \<and> at_kind env ADDR (deal_src_address (deal_from d)) \<and>
        at_kind env ADDR (deal_dst_address (deal_from d))) \<and>
     (p = REPAYMENT_ORDER \<longrightarrow> RepaymentOrder_wf (repayment_from d) \<and>
        at_kind env ADDR (repayment_src_address (repayment_from d)) \<and>
        at_kind env ADDR (repayment_dst_address (repayment_from d)) \<and>
        at_kind env DEAL_ORDER (repayment_deal (repayment_from d))) \<and>
     (p = OFFER \<longrightarrow> Offer_wf (offer_from d) \<and>
        at_kind env ASK_ORDER (offer_ask_order (offer_from d)) \<and>
        at_kind env BID_ORDER (offer_bid_order (offer_from d))) \<and>
     (p = FEE \<longrightarrow> Fee_wf (fee_from d))"
proof -
  have "at_kind env q k \<longleftrightarrow> p = q" if "length q = 4" for q
    using at_kind_only [OF assms(1,2) that] assms(1) by auto
  then show ?thesis by (simp add: entry_ok_def)
qed

text \<open>What is written at an address of a kind.\<close>

lemma entry_written:
  "Wallet_wf a \<Longrightarrow> entry_ok env (walletIdOf env s) (Wallet_SerializeToString a)"
  "at_kind env ADDR k \<Longrightarrow> Address_wf b \<Longrightarrow> entry_ok env k (Address_SerializeToString b)"
  "at_kind env TRANSFER k \<Longrightarrow> Transfer_wf c \<Longrightarrow> entry_ok env k (Transfer_SerializeToString c)"
  "at_kind env ASK_ORDER k \<Longrightarrow> AskOrder_wf d \<Longrightarrow> at_kind env ADDR (ask_address d) \<Longrightarrow>
     entry_ok env k (AskOrder_SerializeToString d)"
  "at_kind env BID_ORDER k \<Longrightarrow> BidOrder_wf e \<Longrightarrow> at_kind env ADDR (bid_address e) \<Longrightarrow>
     entry_ok env k (BidOrder_SerializeToString e)"
  "at_kind env DEAL_ORDER k \<Longrightarrow> DealOrder_wf f \<Longrightarrow> at_kind env ADDR (deal_src_address f) \<Longrightarrow>
     at_kind env ADDR (deal_dst_address f) \<Longrightarrow> entry_ok env k (DealOrder_SerializeToString f)"
  "at_kind env REPAYMENT_ORDER k \<Longrightarrow> RepaymentOrder_wf g \<Longrightarrow> at_kind env ADDR (repayment_src_address g) \<Longrightarrow>
     at_kind env ADDR (repayment_dst_address g) \<Longrightarrow> at_kind env DEAL_ORDER (repayment_deal g) \<Longrightarrow>
     entry_ok env k (RepaymentOrder_SerializeToString g)"
  "at_kind env OFFER k \<Longrightarrow> Offer_wf h \<Longrightarrow> at_kind env ASK_ORDER (offer_ask_order h) \<Longrightarrow>
     at_kind env BID_ORDER (offer_bid_order h) \<Longrightarrow> entry_ok env k (Offer_SerializeToString h)"
  "at_kind env FEE k \<Longrightarrow> Fee_wf i \<Longrightarrow> entry_ok env k (Fee_SerializeToString i)"
  by (simp add: entry_at [OF at_kind_wallet]) (simp_all add: entry_at)

lemma entry_erc20: "at_kind env ERC20 k \<Longrightarrow> entry_ok env k t"
  by (simp add: entry_at)

text \<open>What is read from one; where there is no data, the message is the empty one.\<close>

lemma from_Nil [simp]: "address_from [] = Address_Clear" "transfer_from [] = Transfer_Clear"
  "ask_from [] = AskOrder_Clear" "bid_from [] = BidOrder_Clear" "offer_from [] = Offer_Clear"
  "deal_from [] = DealOrder_Clear" "repayment_from [] = RepaymentOrder_Clear"
  by (simp_all add: from_defs Address_ParseFromString_def Transfer_ParseFromString_def
      AskOrder_ParseFromString_def BidOrder_ParseFromString_def Offer_ParseFromString_def
      DealOrder_ParseFromString_def RepaymentOrder_ParseFromString_def parse_message_merge merge_end)

lemma state_wf_read:
  assumes "state_wf env st"
  shows "at_kind env ADDR k \<Longrightarrow> Address_wf (address_from (st k))"
    and "at_kind env TRANSFER k \<Longrightarrow> Transfer_wf (transfer_from (st k))"
    and "at_kind env ASK_ORDER k \<Longrightarrow> AskOrder_wf (ask_from (st k))"
    and "at_kind env BID_ORDER k \<Longrightarrow> BidOrder_wf (bid_from (st k))"
    and "at_kind env DEAL_ORDER k \<Longrightarrow> DealOrder_wf (deal_from (st k))"
    and "at_kind env REPAYMENT_ORDER k \<Longrightarrow> RepaymentOrder_wf (repayment_from (st k))"
    and "at_kind env OFFER k \<Longrightarrow> Offer_wf (offer_from (st k))"
  using assms by (cases "st k = []"; simp add: state_wf_def entry_ok_def)+

lemma state_wf_ids:
  assumes "state_wf env st" and "st k \<noteq> []"
  shows "at_kind env ASK_ORDER k \<Longrightarrow> at_kind env ADDR (ask_address (ask_from (st k)))"
    and "at_kind env BID_ORDER k \<Longrightarrow> at_kind env ADDR (bid_address (bid_from (st k)))"
    and "at_kind env DEAL_ORDER k \<Longrightarrow> at_kind env ADDR (deal_src_address (deal_from (st k)))"
    and "at_kind env DEAL_ORDER k \<Longrightarrow> at_kind env ADDR (deal_dst_address (deal_from (st k)))"
    and "at_kind env REPAYMENT_ORDER k \<Longrightarrow> at_kind env ADDR (repayment_src_address (repayment_from (st k)))"
    and "at_kind env REPAYMENT_ORDER k \<Longrightarrow> at_kind env ADDR (repayment_dst_address (repayment_from (st k)))"
    and "at_kind env REPAYMENT_ORDER k \<Longrightarrow> at_kind env DEAL_ORDER (repayment_deal (repayment_from (st k)))"
    and "at_kind env OFFER k \<Longrightarrow> at_kind env ASK_ORDER (offer_ask_order (offer_from (st k)))"
    and "at_kind env OFFER k \<Longrightarrow> at_kind env BID_ORDER (offer_bid_order (offer_from (st k)))"
  using assms by (simp_all add: state_wf_def entry_ok_def)

lemma state_wf_wallet:
  assumes "state_wf env st"
  shows "Wallet_wf (wallet_from (st (walletIdOf env s)))"
proof (cases "st (walletIdOf env s) = []")
  case True
  then show ?thesis by (simp add: wallet_from_Nil)
next
  case False
  then show ?thesis using assms by (simp add: state_wf_def entry_ok_def)
qed

lemma state_wf_clean: "state_wf env st \<Longrightarrow> clean_wallets env st"
  using state_wf_wallet by (auto simp: clean_wallets_def Wallet_wf_def)

subsection \<open>What the caller provides\<close>

text \<open>
  The processor does not check the kind of an id a query names, so the invariant needs
  queries that name ids of the right kinds, text that a message can store and amounts of a
  sane size.
\<close>

definition id_params :: "(string \<times> (string \<times> string) list) list" where
  \<comment> \<open>the parameters of each command that are ids, with their kinds\<close>
  "id_params =
     [(''AddAskOrder'', [(''p1'', ADDR)]), (''AddBidOrder'', [(''p1'', ADDR)]),
      (''AddOffer'', [(''p1'', ASK_ORDER), (''p2'', BID_ORDER)]), (''AddDealOrder'', [(''p1'', OFFER)]),
      (''CompleteDealOrder'', [(''p1'', DEAL_ORDER), (''p2'', TRANSFER)]),
      (''LockDealOrder'', [(''p1'', DEAL_ORDER)]),
      (''CloseDealOrder'', [(''p1'', DEAL_ORDER), (''p2'', TRANSFER)]),
      (''Exempt'', [(''p1'', DEAL_ORDER), (''p2'', TRANSFER)]),
      (''AddRepaymentOrder'', [(''p1'', DEAL_ORDER), (''p2'', ADDR)]),
      (''CompleteRepaymentOrder'', [(''p1'', REPAYMENT_ORDER)]),
      (''CloseRepaymentOrder'', [(''p1'', REPAYMENT_ORDER), (''p2'', TRANSFER)])]"

definition typed_query :: "'v env \<Rightarrow> string \<Rightarrow> json \<Rightarrow> bool" where
  "typed_query env name query \<longleftrightarrow>
     (\<forall>ps. map_of id_params name = Some ps \<longrightarrow> (\<forall>(key, kind) \<in> set ps.
        \<forall>nm idn. getStringLower env query key nm = Inr idn \<longrightarrow> at_kind env kind idn)) \<and>
     (\<forall>key nm s. query_string env query key nm = Inr s \<or> getStringLower env query key nm = Inr s \<longrightarrow> wire_str s)"

definition typed_session :: "'v env \<Rightarrow> 'v world \<Rightarrow> bool" where
  "typed_session env w \<longleftrightarrow> session_ok env w \<and> bigint_ok env \<and>
     (\<forall>s. signer env w = Inr s \<longrightarrow> wire_str s) \<and> \<bar>tip_of env w\<bar> < max_amount \<and>
     (\<forall>s p. boost_starts_with env s p = starts_with p s)"

definition small_amounts :: "'v env \<Rightarrow> json \<Rightarrow> (string \<Rightarrow> string) \<Rightarrow> bool" where
  "small_amounts env query st \<longleftrightarrow>
     (\<forall>s. balance env st s < max_amount div 4) \<and>
     (\<forall>key nm s n. query_string env query key nm = Inr s \<longrightarrow> getBigint env s True = Inr n \<longrightarrow> \<bar>n\<bar> < max_amount div 4) \<and>
     (\<forall>k n. at_kind env DEAL_ORDER k \<longrightarrow> bigint env (deal_amount (deal_from (st k))) = Inr n \<longrightarrow> n < max_amount div 4) \<and>
     (\<forall>k n. at_kind env DEAL_ORDER k \<longrightarrow> bigint env (deal_fee (deal_from (st k))) = Inr n \<longrightarrow> n < max_amount div 4) \<and>
     (\<forall>k n. at_kind env REPAYMENT_ORDER k \<longrightarrow> bigint env (repayment_amount (repayment_from (st k))) = Inr n \<longrightarrow> n < max_amount div 4)"

lemma typed_sessionD:
  assumes "typed_session env w"
  shows "session_ok env w" "bigint_ok env" "signer env w = Inr s \<Longrightarrow> wire_str s"
    "wire_str (toString env (tip_of env w))" "boost_starts_with env a p = starts_with p a"
  using assms by (auto simp: typed_session_def wire_toString)

lemma typed_session_after:
  assumes "typed_session env w" and "session_ok env w'" and "same_session env w w'"
  shows "typed_session env w'"
  using assms(1,2) same_session_simps [OF assms(3)]
  by (auto simp: typed_session_def signer_def)

lemma typed_query_id:
  assumes "typed_query env name query" and "map_of id_params name = Some ps" and "(key, kind) \<in> set ps"
    and "getStringLower env query key nm = Inr idn"
  shows "at_kind env kind idn"
  using assms unfolding typed_query_def by fastforce

lemma typed_query_text:
  assumes "typed_query env name query"
  shows "query_string env query key nm = Inr s \<Longrightarrow> wire_str s"
    and "getStringLower env query key nm = Inr s \<Longrightarrow> wire_str s"
    and "query_bigint env query key nm = Inr (s, n) \<Longrightarrow> wire_str s"
  using assms by (auto simp: typed_query_def query_bigint_def sbnd_ok)

lemma bigint_negative: "bigint env s = Inr n \<Longrightarrow> getBigint env s True = Inr n"
  by (auto simp: bigint_def getBigint_def split: option.splits if_splits)

lemma small_query:
  assumes "small_amounts env query st" and "query_bigint env query key nm = Inr (s, n)"
  shows "0 \<le> n" "n < max_amount div 4" "bigint env s = Inr n"
proof -
  have "query_string env query key nm = Inr s" and n: "bigint env s = Inr n"
    using assms(2) by (auto simp: query_bigint_def sbnd_ok)
  then show "n < max_amount div 4" using assms(1) bigint_negative [OF n]
    unfolding small_amounts_def by (metis abs_le_D1 abs_of_nonneg bigint_nonneg n)
  show "0 \<le> n" "bigint env s = Inr n" using n bigint_nonneg by auto
qed

lemma wallet_text:
  assumes "typed_session env w" and "small_amounts env query (view env w)" and "state_wf env (view env w)"
    and "view env w (walletIdOf env s) \<noteq> []"
    and "bigint env (wallet_amount (wallet_from (view env w (walletIdOf env s)))) = Inr n"
    and "\<bar>m\<bar> \<le> n \<or> \<bar>m - n\<bar> < max_amount div 4"
  shows "Wallet_wf ((wallet_from (view env w (walletIdOf env s)))\<lparr>wallet_amount := toString env m\<rparr>)"
proof -
  have "balance env (view env w) s = n" using assms(4,5) by (rule balance_stored)
  then have "n < max_amount div 4" using assms(2) by (auto simp: small_amounts_def)
  moreover have "0 \<le> n" using assms(5) by (rule bigint_nonneg)
  ultimately have "\<bar>m\<bar> < max_amount" using assms(6) by (auto simp: max_amount_def)
  then show ?thesis using typed_sessionD(2) [OF assms(1)] state_wf_wallet [OF assms(3), of s]
    by (simp add: Wallet_wf_def wire_toString)
qed

lemma charge_wf:
  assumes "typed_session env w" and "small_amounts env query (view env w)" and "state_wf env (view env w)"
    and "charge env s w = (Inr (k, wallet), w')"
  shows "Wallet_wf wallet"
proof -
  have ok: "session_ok env w" using assms(1) by (rule typed_sessionD)
  obtain n where n: "bigint env (wallet_amount (wallet_from (view env w (walletIdOf env s)))) = Inr n" "TX_FEE \<le> n"
    "view env w (walletIdOf env s) \<noteq> []"
    "wallet = (wallet_from (view env w (walletIdOf env s)))\<lparr>wallet_amount := toString env (n - TX_FEE)\<rparr>"
    using assms(4) unfolding charge_ok [OF ok] by auto
  then show ?thesis using wallet_text [OF assms(1-3) n(3,1), of "n - TX_FEE"] TX_FEE_pos by simp
qed

lemma credited_wf:
  assumes "typed_session env w" and "small_amounts env query (view env w)" and "state_wf env (view env w)"
    and "query_bigint env query key nm = Inr (t, n)" and "wire_str t"
    and "credited env (view env w (walletIdOf env s)) t n wallet"
  shows "Wallet_wf wallet"
proof (cases "view env w (walletIdOf env s) = []")
  case True
  then show ?thesis using assms(5,6) by (simp add: credited_def Wallet_wf_def Wallet_Clear_def)
next
  case False
  then show ?thesis
    using assms(6) wallet_text [OF assms(1-3) False, of _ "_ + n"] small_query [OF assms(2,4)]
    by (auto simp: credited_def)
qed

lemma fee_entry:
  assumes "typed_session env w" and "signer env w = Inr s" and "makeAddress env FEE g = Inr feeId"
  shows "entry_ok env feeId (fee_data env w s)"
  unfolding fee_data_def
  by (rule entry_written) (use assms typed_sessionD [OF assms(1)] in
    \<open>auto simp: Fee_wf_def Fee_Clear_def at_kind_makeAddress\<close>)

lemma typed_ids:
  "typed_query env ''AddAskOrder'' query \<Longrightarrow> getStringLower env query ''p1'' nm = Inr i \<Longrightarrow> at_kind env ADDR i"
  "typed_query env ''AddBidOrder'' query \<Longrightarrow> getStringLower env query ''p1'' nm = Inr i \<Longrightarrow> at_kind env ADDR i"
  "typed_query env ''AddOffer'' query \<Longrightarrow> getStringLower env query ''p1'' nm = Inr i \<Longrightarrow> at_kind env ASK_ORDER i"
  "typed_query env ''AddOffer'' query \<Longrightarrow> getStringLower env query ''p2'' nm = Inr i \<Longrightarrow> at_kind env BID_ORDER i"
  "typed_query env ''AddDealOrder'' query \<Longrightarrow> getStringLower env query ''p1'' nm = Inr i \<Longrightarrow> at_kind env OFFER i"
  "typed_query env ''CompleteDealOrder'' query \<Longrightarrow> getStringLower env query ''p1'' nm = Inr i \<Longrightarrow> at_kind env DEAL_ORDER i"
  "typed_query env ''CompleteDealOrder'' query \<Longrightarrow> getStringLower env query ''p2'' nm = Inr i \<Longrightarrow> at_kind env TRANSFER i"
  "typed_query env ''LockDealOrder'' query \<Longrightarrow> getStringLower env query ''p1'' nm = Inr i \<Longrightarrow> at_kind env DEAL_ORDER i"
  "typed_query env ''CloseDealOrder'' query \<Longrightarrow> getStringLower env query ''p1'' nm = Inr i \<Longrightarrow> at_kind env DEAL_ORDER i"
  "typed_query env ''CloseDealOrder'' query \<Longrightarrow> getStringLower env query ''p2'' nm = Inr i \<Longrightarrow> at_kind env TRANSFER i"
  "typed_query env ''Exempt'' query \<Longrightarrow> getStringLower env query ''p1'' nm = Inr i \<Longrightarrow> at_kind env DEAL_ORDER i"
  "typed_query env ''Exempt'' query \<Longrightarrow> getStringLower env query ''p2'' nm = Inr i \<Longrightarrow> at_kind env TRANSFER i"
  "typed_query env ''AddRepaymentOrder'' query \<Longrightarrow> getStringLower env query ''p1'' nm = Inr i \<Longrightarrow> at_kind env DEAL_ORDER i"
  "typed_query env ''AddRepaymentOrder'' query \<Longrightarrow> getStringLower env query ''p2'' nm = Inr i \<Longrightarrow> at_kind env ADDR i"
  "typed_query env ''CompleteRepaymentOrder'' query \<Longrightarrow> getStringLower env query ''p1'' nm = Inr i \<Longrightarrow> at_kind env REPAYMENT_ORDER i"
  "typed_query env ''CloseRepaymentOrder'' query \<Longrightarrow> getStringLower env query ''p1'' nm = Inr i \<Longrightarrow> at_kind env REPAYMENT_ORDER i"
  "typed_query env ''CloseRepaymentOrder'' query \<Longrightarrow> getStringLower env query ''p2'' nm = Inr i \<Longrightarrow> at_kind env TRANSFER i"
  by (erule typed_query_id, simp add: id_params_def, simp, assumption)+

lemmas record_wf = Wallet_wf_def Address_wf_def Transfer_wf_def AskOrder_wf_def BidOrder_wf_def Offer_wf_def
  DealOrder_wf_def RepaymentOrder_wf_def new_address_def new_transfer_def new_ask_def new_bid_def new_offer_def
  new_deal_def new_repayment_def Address_Clear_def Transfer_Clear_def AskOrder_Clear_def BidOrder_Clear_def
  Offer_Clear_def DealOrder_Clear_def RepaymentOrder_Clear_def

lemmas stored_wf = state_wf_read [unfolded Address_wf_def Transfer_wf_def AskOrder_wf_def BidOrder_wf_def
  Offer_wf_def DealOrder_wf_def RepaymentOrder_wf_def]

end
