(* ===== verification/Headers.thy ===== *)
theory Headers
  imports State_Types
begin

section \<open>The headers of different transactions\<close>

text \<open>
  Every transaction comes with a header of its own: signer, payload, nonce, family version and
  block signature are fields of the environment.  \<open>same_program\<close> relates the environments of two
  transactions; whatever does not look at the header is the same in both, the meaning of the
  state in particular.
\<close>

definition same_program :: "'v env \<Rightarrow> 'v env \<Rightarrow> bool" where
  \<comment> \<open>the environment of another transaction: only the header differs\<close>
  "same_program env env' \<longleftrightarrow> (\<exists>key payload nonce family block. env' = env\<lparr>txn_signer_public_key := key,
     txn_payload := payload, txn_nonce := nonce, txn_family_version := family, txn_block_signature := block\<rparr>)"

lemma same_program_refl [simp]: "same_program env env"
  unfolding same_program_def
  by (intro exI [of _ "txn_signer_public_key env"] exI [of _ "txn_payload env"] exI [of _ "txn_nonce env"]
      exI [of _ "txn_family_version env"] exI [of _ "txn_block_signature env"]) simp

lemma same_program_trans: "same_program env env1 \<Longrightarrow> same_program env env2 \<Longrightarrow> same_program env1 env2"
  unfolding same_program_def by (elim exE) (simp, blast)

lemma same_text:
  assumes "same_program env env'"
  shows "asserts env' = asserts env" "to_lower env' = to_lower env" "iequals env' = iequals env" "sha512id env' = sha512id env"
    "makeAddress env' = makeAddress env" "walletIdOf env' = walletIdOf env" "bigint env' = bigint env" "getBigint env' = getBigint env"
    "toString env' = toString env" "query_string env' = query_string env" "getStringLower env' = getStringLower env"
    "query_uint64 env' = query_uint64 env" "query_bigint env' = query_bigint env" "order_expired env' = order_expired env"
    "transfer_parties env' = transfer_parties env" "orders_mismatch env' = orders_mismatch env" "cborToParams env' = cborToParams env"
    "credit env' = credit env" "GetTip env' = GetTip env" "stored env' = stored env"
proof -
  obtain key payload nonce family block where e: "env' = env\<lparr>txn_signer_public_key := key,
     txn_payload := payload, txn_nonce := nonce, txn_family_version := family, txn_block_signature := block\<rparr>"
    using assms by (auto simp: same_program_def)
  show sha: "sha512id env' = sha512id env" "asserts env' = asserts env" "to_lower env' = to_lower env" "iequals env' = iequals env"
    "GetTip env' = GetTip env" "stored env' = stored env"
    by (auto simp: e fun_eq_iff sha512id_def stored_def)
  have ns: "namespacePrefix env' = namespacePrefix env" by (simp add: e namespacePrefix_def)
  show "makeAddress env' = makeAddress env" "walletIdOf env' = walletIdOf env"
    by (simp_all add: fun_eq_iff makeAddress_def walletIdOf_def ns sha)
  show g: "getBigint env' = getBigint env" "bigint env' = bigint env" "toString env' = toString env"
    by (simp_all add: fun_eq_iff getBigint_def bigint_def toString_def e)
  show q: "query_string env' = query_string env" "getStringLower env' = getStringLower env"
    "query_uint64 env' = query_uint64 env" "query_bigint env' = query_bigint env"
    by (simp_all add: fun_eq_iff query_string_def getStringLower_def query_uint64_def query_bigint_def g) (simp_all add: e)
  show "order_expired env' = order_expired env" "orders_mismatch env' = orders_mismatch env" "credit env' = credit env"
    by (simp_all add: fun_eq_iff order_expired_def orders_mismatch_def rate_def credit_def g)
  show "transfer_parties env' = transfer_parties env" by (simp add: fun_eq_iff transfer_parties_def ns) (simp add: e)
  have "snprintf_g env' = snprintf_g env" by (simp add: e)
  then show "cborToParams env' = cborToParams env" by (intro ext) (simp only: cborToParams_def sha)
qed

lemma same_validator: "same_program env env' \<Longrightarrow> validator_ok env' = validator_ok env"
  unfolding validator_ok_def same_text(20) by (auto simp: same_program_def)

lemma same_session_ok: "same_program env env' \<Longrightarrow> session_ok env' w = session_ok env w"
  by (simp add: session_ok_def same_validator)

lemma same_view: "same_program env env' \<Longrightarrow> view env' w = view env w"
  by (auto simp: same_program_def view_def fun_eq_iff)

lemma same_tip: "same_program env env' \<Longrightarrow> tip_of env' w = tip_of env w"
  by (simp add: tip_of_def same_text)

lemma same_session_same: "same_program env env' \<Longrightarrow> same_session env' w w' = same_session env w w'"
  by (simp add: same_session_def same_text)

lemma same_kinds:
  assumes "same_program env env'"
  shows "at_kind env' = at_kind env" "state_wf env' = state_wf env" "namespacePrefix env' = namespacePrefix env"
    "typed_query env' = typed_query env" "sha512_ok env' = sha512_ok env" "bigint_ok env' = bigint_ok env"
    "small_amounts env' = small_amounts env" "balance env' = balance env"
proof -
  note eqs = same_text [OF assms]
  show ns: "namespacePrefix env' = namespacePrefix env" using assms by (auto simp: same_program_def namespacePrefix_def)
  show k: "at_kind env' = at_kind env" by (simp add: fun_eq_iff at_kind_def ns)
  have "entry_ok env' = entry_ok env" by (simp add: fun_eq_iff entry_ok_def k)
  then show "state_wf env' = state_wf env" by (simp add: fun_eq_iff state_wf_def)
  show "typed_query env' = typed_query env" by (simp add: fun_eq_iff typed_query_def eqs k)
  show "sha512_ok env' = sha512_ok env" "bigint_ok env' = bigint_ok env"
    using assms by (auto simp: same_program_def sha512_ok_def bigint_ok_def)
  show b: "balance env' = balance env" by (simp add: fun_eq_iff balance_def Let_def eqs)
  show "small_amounts env' = small_amounts env" by (simp add: fun_eq_iff small_amounts_def eqs k b)
qed

definition signed :: "'v env \<Rightarrow> 'v world \<Rightarrow> bool" where
  \<comment> \<open>a message can store the hash of the signer\<close>
  "signed env w \<longleftrightarrow> (\<forall>s. signer env w = Inr s \<longrightarrow> wire_str s)"

lemma typed_signed: "typed_session env w \<Longrightarrow> signed env w"
  by (simp add: typed_session_def signed_def)

lemma same_typed_session:
  assumes "same_program env env'" and "typed_session env w" and "signed env' w"
  shows "typed_session env' w"
proof -
  have "boost_starts_with env' = boost_starts_with env" using assms(1) by (auto simp: same_program_def)
  then show ?thesis using assms(2,3) same_kinds(6) [OF assms(1)] same_session_ok [OF assms(1)] same_tip [OF assms(1)]
    by (simp add: typed_session_def signed_def)
qed

lemma typed_session_again:
  assumes "same_program env env'" and "typed_session env w" and "typed_session env' w'"
    and "ctx_transitioning (ctx w') = ctx_transitioning (ctx w)"
  shows "typed_session env w'"
proof -
  have "signed env w'"
    using assms(2-4) by (cases "ctx_transitioning (ctx w)") (auto simp: signed_def typed_session_def signer_def)
  moreover have "typed_session env w'" if "signed env w'"
    using assms(1,3) that same_kinds(6) [OF assms(1)] same_session_ok [OF assms(1)] same_tip [OF assms(1)]
    by (auto simp: typed_session_def signed_def same_program_def)
  ultimately show ?thesis by blast
qed

end
