(* ===== verification/State_Invariant.thy ===== *)
theory State_Invariant
  imports Headers Funds
begin

section \<open>Every handler preserves the typing of the state\<close>

text \<open>
  One lemma per handler, by its elimination lemma: what it writes at an address is a message
  of the kind of the address, with text a message can store and ids of the right kinds.
\<close>

lemmas record_wf = Address_wf_def Transfer_wf_def AskOrder_wf_def BidOrder_wf_def Offer_wf_def
  DealOrder_wf_def RepaymentOrder_wf_def new_address_def new_transfer_def new_ask_def new_bid_def new_offer_def
  new_deal_def new_repayment_def Address_Clear_def Transfer_Clear_def AskOrder_Clear_def BidOrder_Clear_def
  Offer_Clear_def DealOrder_Clear_def RepaymentOrder_Clear_def

lemma running_deal_address:
  assumes "state_wf env st" and "deal_loan_transfer (deal_from (st k)) \<noteq> []" and "at_kind env DEAL_ORDER k"
  shows "at_kind env ADDR (deal_src_address (deal_from (st k)))"
proof -
  have "st k \<noteq> []" using assms(2) by (auto simp: DealOrder_Clear_def)
  then show ?thesis using assms by (simp add: state_wf_ids)
qed

lemma RegisterAddress_wf:
  assumes typed: "typed_session env w" "small_amounts env query (view env w)" "state_wf env (view env w)"
      "typed_query env ''RegisterAddress'' query"
    and run: "RegisterAddress env query w = (Inr u, w')"
  shows "state_wf env (view env w') \<and> typed_session env w'"
proof -
  note s = typed_sessionD [OF typed(1)] and t = typed_query_text [OF typed(4)]
  show ?thesis
    using RegisterAddress_ok [OF s(1) run] typed(4)
    apply (elim exE conjE)
    apply (rule conjI [OF _ typed_session_after [OF typed(1)]], simp_all only:)
    apply (intro state_wf_upd typed(3) disjI2 entry_written fee_entry [OF typed(1)] charge_wf [OF typed(1-3)])
    apply (auto simp: record_wf s stored_wf [OF typed(3)] state_wf_ids [OF typed(3)] running_deal_address [OF typed(3)] intro: t at_kind_makeAddress)
    done
qed

lemma AddAskOrder_wf:
  assumes typed: "typed_session env w" "small_amounts env query (view env w)" "state_wf env (view env w)"
      "typed_query env ''AddAskOrder'' query"
    and run: "AddAskOrder env query w = (Inr u, w')"
  shows "state_wf env (view env w') \<and> typed_session env w'"
proof -
  note s = typed_sessionD [OF typed(1)] and t = typed_query_text [OF typed(4)]
  show ?thesis
    using AddAskOrder_ok [OF s(1) run] typed(4)
    apply (elim exE conjE)
    apply (frule (1) typed_ids(1))
    apply (rule conjI [OF _ typed_session_after [OF typed(1)]], simp_all only:)
    apply (intro state_wf_upd typed(3) disjI2 entry_written fee_entry [OF typed(1)] charge_wf [OF typed(1-3)])
    apply (auto simp: record_wf s stored_wf [OF typed(3)] state_wf_ids [OF typed(3)] running_deal_address [OF typed(3)] intro: t at_kind_makeAddress)
    done
qed

lemma AddBidOrder_wf:
  assumes typed: "typed_session env w" "small_amounts env query (view env w)" "state_wf env (view env w)"
      "typed_query env ''AddBidOrder'' query"
    and run: "AddBidOrder env query w = (Inr u, w')"
  shows "state_wf env (view env w') \<and> typed_session env w'"
proof -
  note s = typed_sessionD [OF typed(1)] and t = typed_query_text [OF typed(4)]
  show ?thesis
    using AddBidOrder_ok [OF s(1) run] typed(4)
    apply (elim exE conjE)
    apply (frule (1) typed_ids(2))
    apply (rule conjI [OF _ typed_session_after [OF typed(1)]], simp_all only:)
    apply (intro state_wf_upd typed(3) disjI2 entry_written fee_entry [OF typed(1)] charge_wf [OF typed(1-3)])
    apply (auto simp: record_wf s stored_wf [OF typed(3)] state_wf_ids [OF typed(3)] running_deal_address [OF typed(3)] intro: t at_kind_makeAddress)
    done
qed

lemma AddOffer_wf:
  assumes typed: "typed_session env w" "small_amounts env query (view env w)" "state_wf env (view env w)"
      "typed_query env ''AddOffer'' query"
    and run: "AddOffer env query w = (Inr u, w')"
  shows "state_wf env (view env w') \<and> typed_session env w'"
proof -
  note s = typed_sessionD [OF typed(1)] and t = typed_query_text [OF typed(4)]
  show ?thesis
    using AddOffer_ok [OF s(1) run] typed(4)
    apply (elim exE conjE)
    apply (frule (1) typed_ids(3))
    apply (frule (1) typed_ids(4))
    apply (rule conjI [OF _ typed_session_after [OF typed(1)]], simp_all only:)
    apply (intro state_wf_upd typed(3) disjI2 entry_written fee_entry [OF typed(1)] charge_wf [OF typed(1-3)])
    apply (auto simp: record_wf s stored_wf [OF typed(3)] state_wf_ids [OF typed(3)] running_deal_address [OF typed(3)] intro: t at_kind_makeAddress)
    done
qed

lemma AddRepaymentOrder_wf:
  assumes typed: "typed_session env w" "small_amounts env query (view env w)" "state_wf env (view env w)"
      "typed_query env ''AddRepaymentOrder'' query"
    and run: "AddRepaymentOrder env query w = (Inr u, w')"
  shows "state_wf env (view env w') \<and> typed_session env w'"
proof -
  note s = typed_sessionD [OF typed(1)] and t = typed_query_text [OF typed(4)]
  show ?thesis
    using AddRepaymentOrder_ok [OF s(1) run] typed(4)
    apply (elim exE conjE)
    apply (frule (1) typed_ids(13))
    apply (frule (1) typed_ids(14))
    apply (rule conjI [OF _ typed_session_after [OF typed(1)]], simp_all only:)
    apply (intro state_wf_upd typed(3) disjI2 entry_written fee_entry [OF typed(1)] charge_wf [OF typed(1-3)])
    apply (auto simp: record_wf s stored_wf [OF typed(3)] state_wf_ids [OF typed(3)] running_deal_address [OF typed(3)] intro: t at_kind_makeAddress)
    done
qed

lemma LockDealOrder_wf:
  assumes typed: "typed_session env w" "small_amounts env query (view env w)" "state_wf env (view env w)"
      "typed_query env ''LockDealOrder'' query"
    and run: "LockDealOrder env query w = (Inr u, w')"
  shows "state_wf env (view env w') \<and> typed_session env w'"
proof -
  note s = typed_sessionD [OF typed(1)] and t = typed_query_text [OF typed(4)]
  show ?thesis
    using LockDealOrder_ok [OF s(1) run] typed(4)
    apply (elim exE conjE)
    apply (frule (1) typed_ids(8))
    apply (rule conjI [OF _ typed_session_after [OF typed(1)]], simp_all only:)
    apply (intro state_wf_upd typed(3) disjI2 entry_written fee_entry [OF typed(1)] charge_wf [OF typed(1-3)])
    apply (auto simp: record_wf s stored_wf [OF typed(3)] state_wf_ids [OF typed(3)] running_deal_address [OF typed(3)] intro: t at_kind_makeAddress)
    done
qed

lemma CloseDealOrder_wf:
  assumes typed: "typed_session env w" "small_amounts env query (view env w)" "state_wf env (view env w)"
      "typed_query env ''CloseDealOrder'' query"
    and run: "CloseDealOrder env query w = (Inr u, w')"
  shows "state_wf env (view env w') \<and> typed_session env w'"
proof -
  note s = typed_sessionD [OF typed(1)] and t = typed_query_text [OF typed(4)]
  show ?thesis
    using CloseDealOrder_ok [OF s(1) run] typed(4)
    apply (elim exE conjE)
    apply (frule (1) typed_ids(9))
    apply (frule (1) typed_ids(10))
    apply (rule conjI [OF _ typed_session_after [OF typed(1)]], simp_all only:)
    apply (intro state_wf_upd typed(3) disjI2 entry_written fee_entry [OF typed(1)] charge_wf [OF typed(1-3)])
    apply (auto simp: record_wf s stored_wf [OF typed(3)] state_wf_ids [OF typed(3)] running_deal_address [OF typed(3)] intro: t at_kind_makeAddress)
    done
qed

lemma Exempt_wf:
  assumes typed: "typed_session env w" "small_amounts env query (view env w)" "state_wf env (view env w)"
      "typed_query env ''Exempt'' query"
    and run: "Exempt env query w = (Inr u, w')"
  shows "state_wf env (view env w') \<and> typed_session env w'"
proof -
  note s = typed_sessionD [OF typed(1)] and t = typed_query_text [OF typed(4)]
  show ?thesis
    using Exempt_ok [OF s(1) run] typed(4)
    apply (elim exE conjE)
    apply (frule (1) typed_ids(11))
    apply (frule (1) typed_ids(12))
    apply (rule conjI [OF _ typed_session_after [OF typed(1)]], simp_all only:)
    apply (intro state_wf_upd typed(3) disjI2 entry_written fee_entry [OF typed(1)] charge_wf [OF typed(1-3)])
    apply (auto simp: record_wf s stored_wf [OF typed(3)] state_wf_ids [OF typed(3)] running_deal_address [OF typed(3)] intro: t at_kind_makeAddress)
    done
qed

lemma CompleteRepaymentOrder_wf:
  assumes typed: "typed_session env w" "small_amounts env query (view env w)" "state_wf env (view env w)"
      "typed_query env ''CompleteRepaymentOrder'' query"
    and run: "CompleteRepaymentOrder env query w = (Inr u, w')"
  shows "state_wf env (view env w') \<and> typed_session env w'"
proof -
  note s = typed_sessionD [OF typed(1)] and t = typed_query_text [OF typed(4)]
  show ?thesis
    using CompleteRepaymentOrder_ok [OF s(1) run] typed(4)
    apply (elim exE conjE)
    apply (frule (1) typed_ids(15))
    apply (rule conjI [OF _ typed_session_after [OF typed(1)]], simp_all only:)
    apply (intro state_wf_upd typed(3) disjI2 entry_written fee_entry [OF typed(1)] charge_wf [OF typed(1-3)])
    apply (auto simp: record_wf s stored_wf [OF typed(3)] state_wf_ids [OF typed(3)] running_deal_address [OF typed(3)] intro: t at_kind_makeAddress)
    done
qed

lemma CloseRepaymentOrder_wf:
  assumes typed: "typed_session env w" "small_amounts env query (view env w)" "state_wf env (view env w)"
      "typed_query env ''CloseRepaymentOrder'' query"
    and run: "CloseRepaymentOrder env query w = (Inr u, w')"
  shows "state_wf env (view env w') \<and> typed_session env w'"
proof -
  note s = typed_sessionD [OF typed(1)] and t = typed_query_text [OF typed(4)]
  show ?thesis
    using CloseRepaymentOrder_ok [OF s(1) run] typed(4)
    apply (elim exE conjE)
    apply (frule (1) typed_ids(16))
    apply (frule (1) typed_ids(17))
    apply (rule conjI [OF _ typed_session_after [OF typed(1)]], simp_all only:)
    apply (intro state_wf_upd typed(3) disjI2 entry_written fee_entry [OF typed(1)] charge_wf [OF typed(1-3)])
    apply (auto simp: record_wf s stored_wf [OF typed(3)] state_wf_ids [OF typed(3)] running_deal_address [OF typed(3)] intro: t at_kind_makeAddress)
    done
qed

lemma SendFunds_wf:
  assumes typed: "typed_session env w" "small_amounts env query (view env w)" "state_wf env (view env w)"
      "typed_query env ''SendFunds'' query"
    and run: "SendFunds env query w = (Inr u, w')"
  shows "state_wf env (view env w') \<and> typed_session env w'"
proof -
  note s = typed_sessionD [OF typed(1)] and t = typed_query_text [OF typed(4)]
  obtain a amount dst src where q: "query_bigint env query ''p1'' ''amount'' = Inr (a, amount)"
      "getStringLower env query ''p2'' ''sighash'' = Inr dst" "signer env w = Inr src"
    using run unfolding SendFunds_def by (auto simp: act_ok)
  have wallet: "Wallet_wf ((wallet_from (view env w (walletIdOf env src)))\<lparr>wallet_amount := toString env (n - (amount + TX_FEE))\<rparr>)"
    if "view env w (walletIdOf env src) \<noteq> []" "amount + TX_FEE \<le> n"
      "bigint env (wallet_amount (wallet_from (view env w (walletIdOf env src)))) = Inr n" for n
    using wallet_text [OF typed(1-3) that(1,3)] that(2) small_query(1) [OF typed(2) q(1)] TX_FEE_pos by simp
  show ?thesis
    using SendFunds_ok [OF s(1) q run] q
    apply (elim exE conjE)
    apply (rule conjI [OF _ typed_session_after [OF typed(1)]], simp_all only:)
    apply (intro state_wf_upd typed(3) disjI2 entry_written fee_entry [OF typed(1)])
    apply (auto intro: credited_wf [OF typed(1-3) q(1) t(3) [OF q(1)]] wallet)
    done
qed

lemma CollectCoins_wf:
  assumes typed: "typed_session env w" "small_amounts env query (view env w)" "state_wf env (view env w)"
      "typed_query env ''CollectCoins'' query"
    and run: "CollectCoins env query w = (Inr u, w')"
  shows "state_wf env (view env w') \<and> typed_session env w'"
proof -
  note s = typed_sessionD [OF typed(1)] and t = typed_query_text [OF typed(4)]
  show ?thesis
    using CollectCoins_ok [OF s(1) run]
    apply (elim exE conjE)
    apply (rule conjI [OF _ typed_session_after [OF typed(1)]], simp_all only:)
    apply (intro state_wf_upd typed(3) disjI2 entry_written entry_erc20)
     apply (auto intro: t at_kind_makeAddress credited_wf [OF typed(1-3)])
    done
qed

lemma transfer_parties_wf:
  assumes "typed_session env w" and "state_wf env st" and "transfer_parties env orderId gain (st orderId) = Inr (src, dst, agreed)"
    and "st orderId \<noteq> []"
  shows "at_kind env ADDR src" "at_kind env ADDR dst" "wire_str src" "wire_str dst" "wire_str agreed"
    "\<exists>k. at_kind env DEAL_ORDER k \<and> agreed = deal_amount (deal_from (st k)) \<or>
      at_kind env REPAYMENT_ORDER k \<and> agreed = repayment_amount (repayment_from (st k))"
  using assms(3,4) typed_sessionD(5) [OF assms(1)] stored_wf [OF assms(2)] state_wf_ids [OF assms(2)]
  by (auto simp: transfer_parties_def Let_def at_kind_def split: if_splits)

lemma new_transfer_wf:
  assumes typed: "typed_session env w" "small_amounts env query (view env w)" "state_wf env (view env w)"
      "typed_query env ''RegisterTransfer'' query"
    and q: "query_string env query ''p1'' ''gain'' = Inr gainString" "getBigint env gainString True = Inr gain"
      "getStringLower env query ''p2'' ''orderId'' = Inr orderId" "getStringLower env query ''p3'' ''blockchainTxId'' = Inr tx"
    and order: "view env w orderId \<noteq> []" "transfer_parties env orderId gain (view env w orderId) = Inr (srcId, dstId, agreed)"
    and my: "signer env w = Inr my"
    and amount: "amountString = ''0'' \<or> (\<exists>amount. bigint env agreed = Inr amount \<and> amountString = toString env (amount + gain))"
  shows "Transfer_wf (new_transfer env (tip_of env w) (address_from (view env w srcId)) srcId dstId orderId amountString tx my)"
proof -
  note s = typed_sessionD [OF typed(1)] and t = typed_query_text [OF typed(4)]
    and p = transfer_parties_wf [OF typed(1,3) order(2,1)]
  have "wire_str (toString env (n + gain))" if "bigint env agreed = Inr n" for n
  proof -
    have "\<bar>gain\<bar> < max_amount div 4" "n < max_amount div 4" "0 \<le> n"
      using typed(2) q(1,2) p(6) that bigint_nonneg [OF that] unfolding small_amounts_def by blast+
    then have "\<bar>n + gain\<bar> < max_amount" by (simp add: max_amount_def)
    then show ?thesis using s(2) by (rule wire_toString [rotated])
  qed
  then have "wire_str amountString" using amount by (auto simp: ascii_def intro: wire_str_ascii)
  then show ?thesis using p q my s stored_wf(1) [OF typed(3), of srcId] by (auto simp: record_wf intro: t)
qed

lemma RegisterTransfer_wf:
  assumes typed: "typed_session env w" "small_amounts env query (view env w)" "state_wf env (view env w)"
      "typed_query env ''RegisterTransfer'' query"
    and run: "RegisterTransfer env query w = (Inr u, w')"
  shows "state_wf env (view env w') \<and> typed_session env w'"
proof -
  from RegisterTransfer_ok [OF typed_sessionD(1) [OF typed(1)] run]
  obtain my wallet gainString gain orderId tx srcId dstId agreed src transferId amountString feeId
    where r: "charge env my w = (Inr (walletIdOf env my, wallet), w)" "signer env w = Inr my"
        "query_string env query ''p1'' ''gain'' = Inr gainString" "getBigint env gainString True = Inr gain"
        "getStringLower env query ''p2'' ''orderId'' = Inr orderId" "getStringLower env query ''p3'' ''blockchainTxId'' = Inr tx"
        "view env w orderId \<noteq> []" "transfer_parties env orderId gain (view env w orderId) = Inr (srcId, dstId, agreed)"
      and src: "src = address_from (view env w srcId)"
      and amount: "if tx = ''0'' then amountString = ''0''
        else \<exists>amount. bigint env agreed = Inr amount \<and> amountString = toString env (amount + gain) \<and>
          verified env (gateway_command src (address_from (view env w dstId)) orderId amountString tx) w"
      and ids: "makeAddress env TRANSFER (address_blockchain src @ tx @ address_network src) = Inr transferId"
        "makeAddress env FEE (guid_of env w) = Inr feeId"
      and same: "session_ok env w'" "same_session env w w'"
      and v: "view env w' = (view env w)
        (transferId := Transfer_SerializeToString (new_transfer env (tip_of env w) src srcId dstId orderId amountString tx my),
          feeId := fee_data env w my, walletIdOf env my := Wallet_SerializeToString wallet)"
    by (elim exE conjE) (rule that; assumption)
  have "amountString = ''0'' \<or> (\<exists>amount. bigint env agreed = Inr amount \<and> amountString = toString env (amount + gain))"
    using amount by (auto split: if_splits)
  note wf = new_transfer_wf [OF typed r(3-8,2) this, folded src]
  show ?thesis unfolding v
    by (intro conjI typed_session_after [OF typed(1) same] state_wf_upd typed(3) disjI2 wf entry_written
        fee_entry [OF typed(1) r(2) ids(2)] charge_wf [OF typed(1-3) r(1)] at_kind_makeAddress [OF ids(1)])
qed

lemma AddDealOrder_wf:
  assumes typed: "typed_session env w" "small_amounts env query (view env w)" "state_wf env (view env w)"
      "typed_query env ''AddDealOrder'' query"
    and run: "AddDealOrder env query w = (Inr u, w')"
  shows "state_wf env (view env w') \<and> typed_session env w'"
proof -
  note s = typed_sessionD [OF typed(1)]
  have wallet: "Wallet_wf ((wallet_from (view env w (walletIdOf env my)))\<lparr>wallet_amount := toString env (n - (bidFee + TX_FEE))\<rparr>)"
    if "view env w (walletIdOf env my) \<noteq> []" "bidFee + TX_FEE \<le> n" "bigint env fee = Inr bidFee"
      "bigint env (wallet_amount (wallet_from (view env w (walletIdOf env my)))) = Inr n" for n my bidFee fee
    using wallet_text [OF typed(1-3) that(1,4)] that(2) bigint_nonneg [OF that(3)] TX_FEE_pos by simp
  show ?thesis
    using AddDealOrder_ok [OF s(1) run] typed(4)
    apply (elim exE conjE)
    apply (frule (1) typed_ids(5))
    apply (rule conjI [OF _ typed_session_after [OF typed(1)]], simp_all only:)
    apply (intro state_wf_upd typed(3) disjI1 [OF refl])
    apply (auto simp: record_wf s stored_wf [OF typed(3)] state_wf_ids [OF typed(3)]
        intro!: disjI2 entry_written fee_entry [OF typed(1)] intro: wallet at_kind_makeAddress)
    done
qed

lemma CompleteDealOrder_wf:
  assumes typed: "typed_session env w" "small_amounts env query (view env w)" "state_wf env (view env w)"
      "typed_query env ''CompleteDealOrder'' query"
    and run: "CompleteDealOrder env query w = (Inr u, w')"
  shows "state_wf env (view env w') \<and> typed_session env w'"
proof -
  note s = typed_sessionD [OF typed(1)] and t = typed_query_text [OF typed(4)]
  have wallet: "Wallet_wf ((wallet_from (view env w (walletIdOf env my)))\<lparr>wallet_amount := toString env (n + (dealFee - TX_FEE))\<rparr>)"
    if "view env w (walletIdOf env my) \<noteq> []" "at_kind env DEAL_ORDER k" "bigint env (deal_fee (deal_from (view env w k))) = Inr dealFee"
      "bigint env (wallet_amount (wallet_from (view env w (walletIdOf env my)))) = Inr n" for n my dealFee k
  proof -
    have "\<bar>dealFee - TX_FEE\<bar> < max_amount div 4"
      using typed(2) that(2,3) bigint_nonneg [OF that(3)] by (fastforce simp: small_amounts_def TX_FEE_def max_amount_def)
    then show ?thesis using wallet_text [OF typed(1-3) that(1,4)] by simp
  qed
  show ?thesis
    using CompleteDealOrder_ok [OF s(1) run] typed(4)
    apply (elim exE conjE)
    apply (frule (1) typed_ids(6), frule (1) typed_ids(7))
    apply (rule conjI [OF _ typed_session_after [OF typed(1)]], simp_all only:)
    apply (intro state_wf_upd typed(3) disjI2 entry_written fee_entry [OF typed(1)])
    apply (auto simp: s(3-5) record_wf stored_wf [OF typed(3)] state_wf_ids [OF typed(3)]
        intro: t wallet at_kind_makeAddress)
    done
qed

text \<open>The case distinction on the commands, shared by the properties of all of them.\<close>

lemma handlers_all:
  assumes "(name, h) \<in> set (handlers env)" and "name \<noteq> ''Housekeeping''"
    and "P ''SendFunds'' (SendFunds env)" "P ''RegisterAddress'' (RegisterAddress env)"
      "P ''RegisterTransfer'' (RegisterTransfer env)" "P ''AddAskOrder'' (AddAskOrder env)"
      "P ''AddBidOrder'' (AddBidOrder env)" "P ''AddOffer'' (AddOffer env)"
      "P ''AddDealOrder'' (AddDealOrder env)" "P ''CompleteDealOrder'' (CompleteDealOrder env)"
      "P ''LockDealOrder'' (LockDealOrder env)" "P ''CloseDealOrder'' (CloseDealOrder env)"
      "P ''Exempt'' (Exempt env)" "P ''AddRepaymentOrder'' (AddRepaymentOrder env)"
      "P ''CompleteRepaymentOrder'' (CompleteRepaymentOrder env)" "P ''CloseRepaymentOrder'' (CloseRepaymentOrder env)"
      "P ''CollectCoins'' (CollectCoins env)"
  shows "P name h"
proof -
  have "\<forall>c \<in> set (handlers env). fst c \<noteq> ''Housekeeping'' \<longrightarrow> P (fst c) (snd c)"
    unfolding handlers_def using assms(3-) by simp
  then show ?thesis using assms(1,2) by fastforce
qed

lemma SendFunds_effect:
  assumes "session_ok env w" and run: "SendFunds env query w = (Inr u, w')"
  shows "\<exists>src dst feeId srcWallet dstWallet. makeAddress env FEE (guid_of env w) = Inr feeId \<and>
    view env w' = (view env w)(walletIdOf env dst := Wallet_SerializeToString dstWallet,
      feeId := fee_data env w src, walletIdOf env src := Wallet_SerializeToString srcWallet)"
proof -
  obtain a amount dst src where q: "query_bigint env query ''p1'' ''amount'' = Inr (a, amount)"
      "getStringLower env query ''p2'' ''sighash'' = Inr dst" "signer env w = Inr src"
    using run unfolding SendFunds_def by (auto simp: act_ok)
  show ?thesis using SendFunds_ok [OF assms(1) q run] by blast
qed

lemmas market_effects = SendFunds_effect RegisterAddress_ok RegisterTransfer_ok AddAskOrder_ok AddBidOrder_ok
  AddOffer_ok AddDealOrder_ok CompleteDealOrder_ok LockDealOrder_ok CloseDealOrder_ok Exempt_ok
  AddRepaymentOrder_ok CompleteRepaymentOrder_ok CloseRepaymentOrder_ok CollectCoins_ok

lemma state_wf_handlers:
  assumes "(name, h) \<in> set (handlers env)" and "name \<noteq> ''Housekeeping''"
    and "typed_session env w" and "small_amounts env query (view env w)" and "state_wf env (view env w)"
    and "typed_query env name query" and "h query w = (Inr u, w')"
  shows "state_wf env (view env w') \<and> typed_session env w'"
  using assms(3-)
  by (rule handlers_all [OF assms(1,2), where P = "\<lambda>name h. typed_session env w \<longrightarrow>
      small_amounts env query (view env w) \<longrightarrow> state_wf env (view env w) \<longrightarrow> typed_query env name query \<longrightarrow>
      h query w = (Inr u, w') \<longrightarrow> state_wf env (view env w') \<and> typed_session env w'", rule_format, rotated -5])
    (rule SendFunds_wf RegisterAddress_wf RegisterTransfer_wf AddAskOrder_wf AddBidOrder_wf AddOffer_wf
       AddDealOrder_wf CompleteDealOrder_wf LockDealOrder_wf CloseDealOrder_wf Exempt_wf AddRepaymentOrder_wf
       CompleteRepaymentOrder_wf CloseRepaymentOrder_wf CollectCoins_wf; assumption)+

subsection \<open>Over many transactions\<close>

lemma command_session:
  assumes "(name, h) \<in> set (handlers env)" and "name \<noteq> ''Housekeeping''" and "session_ok env w" and "h query w = (Inr u, w')"
  shows "same_session env w w'"
proof -
  have send: "same_session env w w'" if run: "SendFunds env query w = (Inr u, w')"
  proof -
    obtain a amount dst src where "query_bigint env query ''p1'' ''amount'' = Inr (a, amount)"
        "getStringLower env query ''p2'' ''sighash'' = Inr dst" "signer env w = Inr src"
      using run unfolding SendFunds_def by (auto simp: act_ok)
    then show ?thesis using SendFunds_ok [OF assms(3) _ _ _ run] by blast
  qed
  show ?thesis using assms(4)
    by (rule handlers_all [OF assms(1,2), where P = "\<lambda>name h. h query w = (Inr u, w') \<longrightarrow> same_session env w w'", rule_format, rotated -1])
      ((rule send, assumption) | (drule market_effects [OF assms(3)], elim exE conjE, assumption))+
qed

text \<open>
  A run of accepted transactions.  In normal operation each has a header of its own, and between
  two of them the validator may add blocks; when transitioning, the next signer takes its turn.
\<close>

definition next_tx :: "string \<Rightarrow> string \<Rightarrow> 'v world \<Rightarrow> 'v world" where
  \<comment> \<open>what doApply sets before a command\<close>
  "next_tx guid sighash w = w\<lparr>ctx := (ctx w)\<lparr>ctx_guid := guid, ctx_sighash := sighash\<rparr>\<rparr>"

inductive accepted :: "'v env \<Rightarrow> 'v world \<Rightarrow> 'v world \<Rightarrow> bool" for env where
  none: "accepted env w w"
| turn: "accepted env w w1 \<Longrightarrow> wire_str sighash \<Longrightarrow> accepted env w (next_tx guid sighash w1)"
| block: "accepted env w w1 \<Longrightarrow> stored env u = stored env (validator w1) \<Longrightarrow> accepted env w (w1\<lparr>validator := u\<rparr>)"
| run: "accepted env w w1 \<Longrightarrow> same_program env e \<Longrightarrow> signed e w1 \<Longrightarrow> (name, h) \<in> set (handlers e) \<Longrightarrow>
     name \<noteq> ''Housekeeping'' \<Longrightarrow> typed_query e name query \<Longrightarrow> small_amounts e query (view e w1) \<Longrightarrow>
     h query w1 = (Inr (), w2) \<Longrightarrow> accepted env w w2"

lemma accepted_own:
  assumes "accepted env w w1" and "typed_session env w1" and "(name, h) \<in> set (handlers env)" "name \<noteq> ''Housekeeping''"
    and "typed_query env name query" "small_amounts env query (view env w1)" "h query w1 = (Inr (), w2)"
  shows "accepted env w w2"
  using accepted.run [OF assms(1) same_program_refl typed_signed [OF assms(2)] assms(3-)] .

lemma next_tx_same:
  "view env (next_tx guid s w) = view env w"
  "typed_session env w \<Longrightarrow> wire_str s \<Longrightarrow> typed_session env (next_tx guid s w)"
  by (auto simp: next_tx_def view_def overlay_def fun_eq_iff typed_session_def session_ok_def signer_def tip_of_def
      split: option.split)

lemma new_block_same:
  assumes "stored env u = stored env (validator w)"
  shows "view env (w\<lparr>validator := u\<rparr>) = view env w"
    and "typed_session env w \<Longrightarrow> typed_session env (w\<lparr>validator := u\<rparr>)"
proof -
  show "view env (w\<lparr>validator := u\<rparr>) = view env w"
    using assms by (cases "ctx_transitioning (ctx w)") (auto simp: fun_eq_iff view_overlay view_validator overlay_def split: option.split)
  have "\<bar>uint x\<bar> < max_amount" for x :: "64 word"
  proof -
    have "uint x < 2 ^ 64" using unsigned_less [of x] by simp
    moreover have "(2 :: int) ^ 64 < max_amount" by (simp add: max_amount_def)
    ultimately show ?thesis by simp
  qed
  moreover have "0 < max_amount" by (simp add: max_amount_def)
  ultimately show "typed_session env w \<Longrightarrow> typed_session env (w\<lparr>validator := u\<rparr>)"
    by (auto simp: typed_session_def session_ok_def signer_def tip_of_def split: sum.split)
qed

lemma accepted_wf:
  assumes "accepted env w w'" and "typed_session env w" and "state_wf env (view env w)"
  shows "state_wf env (view env w') \<and> typed_session env w'"
  using assms
proof (induction rule: accepted.induct)
  case (run w w1 e name h query w2)
  then have w1: "state_wf env (view env w1)" "typed_session env w1" by blast+
  note same = same_kinds(2) [OF run.hyps(2)] same_view [OF run.hyps(2)]
  have e: "typed_session e w1" by (rule same_typed_session [OF run.hyps(2) w1(2) run.hyps(3)])
  have "state_wf e (view e w2) \<and> typed_session e w2"
    using state_wf_handlers [OF run.hyps(4,5) e run.hyps(7) _ run.hyps(6,8)] w1(1) by (simp add: same)
  then show ?case
    using typed_session_again [OF run.hyps(2) w1(2)]
      same_session_simps(1) [OF command_session [OF run.hyps(4,5) typed_sessionD(1) [OF e] run.hyps(8)]] by (simp add: same)
qed (auto simp: next_tx_same new_block_same)

text \<open>
  What later states keep: a relation of states that every accepted command establishes, and that
  does not depend on the header, holds over a run of them.  The parts of the market say with it
  what becomes of their records.
\<close>

locale state_order =
  fixes rel :: "'v env \<Rightarrow> (string \<Rightarrow> string) \<Rightarrow> (string \<Rightarrow> string) \<Rightarrow> bool"
  assumes rel_refl: "rel env st st"
    and rel_trans: "rel env st st1 \<Longrightarrow> rel env st1 st2 \<Longrightarrow> rel env st st2"

locale kept_by_commands = state_order rel
  for rel :: "'v env \<Rightarrow> (string \<Rightarrow> string) \<Rightarrow> (string \<Rightarrow> string) \<Rightarrow> bool" +
  assumes command: "(name, h) \<in> set (handlers env) \<Longrightarrow> name \<noteq> ''Housekeeping'' \<Longrightarrow>
      typed_session env w \<Longrightarrow> state_wf env (view env w) \<Longrightarrow> typed_query env name query \<Longrightarrow>
      h query w = (Inr (), w') \<Longrightarrow> rel env (view env w) (view env w')"
    and any_header: "same_program env env' \<Longrightarrow> rel env' = rel env"
begin

lemma run_keeps:
  assumes "accepted env w w'" and "typed_session env w" and "state_wf env (view env w)"
  shows "rel env (view env w) (view env w')"
  using assms
proof (induction rule: accepted.induct)
  case (run w w1 e name h query w2)
  then have w1: "typed_session env w1" "state_wf env (view env w1)" using accepted_wf by blast+
  note p = run.hyps(2)
  have "rel e (view e w1) (view e w2)"
    using command [OF run.hyps(4,5) same_typed_session [OF p w1(1) run.hyps(3)] _ run.hyps(6,8)] w1(2)
    by (simp add: same_kinds [OF p] same_view [OF p])
  then show ?case using rel_trans [OF run.IH [OF run.prems]] by (simp add: any_header [OF p] same_view [OF p])
qed (simp_all add: rel_refl next_tx_same new_block_same)

end


lemma text_query_typed:
  assumes "map_of id_params name = None" and "\<forall>(k, v) \<in> set ps. plain v \<and> ascii v \<and> length v < 2 ^ 31"
  shows "typed_query sample_env name (text_query ps)"
  using assms(1) text_query_wire [OF assms(2)] unfolding typed_query_def by auto

lemma one_wallet_typed:
  assumes "0 \<le> n" "n < max_amount div 4" "wire_str me"
  shows "typed_session sample_env (sample_world (one_wallet s n) me)"
    and "state_wf sample_env (view sample_env (sample_world (one_wallet s n) me))"
proof -
  show "typed_session sample_env (sample_world (one_wallet s n) me)"
    using assms(3) by (simp add: typed_session_def max_amount_def) (simp add: sample_env_def)
  have n: "\<bar>n\<bar> < max_amount" using assms(1,2) by (simp add: max_amount_def)
  have "Wallet_wf (Wallet_Clear\<lparr>wallet_amount := dump_integer n\<rparr>)"
    using n by (simp add: Wallet_wf_def Wallet_Clear_def dump_integer_wire)
  then have "entry_ok sample_env (walletIdOf sample_env s) (wallet_of n)"
    unfolding wallet_of_def by (rule entry_written)
  then show "state_wf sample_env (view sample_env (sample_world (one_wallet s n) me))"
    by (simp add: state_wf_def)
qed

lemma one_wallet_small:
  assumes "0 \<le> n" "n < max_amount div 4"
    and "\<And>key nm s m. query_string sample_env query key nm = Inr s \<Longrightarrow> getBigint sample_env s True = Inr m \<Longrightarrow>
      \<bar>m\<bar> < max_amount div 4"
  shows "small_amounts sample_env query (view sample_env (sample_world (one_wallet s n) me))"
proof -
  have "bigint sample_env [] = Inl (InvalidTransaction ''Invalid number format'')"
    by (simp add: sample_bigint read_integer_def split_sign_def)
  moreover have "walletIdOf sample_env s \<noteq> k" if "at_kind sample_env DEAL_ORDER k \<or> at_kind sample_env REPAYMENT_ORDER k" for k
    using that at_kind_only [OF at_kind_wallet, of DEAL_ORDER sample_env s] at_kind_only [OF at_kind_wallet, of REPAYMENT_ORDER sample_env s]
    by auto
  moreover have "n < max_amount" using assms(1,2) by (simp add: max_amount_def)
  ultimately show ?thesis using assms
    by (fastforce simp: small_amounts_def one_wallet_balance DealOrder_Clear_def RepaymentOrder_Clear_def)
qed

lemma sample_funds_query:
  "JObject [(''p1'', JString (dump_integer 500)), (''p2'', JString ''bob'')] = text_query [(''p1'', dump_integer 500), (''p2'', ''bob'')]"
  by (simp add: text_query_def)


end
