(* ===== verification/Lifecycle.thy ===== *)
theory Lifecycle
  imports State_Invariant
begin

section \<open>The life of a deal\<close>

text \<open>
  The abstract protocol of one deal, with who may take each step: \<open>owner\<close> says who holds an
  address, \<open>my\<close> is the signer.  The investor (the owner of the source address) completes a
  deal by lending, the fundraiser locks it and closes it by repaying, the investor may
  exempt the fundraiser or sell the loan.
\<close>

inductive deal_step :: "(string \<Rightarrow> string) \<Rightarrow> string \<Rightarrow> DealOrder \<Rightarrow> DealOrder \<Rightarrow> bool" for owner my where
  completed: "deal_loan_transfer d = [] \<Longrightarrow> owner (deal_src_address d) = my \<Longrightarrow> t \<noteq> [] \<Longrightarrow>
     deal_step owner my d (d\<lparr>deal_loan_transfer := t, deal_block := b\<rparr>)"
| locked: "deal_lock d = [] \<Longrightarrow> deal_loan_transfer d \<noteq> [] \<Longrightarrow> deal_sighash d = my \<Longrightarrow>
     deal_step owner my d (d\<lparr>deal_lock := my\<rparr>)"
| closed: "deal_repayment_transfer d = [] \<Longrightarrow> deal_sighash d = my \<Longrightarrow> deal_lock d = my \<Longrightarrow> t \<noteq> [] \<Longrightarrow>
     deal_step owner my d (d\<lparr>deal_repayment_transfer := t\<rparr>)"
| exempted: "deal_repayment_transfer d = [] \<Longrightarrow> owner (deal_src_address d) = my \<Longrightarrow> t \<noteq> [] \<Longrightarrow>
     deal_step owner my d (d\<lparr>deal_repayment_transfer := t\<rparr>)"
| offered: "deal_lock d = [] \<Longrightarrow> deal_step owner my d (d\<lparr>deal_lock := my\<rparr>)"
| sold: "deal_lock d = owner (deal_src_address d) \<Longrightarrow> a \<noteq> [] \<Longrightarrow>
     deal_step owner my d (d\<lparr>deal_src_address := a, deal_lock := []\<rparr>)"

inductive_cases deal_stepE: "deal_step owner my d d'"

definition owner_of :: "(string \<Rightarrow> string) \<Rightarrow> string \<Rightarrow> string" where
  \<comment> \<open>who registered the address\<close>
  "owner_of st a = address_sighash (address_from (st a))"

lemma at_kind_not_Nil: "at_kind env kind a \<Longrightarrow> length kind = 4 \<Longrightarrow> a \<noteq> []"
  by (auto simp: at_kind_def starts_with_iff)

lemma deal_elsewhere:
  assumes "at_kind env DEAL_ORDER k"
  shows "k \<noteq> walletIdOf env s" "at_kind env ADDR a \<Longrightarrow> k \<noteq> a" "at_kind env TRANSFER a \<Longrightarrow> k \<noteq> a"
    "at_kind env ASK_ORDER a \<Longrightarrow> k \<noteq> a" "at_kind env BID_ORDER a \<Longrightarrow> k \<noteq> a" "at_kind env OFFER a \<Longrightarrow> k \<noteq> a"
    "at_kind env REPAYMENT_ORDER a \<Longrightarrow> k \<noteq> a" "at_kind env ERC20 a \<Longrightarrow> k \<noteq> a" "at_kind env FEE a \<Longrightarrow> k \<noteq> a"
    "makeAddress env ADDR m = Inr a \<Longrightarrow> k \<noteq> a" "makeAddress env TRANSFER m = Inr a \<Longrightarrow> k \<noteq> a"
    "makeAddress env ASK_ORDER m = Inr a \<Longrightarrow> k \<noteq> a" "makeAddress env BID_ORDER m = Inr a \<Longrightarrow> k \<noteq> a"
    "makeAddress env OFFER m = Inr a \<Longrightarrow> k \<noteq> a" "makeAddress env REPAYMENT_ORDER m = Inr a \<Longrightarrow> k \<noteq> a"
    "makeAddress env ERC20 m = Inr a \<Longrightarrow> k \<noteq> a" "makeAddress env FEE m = Inr a \<Longrightarrow> k \<noteq> a"
  by (rule at_kind_differs [OF assms at_kind_wallet]; simp)
    ((rule at_kind_differs [OF assms], assumption, (simp; fail)+)
     | (rule at_kind_differs [OF assms at_kind_makeAddress], assumption, (simp; fail)+))+

lemma deal_protocol:
  assumes "(name, h) \<in> set (handlers env)" and "name \<noteq> ''Housekeeping''"
    and "typed_session env w" and wf: "state_wf env (view env w)"
    and "typed_query env name query" and "h query w = (Inr u, w')"
    and k: "at_kind env DEAL_ORDER k" "view env w k \<noteq> []"
  shows "view env w' k = view env w k \<or> (\<exists>my. signer env w = Inr my \<and>
    deal_step (owner_of (view env w)) my (deal_from (view env w k)) (deal_from (view env w' k)))"
proof (rule disj_imp [THEN iffD2], rule impI)
  assume "\<not> view env w' k = view env w k"
  then show "\<exists>my. signer env w = Inr my \<and>
      deal_step (owner_of (view env w)) my (deal_from (view env w k)) (deal_from (view env w' k))"
    using assms(3,5,6)
    by (rule handlers_all [OF assms(1,2), where P = "\<lambda>name h. view env w' k \<noteq> view env w k \<longrightarrow> typed_session env w \<longrightarrow>
      typed_query env name query \<longrightarrow> h query w = (Inr u, w') \<longrightarrow>
      (\<exists>my. signer env w = Inr my \<and>
      deal_step (owner_of (view env w)) my (deal_from (view env w k)) (deal_from (view env w' k)))", rule_format, rotated -4])
     (frule (1) market_effects [OF typed_sessionD(1)], elim exE conjE,
       use k(2) in \<open>simp add: deal_elsewhere [OF k(1)] owner_of_def record_wf stored_wf [OF wf] state_wf_ids [OF wf] typed_ids [of env query]
       typed_sessionD typed_query_text(2) deal_step.intros
       at_kind_not_Nil [of env ADDR] at_kind_not_Nil [of env TRANSFER] split: if_splits\<close>)+
qed

subsection \<open>Over many transactions\<close>

inductive deal_reach :: "DealOrder \<Rightarrow> DealOrder \<Rightarrow> bool" where
  start: "deal_reach d d"
| step: "deal_reach d d1 \<Longrightarrow> deal_step owner my d1 d2 \<Longrightarrow> deal_reach d d2"

definition terms :: "DealOrder \<Rightarrow> string list" where
  \<comment> \<open>what the parties agreed on, and who borrows\<close>
  "terms d = [deal_blockchain d, deal_dst_address d, deal_amount d, deal_interest d, deal_maturity d,
     deal_fee d, deal_sighash d]"

lemma deal_step_keeps:
  assumes "deal_step owner my d d'"
  shows "terms d' = terms d" "deal_expiration d' = deal_expiration d"
    "deal_loan_transfer d \<noteq> [] \<Longrightarrow> deal_loan_transfer d' = deal_loan_transfer d"
    "deal_repayment_transfer d \<noteq> [] \<Longrightarrow> deal_repayment_transfer d' = deal_repayment_transfer d"
    "deal_src_address d \<noteq> [] \<Longrightarrow> deal_src_address d' \<noteq> []"
  using assms by (auto simp: terms_def elim: deal_stepE)

lemma deal_reach_keeps:
  assumes "deal_reach d d'"
  shows "terms d' = terms d \<and> deal_expiration d' = deal_expiration d \<and>
    (deal_loan_transfer d \<noteq> [] \<longrightarrow> deal_loan_transfer d' = deal_loan_transfer d) \<and>
    (deal_repayment_transfer d \<noteq> [] \<longrightarrow> deal_repayment_transfer d' = deal_repayment_transfer d)"
  using assms
proof induction
  case (step d d1 owner my d2)
  then show ?case using deal_step_keeps [OF step.hyps(2)] by auto
qed simp


lemma deal_reach_trans: "deal_reach d1 d2 \<Longrightarrow> deal_reach d d1 \<Longrightarrow> deal_reach d d2"
  by (induction rule: deal_reach.induct) (auto intro: deal_reach.step)

definition deals_kept :: "'v env \<Rightarrow> (string \<Rightarrow> string) \<Rightarrow> (string \<Rightarrow> string) \<Rightarrow> bool" where
  \<comment> \<open>no deal is removed, and each goes on by the protocol\<close>
  "deals_kept env st st' \<longleftrightarrow> (\<forall>k. at_kind env DEAL_ORDER k \<longrightarrow> st k \<noteq> [] \<longrightarrow>
     st' k \<noteq> [] \<and> deal_reach (deal_from (st k)) (deal_from (st' k)))"

lemma deal_step_stored:
  assumes "deal_step owner my (deal_from (st k)) (deal_from (st' k))"
    and "state_wf env st" and "st k \<noteq> []" and "at_kind env DEAL_ORDER k"
  shows "st' k \<noteq> []"
proof -
  have "deal_src_address (deal_from (st' k)) \<noteq> []"
    using deal_step_keeps(5) [OF assms(1)] state_wf_ids(3) [OF assms(2-4)] at_kind_not_Nil [of env ADDR] by simp
  then show ?thesis by (auto simp: DealOrder_Clear_def)
qed

interpretation deals: kept_by_commands deals_kept
proof unfold_locales
  fix env :: "'v env" and w w' :: "'v world" and name h query
  assume run: "(name, h) \<in> set (handlers env)" "name \<noteq> ''Housekeeping''" "typed_session env w"
    "state_wf env (view env w)" "typed_query env name query" "h query w = (Inr (), w')"
  show "deals_kept env (view env w) (view env w')"
    unfolding deals_kept_def
    using deal_protocol [OF run] deal_step_stored [OF _ run(4)] deal_reach.intros by metis
next
  fix env env' :: "'v env"
  assume "same_program env env'"
  then show "deals_kept env' = deals_kept env" by (simp add: fun_eq_iff deals_kept_def same_kinds)
qed (use deal_reach_trans in \<open>auto simp: deals_kept_def deal_reach.start\<close>)


end
