(* ===== verification/Market_Sample.thy ===== *)
theory Market_Sample
  imports Lifecycle
begin

section \<open>A small market\<close>

text \<open>
  A state with a wallet, two addresses, a deal and two transfers, for the witnesses of the
  properties about deals.
\<close>

definition the_deal :: DealOrder where
  "the_deal = DealOrder_Clear\<lparr>deal_blockchain := ''eth'', deal_src_address := ''niocti1000a'',
     deal_dst_address := ''niocti1000b'', deal_amount := ''1000'', deal_interest := ''100000'',
     deal_maturity := ''10'', deal_fee := ''5'', deal_expiration := 50, deal_block := ''95'',
     deal_loan_transfer := ''niocti2000l'', deal_sighash := ''bob''\<rparr>"

definition the_loan :: Transfer where
  "the_loan = Transfer_Clear\<lparr>transfer_blockchain := ''eth'', transfer_src_address := ''niocti1000a'',
     transfer_dst_address := ''niocti1000b'', transfer_order := ''niocti5000d'', transfer_amount := ''1000'',
     transfer_tx := ''x'', transfer_block := ''95'', transfer_processed := True, transfer_sighash := ''alice''\<rparr>"

definition the_repayment :: Transfer where
  "the_repayment = Transfer_Clear\<lparr>transfer_blockchain := ''eth'', transfer_src_address := ''niocti1000b'',
     transfer_dst_address := ''niocti1000a'', transfer_order := ''niocti5000d'', transfer_amount := ''1100'',
     transfer_tx := ''y'', transfer_block := ''99'', transfer_processed := False, transfer_sighash := ''bob''\<rparr>"

definition the_new_loan :: Transfer where
  "the_new_loan = the_loan\<lparr>transfer_tx := ''z'', transfer_processed := False\<rparr>"

definition the_ask :: AskOrder where
  "the_ask = AskOrder_Clear\<lparr>ask_blockchain := ''eth'', ask_address := ''niocti1000a'', ask_amount := ''1000'',
     ask_interest := ''100000'', ask_maturity := ''10'', ask_fee := ''5'', ask_expiration := 50,
     ask_block := ''95'', ask_sighash := ''alice''\<rparr>"

definition the_bid :: BidOrder where
  "the_bid = BidOrder_Clear\<lparr>bid_blockchain := ''eth'', bid_address := ''niocti1000b'', bid_amount := ''1000'',
     bid_interest := ''100000'', bid_maturity := ''10'', bid_fee := ''5'', bid_expiration := 50,
     bid_block := ''95'', bid_sighash := ''bob''\<rparr>"

definition the_offer :: Offer where
  "the_offer = Offer_Clear\<lparr>offer_blockchain := ''eth'', offer_ask_order := ''niocti3000k'',
     offer_bid_order := ''niocti4000b'', offer_expiration := 50, offer_block := ''95'', offer_sighash := ''alice''\<rparr>"

definition an_address :: "string \<Rightarrow> string \<Rightarrow> Address" where
  "an_address value owner = Address_Clear\<lparr>address_blockchain := ''eth'', address_value := value,
     address_network := ''main'', address_sighash := owner\<rparr>"

definition market :: "DealOrder \<Rightarrow> string \<Rightarrow> string smap" where
  "market d me =
     [(''niocti0000'' @ me, wallet_of (TX_FEE + 700)),
      (''niocti1000a'', Address_SerializeToString (an_address ''0xa'' ''alice'')),
      (''niocti1000b'', Address_SerializeToString (an_address ''0xb'' ''bob'')),
      (''niocti2000l'', Transfer_SerializeToString the_loan),
      (''niocti2000r'', Transfer_SerializeToString the_repayment),
      (''niocti2000s'', Transfer_SerializeToString the_new_loan),
      (''niocti3000k'', AskOrder_SerializeToString the_ask),
      (''niocti4000b'', BidOrder_SerializeToString the_bid),
      (''niocti7000o'', Offer_SerializeToString the_offer),
      (''niocti5000d'', DealOrder_SerializeToString d)]"

lemma literal_wire: "ascii s \<Longrightarrow> length s < 1000 \<Longrightarrow> wire_str s"
  by (rule wire_str_ascii) simp_all

lemma the_records_wf [simp]: "DealOrder_wf the_deal" "Transfer_wf the_loan" "Transfer_wf the_repayment"
  "Transfer_wf the_new_loan" "AskOrder_wf the_ask" "BidOrder_wf the_bid" "Offer_wf the_offer"
  "Address_wf (an_address ''0xa'' ''alice'')" "Address_wf (an_address ''0xb'' ''bob'')"
  by (simp_all add: the_deal_def the_loan_def the_repayment_def the_new_loan_def the_ask_def the_bid_def the_offer_def
      an_address_def DealOrder_wf_def Transfer_wf_def Address_wf_def AskOrder_wf_def BidOrder_wf_def Offer_wf_def
      DealOrder_Clear_def Transfer_Clear_def Address_Clear_def AskOrder_Clear_def BidOrder_Clear_def Offer_Clear_def
      literal_wire ascii_def)

lemma serialized_not_Nil:
  "DealOrder_wf d \<Longrightarrow> d \<noteq> DealOrder_Clear \<Longrightarrow> DealOrder_SerializeToString d \<noteq> []"
  "Transfer_wf t \<Longrightarrow> t \<noteq> Transfer_Clear \<Longrightarrow> Transfer_SerializeToString t \<noteq> []"
  "Address_wf a \<Longrightarrow> a \<noteq> Address_Clear \<Longrightarrow> Address_SerializeToString a \<noteq> []"
  "AskOrder_wf k \<Longrightarrow> k \<noteq> AskOrder_Clear \<Longrightarrow> AskOrder_SerializeToString k \<noteq> []"
  "BidOrder_wf b \<Longrightarrow> b \<noteq> BidOrder_Clear \<Longrightarrow> BidOrder_SerializeToString b \<noteq> []"
  "Offer_wf f \<Longrightarrow> f \<noteq> Offer_Clear \<Longrightarrow> Offer_SerializeToString f \<noteq> []"
  using from_serialized from_Nil by metis+

lemma market_find:
  "map_find (market d me) (''niocti0000'' @ s) = (if s = me then Some (wallet_of (TX_FEE + 700)) else None)"
  "map_find (market d me) ''niocti1000a'' = Some (Address_SerializeToString (an_address ''0xa'' ''alice''))"
  "map_find (market d me) ''niocti1000b'' = Some (Address_SerializeToString (an_address ''0xb'' ''bob''))"
  "map_find (market d me) ''niocti2000l'' = Some (Transfer_SerializeToString the_loan)"
  "map_find (market d me) ''niocti2000r'' = Some (Transfer_SerializeToString the_repayment)"
  "map_find (market d me) ''niocti2000s'' = Some (Transfer_SerializeToString the_new_loan)"
  "map_find (market d me) ''niocti3000k'' = Some (AskOrder_SerializeToString the_ask)"
  "map_find (market d me) ''niocti4000b'' = Some (BidOrder_SerializeToString the_bid)"
  "map_find (market d me) ''niocti7000o'' = Some (Offer_SerializeToString the_offer)"
  "map_find (market d me) ''niocti5000d'' = Some (DealOrder_SerializeToString d)"
  by (simp_all add: market_def map_find_def)

lemma market_entries:
  assumes "DealOrder_wf d" "at_kind sample_env ADDR (deal_src_address d)" "at_kind sample_env ADDR (deal_dst_address d)"
  shows "state_wf sample_env (view sample_env (sample_world (market d me) me))"
proof -
  have k: "at_kind sample_env ADDR (''niocti1000'' @ s)" "at_kind sample_env TRANSFER (''niocti2000'' @ s)"
    "at_kind sample_env DEAL_ORDER (''niocti5000'' @ s)" "at_kind sample_env ASK_ORDER (''niocti3000'' @ s)"
    "at_kind sample_env BID_ORDER (''niocti4000'' @ s)" "at_kind sample_env OFFER (''niocti7000'' @ s)" for s
    by (simp_all add: at_kind_def starts_with_def kind_defs)
  have "entry_ok sample_env k d'" if "(k, d') \<in> set (market d me)" for k d'
  proof -
    have w: "Wallet_wf (Wallet_Clear\<lparr>wallet_amount := dump_integer (TX_FEE + 700)\<rparr>)"
      by (simp add: Wallet_wf_def Wallet_Clear_def dump_integer_wire TX_FEE_def max_amount_def)
    have ids: "ask_address the_ask = ''niocti1000'' @ ''a''" "bid_address the_bid = ''niocti1000'' @ ''b''"
      "offer_ask_order the_offer = ''niocti3000'' @ ''k''" "offer_bid_order the_offer = ''niocti4000'' @ ''b''"
      by (simp_all add: the_ask_def the_bid_def the_offer_def)
    have e: "entry_ok sample_env (''niocti3000'' @ ''k'') (AskOrder_SerializeToString the_ask)"
      "entry_ok sample_env (''niocti4000'' @ ''b'') (BidOrder_SerializeToString the_bid)"
      "entry_ok sample_env (''niocti7000'' @ ''o'') (Offer_SerializeToString the_offer)"
      by (intro entry_written k the_records_wf; unfold ids; rule k)+
    show ?thesis using that k(1) [of "''a''"] k(1) [of "''b''"] k(2) [of "''l''"] k(2) [of "''r''"] k(2) [of "''s''"]
        k(3) [of "''d''"] e entry_written(1) [OF w, of sample_env me] assms
      by (auto simp: market_def wallet_of_def sample_wallet_id intro: entry_written(2-6))
  qed
  then show ?thesis
    by (auto simp: state_wf_def map_find_def split: option.splits dest: map_of_SomeD)
qed

lemma ids_sample [simp]:
  "at_kind sample_env DEAL_ORDER ''niocti5000d''" "at_kind sample_env TRANSFER ''niocti2000l''"
  "at_kind sample_env TRANSFER ''niocti2000r''" "at_kind sample_env ADDR ''niocti1000a''"
  "at_kind sample_env ADDR ''niocti1000b''" "at_kind sample_env TRANSFER ''niocti2000s''"
  "at_kind sample_env OFFER ''niocti7000o''"
  by (simp_all add: at_kind_def starts_with_def kind_defs)

lemma market_session: "wire_str me \<Longrightarrow> typed_session sample_env (sample_world st me)"
  by (simp add: typed_session_def max_amount_def) (simp add: sample_env_def)

lemma literal_bigints [simp]:
  "bigint sample_env ''1000'' = Inr 1000" "bigint sample_env ''1100'' = Inr 1100" "bigint sample_env ''5'' = Inr 5"
  "bigint sample_env ''95'' = Inr 95" "bigint sample_env ''10'' = Inr 10" "bigint sample_env ''100000'' = Inr 100000"
  "bigint sample_env [] = Inl (InvalidTransaction ''Invalid number format'')"
  by (simp_all add: sample_bigint read_integer_def split_sign_def digits_only_def isdigit_def dec_val_def digit_val_def)

lemma market_view_cases:
  assumes "view sample_env (sample_world (market d me) me) k = x" "x \<noteq> []"
  shows "(k, x) \<in> set (market d me)"
  using assms by (auto simp: map_find_def split: option.splits dest: map_of_SomeD)

lemma market_small:
  assumes "DealOrder_wf d" "deal_amount d = ''1000''" "deal_fee d = ''5''"
    and "\<And>key nm s m. query_string sample_env query key nm = Inr s \<Longrightarrow> getBigint sample_env s True = Inr m \<Longrightarrow>
      \<bar>m\<bar> < max_amount div 4"
  shows "small_amounts sample_env query (view sample_env (sample_world (market d me) me))"
proof -
  let ?v = "view sample_env (sample_world (market d me) me)"
  have n: "0 \<le> TX_FEE + 700" "TX_FEE + 700 < max_amount" "TX_FEE + 700 < max_amount div 4"
    by (simp_all add: TX_FEE_def max_amount_def)
  have "balance sample_env ?v s < max_amount div 4" for s
    unfolding balance_def Let_def sample_view sample_wallet_id market_find
    using n by (simp add: wallet_of_not_Nil)
  moreover have "deal_from (?v k) = DealOrder_Clear \<or> deal_from (?v k) = d" if "at_kind sample_env DEAL_ORDER k" for k
  proof (cases "?v k = []")
    case False
    then have "(k, ?v k) \<in> set (market d me)" by (rule market_view_cases [OF refl])
    then show ?thesis using that assms(1)
      by (auto simp: market_def at_kind_def starts_with_def kind_defs)
  qed simp
  moreover have "?v k = []" if "at_kind sample_env REPAYMENT_ORDER k" for k
  proof (rule ccontr)
    assume "?v k \<noteq> []"
    then have "(k, ?v k) \<in> set (market d me)" by (rule market_view_cases [OF refl])
    then show False using that by (auto simp: market_def at_kind_def starts_with_def kind_defs)
  qed
  ultimately show ?thesis using assms
    unfolding small_amounts_def
    by (intro conjI allI impI; fastforce simp: DealOrder_Clear_def RepaymentOrder_Clear_def max_amount_def)
qed

lemma market_charge:
  "charge sample_env me (sample_world (market d me) me) = (Inr (walletIdOf sample_env me,
     Wallet_Clear\<lparr>wallet_amount := dump_integer 700\<rparr>), sample_world (market d me) me)"
  unfolding charge_ok [OF sample_session_ok]
  by (simp del: append.simps add: sample_wallet_id market_find wallet_of_not_Nil sample_toString)
    (simp add: wallet_of_from TX_FEE_def max_amount_def)

lemma sample_fee_id: "\<exists>feeId. makeAddress sample_env FEE g = Inr feeId"
  using makeAddress_ok [OF sample_sha512_ok, of FEE g] by (auto simp: FEE_def)

lemma market_data [simp]:
  "view sample_env (sample_world (market d me) me) ''niocti1000a'' = Address_SerializeToString (an_address ''0xa'' ''alice'')"
  "view sample_env (sample_world (market d me) me) ''niocti1000b'' = Address_SerializeToString (an_address ''0xb'' ''bob'')"
  "view sample_env (sample_world (market d me) me) ''niocti2000l'' = Transfer_SerializeToString the_loan"
  "view sample_env (sample_world (market d me) me) ''niocti2000r'' = Transfer_SerializeToString the_repayment"
  "view sample_env (sample_world (market d me) me) ''niocti2000s'' = Transfer_SerializeToString the_new_loan"
  "view sample_env (sample_world (market d me) me) ''niocti3000k'' = AskOrder_SerializeToString the_ask"
  "view sample_env (sample_world (market d me) me) ''niocti4000b'' = BidOrder_SerializeToString the_bid"
  "view sample_env (sample_world (market d me) me) ''niocti7000o'' = Offer_SerializeToString the_offer"
  "view sample_env (sample_world (market d me) me) ''niocti5000d'' = DealOrder_SerializeToString d"
  by (simp_all add: market_find)

lemma the_records_not_Nil [simp]:
  "DealOrder_SerializeToString the_deal \<noteq> []" "Transfer_SerializeToString the_loan \<noteq> []"
  "Transfer_SerializeToString the_repayment \<noteq> []" "Transfer_SerializeToString the_new_loan \<noteq> []"
  "AskOrder_SerializeToString the_ask \<noteq> []" "BidOrder_SerializeToString the_bid \<noteq> []"
  "Offer_SerializeToString the_offer \<noteq> []"
  "Address_SerializeToString (an_address ''0xa'' ''alice'') \<noteq> []"
  "Address_SerializeToString (an_address ''0xb'' ''bob'') \<noteq> []"
  using the_records_wf serialized_not_Nil
  by (simp_all add: the_deal_def the_loan_def the_repayment_def the_new_loan_def the_ask_def the_bid_def the_offer_def
      an_address_def DealOrder_Clear_def Transfer_Clear_def Address_Clear_def AskOrder_Clear_def BidOrder_Clear_def
      Offer_Clear_def)

definition lock_query :: json where "lock_query = text_query [(''p1'', ''niocti5000d'')]"

lemma lock_query_plain: "\<forall>(k, v) \<in> set [(''p1'', ''niocti5000d'')]. plain v \<and> ascii v \<and> length v < 2 ^ 31"
  by (simp add: plain_def ascii_def)

lemma lock_query_id: "getStringLower sample_env lock_query ''p1'' nm = Inr ''niocti5000d''"
proof -
  have "\<forall>(k, v) \<in> set [(''p1'', ''niocti5000d'')]. plain v" using lock_query_plain by auto
  from text_query_lower [OF this] show ?thesis by (simp add: lock_query_def lower_char_def)
qed

lemma market_lock_run:
  "\<exists>w'. LockDealOrder sample_env lock_query (sample_world (market the_deal ''bob'') ''bob'') = (Inr (), w')"
proof -
  obtain feeId where feeId: "makeAddress sample_env FEE ''guid'' = Inr feeId" using sample_fee_id by blast
  have d: "deal_lock the_deal = []" "deal_loan_transfer the_deal \<noteq> []" "deal_sighash the_deal = ''bob''"
    by (simp_all add: the_deal_def DealOrder_Clear_def)
  show ?thesis
    using sample_write
    by (simp add: LockDealOrder_def act_step lock_query_id market_charge Let_def addFee_wallet_def addFee_def feeId d
        del: sample_view)
qed

lemma lock_query_typed:
  "typed_query sample_env ''LockDealOrder'' lock_query"
  using text_query_wire [OF lock_query_plain]
  by (auto simp: typed_query_def id_params_def lock_query_def [symmetric] lock_query_id)

lemma lock_query_small:
  "small_amounts sample_env lock_query (view sample_env (sample_world (market the_deal me) me))"
proof (rule market_small)
  show "DealOrder_wf the_deal" "deal_amount the_deal = ''1000''" "deal_fee the_deal = ''5''"
    by simp (simp_all add: the_deal_def DealOrder_Clear_def)
  fix key nm s m
  assume "query_string sample_env lock_query key nm = Inr s" and m: "getBigint sample_env s True = Inr m"
  then have "s = ''niocti5000d''" using text_query_string [of "[(''p1'', ''niocti5000d'')]"] lock_query_plain
    by (auto simp: lock_query_def split: if_splits)
  then show "\<bar>m\<bar> < max_amount div 4" using m
    by (simp add: getBigint_def sample_env_def read_integer_def split_sign_def digits_only_def isdigit_def)
qed

lemma market_wf: "state_wf sample_env (view sample_env (sample_world (market the_deal me) me))"
  by (rule market_entries [OF the_records_wf(1)]) (simp_all add: the_deal_def DealOrder_Clear_def del: sample_view)

lemma bob_wire: "wire_str ''bob''"
  by (rule literal_wire) (simp_all add: ascii_def)



subsection \<open>Closing the deal\<close>

definition the_locked_deal :: DealOrder where
  "the_locked_deal = the_deal\<lparr>deal_lock := ''bob''\<rparr>"

definition close_params :: "(string \<times> string) list" where
  "close_params = [(''p1'', ''niocti5000d''), (''p2'', ''niocti2000r'')]"

lemma close_params_plain: "\<forall>(k, v) \<in> set close_params. plain v \<and> ascii v \<and> length v < 2 ^ 31"
  by (simp add: close_params_def plain_def ascii_def)

lemma close_query_ids:
  "getStringLower sample_env (text_query close_params) ''p1'' nm = Inr ''niocti5000d''"
  "getStringLower sample_env (text_query close_params) ''p2'' nm = Inr ''niocti2000r''"
proof -
  have "\<forall>(k, v) \<in> set close_params. plain v" using close_params_plain by auto
  from text_query_lower [OF this] show
    "getStringLower sample_env (text_query close_params) ''p1'' nm = Inr ''niocti5000d''"
    "getStringLower sample_env (text_query close_params) ''p2'' nm = Inr ''niocti2000r''"
    by (simp_all add: close_params_def lower_char_def)
qed

lemma locked_deal_wf [simp]: "DealOrder_wf the_locked_deal"
  by (simp add: the_locked_deal_def the_deal_def DealOrder_wf_def DealOrder_Clear_def literal_wire ascii_def)

lemma locked_deal_not_Nil [simp]: "DealOrder_SerializeToString the_locked_deal \<noteq> []"
  using serialized_not_Nil(1) [OF locked_deal_wf] by (simp add: the_locked_deal_def the_deal_def DealOrder_Clear_def)

lemma the_interest: "calcInterest 1000 1 100000 = 1100"
  by (simp add: calcInterest_def calcInterest_loop.simps INTEREST_MULTIPLIER_def signed_divide_int_def)

lemma market_close_run:
  "\<exists>w'. CloseDealOrder sample_env (text_query close_params) (sample_world (market the_locked_deal ''bob'') ''bob'') = (Inr (), w')"
proof -
  obtain feeId where feeId: "makeAddress sample_env FEE ''guid'' = Inr feeId" using sample_fee_id by blast
  have d: "deal_lock the_locked_deal = ''bob''" "deal_loan_transfer the_locked_deal = ''niocti2000l''"
    "deal_sighash the_locked_deal = ''bob''" "deal_repayment_transfer the_locked_deal = []"
    "deal_maturity the_locked_deal = ''10''" "deal_amount the_locked_deal = ''1000''" "deal_interest the_locked_deal = ''100000''"
    by (simp_all add: the_locked_deal_def the_deal_def DealOrder_Clear_def)
  have t: "transfer_order the_repayment = ''niocti5000d''" "transfer_sighash the_repayment = ''bob''"
    "\<not> transfer_processed the_repayment" "transfer_amount the_repayment = ''1100''" "transfer_block the_loan = ''95''"
    by (simp_all add: the_repayment_def the_loan_def Transfer_Clear_def)
  have ticks: "cpp_div 15 10 = Inr 1" by (simp add: cpp_div_def signed_divide_int_def)
  show ?thesis
    using sample_write
    by (simp add: CloseDealOrder_def act_step close_query_ids market_charge Let_def addFee_wallet_def addFee_def feeId d t
        ticks the_interest del: sample_view)
qed

lemma close_query_typed: "typed_query sample_env ''CloseDealOrder'' (text_query close_params)"
  using text_query_wire [OF close_params_plain]
  by (auto simp: typed_query_def id_params_def close_query_ids)

lemma close_query_small:
  "small_amounts sample_env (text_query close_params) (view sample_env (sample_world (market the_locked_deal me) me))"
proof (rule market_small)
  show "DealOrder_wf the_locked_deal" "deal_amount the_locked_deal = ''1000''" "deal_fee the_locked_deal = ''5''"
    by simp (simp_all add: the_locked_deal_def the_deal_def DealOrder_Clear_def)
  fix key nm s m
  have "\<forall>(k, v) \<in> set close_params. plain v" using close_params_plain by auto
  moreover assume "query_string sample_env (text_query close_params) key nm = Inr s" and m: "getBigint sample_env s True = Inr m"
  ultimately have "s = ''niocti5000d'' \<or> s = ''niocti2000r''"
    using text_query_string [of close_params key nm] by (auto simp: close_params_def split: if_splits)
  then show "\<bar>m\<bar> < max_amount div 4" using m
    by (auto simp: getBigint_def sample_env_def read_integer_def split_sign_def digits_only_def isdigit_def)
qed

lemma locked_market_wf: "state_wf sample_env (view sample_env (sample_world (market the_locked_deal me) me))"
  by (rule market_entries [OF locked_deal_wf])
    (simp_all add: the_locked_deal_def the_deal_def DealOrder_Clear_def del: sample_view)

lemma market_close_accepted:
  "\<exists>w'. accepted sample_env (sample_world (market the_locked_deal ''bob'') ''bob'') w' \<and>
    CloseDealOrder sample_env (text_query close_params) (sample_world (market the_locked_deal ''bob'') ''bob'') = (Inr (), w')"
proof -
  let ?w = "sample_world (market the_locked_deal ''bob'') ''bob''"
  obtain w' where run: "CloseDealOrder sample_env (text_query close_params) ?w = (Inr (), w')" using market_close_run by blast
  have "(''CloseDealOrder'', CloseDealOrder sample_env) \<in> set (handlers sample_env)" by (simp add: handlers_def)
  then have "accepted sample_env ?w w'"
    using accepted_own [where h = "CloseDealOrder sample_env", OF accepted.none market_session [OF bob_wire] _ _ close_query_typed close_query_small run]
    by simp
  then show ?thesis using run by blast
qed

end
