(* ===== verification/Transfers.thy ===== *)
theory Transfers
  imports Market_Sample
begin

section \<open>A transfer is spent once\<close>

text \<open>
  A registered transfer on the external chain is evidence for one step of one deal.  The
  handlers that use it mark it as processed; nothing else ever touches its record.
\<close>

definition spent_step :: "Transfer \<Rightarrow> Transfer \<Rightarrow> bool" where
  "spent_step t t' \<longleftrightarrow> t' = t \<or> \<not> transfer_processed t \<and> t' = t\<lparr>transfer_processed := True\<rparr>"

lemma spent_step_refl [simp]: "spent_step t t"
  by (simp add: spent_step_def)

lemma spent_step_trans: "spent_step t t1 \<Longrightarrow> spent_step t1 t2 \<Longrightarrow> spent_step t t2"
  by (auto simp: spent_step_def)

lemma spent_step_order: "spent_step t t' \<Longrightarrow> transfer_order t' = transfer_order t"
  by (auto simp: spent_step_def)

lemma processed_wf [simp]: "Transfer_wf t \<Longrightarrow> Transfer_wf (t\<lparr>transfer_processed := b\<rparr>)"
  by (simp add: Transfer_wf_def)

lemma transfer_elsewhere:
  assumes "at_kind env TRANSFER k"
  shows "k \<noteq> walletIdOf env s" "at_kind env ASK_ORDER a \<Longrightarrow> k \<noteq> a" "at_kind env BID_ORDER a \<Longrightarrow> k \<noteq> a"
    "at_kind env OFFER a \<Longrightarrow> k \<noteq> a" "at_kind env DEAL_ORDER a \<Longrightarrow> k \<noteq> a" "at_kind env REPAYMENT_ORDER a \<Longrightarrow> k \<noteq> a"
    "makeAddress env ADDR m = Inr a \<Longrightarrow> k \<noteq> a" "makeAddress env DEAL_ORDER m = Inr a \<Longrightarrow> k \<noteq> a"
    "makeAddress env ASK_ORDER m = Inr a \<Longrightarrow> k \<noteq> a" "makeAddress env BID_ORDER m = Inr a \<Longrightarrow> k \<noteq> a"
    "makeAddress env OFFER m = Inr a \<Longrightarrow> k \<noteq> a" "makeAddress env REPAYMENT_ORDER m = Inr a \<Longrightarrow> k \<noteq> a"
    "makeAddress env ERC20 m = Inr a \<Longrightarrow> k \<noteq> a" "makeAddress env FEE m = Inr a \<Longrightarrow> k \<noteq> a"
  by (rule at_kind_differs [OF assms at_kind_wallet]; simp)
    ((rule at_kind_differs [OF assms], assumption, (simp; fail)+)
     | (rule at_kind_differs [OF assms at_kind_makeAddress], assumption, (simp; fail)+))+

lemma transfer_protocol:
  assumes "(name, h) \<in> set (handlers env)" and "name \<noteq> ''Housekeeping''"
    and "typed_session env w" and wf: "state_wf env (view env w)"
    and "typed_query env name query" and "h query w = (Inr u, w')"
    and k: "at_kind env TRANSFER k" "view env w k \<noteq> []"
  shows "spent_step (transfer_from (view env w k)) (transfer_from (view env w' k))"
  using assms(3,5,6)
  by (rule handlers_all [OF assms(1,2), where P = "\<lambda>name h. typed_session env w \<longrightarrow>
      typed_query env name query \<longrightarrow> h query w = (Inr u, w') \<longrightarrow>
      spent_step (transfer_from (view env w k)) (transfer_from (view env w' k))", rule_format, rotated -3])
    (drule market_effects [OF typed_sessionD(1)], assumption, elim exE conjE,
      use k(2) in \<open>auto simp: transfer_elsewhere [OF k(1)] state_wf_ids [OF wf] typed_ids [of env query]
        spent_step_def state_wf_read(2) [OF wf]\<close>; fail)+

definition transfers_kept :: "'v env \<Rightarrow> (string \<Rightarrow> string) \<Rightarrow> (string \<Rightarrow> string) \<Rightarrow> bool" where
  "transfers_kept env st st' \<longleftrightarrow>
     (\<forall>k. at_kind env TRANSFER k \<longrightarrow> transfer_order (transfer_from (st k)) \<noteq> [] \<longrightarrow>
        spent_step (transfer_from (st k)) (transfer_from (st' k)))"

interpretation transfers: kept_by_commands transfers_kept
proof unfold_locales
  fix env :: "'v env" and w w' :: "'v world" and name h query
  assume run: "(name, h) \<in> set (handlers env)" "name \<noteq> ''Housekeeping''" "typed_session env w"
    "state_wf env (view env w)" "typed_query env name query" "h query w = (Inr (), w')"
  have "view env w k \<noteq> []" if "transfer_order (transfer_from (view env w k)) \<noteq> []" for k
    using that by (auto simp: Transfer_Clear_def)
  then show "transfers_kept env (view env w) (view env w')"
    using transfer_protocol [OF run] unfolding transfers_kept_def by blast
next
  fix env :: "'v env" and st st1 st2
  assume "transfers_kept env st st1" "transfers_kept env st1 st2"
  then show "transfers_kept env st st2"
    using spent_step_trans spent_step_order unfolding transfers_kept_def by metis
qed (simp_all add: transfers_kept_def fun_eq_iff same_kinds)



end
