(* ===== verification/Loans.thy ===== *)
theory Loans
  imports Transfers
begin

section \<open>Interest and repayment\<close>

text \<open>
  \<open>calcInterest\<close> compounds in integers, rounding down after every tick.  The bounds relate
  it to exact simple and compound interest; closing a deal needs that much.
\<close>

definition tick :: "int \<Rightarrow> int \<Rightarrow> int" where
  \<comment> \<open>one period of interest, rounded down\<close>
  "tick interest a = a + (a * interest) div INTEREST_MULTIPLIER"

lemma sdiv_nonneg: "0 \<le> a \<Longrightarrow> 0 < b \<Longrightarrow> (a :: int) sdiv b = a div b"
  by (cases "a = 0") (simp_all add: signed_divide_int_def sgn_if)

lemma tick_grows: "0 \<le> interest \<Longrightarrow> 0 \<le> a \<Longrightarrow> a \<le> tick interest a"
  by (simp add: tick_def pos_imp_zdiv_nonneg_iff INTEREST_MULTIPLIER_def)

lemma tick_mono: "0 \<le> interest \<Longrightarrow> a \<le> b \<Longrightarrow> tick interest a \<le> tick interest b"
  unfolding tick_def INTEREST_MULTIPLIER_def
  by (intro add_mono zdiv_mono1 mult_right_mono) simp_all

lemma calcInterest_loop_ticks:
  assumes "0 \<le> interest" and "0 \<le> amt"
  shows "calcInterest_loop i ticks interest amt = (tick interest ^^ nat (ticks - i)) amt"
  using assms
proof (induction i ticks interest amt rule: calcInterest_loop.induct)
  case (1 i ticks interest amt)
  show ?case
  proof (cases "i < ticks")
    case True
    then have n: "nat (ticks - i) = Suc (nat (ticks - (i + 1)))" by simp
    have step: "amt + (amt * interest) sdiv INTEREST_MULTIPLIER = tick interest amt"
      using 1 by (simp add: sdiv_nonneg INTEREST_MULTIPLIER_def tick_def)
    have "0 \<le> tick interest amt" using 1 tick_grows [of interest amt] by simp
    then have "calcInterest_loop (i + 1) ticks interest (tick interest amt) =
        (tick interest ^^ nat (ticks - (i + 1))) (tick interest amt)"
      using 1 True step by simp
    then show ?thesis using True step
      by (subst calcInterest_loop.simps) (simp add: n funpow_swap1)
  next
    case False
    then show ?thesis by (subst calcInterest_loop.simps) simp
  qed
qed

lemma ticks_mono:
  assumes "0 \<le> interest" and "a \<le> b"
  shows "(tick interest ^^ n) a \<le> (tick interest ^^ n) b"
  by (induction n) (use assms tick_mono in auto)

lemma ticks_simple:
  assumes "0 \<le> interest" and "0 \<le> a"
  shows "a + int n * ((a * interest) div INTEREST_MULTIPLIER) \<le> (tick interest ^^ n) a"
proof (induction n)
  case (Suc n)
  let ?r = "(a * interest) div INTEREST_MULTIPLIER" and ?x = "(tick interest ^^ n) a"
  have "0 \<le> int n * ?r"
    using assms by (simp add: pos_imp_zdiv_nonneg_iff INTEREST_MULTIPLIER_def)
  then have "a \<le> ?x" using Suc by linarith
  then have "?r \<le> (?x * interest) div INTEREST_MULTIPLIER"
    using assms(1) by (intro zdiv_mono1 mult_right_mono) (simp_all add: INTEREST_MULTIPLIER_def)
  moreover have "a + int (Suc n) * ?r = (a + int n * ?r) + ?r" by (simp add: algebra_simps)
  moreover have "(tick interest ^^ Suc n) a = ?x + (?x * interest) div INTEREST_MULTIPLIER"
    by (simp add: tick_def)
  ultimately show ?case using Suc by linarith
qed simp

lemma ticks_compound:
  assumes "0 \<le> interest" and "0 \<le> a"
  shows "0 \<le> (tick interest ^^ n) a \<and>
    INTEREST_MULTIPLIER ^ n * (tick interest ^^ n) a \<le> a * (INTEREST_MULTIPLIER + interest) ^ n"
proof (induction n)
  case (Suc n)
  let ?m = INTEREST_MULTIPLIER and ?x = "(tick interest ^^ n) a"
  have x: "0 \<le> ?x" "?m ^ n * ?x \<le> a * (?m + interest) ^ n" using Suc by auto
  have m: "0 < ?m" by (simp add: INTEREST_MULTIPLIER_def)
  have "?m * ((?x * interest) div ?m) \<le> ?x * interest"
    by (metis m minus_mod_eq_mult_div le_add_same_cancel1 diff_add_cancel pos_mod_sign)
  then have "?m * tick interest ?x \<le> ?x * (?m + interest)" by (simp add: tick_def algebra_simps)
  then have "?m ^ n * (?m * tick interest ?x) \<le> ?m ^ n * (?x * (?m + interest))"
    using m by (intro mult_left_mono) simp_all
  also have "\<dots> \<le> a * (?m + interest) ^ n * (?m + interest)"
    using x(2) assms(1) m by (metis (no_types, opaque_lifting) add_nonneg_nonneg less_imp_le mult.assoc mult_right_mono)
  finally show ?case using x(1) tick_grows [OF assms(1) x(1)] by (simp add: algebra_simps)
qed (use assms in simp)

text \<open>C18. Compound interest in integers: the loop is the iteration of one rounded period, it yields at
  least the principal with simple (rounded) interest, at most exact compound interest, and
  never less for a larger principal or a longer time.\<close>

theorem calcInterest_bounds:
  assumes "0 \<le> amount" and "0 \<le> interest"
  shows "calcInterest amount ticks interest = (tick interest ^^ nat ticks) amount \<and>
    amount + int (nat ticks) * ((amount * interest) div INTEREST_MULTIPLIER) \<le> calcInterest amount ticks interest \<and>
    INTEREST_MULTIPLIER ^ nat ticks * calcInterest amount ticks interest
      \<le> amount * (INTEREST_MULTIPLIER + interest) ^ nat ticks \<and>
    calcInterest amount ticks interest \<le> calcInterest amount (ticks + 1) interest \<and>
    calcInterest amount ticks interest \<le> calcInterest (amount + 1) ticks interest"
proof -
  have eq: "calcInterest a t interest = (tick interest ^^ nat t) a" if "0 \<le> a" for a t
    using calcInterest_loop_ticks [OF assms(2) that, of 0 t] by (simp add: calcInterest_def)
  have "(tick interest ^^ nat ticks) amount \<le> (tick interest ^^ nat (ticks + 1)) amount"
  proof (cases "0 \<le> ticks")
    case True
    then have "nat (ticks + 1) = Suc (nat ticks)" by simp
    then show ?thesis
      using ticks_compound [OF assms(2,1), of "nat ticks"] tick_grows [OF assms(2)] by simp
  next
    case False
    then have "nat ticks = 0" "nat (ticks + 1) = 0" by auto
    then show ?thesis by (metis order_refl)
  qed
  moreover have "0 \<le> amount + 1" using assms(1) by simp
  ultimately show ?thesis
    unfolding eq [OF assms(1)] eq [OF \<open>0 \<le> amount + 1\<close>]
    using ticks_simple [OF assms(2,1)] ticks_compound [OF assms(2,1)]
      ticks_mono [OF assms(2) less_imp_le, of amount "amount + 1", OF zless_add1_eq [THEN iffD2, OF disjI2, OF refl]]
    by (intro conjI refl; blast)
qed

theorem calcInterest_bounds_witness: "1000 + 2 * 100 \<le> calcInterest 1000 2 100000"
  using calcInterest_bounds [of 1000 100000 2] by (simp add: INTEREST_MULTIPLIER_def)

subsection \<open>Closing a deal\<close>

lemma deal_ticks:
  assumes "cpp_div ((tip - start) + maturity) maturity = Inr ticks" and "start \<le> tip" and "0 \<le> maturity"
  shows "1 \<le> ticks" "0 < maturity" "ticks = (tip - start) div maturity + 1"
proof -
  have m: "0 < maturity" using assms(1,3) by (auto simp: cpp_div_def split: if_splits)
  then have "ticks = ((tip - start) + maturity) div maturity"
    using assms sdiv_nonneg [of "(tip - start) + maturity" maturity] by (auto simp: cpp_div_def split: if_splits)
  also have "\<dots> = (tip - start) div maturity + 1"
    using m by (subst div_add_self2) simp_all
  finally show "ticks = (tip - start) div maturity + 1" .
  then show "1 \<le> ticks" using assms(2) m by (simp add: pos_imp_zdiv_nonneg_iff)
  show "0 < maturity" by (rule m)
qed

text \<open>C4. Closing a deal takes a full repayment: the fundraiser, who has locked the deal, shows an
  unspent transfer for this deal whose amount covers the principal with compound interest
  for every started period since the loan, at least one; then the deal is closed with that
  transfer and the transfer is spent.\<close>

theorem closing_takes_full_repayment:
  assumes typed: "typed_session env w" "state_wf env (view env w)" "typed_query env ''CloseDealOrder'' query"
    and run: "CloseDealOrder env query w = (Inr u, w')"
    and ids: "getStringLower env query ''p1'' ''dealOrderId'' = Inr dealId"
      "getStringLower env query ''p2'' ''transferId'' = Inr transferId"
  defines "d \<equiv> deal_from (view env w dealId)" and "t \<equiv> transfer_from (view env w transferId)"
  shows "signer env w = Inr (deal_sighash d) \<and> deal_lock d = deal_sighash d \<and>
    deal_repayment_transfer d = [] \<and> transfer_order t = dealId \<and> \<not> transfer_processed t \<and>
    (\<exists>start maturity principal interest repaid.
       bigint env (transfer_block (transfer_from (view env w (deal_loan_transfer d)))) = Inr start \<and>
       bigint env (deal_maturity d) = Inr maturity \<and> bigint env (deal_amount d) = Inr principal \<and>
       bigint env (deal_interest d) = Inr interest \<and> bigint env (transfer_amount t) = Inr repaid \<and>
       (start \<le> tip_of env w \<longrightarrow>
          calcInterest principal ((tip_of env w - start) div maturity + 1) interest \<le> repaid \<and>
          principal + (principal * interest) div INTEREST_MULTIPLIER \<le> repaid)) \<and>
    deal_from (view env w' dealId) = d\<lparr>deal_repayment_transfer := transferId\<rparr> \<and>
    transfer_from (view env w' transferId) = t\<lparr>transfer_processed := True\<rparr>"
proof -
  note s = typed_sessionD [OF typed(1)]
  have kinds: "at_kind env DEAL_ORDER dealId" "at_kind env TRANSFER transferId"
    using typed_ids(9,10) [OF typed(3)] ids by blast+
  obtain my wallet feeId start maturity ticks principal interest repaid where r:
    "signer env w = Inr my" "deal_repayment_transfer d = []" "deal_sighash d = my" "deal_lock d = my"
    "transfer_order t = dealId" "\<not> transfer_processed t"
    "bigint env (transfer_block (transfer_from (view env w (deal_loan_transfer d)))) = Inr start"
    "bigint env (deal_maturity d) = Inr maturity"
    "cpp_div ((tip_of env w - start) + maturity) maturity = Inr ticks"
    "bigint env (deal_amount d) = Inr principal" "bigint env (deal_interest d) = Inr interest"
    "bigint env (transfer_amount t) = Inr repaid" "calcInterest principal ticks interest \<le> repaid"
    "makeAddress env FEE (guid_of env w) = Inr feeId"
    and v: "view env w' = (view env w)
      (dealId := DealOrder_SerializeToString (d\<lparr>deal_repayment_transfer := transferId\<rparr>),
       transferId := Transfer_SerializeToString (t\<lparr>transfer_processed := True\<rparr>),
       feeId := fee_data env w my, walletIdOf env my := Wallet_SerializeToString wallet)"
    using CloseDealOrder_ok [OF s(1) run] ids unfolding d_def t_def by auto
  have nonneg: "0 \<le> principal" "0 \<le> interest" "0 \<le> maturity" using r bigint_nonneg by blast+
  have "DealOrder_wf d" "Transfer_wf t" using state_wf_read(2,5) [OF typed(2)] kinds unfolding d_def t_def by blast+
  then have "deal_from (view env w' dealId) = d\<lparr>deal_repayment_transfer := transferId\<rparr>"
      "transfer_from (view env w' transferId) = t\<lparr>transfer_processed := True\<rparr>"
    using deal_elsewhere [OF kinds(1)] transfer_elsewhere [OF kinds(2)] kinds(2) r(14) typed_query_text(2) [OF typed(3) ids(2)]
    by (simp_all add: v DealOrder_wf_def)
  moreover have "calcInterest principal ((tip_of env w - start) div maturity + 1) interest \<le> repaid \<and>
      principal + (principal * interest) div INTEREST_MULTIPLIER \<le> repaid" if "start \<le> tip_of env w"
  proof -
    note tk = deal_ticks [OF r(9) that nonneg(3)]
    have "principal + int (nat ticks) * ((principal * interest) div INTEREST_MULTIPLIER) \<le> repaid"
      using calcInterest_loop_ticks [OF nonneg(2,1), of 0 ticks] ticks_simple [OF nonneg(2,1), of "nat ticks"] r(13)
      by (simp add: calcInterest_def)
    moreover have "(principal * interest) div INTEREST_MULTIPLIER
        \<le> int (nat ticks) * ((principal * interest) div INTEREST_MULTIPLIER)"
      using tk(1) nonneg mult_right_mono [of 1 ticks "(principal * interest) div INTEREST_MULTIPLIER"]
      by (simp add: pos_imp_zdiv_nonneg_iff INTEREST_MULTIPLIER_def)
    ultimately show ?thesis using r(13) tk(3) by simp
  qed
  ultimately show ?thesis using r by blast
qed

theorem closing_takes_full_repayment_witness:
  "\<exists>w'. CloseDealOrder sample_env (text_query close_params) (sample_world (market the_locked_deal ''bob'') ''bob'') = (Inr (), w') \<and>
    deal_from (view sample_env w' ''niocti5000d'') = the_locked_deal\<lparr>deal_repayment_transfer := ''niocti2000r''\<rparr>"
proof -
  obtain w' where run: "CloseDealOrder sample_env (text_query close_params)
      (sample_world (market the_locked_deal ''bob'') ''bob'') = (Inr (), w')"
    using market_close_run by blast
  show ?thesis
    using closing_takes_full_repayment [OF market_session [OF bob_wire] locked_market_wf close_query_typed run close_query_ids]
      run by (auto simp del: sample_view)
qed

end
