(* ===== verification/Charges.thy ===== *)
theory Charges
  imports Loans
begin

section \<open>What a transaction costs\<close>

text \<open>
  Eleven of the commands charge their signer the transaction fee and move no other coin; the
  fee is recorded with the block, for \<open>Housekeeping\<close> to return it a year later.
\<close>

definition costs_fee :: "'v env \<Rightarrow> string \<Rightarrow> (string \<Rightarrow> string) \<Rightarrow> (string \<Rightarrow> string) \<Rightarrow> bool" where
  "costs_fee env my st st' \<longleftrightarrow> TX_FEE \<le> balance env st my \<and>
     balance env st' my = balance env st my - TX_FEE \<and>
     (\<forall>s. s \<noteq> my \<longrightarrow> balance env st' s = balance env st s)"

definition charged :: "'v env \<Rightarrow> 'v world \<Rightarrow> 'v world \<Rightarrow> string \<Rightarrow> bool" where
  \<comment> \<open>the only wallet written is the signer's, and the fee is recorded\<close>
  "charged env w w' my \<longleftrightarrow>
     (\<exists>wallet. charge env my w = (Inr (walletIdOf env my, wallet), w) \<and>
        (\<forall>s. view env w' (walletIdOf env s) =
           (if s = my then Wallet_SerializeToString wallet else view env w (walletIdOf env s)))) \<and>
     (\<exists>feeId. makeAddress env FEE (guid_of env w) = Inr feeId \<and> view env w' feeId = fee_data env w my)"

lemma charged_costs_fee:
  assumes "session_ok env w" and "bigint_ok env" and "clean_wallets env (view env w)"
    and "\<forall>s. balance env (view env w) s < max_amount" and "charged env w w' my"
  shows "costs_fee env my (view env w) (view env w')"
proof -
  obtain wallet where c: "charge env my w = (Inr (walletIdOf env my, wallet), w)"
    and v: "\<And>s. view env w' (walletIdOf env s) =
      (if s = my then Wallet_SerializeToString wallet else view env w (walletIdOf env s))"
    using assms(5) unfolding charged_def by blast
  obtain n where n: "view env w (walletIdOf env my) \<noteq> []"
    "bigint env (wallet_amount (wallet_from (view env w (walletIdOf env my)))) = Inr n" "TX_FEE \<le> n"
    "wallet = (wallet_from (view env w (walletIdOf env my)))\<lparr>wallet_amount := toString env (n - TX_FEE)\<rparr>"
    using c unfolding charge_ok [OF assms(1)] by auto
  have b: "balance env (view env w) my = n" using n(1,2) by (rule balance_stored)
  have "balance env (view env w') my = balance env (view env w) my - TX_FEE"
    using debited_balance(1) [where st = "view env w" and st' = "view env w'" and s = my and n = n and m = TX_FEE, OF assms(2) n(1) _ n(2)] n(3,4) v [of my]
      assms(3,4) b TX_FEE_pos
    by (auto simp: clean_wallets_def)
  moreover have "balance env (view env w') s = balance env (view env w) s" if "s \<noteq> my" for s
    using v that by (intro balance_same) simp
  ultimately show ?thesis using b n(3) by (simp add: costs_fee_def)
qed

lemma wallet_elsewhere:
  "at_kind env ADDR a \<Longrightarrow> walletIdOf env s \<noteq> a" "at_kind env TRANSFER a \<Longrightarrow> walletIdOf env s \<noteq> a"
  "at_kind env DEAL_ORDER a \<Longrightarrow> walletIdOf env s \<noteq> a" "at_kind env REPAYMENT_ORDER a \<Longrightarrow> walletIdOf env s \<noteq> a"
  "at_kind env OFFER a \<Longrightarrow> walletIdOf env s \<noteq> a" "at_kind env ASK_ORDER a \<Longrightarrow> walletIdOf env s \<noteq> a"
  "at_kind env BID_ORDER a \<Longrightarrow> walletIdOf env s \<noteq> a" "at_kind env FEE a \<Longrightarrow> walletIdOf env s \<noteq> a"
  "at_kind env ERC20 a \<Longrightarrow> walletIdOf env s \<noteq> a"
  by ((rule at_kind_differs [OF at_kind_wallet], assumption, (simp; fail)+))+

lemma fee_elsewhere:
  assumes "makeAddress env FEE g = Inr f"
  shows "f \<noteq> walletIdOf env s" "makeAddress env ADDR m = Inr a \<Longrightarrow> f \<noteq> a"
  by (rule at_kind_differs [OF at_kind_makeAddress [OF assms] at_kind_wallet]; simp)
    (rule at_kind_differs [OF at_kind_makeAddress [OF assms] at_kind_makeAddress], assumption; simp)

definition fee_commands :: "string list" where
  "fee_commands = [''RegisterAddress'', ''RegisterTransfer'', ''AddAskOrder'', ''AddBidOrder'', ''AddOffer'',
     ''LockDealOrder'', ''CloseDealOrder'', ''Exempt'', ''AddRepaymentOrder'', ''CompleteRepaymentOrder'',
     ''CloseRepaymentOrder'']"

lemma fee_commands_charged:
  assumes "(name, h) \<in> set (handlers env)" and "name \<in> set fee_commands"
    and "typed_session env w" and wf: "state_wf env (view env w)" and "typed_query env name query"
    and "h query w = (Inr u, w')"
  shows "\<exists>my. signer env w = Inr my \<and> charged env w w' my"
proof -
  have n: "name \<noteq> ''Housekeeping''" using assms(2) by (auto simp: fee_commands_def)
  show ?thesis
    using assms(2,3,5,6)
    by (rule handlers_all [OF assms(1) n, where P = "\<lambda>name h. name \<in> set fee_commands \<longrightarrow> typed_session env w \<longrightarrow>
      typed_query env name query \<longrightarrow> h query w = (Inr u, w') \<longrightarrow>
      (\<exists>my. signer env w = Inr my \<and> charged env w w' my)", rule_format, rotated -4])
     ((simp add: fee_commands_def; fail) |
      (drule market_effects [OF typed_sessionD(1)], assumption, elim exE conjE, rule exI, rule conjI, assumption,
       frule at_kind_makeAddress, (auto simp: charged_def wallet_elsewhere wallet_elsewhere [symmetric] fee_elsewhere [symmetric]
      at_kind_makeAddress fee_elsewhere state_wf_ids [OF wf] typed_ids [of env query]; fail)))+
qed

text \<open>C19. The price of a transaction: each of the eleven commands that register, offer, lock, close,
  exempt or sell takes exactly the transaction fee from its signer, who had it, leaves every
  other balance as it was, and records the fee with the current block.\<close>

theorem commands_cost_the_fee:
  assumes "(name, h) \<in> set (handlers env)" and "name \<in> set fee_commands"
    and "typed_session env w" and "state_wf env (view env w)" and "typed_query env name query"
    and "\<forall>s. balance env (view env w) s < max_amount"
    and "h query w = (Inr u, w')"
  shows "\<exists>my. signer env w = Inr my \<and> costs_fee env my (view env w) (view env w') \<and>
    (\<exists>feeId. makeAddress env FEE (guid_of env w) = Inr feeId \<and> view env w' feeId = fee_data env w my)"
proof -
  obtain my where my: "signer env w = Inr my" "charged env w w' my"
    using fee_commands_charged [OF assms(1-5,7)] by blast
  have "costs_fee env my (view env w) (view env w')"
    by (rule charged_costs_fee [OF typed_sessionD(1,2) [OF assms(3)] state_wf_clean [OF assms(4)] assms(6) my(2)])
  then show ?thesis using my by (auto simp: charged_def)
qed

lemma quarter_less: "max_amount div 4 < max_amount"
  by (simp add: max_amount_def)

theorem commands_cost_the_fee_witness:
  "\<exists>w'. CloseDealOrder sample_env (text_query close_params) (sample_world (market the_locked_deal ''bob'') ''bob'') = (Inr (), w') \<and>
    balance sample_env (view sample_env w') ''bob'' = 700"
proof -
  let ?w = "sample_world (market the_locked_deal ''bob'') ''bob''"
  obtain w' where run: "CloseDealOrder sample_env (text_query close_params) ?w = (Inr (), w')"
    using market_close_run by blast
  have m: "(''CloseDealOrder'', CloseDealOrder sample_env) \<in> set (handlers sample_env)" by (simp add: handlers_def)
  have "\<forall>s. balance sample_env (view sample_env ?w) s < max_amount div 4"
    using close_query_small by (simp add: small_amounts_def)
  then have small: "\<forall>s. balance sample_env (view sample_env ?w) s < max_amount"
    using less_trans [OF _ quarter_less] by blast
  have "balance sample_env (view sample_env ?w) ''bob'' = TX_FEE + 700"
    unfolding balance_def Let_def sample_view sample_wallet_id market_find
    by (simp add: wallet_of_not_Nil TX_FEE_def max_amount_def)
  moreover have "\<exists>my. signer sample_env ?w = Inr my \<and> costs_fee sample_env my (view sample_env ?w) (view sample_env w')"
    using commands_cost_the_fee [where h = "CloseDealOrder sample_env", OF m _ market_session [OF bob_wire]
        locked_market_wf close_query_typed small run] by (auto simp: fee_commands_def)
  ultimately have "balance sample_env (view sample_env w') ''bob'' = 700"
    by (simp add: costs_fee_def del: sample_view)
  then show ?thesis using run by blast
qed

end
