(* ===== verification/Coins.thy ===== *)
theory Coins
  imports Charges
begin

section \<open>Coins that change hands\<close>

text \<open>
  The commands that do more to a balance than charge the fee: collecting coins burnt on the
  external chain, and the fee of a deal, which the fundraiser pays when the deal is made and
  the investor gets when the loan is.
\<close>

lemma wallets_bound: "\<forall>s. balance env (view env w) s < max_amount div 4 \<Longrightarrow> balance env (view env w) s < max_amount"
  using less_trans [OF _ quarter_less] by blast

subsection \<open>Collecting\<close>

lemma CollectCoins_taken:
  assumes "session_ok env w" and "getStringLower env query ''p1'' ''ethAddress'' = Inr a"
    and "query_bigint env query ''p2'' ''amount'' = Inr (s, n)"
    and "getStringLower env query ''p3'' ''blockchainTxId'' = Inr tx" and "makeAddress env ERC20 tx = Inr idn"
    and "view env w idn \<noteq> []"
  shows "CollectCoins env query w = (Inl (InvalidTransaction ''Already collected''), w)"
  using assms by (simp add: CollectCoins_def act_step state.rd_run)


definition collect_params :: "(string \<times> string) list" where
  "collect_params = [(''p1'', ''0xe''), (''p2'', ''1000''), (''p3'', ''0xt'')]"

lemma collect_params_plain: "\<forall>(k, v) \<in> set collect_params. plain v \<and> ascii v \<and> length v < 2 ^ 31"
  by (simp add: collect_params_def plain_def ascii_def)

lemma collect_query:
  "getStringLower sample_env (text_query collect_params) ''p1'' nm = Inr ''0xe''"
  "query_bigint sample_env (text_query collect_params) ''p2'' nm = Inr (''1000'', 1000)"
  "getStringLower sample_env (text_query collect_params) ''p3'' nm = Inr ''0xt''"
proof -
  have p: "\<forall>(k, v) \<in> set collect_params. plain v" using collect_params_plain by auto
  show "getStringLower sample_env (text_query collect_params) ''p1'' nm = Inr ''0xe''"
    "getStringLower sample_env (text_query collect_params) ''p3'' nm = Inr ''0xt''"
    "query_bigint sample_env (text_query collect_params) ''p2'' nm = Inr (''1000'', 1000)"
    using text_query_lower [OF p] text_query_string [OF p]
    by (simp_all add: collect_params_def lower_char_def query_bigint_def sbnd_def)
qed

lemma sample_credit_absent: "credit sample_env [] t n w = (Inr (Wallet_Clear\<lparr>wallet_amount := t\<rparr>), w)"
  by (simp add: credit_def ret_def)

lemma sample_verify [simp]: "verify sample_env c (sample_world st me) = (Inr (), sample_world st me)"
  by (simp add: verify_def sample_world_def)


subsection \<open>Making a deal, and lending\<close>

lemma wallet_set:
  assumes "bigint_ok env" and "clean_wallets env st" and "0 \<le> m" "m < max_amount"
    and "st' (walletIdOf env s) = Wallet_SerializeToString ((wallet_from (st (walletIdOf env s)))\<lparr>wallet_amount := toString env m\<rparr>)"
  shows "balance env st' s = m"
  by (rule balance_written [where st = st' and s = s, OF assms(1) _ _ _ assms(5)])
    (use assms in \<open>simp_all add: wire_toString clean_wallets_def bigint_toString\<close>)

text \<open>C14. An offer becomes a deal: only the fundraiser of its bid can take it, before it expires and only
  once; the deal has the terms of the bid and the address of the ask, the offer and both
  orders disappear, and the fundraiser pays the fee it promised and the transaction fee.\<close>

theorem offer_becomes_a_deal:
  assumes typed: "typed_session env w" "state_wf env (view env w)" "typed_query env ''AddDealOrder'' query"
      "\<forall>s. balance env (view env w) s < max_amount"
    and q: "getStringLower env query ''p1'' ''offerId'' = Inr offerId"
      "query_uint64 env query ''p2'' ''expiration'' = Inr expiration" "makeAddress env DEAL_ORDER offerId = Inr dealId"
    and my: "signer env w = Inr my"
    and run: "AddDealOrder env query w = (Inr u, w')"
  defines "ofr \<equiv> offer_from (view env w offerId)"
  defines "bid \<equiv> bid_from (view env w (offer_bid_order ofr))" and "ask \<equiv> ask_from (view env w (offer_ask_order ofr))"
  shows "bid_sighash bid = my \<and> order_expired env (offer_block ofr) (offer_expiration ofr) (tip_of env w) = Inr False \<and>
    view env w dealId = [] \<and> deal_from (view env w' dealId) = new_deal env (tip_of env w) ofr ask bid expiration my \<and>
    view env w' offerId = [] \<and> view env w' (offer_ask_order ofr) = [] \<and> view env w' (offer_bid_order ofr) = [] \<and>
    (\<exists>fee. bigint env (bid_fee bid) = Inr fee \<and>
       balance env (view env w') my = balance env (view env w) my - (fee + TX_FEE) \<and> fee + TX_FEE \<le> balance env (view env w) my) \<and>
    (\<forall>s. s \<noteq> my \<longrightarrow> balance env (view env w') s = balance env (view env w) s)"
proof -
  note s = typed_sessionD [OF typed(1)]
  obtain feeId start n fee where r: "view env w dealId = []" "view env w offerId \<noteq> []"
    "bigint env (offer_block ofr) = Inr start" "tip_of env w - start \<le> uint (offer_expiration ofr)"
    "view env w (offer_bid_order ofr) \<noteq> []" "bid_sighash bid = my" "view env w (offer_ask_order ofr) \<noteq> []"
    "view env w (walletIdOf env my) \<noteq> []" "bigint env (wallet_amount (wallet_from (view env w (walletIdOf env my)))) = Inr n"
    "bigint env (bid_fee bid) = Inr fee" "fee + TX_FEE \<le> n" "makeAddress env FEE (guid_of env w) = Inr feeId"
    and v: "view env w' = (view env w)
      (dealId := DealOrder_SerializeToString (new_deal env (tip_of env w) ofr ask bid expiration my),
       feeId := fee_data env w my,
       walletIdOf env my := Wallet_SerializeToString ((wallet_from (view env w (walletIdOf env my)))
         \<lparr>wallet_amount := toString env (n - (fee + TX_FEE))\<rparr>),
       offer_ask_order ofr := [], offer_bid_order ofr := [], offerId := [])"
    using AddDealOrder_ok [OF s(1) run] q my unfolding ofr_def bid_def ask_def by auto
  have kinds: "at_kind env OFFER offerId" "at_kind env ASK_ORDER (offer_ask_order ofr)" "at_kind env BID_ORDER (offer_bid_order ofr)"
    "at_kind env DEAL_ORDER dealId"
    using typed_ids(5) [OF typed(3) q(1)] state_wf_ids(8,9) [OF typed(2) r(2)] at_kind_makeAddress [OF q(3)]
    unfolding ofr_def by blast+
  have "DealOrder_wf (new_deal env (tip_of env w) ofr ask bid expiration my)"
    using kinds s(3) [OF my] s(4) stored_wf [OF typed(2)]
    unfolding record_wf bid_def ask_def ofr_def by simp
  then have deal: "deal_from (view env w' dealId) = new_deal env (tip_of env w) ofr ask bid expiration my"
    using deal_elsewhere [OF kinds(4)] kinds r(12) by (simp add: v)
  have b: "balance env (view env w) my = n" using r(8,9) by (rule balance_stored)
  have own: "view env w' (walletIdOf env x) = (if x = my then Wallet_SerializeToString ((wallet_from (view env w (walletIdOf env my)))
      \<lparr>wallet_amount := toString env (n - (fee + TX_FEE))\<rparr>) else view env w (walletIdOf env x))" for x
    using kinds wallet_elsewhere [of env _ x] fee_elsewhere(1) [OF r(12), of x] by (simp add: v fee_elsewhere(1) [symmetric])
  have "0 \<le> fee" using r(10) by (rule bigint_nonneg)
  then have "n - (fee + TX_FEE) < max_amount" using typed(4) b TX_FEE_pos by (auto dest: spec [of _ my])
  then have "balance env (view env w') my = n - (fee + TX_FEE)"
    using own [of my] r(11) by (intro wallet_set [OF s(2) state_wf_clean [OF typed(2)]]) simp_all
  moreover have "balance env (view env w') x = balance env (view env w) x" if "x \<noteq> my" for x
    using own that by (intro balance_same) simp
  moreover have "view env w' offerId = []" "view env w' (offer_ask_order ofr) = []" "view env w' (offer_bid_order ofr) = []"
    by (simp_all add: v)
  ultimately show ?thesis using r deal b by (auto simp: order_expired_def sbnd_def not_less)
qed

lemma market_balances: "\<forall>s. balance sample_env (view sample_env (sample_world (market d me) me)) s < max_amount div 4"
proof
  fix s
  have "0 \<le> TX_FEE + 700" "TX_FEE + 700 < max_amount" "TX_FEE + 700 < max_amount div 4"
    by (simp_all add: TX_FEE_def max_amount_def)
  then show "balance sample_env (view sample_env (sample_world (market d me) me)) s < max_amount div 4"
    unfolding balance_def Let_def sample_view sample_wallet_id market_find by (simp add: wallet_of_not_Nil)
qed

lemma market_balance: "balance sample_env (view sample_env (sample_world (market d me) me)) me = TX_FEE + 700"
  unfolding balance_def Let_def sample_view sample_wallet_id market_find
  by (simp add: wallet_of_not_Nil TX_FEE_def max_amount_def)

lemma market_wallet:
  "view sample_env (sample_world (market d me) me) (walletIdOf sample_env me) = wallet_of (TX_FEE + 700)"
  unfolding sample_view sample_wallet_id market_find by simp

lemma market_fresh: "length k = 70 \<Longrightarrow> view sample_env (sample_world (market d ''bob'') ''bob'') k = []"
proof -
  assume "length k = 70"
  moreover have "\<forall>e \<in> set (market d ''bob''). length (fst e) \<noteq> 70" by (simp add: market_def)
  ultimately have "map_of (market d ''bob'') k = None" by (fastforce simp: map_of_eq_None_iff)
  then show ?thesis by (simp add: map_find_def)
qed

lemma the_wallet_bigint: "bigint sample_env (wallet_amount (wallet_from (wallet_of (TX_FEE + 700)))) = Inr (TX_FEE + 700)"
  by (simp add: TX_FEE_def max_amount_def)

definition deal_params :: "(string \<times> string) list" where
  "deal_params = [(''p1'', ''niocti7000o''), (''p2'', ''50'')]"

lemma deal_params_plain: "\<forall>(k, v) \<in> set deal_params. plain v \<and> ascii v \<and> length v < 2 ^ 31"
  by (simp add: deal_params_def plain_def ascii_def)

lemma deal_query:
  "getStringLower sample_env (text_query deal_params) ''p1'' nm = Inr ''niocti7000o''"
  "query_uint64 sample_env (text_query deal_params) ''p2'' nm = Inr 50"
proof -
  have p: "\<forall>(k, v) \<in> set deal_params. plain v" using deal_params_plain by auto
  show "getStringLower sample_env (text_query deal_params) ''p1'' nm = Inr ''niocti7000o''"
    using text_query_lower [OF p] by (simp add: deal_params_def lower_char_def)
  have "parseUint64 ''50'' = Inr 50"
    using parseUint64_digits [of "''50''"] by (simp add: isdigit_def dec_val_def digit_val_def)
  moreover have "query_string sample_env (text_query deal_params) ''p2'' nm = Inr ''50''"
    using text_query_string [OF p] by (simp add: deal_params_def)
  ultimately show "query_uint64 sample_env (text_query deal_params) ''p2'' nm = Inr 50"
    by (simp add: query_uint64_def getUint64_def query_string_def sbnd_def)
qed

theorem offer_becomes_a_deal_witness:
  "\<exists>w' dealId. AddDealOrder sample_env (text_query deal_params) (sample_world (market the_deal ''bob'') ''bob'') = (Inr (), w') \<and>
    deal_amount (deal_from (view sample_env w' dealId)) = ''1000'' \<and> view sample_env w' ''niocti7000o'' = [] \<and>
    balance sample_env (view sample_env w') ''bob'' = 695"
proof -
  let ?w = "sample_world (market the_deal ''bob'') ''bob''"
  obtain dealId where dealId: "makeAddress sample_env DEAL_ORDER ''niocti7000o'' = Inr dealId" "length dealId = 70"
    using makeAddress_ok [OF sample_sha512_ok kind_lengths(6)] by blast
  have fresh: "view sample_env ?w dealId = []" using market_fresh [OF dealId(2)] .
  obtain feeId where feeId: "makeAddress sample_env FEE ''guid'' = Inr feeId" using sample_fee_id by blast
  have offer: "offer_ask_order the_offer = ''niocti3000k''" "offer_bid_order the_offer = ''niocti4000b''"
    "offer_block the_offer = ''95''" "offer_expiration the_offer = 50" by (simp_all add: the_offer_def)
  have orders: "bid_sighash the_bid = ''bob''" "bid_fee the_bid = ''5''" "bid_amount the_bid = ''1000''"
    by (simp_all add: the_bid_def)
  have tail: "\<exists>w'. bnd (setStates sample_env kvs) (\<lambda>_. bnd (deleteState sample_env a) (\<lambda>_. bnd (deleteState sample_env b)
      (\<lambda>_. deleteState sample_env c))) ?w = (Inr (), w')" for kvs a b c
  proof -
    have "total_on (session_ok sample_env) (bnd (setStates sample_env kvs) (\<lambda>_. bnd (deleteState sample_env a) (\<lambda>_.
        bnd (deleteState sample_env b) (\<lambda>_. deleteState sample_env c))))"
      by (intro total_bnd total_setStates total_deleteState)
    then show ?thesis using sample_session_ok unfolding total_on_def by (metis (full_types) old.unit.exhaust)
  qed
  have e: "order_expired sample_env ''95'' 50 100 = Inr False" by (simp add: order_expired_def sbnd_def)
  have "\<exists>w'. AddDealOrder sample_env (text_query deal_params) ?w = (Inr (), w')"
    by (simp add: AddDealOrder_def act_step deal_query dealId(1) fresh e offer orders market_wallet
        wallet_of_not_Nil the_wallet_bigint Let_def addFee_wallet_def addFee_def feeId tail del: sample_view)
  then obtain w' where run: "AddDealOrder sample_env (text_query deal_params) ?w = (Inr (), w')" by blast
  have typed: "typed_query sample_env ''AddDealOrder'' (text_query deal_params)"
    using text_query_wire [OF deal_params_plain] by (auto simp: typed_query_def id_params_def deal_query)
  have b: "\<forall>s. balance sample_env (view sample_env ?w) s < max_amount" using market_balances wallets_bound by blast
  note d = offer_becomes_a_deal [OF market_session [OF bob_wire] market_wf typed b deal_query dealId(1) sample_signer(1) run]
  have "deal_amount (deal_from (view sample_env w' dealId)) = ''1000''" "view sample_env w' ''niocti7000o'' = []"
      "balance sample_env (view sample_env w') ''bob'' = 695"
    using d by (auto simp: new_deal_def offer orders market_balance simp del: sample_view)
  then show ?thesis using run by blast
qed

text \<open>C12. The loan is made: only the owner of the source address can complete a deal, before it expires
  and only once, with an unspent transfer of its own for exactly the amount of the deal; the
  transfer is spent, the deal runs from the current block, and the investor receives the
  fee the fundraiser paid, less the transaction fee.\<close>

theorem loan_is_made:
  assumes typed: "typed_session env w" "state_wf env (view env w)" "typed_query env ''CompleteDealOrder'' query"
      "\<forall>s. balance env (view env w) s < max_amount div 4"
    and q: "getStringLower env query ''p1'' ''dealOrderId'' = Inr dealId"
      "getStringLower env query ''p2'' ''transferId'' = Inr transferId"
    and my: "signer env w = Inr my"
    and fee: "bigint env (deal_fee (deal_from (view env w dealId))) = Inr fee" "fee < max_amount div 4"
    and run: "CompleteDealOrder env query w = (Inr u, w')"
  defines "d \<equiv> deal_from (view env w dealId)" and "t \<equiv> transfer_from (view env w transferId)"
  shows "owner_of (view env w) (deal_src_address d) = my \<and> deal_loan_transfer d = [] \<and>
    order_expired env (deal_block d) (deal_expiration d) (tip_of env w) = Inr False \<and>
    transfer_order t = dealId \<and> transfer_amount t = deal_amount d \<and> transfer_sighash t = my \<and> \<not> transfer_processed t \<and>
    deal_from (view env w' dealId) = d\<lparr>deal_loan_transfer := transferId, deal_block := toString env (tip_of env w)\<rparr> \<and>
    transfer_from (view env w' transferId) = t\<lparr>transfer_processed := True\<rparr> \<and>
    balance env (view env w') my = balance env (view env w) my + fee - TX_FEE \<and>
    (\<forall>s. s \<noteq> my \<longrightarrow> balance env (view env w') s = balance env (view env w) s)"
proof -
  note s = typed_sessionD [OF typed(1)]
  obtain feeId start n where r: "deal_loan_transfer d = []" "address_sighash (address_from (view env w (deal_src_address d))) = my"
    "bigint env (deal_block d) = Inr start" "tip_of env w - start \<le> uint (deal_expiration d)"
    "transfer_order t = dealId" "transfer_amount t = deal_amount d" "transfer_sighash t = my" "\<not> transfer_processed t"
    "view env w (walletIdOf env my) \<noteq> []" "bigint env (wallet_amount (wallet_from (view env w (walletIdOf env my)))) = Inr n"
    "0 \<le> n + (fee - TX_FEE)" "makeAddress env FEE (guid_of env w) = Inr feeId"
    and v: "view env w' = (view env w)
      (dealId := DealOrder_SerializeToString (d\<lparr>deal_loan_transfer := transferId, deal_block := toString env (tip_of env w)\<rparr>),
       transferId := Transfer_SerializeToString (t\<lparr>transfer_processed := True\<rparr>),
       feeId := fee_data env w my,
       walletIdOf env my := Wallet_SerializeToString ((wallet_from (view env w (walletIdOf env my)))
         \<lparr>wallet_amount := toString env (n + (fee - TX_FEE))\<rparr>))"
    using CompleteDealOrder_ok [OF s(1) run] q my fee(1) unfolding d_def t_def by auto
  have kinds: "at_kind env DEAL_ORDER dealId" "at_kind env TRANSFER transferId"
    using typed_ids(6,7) [OF typed(3)] q by blast+
  have wf: "DealOrder_wf (d\<lparr>deal_loan_transfer := transferId, deal_block := toString env (tip_of env w)\<rparr>)" "Transfer_wf t"
    using state_wf_read(2,5) [OF typed(2)] kinds typed_query_text(2) [OF typed(3) q(2)] s(4)
    unfolding d_def t_def by (simp_all add: DealOrder_wf_def)
  have after: "deal_from (view env w' dealId) = d\<lparr>deal_loan_transfer := transferId, deal_block := toString env (tip_of env w)\<rparr>"
      "transfer_from (view env w' transferId) = t\<lparr>transfer_processed := True\<rparr>"
    using wf deal_elsewhere [OF kinds(1)] transfer_elsewhere [OF kinds(2)] kinds(2) r(12) by (simp_all add: v)
  have b: "balance env (view env w) my = n" using r(9,10) by (rule balance_stored)
  have own: "view env w' (walletIdOf env x) = (if x = my then Wallet_SerializeToString ((wallet_from (view env w (walletIdOf env my)))
      \<lparr>wallet_amount := toString env (n + (fee - TX_FEE))\<rparr>) else view env w (walletIdOf env x))" for x
    using kinds wallet_elsewhere [of env _ x] by (simp add: v fee_elsewhere(1) [OF r(12), symmetric])
  have "n + (fee - TX_FEE) < max_amount" using typed(4) b fee(2) TX_FEE_pos by (auto simp: max_amount_def dest: spec [of _ my])
  then have "balance env (view env w') my = n + (fee - TX_FEE)"
    using own [of my] r(11) by (intro wallet_set [OF s(2) state_wf_clean [OF typed(2)]]) simp_all
  moreover have "balance env (view env w') x = balance env (view env w) x" if "x \<noteq> my" for x
    using own that by (intro balance_same) simp
  ultimately show ?thesis using r after b by (auto simp: order_expired_def sbnd_def not_less owner_of_def)
qed

definition the_open_deal :: DealOrder where
  "the_open_deal = the_deal\<lparr>deal_loan_transfer := []\<rparr>"

definition complete_params :: "(string \<times> string) list" where
  "complete_params = [(''p1'', ''niocti5000d''), (''p2'', ''niocti2000s'')]"

lemma complete_params_plain: "\<forall>(k, v) \<in> set complete_params. plain v \<and> ascii v \<and> length v < 2 ^ 31"
  by (simp add: complete_params_def plain_def ascii_def)

lemma complete_query:
  "getStringLower sample_env (text_query complete_params) ''p1'' nm = Inr ''niocti5000d''"
  "getStringLower sample_env (text_query complete_params) ''p2'' nm = Inr ''niocti2000s''"
proof -
  have p: "\<forall>(k, v) \<in> set complete_params. plain v" using complete_params_plain by auto
  from text_query_lower [OF p] show
    "getStringLower sample_env (text_query complete_params) ''p1'' nm = Inr ''niocti5000d''"
    "getStringLower sample_env (text_query complete_params) ''p2'' nm = Inr ''niocti2000s''"
    by (simp_all add: complete_params_def lower_char_def)
qed

lemma the_open_deal_wf [simp]: "DealOrder_wf the_open_deal" "DealOrder_SerializeToString the_open_deal \<noteq> []"
proof -
  show "DealOrder_wf the_open_deal"
    using the_records_wf(1) by (simp add: the_open_deal_def DealOrder_wf_def)
  then show "DealOrder_SerializeToString the_open_deal \<noteq> []"
    using serialized_not_Nil(1) by (auto simp: the_open_deal_def the_deal_def DealOrder_Clear_def)
qed

theorem loan_is_made_witness:
  "\<exists>w'. CompleteDealOrder sample_env (text_query complete_params) (sample_world (market the_open_deal ''alice'') ''alice'') = (Inr (), w') \<and>
    deal_loan_transfer (deal_from (view sample_env w' ''niocti5000d'')) = ''niocti2000s'' \<and>
    balance sample_env (view sample_env w') ''alice'' = 705"
proof -
  let ?w = "sample_world (market the_open_deal ''alice'') ''alice''"
  obtain feeId where feeId: "makeAddress sample_env FEE ''guid'' = Inr feeId" using sample_fee_id by blast
  have d: "deal_loan_transfer the_open_deal = []" "deal_src_address the_open_deal = ''niocti1000a''"
    "deal_dst_address the_open_deal = ''niocti1000b''"
    "deal_block the_open_deal = ''95''" "deal_expiration the_open_deal = 50" "deal_amount the_open_deal = ''1000''"
    "deal_fee the_open_deal = ''5''" by (simp_all add: the_open_deal_def the_deal_def)
  have t: "transfer_order the_new_loan = ''niocti5000d''" "transfer_amount the_new_loan = ''1000''"
    "transfer_sighash the_new_loan = ''alice''" "\<not> transfer_processed the_new_loan"
    by (simp_all add: the_new_loan_def the_loan_def)
  have a: "address_sighash (an_address ''0xa'' ''alice'') = ''alice''" by (simp add: an_address_def)
  have e: "order_expired sample_env ''95'' 50 100 = Inr False" by (simp add: order_expired_def sbnd_def)
  have "\<exists>w'. CompleteDealOrder sample_env (text_query complete_params) ?w = (Inr (), w')"
    using sample_write
    by (simp add: CompleteDealOrder_def act_step complete_query e d t a
        market_wallet wallet_of_not_Nil the_wallet_bigint Let_def addFee_wallet_def addFee_def feeId del: sample_view)
  then obtain w' where run: "CompleteDealOrder sample_env (text_query complete_params) ?w = (Inr (), w')" by blast
  have typed: "typed_query sample_env ''CompleteDealOrder'' (text_query complete_params)"
    using text_query_wire [OF complete_params_plain] by (auto simp: typed_query_def id_params_def complete_query)
  have wf: "state_wf sample_env (view sample_env ?w)"
    by (rule market_entries [OF the_open_deal_wf(1)]) (simp_all add: d del: sample_view)
  have alice: "wire_str ''alice''" by (rule literal_wire) (simp_all add: ascii_def)
  have fee: "bigint sample_env (deal_fee (deal_from (view sample_env ?w ''niocti5000d''))) = Inr 5"
    by (simp add: d del: sample_view)
  have "deal_loan_transfer (deal_from (view sample_env w' ''niocti5000d'')) = ''niocti2000s''"
      "balance sample_env (view sample_env w') ''alice'' = 705"
    using loan_is_made [OF market_session [OF alice] wf typed market_balances complete_query sample_signer(1) fee _ run]
    by (simp_all add: market_balance max_amount_def del: sample_view)
  then show ?thesis using run by blast
qed

end
