(* ===== verification/Registration.thy ===== *)
theory Registration
  imports Coins
begin

section \<open>Registering addresses and transfers\<close>

text \<open>
  An address on an external chain belongs to whoever registers it first, and for good: the
  handlers of the loan market trust the owner stored in its record.  A transfer is registered
  by the owner of its source address, for an order that exists, with the amount a gateway
  confirmed.
\<close>

lemma address_elsewhere:
  assumes "at_kind env ADDR k"
  shows "k \<noteq> walletIdOf env s" "at_kind env ASK_ORDER a \<Longrightarrow> k \<noteq> a" "at_kind env BID_ORDER a \<Longrightarrow> k \<noteq> a"
    "at_kind env OFFER a \<Longrightarrow> k \<noteq> a" "at_kind env DEAL_ORDER a \<Longrightarrow> k \<noteq> a" "at_kind env REPAYMENT_ORDER a \<Longrightarrow> k \<noteq> a"
    "at_kind env TRANSFER a \<Longrightarrow> k \<noteq> a"
    "makeAddress env TRANSFER m = Inr a \<Longrightarrow> k \<noteq> a" "makeAddress env DEAL_ORDER m = Inr a \<Longrightarrow> k \<noteq> a"
    "makeAddress env ASK_ORDER m = Inr a \<Longrightarrow> k \<noteq> a" "makeAddress env BID_ORDER m = Inr a \<Longrightarrow> k \<noteq> a"
    "makeAddress env OFFER m = Inr a \<Longrightarrow> k \<noteq> a" "makeAddress env REPAYMENT_ORDER m = Inr a \<Longrightarrow> k \<noteq> a"
    "makeAddress env ERC20 m = Inr a \<Longrightarrow> k \<noteq> a" "makeAddress env FEE m = Inr a \<Longrightarrow> k \<noteq> a"
  by (rule at_kind_differs [OF assms at_kind_wallet]; simp)
    ((rule at_kind_differs [OF assms], assumption, (simp; fail)+)
     | (rule at_kind_differs [OF assms at_kind_makeAddress], assumption, (simp; fail)+))+

lemma address_kept:
  assumes "(name, h) \<in> set (handlers env)" and "name \<noteq> ''Housekeeping''"
    and "typed_session env w" and wf: "state_wf env (view env w)"
    and "typed_query env name query" and "h query w = (Inr u, w')"
    and k: "at_kind env ADDR k" "view env w k \<noteq> []"
  shows "view env w' k = view env w k"
  using assms(3,5,6)
  by (rule handlers_all [OF assms(1,2), where P = "\<lambda>name h. typed_session env w \<longrightarrow>
      typed_query env name query \<longrightarrow> h query w = (Inr u, w') \<longrightarrow> view env w' k = view env w k", rule_format, rotated -3])
    (drule market_effects [OF typed_sessionD(1)], assumption, elim exE conjE,
      use k(2) in \<open>auto simp: address_elsewhere [OF k(1)] state_wf_ids [OF wf] typed_ids [of env query]\<close>; fail)+

definition addresses_kept :: "'v env \<Rightarrow> (string \<Rightarrow> string) \<Rightarrow> (string \<Rightarrow> string) \<Rightarrow> bool" where
  "addresses_kept env st st' \<longleftrightarrow> (\<forall>k. at_kind env ADDR k \<longrightarrow> st k \<noteq> [] \<longrightarrow> st' k = st k)"

interpretation addresses: kept_by_commands addresses_kept
  using address_kept by unfold_locales (auto simp: addresses_kept_def fun_eq_iff same_kinds)

lemma new_address_wf:
  assumes "typed_session env w" and "typed_query env ''RegisterAddress'' query" and "signer env w = Inr my"
    and "getStringLower env query ''p1'' ''blockchain'' = Inr blockchain"
    and "query_string env query ''p2'' ''address'' = Inr addressString"
    and "getStringLower env query ''p3'' ''network'' = Inr network"
  shows "Address_wf (new_address blockchain addressString network my)"
  using typed_query_text [OF assms(2)] typed_sessionD [OF assms(1)] assms(3-)
  by (auto simp: new_address_def Address_wf_def Address_Clear_def)


text \<open>C15. A transfer is registered by the owner of the address that pays, for an existing order and once per
  transaction of the external chain; its amount is the one the order and the gain ask for,
  and a gateway confirmed it, unless the transfer stands for an exemption and has amount 0.\<close>

theorem transfer_records_confirmed_payment:
  assumes typed: "typed_session env w" "small_amounts env query (view env w)" "state_wf env (view env w)"
      "typed_query env ''RegisterTransfer'' query"
    and q: "query_string env query ''p1'' ''gain'' = Inr gainString" "getBigint env gainString True = Inr gain"
      "getStringLower env query ''p2'' ''orderId'' = Inr orderId" "getStringLower env query ''p3'' ''blockchainTxId'' = Inr tx"
    and my: "signer env w = Inr my"
    and run: "RegisterTransfer env query w = (Inr u, w')"
  shows "view env w orderId \<noteq> [] \<and> (\<exists>srcId dstId agreed amountString transferId src dst.
    transfer_parties env orderId gain (view env w orderId) = Inr (srcId, dstId, agreed) \<and>
    src = address_from (view env w srcId) \<and> dst = address_from (view env w dstId) \<and> address_sighash src = my \<and>
    makeAddress env TRANSFER (address_blockchain src @ tx @ address_network src) = Inr transferId \<and>
    view env w transferId = [] \<and>
    transfer_from (view env w' transferId) = new_transfer env (tip_of env w) src srcId dstId orderId amountString tx my \<and>
    (if tx = ''0'' then amountString = ''0''
     else \<exists>amount. bigint env agreed = Inr amount \<and> amountString = toString env (amount + gain) \<and>
       verified env (gateway_command src dst orderId amountString tx) w))"
proof -
  obtain srcId dstId agreed amountString transferId src feeId wallet
    where r: "view env w orderId \<noteq> []" "transfer_parties env orderId gain (view env w orderId) = Inr (srcId, dstId, agreed)"
      "src = address_from (view env w srcId)" "address_sighash src = my"
      "makeAddress env TRANSFER (address_blockchain src @ tx @ address_network src) = Inr transferId"
      "view env w transferId = []"
    and amount: "if tx = ''0'' then amountString = ''0'' else \<exists>amount. bigint env agreed = Inr amount \<and>
        amountString = toString env (amount + gain) \<and>
        verified env (gateway_command src (address_from (view env w dstId)) orderId amountString tx) w"
    and fee: "makeAddress env FEE (guid_of env w) = Inr feeId"
    and v: "view env w' = (view env w)
      (transferId := Transfer_SerializeToString (new_transfer env (tip_of env w) src srcId dstId orderId amountString tx my),
       feeId := fee_data env w my, walletIdOf env my := Wallet_SerializeToString wallet)"
    using RegisterTransfer_ok [OF typed_sessionD(1) [OF typed(1)] run] q my by (elim exE conjE) auto
  have "amountString = ''0'' \<or> (\<exists>amount. bigint env agreed = Inr amount \<and> amountString = toString env (amount + gain))"
    using amount by (auto split: if_splits)
  note wf = new_transfer_wf [OF typed q r(1,2) my this, folded r(3)]
  have "view env w' transferId =
      Transfer_SerializeToString (new_transfer env (tip_of env w) src srcId dstId orderId amountString tx my)"
    using fee unfolding v by (simp add: transfer_elsewhere [OF at_kind_makeAddress [OF r(5)]])
  then have "transfer_from (view env w' transferId) = new_transfer env (tip_of env w) src srcId dstId orderId amountString tx my"
    using wf by (simp add: record_wf)
  then show ?thesis using r amount by blast
qed

subsection \<open>The properties on concrete states\<close>

definition register_params :: "(string \<times> string) list" where
  "register_params = [(''p1'', ''eth''), (''p2'', ''0xAb''), (''p3'', ''main'')]"

lemma register_params_plain: "\<forall>(k, v) \<in> set register_params. plain v \<and> ascii v \<and> length v < 2 ^ 31"
  by (simp add: register_params_def plain_def ascii_def)

lemma register_query:
  "getStringLower sample_env (text_query register_params) ''p1'' nm = Inr ''eth''"
  "query_string sample_env (text_query register_params) ''p2'' nm = Inr ''0xAb''"
  "getStringLower sample_env (text_query register_params) ''p3'' nm = Inr ''main''"
proof -
  have p: "\<forall>(k, v) \<in> set register_params. plain v" using register_params_plain by auto
  show "getStringLower sample_env (text_query register_params) ''p1'' nm = Inr ''eth''"
    "getStringLower sample_env (text_query register_params) ''p3'' nm = Inr ''main''"
    "query_string sample_env (text_query register_params) ''p2'' nm = Inr ''0xAb''"
    using text_query_lower [OF p] text_query_string [OF p] by (simp_all add: register_params_def lower_char_def)
qed

lemma sample_lower: "to_lower sample_env s = map lower_char s"
  by (simp add: sample_env_def)

lemma sample_starts_with: "boost_starts_with sample_env s p = starts_with p s"
  by (simp add: sample_env_def)

lemma not_a_number [simp]:
  "getBigint sample_env ''eth'' True = Inl (InvalidTransaction ''Invalid number format'')"
  "getBigint sample_env ''0xAb'' True = Inl (InvalidTransaction ''Invalid number format'')"
  "getBigint sample_env ''0xt'' True = Inl (InvalidTransaction ''Invalid number format'')"
  "getBigint sample_env ''main'' True = Inl (InvalidTransaction ''Invalid number format'')"
  "getBigint sample_env ''niocti5000d'' True = Inl (InvalidTransaction ''Invalid number format'')"
  "getBigint sample_env ''100'' True = Inr 100"
  by (simp_all add: getBigint_def sample_env_def read_integer_def split_sign_def digits_only_def isdigit_def dec_val_def
      digit_val_def)

lemma market_text_small:
  assumes "DealOrder_wf d" "deal_amount d = ''1000''" "deal_fee d = ''5''" and p: "\<forall>(k, v) \<in> set ps. plain v"
    and "\<forall>(k, v) \<in> set ps. \<forall>m. getBigint sample_env v True = Inr m \<longrightarrow> \<bar>m\<bar> < max_amount div 4"
  shows "small_amounts sample_env (text_query ps) (view sample_env (sample_world (market d me) me))"
proof (rule market_small [OF assms(1-3)])
  fix key nm s m
  assume "query_string sample_env (text_query ps) key nm = Inr s" and m: "getBigint sample_env s True = Inr m"
  then have "map_of ps key = Some s" using text_query_string [OF p] by (auto split: option.splits)
  then have "(key, s) \<in> set ps" by (rule map_of_SomeD)
  then show "\<bar>m\<bar> < max_amount div 4" using assms(5) m by fastforce
qed

lemma the_deal_small: "DealOrder_wf the_deal" "deal_amount the_deal = ''1000''" "deal_fee the_deal = ''5''"
  by simp (simp_all add: the_deal_def DealOrder_Clear_def)


definition transfer_params :: "(string \<times> string) list" where
  "transfer_params = [(''p1'', ''100''), (''p2'', ''niocti5000d''), (''p3'', ''0xt'')]"

lemma transfer_params_plain: "\<forall>(k, v) \<in> set transfer_params. plain v \<and> ascii v \<and> length v < 2 ^ 31"
  by (simp add: transfer_params_def plain_def ascii_def)

lemma transfer_query:
  "query_string sample_env (text_query transfer_params) ''p1'' nm = Inr ''100''"
  "getStringLower sample_env (text_query transfer_params) ''p2'' nm = Inr ''niocti5000d''"
  "getStringLower sample_env (text_query transfer_params) ''p3'' nm = Inr ''0xt''"
proof -
  have p: "\<forall>(k, v) \<in> set transfer_params. plain v" using transfer_params_plain by auto
  show "getStringLower sample_env (text_query transfer_params) ''p2'' nm = Inr ''niocti5000d''"
    "getStringLower sample_env (text_query transfer_params) ''p3'' nm = Inr ''0xt''"
    "query_string sample_env (text_query transfer_params) ''p1'' nm = Inr ''100''"
    using text_query_lower [OF p] text_query_string [OF p] by (simp_all add: transfer_params_def lower_char_def)
qed

theorem transfer_records_confirmed_payment_witness:
  "\<exists>w' transferId. RegisterTransfer sample_env (text_query transfer_params) (sample_world (market the_deal ''bob'') ''bob'') = (Inr (), w') \<and>
    transfer_amount (transfer_from (view sample_env w' transferId)) = dump_integer 1100 \<and>
    transfer_src_address (transfer_from (view sample_env w' transferId)) = ''niocti1000b''"
proof -
  let ?w = "sample_world (market the_deal ''bob'') ''bob''" and ?q = "text_query transfer_params"
  obtain transferId where idn: "makeAddress sample_env TRANSFER ''eth0xtmain'' = Inr transferId" "length transferId = 70"
    using makeAddress_ok [OF sample_sha512_ok kind_lengths(3)] by blast
  have fresh: "view sample_env ?w transferId = []" using market_fresh [OF idn(2)] .
  obtain feeId where feeId: "makeAddress sample_env FEE ''guid'' = Inr feeId" using sample_fee_id by blast
  have parties: "transfer_parties sample_env ''niocti5000d'' 100 (DealOrder_SerializeToString the_deal)
      = Inr (''niocti1000b'', ''niocti1000a'', ''1000'')"
    by (simp add: transfer_parties_def sample_starts_with starts_with_def kind_defs the_deal_def DealOrder_wf_def
        DealOrder_Clear_def literal_wire ascii_def)
  have b: "address_blockchain (an_address v own) = ''eth''" "address_network (an_address v own) = ''main''"
    "address_sighash (an_address v own) = own" for v own by (simp_all add: an_address_def)
  have "\<exists>w'. RegisterTransfer sample_env ?q ?w = (Inr (), w')"
    using sample_write
    by (simp add: RegisterTransfer_def act_step transfer_query market_charge Let_def addFee_wallet_def addFee_def
        feeId parties b idn fresh del: sample_view)
  then obtain w' where run: "RegisterTransfer sample_env ?q ?w = (Inr (), w')" by blast
  have typed: "typed_query sample_env ''RegisterTransfer'' ?q"
    by (rule text_query_typed [OF _ transfer_params_plain]) (simp add: id_params_def)
  have small: "small_amounts sample_env ?q (view sample_env ?w)"
    by (rule market_text_small [OF the_deal_small]) (simp_all add: transfer_params_def plain_def max_amount_def)
  have big: "getBigint sample_env ''100'' True = Inr 100" by simp
  note t = transfer_records_confirmed_payment [OF market_session [OF bob_wire] small market_wf typed transfer_query(1) big
      transfer_query(2,3) sample_signer(1) run]
  have deal: "view sample_env ?w ''niocti5000d'' = DealOrder_SerializeToString the_deal" by (rule market_data)
  from t [THEN conjunct2] obtain transferId src srcId dstId agreed amountString where
      p: "transfer_parties sample_env ''niocti5000d'' 100 (DealOrder_SerializeToString the_deal) = Inr (srcId, dstId, agreed)"
      and r: "transfer_from (view sample_env w' transferId) =
        new_transfer sample_env (tip_of sample_env ?w) src srcId dstId ''niocti5000d'' amountString ''0xt'' ''bob''"
      and a: "if ''0xt'' = ''0'' then amountString = ''0'' else \<exists>amount. bigint sample_env agreed = Inr amount \<and>
        amountString = toString sample_env (amount + 100) \<and>
        verified sample_env (gateway_command src (address_from (view sample_env ?w dstId)) ''niocti5000d'' amountString ''0xt'') ?w"
    unfolding deal by (elim exE conjE) (rule that; simp only:)
  from p have "srcId = ''niocti1000b''" "agreed = ''1000''" by (simp_all add: parties)
  then show ?thesis using r a run
    by (intro exI [of _ w'] exI [of _ transferId]) (simp add: new_transfer_def sample_toString)
qed

end
