(* ===== verification/Supply.thy ===== *)
theory Supply
  imports Registration
begin

section \<open>The coins in circulation\<close>

text \<open>
  The coins of the chain are the balances of the wallets and the fees that \<open>AddDealOrder\<close> took from
  a fundraiser and the lender gets in \<open>CompleteDealOrder\<close>.  \<open>coins\<close> sums them over the addresses of
  a state with finitely many entries; \<open>coins_upd\<close> says how one write changes the sum, and a lemma
  per command applies it to the writes of the command.  A fee paid is out of circulation: \<open>Housekeeping\<close>
  means to give it back after a year, but does not.
\<close>

subsection \<open>Sums over the addresses of a finite state\<close>

definition finite_state :: "(string \<Rightarrow> string) \<Rightarrow> bool" where
  "finite_state st \<longleftrightarrow> finite {k. st k \<noteq> []}"

lemma finite_state_upd [simp]: "finite_state (st(k := d)) = finite_state st"
proof -
  have "{j. (st(k := d)) j \<noteq> []} \<subseteq> insert k {j. st j \<noteq> []}" "{j. st j \<noteq> []} \<subseteq> insert k {j. (st(k := d)) j \<noteq> []}" by auto
  then show ?thesis unfolding finite_state_def by (meson finite_insert finite_subset)
qed

definition amount_of :: "'v env \<Rightarrow> string \<Rightarrow> int" where
  "amount_of env s = (case bigint env s of Inr n \<Rightarrow> n | Inl _ \<Rightarrow> 0)"

definition worth :: "'v env \<Rightarrow> string \<Rightarrow> string \<Rightarrow> int" where
  \<comment> \<open>the coins an entry stands for: a balance, or the fee held by a deal that waits for its loan\<close>
  "worth env k d =
     (if d = [] then 0
      else if at_kind env WALLET k then amount_of env (wallet_amount (wallet_from d))
      else if at_kind env DEAL_ORDER k \<and> deal_loan_transfer (deal_from d) = [] then amount_of env (deal_fee (deal_from d))
      else 0)"

definition coins :: "'v env \<Rightarrow> (string \<Rightarrow> string) \<Rightarrow> int" where
  "coins env st = (\<Sum>k | st k \<noteq> []. worth env k (st k))"

lemma worth_Nil [simp]: "worth env k [] = 0"
  by (simp add: worth_def)

lemma coins_over: "finite A \<Longrightarrow> {k. st k \<noteq> []} \<subseteq> A \<Longrightarrow> coins env st = (\<Sum>k \<in> A. worth env k (st k))"
  unfolding coins_def by (rule sum.mono_neutral_left) auto

lemma coins_upd:
  assumes "finite_state st"
  shows "coins env (st(k := d)) = coins env st - worth env k (st k) + worth env k d"
proof -
  let ?A = "{j. st j \<noteq> []} - {k}"
  have A: "finite ?A" "k \<notin> ?A" using assms by (simp_all add: finite_state_def)
  have "coins env g = worth env k (g k) + (\<Sum>j \<in> ?A. worth env j (g j))" if "{j. g j \<noteq> []} \<subseteq> insert k ?A" for g
    by (simp only: coins_over [OF _ that] sum.insert [OF A] finite_insert A)
  moreover have "{j. st j \<noteq> []} \<subseteq> insert k ?A" "{j. (st(k := d)) j \<noteq> []} \<subseteq> insert k ?A" by auto
  moreover have "(\<Sum>j \<in> ?A. worth env j ((st(k := d)) j)) = (\<Sum>j \<in> ?A. worth env j (st j))" by (rule sum.cong) auto
  ultimately show ?thesis by simp
qed

subsection \<open>What the entries are worth\<close>

lemma worth_wallet: "worth env (walletIdOf env s) (st (walletIdOf env s)) = balance env st s"
  by (simp add: worth_def balance_def Let_def amount_of_def)

lemma worth_nothing:
  assumes "at_kind env p k" and "p \<in> {ADDR, TRANSFER, ASK_ORDER, BID_ORDER, REPAYMENT_ORDER, OFFER, ERC20, FEE}"
  shows "worth env k d = 0"
proof -
  have "length p = 4" "p \<noteq> WALLET" "p \<noteq> DEAL_ORDER" using assms(2) by auto
  then show ?thesis using at_kind_only [OF assms(1)] by (auto simp: worth_def)
qed

lemma worth_others [simp]:
  "at_kind env ADDR k \<Longrightarrow> worth env k d = 0" "at_kind env TRANSFER k \<Longrightarrow> worth env k d = 0"
  "at_kind env ASK_ORDER k \<Longrightarrow> worth env k d = 0" "at_kind env BID_ORDER k \<Longrightarrow> worth env k d = 0"
  "at_kind env REPAYMENT_ORDER k \<Longrightarrow> worth env k d = 0" "at_kind env OFFER k \<Longrightarrow> worth env k d = 0"
  "at_kind env ERC20 k \<Longrightarrow> worth env k d = 0" "at_kind env FEE k \<Longrightarrow> worth env k d = 0"
  using worth_nothing by blast+

definition deal_worth :: "'v env \<Rightarrow> DealOrder \<Rightarrow> int" where
  "deal_worth env d = (if deal_loan_transfer d = [] then amount_of env (deal_fee d) else 0)"

lemma worth_deal:
  assumes "bigint_ok env" and "at_kind env DEAL_ORDER k"
  shows "worth env k d = deal_worth env (deal_from d)"
proof -
  have "bigint env [] = Inr n \<Longrightarrow> n = 0" for n
    using assms(1) by (auto simp: bigint_ok_def bigint_def getBigint_def split: option.splits if_splits)
  then have "amount_of env [] = 0" by (auto simp: amount_of_def split: sum.split)
  then show ?thesis using at_kind_only [OF assms(2), of WALLET] assms(2)
    by (auto simp: worth_def deal_worth_def DealOrder_Clear_def)
qed

lemma charge_worth:
  assumes "typed_session env w" "state_wf env (view env w)" "\<forall>s. balance env (view env w) s < max_amount"
    and "charge env my w = (Inr (walletIdOf env my, wallet), w)"
  shows "worth env (walletIdOf env my) (Wallet_SerializeToString wallet) = balance env (view env w) my - TX_FEE"
proof -
  note s = typed_sessionD [OF assms(1)]
  obtain n where n: "view env w (walletIdOf env my) \<noteq> []"
    "bigint env (wallet_amount (wallet_from (view env w (walletIdOf env my)))) = Inr n" "TX_FEE \<le> n"
    "wallet = (wallet_from (view env w (walletIdOf env my)))\<lparr>wallet_amount := toString env (n - TX_FEE)\<rparr>"
    using assms(4) unfolding charge_ok [OF s(1)] by auto
  have b: "balance env (view env w) my = n" using n(1,2) by (rule balance_stored)
  then have "n < max_amount" using assms(3) by blast
  then have "balance env ((view env w)(walletIdOf env my := Wallet_SerializeToString wallet)) my = n - TX_FEE"
    using n(3,4) TX_FEE_pos by (intro wallet_set [OF s(2) state_wf_clean [OF assms(2)]]) simp_all
  then show ?thesis using b worth_wallet [of env my "(view env w)(walletIdOf env my := Wallet_SerializeToString wallet)"] by simp
qed

lemmas coins_simps = coins_upd worth_wallet deal_worth_def wallet_elsewhere wallet_elsewhere [symmetric]
  fee_elsewhere fee_elsewhere [symmetric] at_kind_makeAddress record_wf

lemma fee_command_coins:
  assumes "(name, h) \<in> set (handlers env)" and n: "name \<in> set fee_commands"
    and typed: "typed_session env w" and wf: "state_wf env (view env w)" and "typed_query env name query"
    and small: "\<forall>s. balance env (view env w) s < max_amount" and fin: "finite_state (view env w)"
    and "h query w = (Inr u, w')"
  shows "coins env (view env w') = coins env (view env w) - TX_FEE"
proof -
  have n': "name \<noteq> ''Housekeeping''" using assms(2) by (auto simp: fee_commands_def)
  note s = typed_sessionD [OF typed]
  show ?thesis
    using n assms(5,8)
    by (rule handlers_all [OF assms(1) n', where P = "\<lambda>name h. name \<in> set fee_commands \<longrightarrow>
      typed_query env name query \<longrightarrow> h query w = (Inr u, w') \<longrightarrow>
      coins env (view env w') = coins env (view env w) - TX_FEE", rule_format, rotated -3])
     ((simp add: fee_commands_def; fail) |
      (drule market_effects [OF s(1)], elim exE conjE, frule charge_worth [OF typed wf small],
       (simp add: fin s coins_simps worth_deal [OF s(2)] state_wf_ids [OF wf] stored_wf [OF wf] typed_ids [of env query]
          typed_query_text(2) deal_elsewhere(7) [of env]; fail)))+
qed

lemma amount_of_text: "bigint_ok env \<Longrightarrow> 0 \<le> n \<Longrightarrow> amount_of env (toString env n) = n"
  by (simp add: amount_of_def bigint_toString)

lemma worth_written:
  assumes "balance env ((view env w)(walletIdOf env s := d)) s = n"
  shows "worth env (walletIdOf env s) d = n"
  using assms worth_wallet [of env s "(view env w)(walletIdOf env s := d)"] by simp

lemma worth_set:
  assumes "typed_session env w" "state_wf env (view env w)" "0 \<le> m" "m < max_amount"
  shows "worth env (walletIdOf env s) (Wallet_SerializeToString ((wallet_from (view env w (walletIdOf env s)))\<lparr>wallet_amount := toString env m\<rparr>)) = m"
  by (rule worth_written, rule wallet_set [OF typed_sessionD(2) [OF assms(1)] state_wf_clean [OF assms(2)] assms(3,4)]) simp

lemma small_balances:
  assumes "small_amounts env query st"
  shows "balance env st s < max_amount div 4" "balance env st s < max_amount"
  using assms less_trans [OF _ quarter_less] by (auto simp: small_amounts_def)

lemma worth_credited:
  assumes "typed_session env w" "state_wf env (view env w)" "typed_query env name query" "small_amounts env query (view env w)"
    and "query_bigint env query key nm = Inr (t, a)" and "credited env (view env w (walletIdOf env s)) t a wallet"
  shows "worth env (walletIdOf env s) (Wallet_SerializeToString wallet) = balance env (view env w) s + a"
proof (rule worth_written, rule credited_balance(1) [where st = "view env w", OF typed_sessionD(2) [OF assms(1)] assms(6)])
  note q = small_query [OF assms(4,5)]
  show "bigint env t = Inr a" by (rule q(3))
  show "length t < 2 ^ 31" using typed_query_text(3) [OF assms(3,5)] by (simp add: wire_str_def)
  show "wallet_unknown (wallet_from (view env w (walletIdOf env s))) = []"
    using state_wf_clean [OF assms(2)] by (simp add: clean_wallets_def)
  show "balance env (view env w) s + a < max_amount"
    using q(2) small_balances(1) [OF assms(4), of s] by (simp add: max_amount_def)
qed simp

lemma CollectCoins_coins:
  assumes typed: "typed_session env w" and wf: "state_wf env (view env w)" and t: "typed_query env ''CollectCoins'' query"
    and small: "small_amounts env query (view env w)" and fin: "finite_state (view env w)"
    and q: "query_bigint env query ''p2'' ''amount'' = Inr (s, a)" and run: "CollectCoins env query w = (Inr u, w')"
  shows "coins env (view env w') = coins env (view env w) + a"
proof -
  note s = typed_sessionD [OF typed]
  obtain my idn tx wallet where "makeAddress env ERC20 tx = Inr idn"
    "credited env (view env w (walletIdOf env my)) s a wallet"
    "view env w' = (view env w)(walletIdOf env my := Wallet_SerializeToString wallet, idn := s)"
    using CollectCoins_ok [OF s(1) run] q by auto
  then show ?thesis using worth_credited [OF typed wf t small q] by (simp add: fin coins_simps)
qed

lemma SendFunds_coins:
  assumes typed: "typed_session env w" and wf: "state_wf env (view env w)" and t: "typed_query env ''SendFunds'' query"
    and small: "small_amounts env query (view env w)" and fin: "finite_state (view env w)"
    and run: "SendFunds env query w = (Inr u, w')"
  shows "coins env (view env w') = coins env (view env w) - TX_FEE"
proof -
  note s = typed_sessionD [OF typed]
  obtain amountString amount dst src where q: "query_bigint env query ''p1'' ''amount'' = Inr (amountString, amount)"
    and q': "getStringLower env query ''p2'' ''sighash'' = Inr dst" "signer env w = Inr src"
    using run unfolding SendFunds_def by (auto simp: act_ok)
  obtain n feeId dstWallet where ne: "src \<noteq> dst" and n: "view env w (walletIdOf env src) \<noteq> []"
    "bigint env (wallet_amount (wallet_from (view env w (walletIdOf env src)))) = Inr n" "amount + TX_FEE \<le> n"
    and fee: "makeAddress env FEE (guid_of env w) = Inr feeId"
    and dst: "credited env (view env w (walletIdOf env dst)) amountString amount dstWallet"
    and v: "view env w' = (view env w)
      (walletIdOf env dst := Wallet_SerializeToString dstWallet,
       feeId := fee_data env w src,
       walletIdOf env src := Wallet_SerializeToString
         ((wallet_from (view env w (walletIdOf env src)))\<lparr>wallet_amount := toString env (n - (amount + TX_FEE))\<rparr>))"
    using SendFunds_ok [OF s(1) q q' run] by blast
  have b: "balance env (view env w) src = n" using n(1,2) by (rule balance_stored)
  have "0 \<le> amount" using small_query [OF small q] by simp
  then have "n - (amount + TX_FEE) < max_amount" using small_balances(2) [OF small, of src] b TX_FEE_pos by simp
  then show ?thesis
    using worth_credited [OF typed wf t small q dst] worth_set [OF typed wf _ , of "n - (amount + TX_FEE)" src] n(3) ne fee b
    by (simp add: v fin coins_simps)
qed

lemma AddDealOrder_coins:
  assumes typed: "typed_session env w" and wf: "state_wf env (view env w)" and t: "typed_query env ''AddDealOrder'' query"
    and small: "small_amounts env query (view env w)" and fin: "finite_state (view env w)"
    and run: "AddDealOrder env query w = (Inr u, w')"
  shows "coins env (view env w') = coins env (view env w) - TX_FEE"
proof -
  note s = typed_sessionD [OF typed]
  obtain my offerId expiration dealId feeId ofr bid ask n bidFee where q: "getStringLower env query ''p1'' ''offerId'' = Inr offerId"
    "makeAddress env DEAL_ORDER offerId = Inr dealId" "view env w dealId = []"
    and r: "view env w offerId \<noteq> []" "ofr = offer_from (view env w offerId)" "view env w (offer_bid_order ofr) \<noteq> []"
    "bid = bid_from (view env w (offer_bid_order ofr))" "ask = ask_from (view env w (offer_ask_order ofr))"
    "view env w (offer_ask_order ofr) \<noteq> []" "signer env w = Inr my"
    "view env w (walletIdOf env my) \<noteq> []" "bigint env (wallet_amount (wallet_from (view env w (walletIdOf env my)))) = Inr n"
    "bigint env (bid_fee bid) = Inr bidFee" "bidFee + TX_FEE \<le> n" "makeAddress env FEE (guid_of env w) = Inr feeId"
    and v: "view env w' = (view env w)
      (dealId := DealOrder_SerializeToString (new_deal env (tip_of env w) ofr ask bid expiration my),
       feeId := fee_data env w my,
       walletIdOf env my := Wallet_SerializeToString ((wallet_from (view env w (walletIdOf env my)))
         \<lparr>wallet_amount := toString env (n - (bidFee + TX_FEE))\<rparr>),
       offer_ask_order ofr := [], offer_bid_order ofr := [], offerId := [])"
    using AddDealOrder_ok [OF s(1) run] by auto
  have kinds: "at_kind env OFFER offerId" "at_kind env ASK_ORDER (offer_ask_order ofr)" "at_kind env BID_ORDER (offer_bid_order ofr)"
    "at_kind env DEAL_ORDER dealId"
    using typed_ids(5) [OF t q(1)] state_wf_ids(8,9) [OF wf r(1)] at_kind_makeAddress [OF q(2)] r(2) by blast+
  have b: "balance env (view env w) my = n" using r(8,9) by (rule balance_stored)
  have "0 \<le> bidFee" using r(10) by (rule bigint_nonneg)
  then have wallet: "n - (bidFee + TX_FEE) < max_amount" using small_balances(2) [OF small, of my] b TX_FEE_pos by simp
  have "DealOrder_wf (new_deal env (tip_of env w) ofr ask bid expiration my)"
    using kinds s(3) [OF r(7)] s(4) stored_wf [OF wf] r(2,4,5) unfolding record_wf by simp
  then have "worth env dealId (DealOrder_SerializeToString (new_deal env (tip_of env w) ofr ask bid expiration my)) = bidFee"
    using r(10) by (simp add: worth_deal [OF s(2) kinds(4)] deal_worth_def new_deal_def amount_of_def DealOrder_Clear_def)
  then show ?thesis
    using worth_set [OF typed wf _ wallet, of my] r(11,12) q(3) b kinds
    by (simp add: v fin coins_simps wallet_elsewhere(3) [OF kinds(4)])
qed

lemma CompleteDealOrder_coins:
  assumes typed: "typed_session env w" and wf: "state_wf env (view env w)" and t: "typed_query env ''CompleteDealOrder'' query"
    and small: "small_amounts env query (view env w)" and fin: "finite_state (view env w)"
    and run: "CompleteDealOrder env query w = (Inr u, w')"
  shows "coins env (view env w') = coins env (view env w) - TX_FEE"
proof -
  note s = typed_sessionD [OF typed]
  obtain my dealId transferId feeId d tr n dealFee where q: "getStringLower env query ''p1'' ''dealOrderId'' = Inr dealId"
    "getStringLower env query ''p2'' ''transferId'' = Inr transferId"
    and d: "view env w dealId \<noteq> []" "d = deal_from (view env w dealId)" "deal_loan_transfer d = []"
    and r: "view env w (walletIdOf env my) \<noteq> []" "bigint env (wallet_amount (wallet_from (view env w (walletIdOf env my)))) = Inr n"
    "bigint env (deal_fee d) = Inr dealFee" "0 \<le> n + (dealFee - TX_FEE)" "makeAddress env FEE (guid_of env w) = Inr feeId"
    and v: "view env w' = (view env w)
      (dealId := DealOrder_SerializeToString
         (d\<lparr>deal_loan_transfer := transferId, deal_block := toString env (tip_of env w)\<rparr>),
       transferId := Transfer_SerializeToString (tr\<lparr>transfer_processed := True\<rparr>),
       feeId := fee_data env w my,
       walletIdOf env my := Wallet_SerializeToString ((wallet_from (view env w (walletIdOf env my)))
         \<lparr>wallet_amount := toString env (n + (dealFee - TX_FEE))\<rparr>))"
    using CompleteDealOrder_ok [OF s(1) run] by auto
  have kinds: "at_kind env DEAL_ORDER dealId" "at_kind env TRANSFER transferId"
    using typed_ids(6) [OF t q(1)] typed_ids(7) [OF t q(2)] .
  have b: "balance env (view env w) my = n" using r(1,2) by (rule balance_stored)
  have "dealFee < max_amount div 4" using small kinds(1) r(3) d(2) by (auto simp: small_amounts_def)
  then have wallet: "n + (dealFee - TX_FEE) < max_amount"
    using small_balances(1) [OF small, of my] b TX_FEE_pos by (simp add: max_amount_def)
  have "DealOrder_wf (d\<lparr>deal_loan_transfer := transferId, deal_block := toString env (tip_of env w)\<rparr>)"
    using state_wf_read(5) [OF wf kinds(1)] d(2) s(4) typed_query_text(2) [OF t q(2)] by (simp add: DealOrder_wf_def)
  then have "worth env dealId (DealOrder_SerializeToString
      (d\<lparr>deal_loan_transfer := transferId, deal_block := toString env (tip_of env w)\<rparr>)) = 0"
    using at_kind_not_Nil [OF kinds(2)] by (simp add: worth_deal [OF s(2) kinds(1)] deal_worth_def)
  moreover have "worth env dealId (view env w dealId) = dealFee"
    using d r(3) by (simp add: worth_deal [OF s(2) kinds(1)] deal_worth_def amount_of_def)
  ultimately show ?thesis
    using worth_set [OF typed wf r(4) wallet] r(5) b kinds
    by (simp add: v fin coins_simps wallet_elsewhere(3) [OF kinds(1)] wallet_elsewhere(2) [OF kinds(2)])
qed

lemma command_coins:
  assumes "(name, h) \<in> set (handlers env)" and "name \<notin> {''Housekeeping'', ''CollectCoins''}"
    and typed: "typed_session env w" "state_wf env (view env w)" "typed_query env name query" "small_amounts env query (view env w)"
    and fin: "finite_state (view env w)" and run: "h query w = (Inr u, w')"
  shows "coins env (view env w') = coins env (view env w) - TX_FEE"
proof (cases "name \<in> set fee_commands")
  case True
  have "\<forall>s. balance env (view env w) s < max_amount" using small_balances(2) [OF typed(4)] by blast
  then show ?thesis using fee_command_coins [OF assms(1) True typed(1-3) _ fin run] by blast
next
  case False
  have "(name, h) \<in> {(''SendFunds'', SendFunds env), (''AddDealOrder'', AddDealOrder env), (''CompleteDealOrder'', CompleteDealOrder env)}"
    using assms(1,2) False by (auto simp: handlers_def fee_commands_def)
  then show ?thesis
    using SendFunds_coins [OF typed(1,2) _ typed(4) fin] AddDealOrder_coins [OF typed(1,2) _ typed(4) fin]
      CompleteDealOrder_coins [OF typed(1,2) _ typed(4) fin] typed(3) run by auto
qed

lemma writes_finite:
  assumes "(name, h) \<in> set (handlers env)" and n: "name \<noteq> ''Housekeeping''"
    and "session_ok env w" and "h query w = (Inr u, w')"
  shows "finite_state (view env w') = finite_state (view env w)"
  using assms(4)
  by (rule handlers_all [OF assms(1,2), where P = "\<lambda>name h. h query w = (Inr u, w') \<longrightarrow>
      finite_state (view env w') = finite_state (view env w)", rule_format, rotated -1])
    (drule market_effects [OF assms(3)], elim exE conjE, simp)+

end
