(* ===== verification/Cbor_Codec.thy ===== *)
theory Cbor_Codec
  imports Cbor
begin

section \<open>What the CBOR decoder does\<close>

text \<open>
  The decoder never runs out of the bound on its recursion, on any input, and it reads back
  what the encoder of the library writes, leaving the bytes behind it alone.
\<close>

subsection \<open>The bound of the recursion\<close>

lemma get_from_vector_shorter: "get_from_vector n v = Inr (x, r) \<Longrightarrow> length r \<le> length v"
  by (auto simp: get_from_vector_def parse_error_def split: if_splits)

lemma get_string_shorter: "get_string n v = Inr (x, r) \<Longrightarrow> length r \<le> length v"
  by (auto simp: get_string_def parse_error_def split: if_splits)

lemma cbor_length_shorter: "cbor_length n v = Inr (x, r) \<Longrightarrow> length r \<le> length v"
  by (auto simp: cbor_length_def split: if_splits dest: get_from_vector_shorter)

lemma cbor_atom_shorter: "cbor_atom b v = Inr (j, r) \<Longrightarrow> length r \<le> length v"
  by (auto simp: cbor_atom_def sbnd_ok parse_error_def split: if_splits
      dest!: cbor_length_shorter get_from_vector_shorter get_string_shorter)

lemma cbor_more_shorter: "cbor_more left v = Inr (b, l, r) \<Longrightarrow>
    length r \<le> length v \<and> (left = None \<longrightarrow> b \<longrightarrow> r = v)"
  by (auto simp: cbor_more_def parse_error_def split: option.splits list.splits if_splits)

lemma string_case:
  "(case j of JString s \<Rightarrow> f s | _ \<Rightarrow> Inl e) = Inr x \<longleftrightarrow> (\<exists>s. j = JString s \<and> f s = Inr x)"
  "(case j of JString s \<Rightarrow> f s | _ \<Rightarrow> Inl e) = Inl d \<longleftrightarrow> (\<exists>s. j = JString s \<and> f s = Inl d) \<or> (\<forall>s. j \<noteq> JString s) \<and> e = d"
  by (cases j; simp)+

lemma object_ok:
  assumes "cbor_object (Suc k) left ms v = Inr (j, r)"
  obtains l where "cbor_more left v = Inr (False, l, r)" "j = JObject ms"
  | l v1 s v2 j2 v3 where "cbor_more left v = Inr (True, l, v1)" "from_cbor_internal k v1 = Inr (JString s, v2)"
      "from_cbor_internal k v2 = Inr (j2, v3)" "cbor_object k l (map_set s j2 ms) v3 = Inr (j, r)"
  using assms by (auto simp: sbnd_ok string_case split: if_splits)

lemma chunks_ok:
  assumes "cbor_chunks (Suc k) s v = Inr (j, r)"
  obtains l where "cbor_more None v = Inr (False, l, r)" "j = JString s"
  | l v1 t v2 where "cbor_more None v = Inr (True, l, v1)" "from_cbor_internal k v1 = Inr (JString t, v2)"
      "cbor_chunks k (s @ t) v2 = Inr (j, r)"
  using assms by (auto simp: sbnd_ok string_case split: if_splits)

lemma decoder_shorter_all:
  "(\<forall>v j r. from_cbor_internal k v = Inr (j, r) \<longrightarrow> length r < length v) \<and>
   (\<forall>left js v j r. cbor_array k left js v = Inr (j, r) \<longrightarrow> length r \<le> length v) \<and>
   (\<forall>left ms v j r. cbor_object k left ms v = Inr (j, r) \<longrightarrow> length r \<le> length v) \<and>
   (\<forall>s v j r. cbor_chunks k s v = Inr (j, r) \<longrightarrow> length r \<le> length v)"
proof (induction k)
  case (Suc k)
  then have IH: "from_cbor_internal k v = Inr (j, r) \<Longrightarrow> length r < length v"
    "cbor_array k left js v = Inr (j, r) \<Longrightarrow> length r \<le> length v"
    "cbor_object k left ms v = Inr (j, r) \<Longrightarrow> length r \<le> length v"
    "cbor_chunks k s v = Inr (j, r) \<Longrightarrow> length r \<le> length v" for v j r left js ms s by blast+
  have "length r < length v" if "from_cbor_internal (Suc k) v = Inr (j, r)" for v j r
    using that by (cases v)
      (auto simp: Let_def sbnd_ok parse_error_def less_Suc_eq_le split: if_splits
        dest!: IH(2-4) cbor_length_shorter cbor_atom_shorter)
  moreover have "length r \<le> length v" if "cbor_array (Suc k) left js v = Inr (j, r)" for left js v j r
    using that by (auto simp: sbnd_ok split: if_splits dest!: cbor_more_shorter IH(1,2))
  moreover have "length r \<le> length v" if "cbor_object (Suc k) left ms v = Inr (j, r)" for left ms v j r
    using that by (cases rule: object_ok) (auto dest!: cbor_more_shorter IH(1,3))
  moreover have "length r \<le> length v" if "cbor_chunks (Suc k) s v = Inr (j, r)" for s v j r
    using that by (cases rule: chunks_ok) (auto dest!: cbor_more_shorter IH(1,4))
  ultimately show ?case by blast
qed simp

lemma decoder_shorter: "from_cbor_internal k v = Inr (j, r) \<Longrightarrow> length r < length v"
  using decoder_shorter_all by blast

definition only_throws :: "err + 'a \<Rightarrow> bool" where
  \<comment> \<open>a value, or an exception of the library\<close>
  "only_throws r \<longleftrightarrow> (\<forall>e. r = Inl e \<longrightarrow> (\<exists>n. e = StdException n))"

lemma only_throws_simps [simp]: "only_throws (Inr x)" "only_throws (Inl e) \<longleftrightarrow> (\<exists>n. e = StdException n)"
  "only_throws (parse_error n)"
  by (auto simp: only_throws_def parse_error_def)

lemma only_throws_sbnd: "only_throws r \<Longrightarrow> (\<And>y. r = Inr y \<Longrightarrow> only_throws (f y)) \<Longrightarrow> only_throws (sbnd r f)"
  by (cases r) (auto simp: sbnd_def)

lemma only_throws_parts [simp]:
  "only_throws (get_from_vector n v)" "only_throws (get_string n v)" "only_throws (cbor_length n v)"
  "only_throws (cbor_more left v)" "only_throws (cbor_expect_string v)"
  by (auto simp: get_from_vector_def get_string_def cbor_length_def cbor_more_def cbor_expect_string_def
      split: option.splits list.splits)

lemma only_throws_atom [simp]: "only_throws (cbor_atom b v)"
  by (auto simp: cbor_atom_def intro!: only_throws_sbnd)

lemma decoder_fuel:
  "(\<forall>v. 2 * length v + 1 \<le> k \<longrightarrow> only_throws (from_cbor_internal k v)) \<and>
   (\<forall>left js v. 2 * length v + 2 \<le> k \<longrightarrow> only_throws (cbor_array k left js v)) \<and>
   (\<forall>left ms v. 2 * length v + 2 \<le> k \<longrightarrow> only_throws (cbor_object k left ms v)) \<and>
   (\<forall>s v. 2 * length v + 2 \<le> k \<longrightarrow> only_throws (cbor_chunks k s v))"
proof (induction k)
  case (Suc k)
  then have IH: "2 * length v + 1 \<le> k \<Longrightarrow> only_throws (from_cbor_internal k v)"
    "2 * length v + 2 \<le> k \<Longrightarrow> only_throws (cbor_array k left js v)"
    "2 * length v + 2 \<le> k \<Longrightarrow> only_throws (cbor_object k left ms v)"
    "2 * length v + 2 \<le> k \<Longrightarrow> only_throws (cbor_chunks k s v)" for v left js ms s by blast+
  have "only_throws (from_cbor_internal (Suc k) v)" if "2 * length v + 1 \<le> Suc k" for v
    using that by (cases v) (auto simp: Let_def intro!: only_throws_sbnd IH dest!: cbor_length_shorter)
  moreover have "only_throws (cbor_array (Suc k) left js v)" if "2 * length v + 2 \<le> Suc k" for left js v
    using that by (auto intro!: only_throws_sbnd IH dest!: cbor_more_shorter decoder_shorter)
  moreover have "only_throws (cbor_object (Suc k) left ms v)" if "2 * length v + 2 \<le> Suc k" for left ms v
    using that by (auto intro!: only_throws_sbnd IH split: json.split dest!: cbor_more_shorter decoder_shorter)
  moreover have "only_throws (cbor_chunks (Suc k) s v)" if "2 * length v + 2 \<le> Suc k" for s v
    using that by (auto intro!: only_throws_sbnd IH split: json.split dest!: cbor_more_shorter decoder_shorter)
  ultimately show ?case by blast
qed simp

lemma from_cbor_only_throws: "only_throws (from_cbor v)"
  using decoder_fuel [of "2 * length v + 2"] by (auto simp: from_cbor_def intro!: only_throws_sbnd)

subsection \<open>Reading back what the encoder writes\<close>

lemma be_nat_snoc: "be_nat (bs @ [b]) = 256 * be_nat bs + unat b"
  by (simp add: be_nat_def)

lemma add_to_vector_length [simp]: "length (add_to_vector k n) = k"
  by (induction k arbitrary: n) simp_all

lemma be_nat_add_to_vector: "be_nat (add_to_vector k n) = n mod 256 ^ k"
proof (induction k arbitrary: n)
  case (Suc k)
  have "256 * (n div 256 mod 256 ^ k) + n mod 256 = n mod (256 * 256 ^ k)"
    by (simp add: mod_mult2_eq)
  then show ?case by (simp add: be_nat_snoc Suc unsigned_of_nat take_bit_eq_mod)
qed (simp add: be_nat_def)

lemma get_added: "n < 256 ^ k \<Longrightarrow> get_from_vector k (add_to_vector k n @ rest) = Inr (n, rest)"
  by (simp add: get_from_vector_def be_nat_add_to_vector)

lemma string_of_bytes [simp]: "string_of (bytes_from s) = s"
  by (induction s) (simp_all add: string_of_def bytes_from_def unsigned_of_nat take_bit_eq_mod)

lemma get_string_bytes: "get_string (length s) (bytes_from s @ rest) = Inr (s, rest)"
proof -
  have "length (bytes_from s) = length s" by (simp add: bytes_from_def)
  then show ?thesis by (simp add: get_string_def)
qed

lemma cbor_head_decode:
  assumes "n < 2 ^ 64"
  obtains info ext where "info \<le> 0x1b" "\<And>base. cbor_head base n = word_of_nat (base + info) # ext"
    "\<And>rest. cbor_length info (ext @ rest) = Inr (n, rest)"
proof (cases "n \<le> 0x17")
  case True
  then show ?thesis using that [of n "[]"] by (simp add: cbor_head_def cbor_length_def)
next
  case F1: False
  show ?thesis
  proof (cases "n \<le> 0xff")
    case True
    then show ?thesis using F1 that [of "0x18" "add_to_vector 1 n"]
      by (simp add: cbor_head_def cbor_length_def get_added [of n 1, simplified])
  next
    case F2: False
    show ?thesis
    proof (cases "n \<le> 0xffff")
      case True
      then show ?thesis using F1 F2 that [of "0x19" "add_to_vector 2 n"]
        by (simp add: cbor_head_def cbor_length_def get_added [of n 2, simplified])
    next
      case F3: False
      show ?thesis
      proof (cases "n \<le> 0xffffffff")
        case True
        then show ?thesis using F1 F2 F3 that [of "0x1a" "add_to_vector 4 n"]
          by (simp add: cbor_head_def cbor_length_def get_added [of n 4, simplified])
      next
        case False
        then show ?thesis using F1 F2 F3 assms that [of "0x1b" "add_to_vector 8 n"]
          by (simp add: cbor_head_def cbor_length_def get_added [of n 8, simplified])
      qed
    qed
  qed
qed

lemma head_byte [simp]: "b < 256 \<Longrightarrow> unat (word_of_nat b :: 8 word) = b"
  by (simp add: unsigned_of_nat take_bit_eq_mod)

lemma cbor_head_at:
  assumes "n < 2 ^ 64" and "base \<le> 0xa0"
  obtains info c ext where "info \<le> 0x1b" "cbor_head base n = c # ext" "unat c = base + info"
    "\<And>rest. cbor_length info (ext @ rest) = Inr (n, rest)"
proof -
  from cbor_head_decode [OF assms(1)] obtain info ext where h: "info \<le> 0x1b"
    "\<And>base. cbor_head base n = word_of_nat (base + info) # ext"
    "\<And>rest. cbor_length info (ext @ rest) = Inr (n, rest)" by metis
  have "unat (word_of_nat (base + info) :: 8 word) = base + info" using h(1) assms(2) by (intro head_byte) simp
  then show ?thesis using that h by blast
qed

fun cbor_ok :: "json \<Rightarrow> bool" where
  \<comment> \<open>the values the decoder gives back as they were: a signed integer is negative, an object has
     its keys in order, and lengths fit 64 bits\<close>
  "cbor_ok (JInteger i) \<longleftrightarrow> - (2 ^ 63) \<le> i \<and> i < 0"
| "cbor_ok (JString s) \<longleftrightarrow> length s < 2 ^ 64"
| "cbor_ok (JArray js) \<longleftrightarrow> length js < 2 ^ 64 \<and> (\<forall>j \<in> set js. cbor_ok j)"
| "cbor_ok (JObject ms) \<longleftrightarrow> length ms < 2 ^ 64 \<and> sorted_map ms \<and> (\<forall>m \<in> set ms. length (fst m) < 2 ^ 64 \<and> cbor_ok (snd m))"
| "cbor_ok j \<longleftrightarrow> True"

lemma decode_string:
  assumes "length s < 2 ^ 64" and "0 < k"
  shows "from_cbor_internal k (cbor_head 0x60 (length s) @ bytes_from s @ rest) = Inr (JString s, rest)"
    and "cbor_expect_string (cbor_head 0x60 (length s) @ bytes_from s @ rest) = Inr ()"
proof -
  obtain i where k: "k = Suc i" using assms(2) by (cases k) auto
  obtain info c ext where h: "info \<le> 0x1b" "cbor_head 0x60 (length s) = c # ext" "unat c = 0x60 + info"
    "\<And>rest. cbor_length info (ext @ rest) = Inr (length s, rest)" by (rule cbor_head_at [OF assms(1), of "0x60"]) simp_all
  show "from_cbor_internal k (cbor_head 0x60 (length s) @ bytes_from s @ rest) = Inr (JString s, rest)"
    using h(1) by (simp add: k h(2-4) Let_def cbor_atom_def get_string_bytes sbnd_def)
  show "cbor_expect_string (cbor_head 0x60 (length s) @ bytes_from s @ rest) = Inr ()"
    using h(1,3) by (simp add: cbor_expect_string_def h(2) word_le_nat_alt)
qed

lemma decode_number:
  assumes "0 < k"
  shows "from_cbor_internal k (cbor_head 0 (unat u) @ rest) = Inr (JUnsigned u, rest)"
    and "- (2 ^ 63) \<le> i \<Longrightarrow> i < 0 \<Longrightarrow> from_cbor_internal k (cbor_head 0x20 (nat (- 1 - i)) @ rest) = Inr (JInteger i, rest)"
proof -
  obtain m where k: "k = Suc m" using assms by (cases k) auto
  have "unat u < 2 ^ 64" using unsigned_less [of u] by simp
  then obtain info c ext where h: "info \<le> 0x1b" "cbor_head 0 (unat u) = c # ext" "unat c = 0 + info"
    "\<And>rest. cbor_length info (ext @ rest) = Inr (unat u, rest)" by (rule cbor_head_at [of _ 0]) simp_all
  show "from_cbor_internal k (cbor_head 0 (unat u) @ rest) = Inr (JUnsigned u, rest)"
    using h(1) by (simp add: k h(2-4) Let_def cbor_atom_def sbnd_def)
  assume i: "- (2 ^ 63) \<le> i" "i < 0"
  define n where "n = nat (- 1 - i)"
  have n: "n < 2 ^ 63" "- 1 - int n = i" using i by (simp_all add: n_def)
  then have "n < 2 ^ 64" by simp
  then obtain info c ext where h: "info \<le> 0x1b" "cbor_head 0x20 n = c # ext" "unat c = 0x20 + info"
    "\<And>rest. cbor_length info (ext @ rest) = Inr (n, rest)" by (rule cbor_head_at [of _ "0x20"]) simp_all
  have s: "sint (word_of_nat n :: 64 word) = int n"
    using n(1) by (simp add: signed_of_nat signed_take_bit_int_eq_self_iff)
  have "get_from_vector 8 (ext @ rest) = Inr (n, rest)" if "info = 0x1b" using h(4) [of rest] that by (simp add: cbor_length_def)
  then show "from_cbor_internal k (cbor_head 0x20 (nat (- 1 - i)) @ rest) = Inr (JInteger i, rest)"
    using h(1) n(2) unfolding n_def [symmetric]
    by (cases "info = 0x1b") (simp_all add: k h(2-4) Let_def cbor_atom_def sbnd_def s)
qed

lemma to_cbor_not_Nil: "to_cbor j \<noteq> []"
  by (cases j) (simp_all add: cbor_head_def)

lemma to_cbor_length: "1 \<le> length (to_cbor j)"
  using to_cbor_not_Nil [of j] by (cases "to_cbor j") simp_all

lemma map_set_last:
  assumes "sorted_map (m @ [(k, v)])"
  shows "map_set k v m = m @ [(k, v)]"
  using assms by (induction k v m rule: map_set.induct) (auto simp: sorted_map_def)

lemma decode_array:
  assumes "\<And>j k rest. j \<in> set js \<Longrightarrow> 2 * length (to_cbor j) \<le> k \<Longrightarrow> from_cbor_internal k (to_cbor j @ rest) = Inr (j, rest)"
    and "2 * length (concat (map to_cbor js)) + 1 \<le> k"
  shows "cbor_array k (Some (length js)) acc (concat (map to_cbor js) @ rest) = Inr (JArray (acc @ js), rest)"
  using assms
proof (induction js arbitrary: acc k)
  case Nil
  then show ?case by (cases k) (simp_all add: cbor_more_def sbnd_def)
next
  case (Cons j js)
  obtain i where k: "k = Suc i" using Cons.prems(2) by (cases k) auto
  have "Suc (2 * length (to_cbor j) + 2 * length (concat (map to_cbor js))) \<le> k" using Cons.prems(2) by simp
  then have "2 * length (to_cbor j) \<le> i" "2 * length (concat (map to_cbor js)) + 1 \<le> i"
    using to_cbor_length [of j] unfolding k by linarith+
  then show ?case using Cons.prems(1) Cons.IH [of i "acc @ [j]"]
    by (simp add: k cbor_more_def sbnd_def)
qed

definition to_cbor_member :: "string \<times> json \<Rightarrow> bytes" where
  "to_cbor_member m = cbor_head 0x60 (length (fst m)) @ bytes_from (fst m) @ to_cbor (snd m)"

lemma decode_object:
  assumes "\<And>m k rest. m \<in> set ms \<Longrightarrow> 2 * length (to_cbor (snd m)) \<le> k \<Longrightarrow>
      from_cbor_internal k (to_cbor (snd m) @ rest) = Inr (snd m, rest)"
    and "\<forall>m \<in> set ms. length (fst m) < 2 ^ 64" and "sorted_map (acc @ ms)"
    and "2 * length (concat (map to_cbor_member ms)) + 1 \<le> k"
  shows "cbor_object k (Some (length ms)) acc (concat (map to_cbor_member ms) @ rest) = Inr (JObject (acc @ ms), rest)"
  using assms
proof (induction ms arbitrary: acc k)
  case Nil
  then show ?case by (cases k) (simp_all add: cbor_more_def sbnd_def)
next
  case (Cons m ms)
  obtain i where k: "k = Suc i" using Cons.prems(4) by (cases k) auto
  obtain s j where m: "m = (s, j)" by (cases m) auto
  have "length (to_cbor_member m) \<ge> length (to_cbor j)" by (simp add: to_cbor_member_def m)
  moreover have "Suc (2 * length (to_cbor_member m) + 2 * length (concat (map to_cbor_member ms))) \<le> k"
    using Cons.prems(4) by simp
  ultimately have i: "2 * length (to_cbor j) \<le> i" "2 * length (concat (map to_cbor_member ms)) + 1 \<le> i" "0 < i"
    using to_cbor_length [of j] unfolding k by linarith+
  have "sorted_map (acc @ [(s, j)])" using Cons.prems(3) by (simp add: m sorted_map_def sorted_wrt_append)
  then have "map_set s j acc = acc @ [(s, j)]" by (rule map_set_last)
  moreover have "length s < 2 ^ 64" using Cons.prems(2) m by simp
  moreover have "from_cbor_internal i (to_cbor j @ r) = Inr (j, r)" for r using Cons.prems(1) [of m i r] i(1) by (simp add: m)
  moreover have "cbor_object i (Some (length ms)) (acc @ [(s, j)]) (concat (map to_cbor_member ms) @ rest)
      = Inr (JObject ((acc @ [(s, j)]) @ ms), rest)"
    using Cons.prems(2,3) i(2) by (intro Cons.IH Cons.prems(1)) (simp_all add: m)
  moreover have "to_cbor_member m = cbor_head 0x60 (length s) @ bytes_from s @ to_cbor j"
    by (simp add: to_cbor_member_def m)
  ultimately show ?case using decode_string [OF _ i(3), of s]
    by (simp add: k cbor_more_def sbnd_def) (simp add: m)
qed

lemma decode_encoded:
  "cbor_ok j \<Longrightarrow> 2 * length (to_cbor j) \<le> k \<Longrightarrow> from_cbor_internal k (to_cbor j @ rest) = Inr (j, rest)"
proof (induction j arbitrary: k rest)
  case (JArray js)
  have "length js < 2 ^ 64" using JArray.prems(1) by simp
  then obtain info c ext where h: "info \<le> 0x1b" "cbor_head 0x80 (length js) = c # ext" "unat c = 0x80 + info"
    "\<And>rest. cbor_length info (ext @ rest) = Inr (length js, rest)" by (rule cbor_head_at [of _ "0x80"]) simp_all
  obtain i where k: "k = Suc i" using JArray.prems(2) by (cases k) (auto simp: h(2))
  have "2 * length (concat (map to_cbor js)) + 1 \<le> i" using JArray.prems(2) by (simp add: k h(2))
  then have "cbor_array i (Some (length js)) [] (concat (map to_cbor js) @ rest) = Inr (JArray js, rest)"
    using decode_array [of js i "[]"] JArray by simp
  then show ?case using h(1) by (simp add: k h(2-4) Let_def sbnd_def)
next
  case (JObject ms)
  have "length ms < 2 ^ 64" using JObject.prems(1) by simp
  then obtain info c ext where h: "info \<le> 0x1b" "cbor_head 0xa0 (length ms) = c # ext" "unat c = 0xa0 + info"
    "\<And>rest. cbor_length info (ext @ rest) = Inr (length ms, rest)" by (rule cbor_head_at [of _ "0xa0"]) simp_all
  have e: "(\<lambda>(k, j). cbor_head 0x60 (length k) @ bytes_from k @ to_cbor j) = to_cbor_member"
    by (auto simp: to_cbor_member_def fun_eq_iff)
  obtain i where k: "k = Suc i" using JObject.prems(2) by (cases k) (auto simp: h(2))
  have "2 * length (concat (map to_cbor_member ms)) + 1 \<le> i" using JObject.prems(2) by (simp add: k h(2) e)
  then have "cbor_object i (Some (length ms)) [] (concat (map to_cbor_member ms) @ rest) = Inr (JObject ms, rest)"
    using decode_object [of ms "[]" i] JObject by (fastforce intro: snds.intros)
  then show ?case using h(1) by (simp add: k h(2-4) e Let_def sbnd_def)
next
  case (JFloat x)
  obtain i where k: "k = Suc i" using JFloat.prems(2) by (cases k) auto
  have "unat x < 256 ^ 8" using unsigned_less [of x] by simp
  then show ?case by (simp add: k Let_def cbor_atom_def sbnd_def get_added)
next
  case (JString s)
  then show ?case using decode_string(1) [of s k rest] to_cbor_length [of "JString s"] by simp
next
  case (JInteger i)
  then show ?case using decode_number(2) [of k i rest] to_cbor_length [of "JInteger i"] by simp
next
  case (JUnsigned u)
  then show ?case using decode_number(1) [of k u rest] to_cbor_length [of "JUnsigned u"] by simp
next
  case (JBool b)
  then show ?case by (cases k) (simp_all add: Let_def cbor_atom_def)
next
  case JNull
  then show ?case by (cases k) (simp_all add: Let_def cbor_atom_def)
qed

lemma from_cbor_encoded: "cbor_ok j \<Longrightarrow> from_cbor (to_cbor j @ rest) = Inr j"
  using decode_encoded [of j "2 * length (to_cbor j @ rest) + 2" rest]
  by (simp add: from_cbor_def sbnd_def del: from_cbor_internal.simps)

end
