(* ===== verification/Formats.thy ===== *)
theory Formats
  imports Registration Cbor_Codec
begin

section \<open>The formats of the processor\<close>

text \<open>
  What the data formats promise: the messages in the state, the varints below them, the
  UTF-8 check of their strings, base64, the CBOR payload of a transaction, and the numbers
  and keys that come as text.
\<close>

subsection \<open>Messages\<close>

text \<open>C29. Every message of the processor is read back as it was written, for each of the nine classes.\<close>

theorem messages_round_trip:
  assumes "Wallet_wf wl" and "Fee_wf f" and "Address_wf a" and "Transfer_wf t" and "AskOrder_wf k"
    and "BidOrder_wf b" and "Offer_wf x" and "DealOrder_wf d" and "RepaymentOrder_wf r"
  shows "Wallet_ParseFromString (Wallet_SerializeToString wl) = (True, wl) \<and>
    Fee_ParseFromString (Fee_SerializeToString f) = (True, f) \<and>
    Address_ParseFromString (Address_SerializeToString a) = (True, a) \<and>
    Transfer_ParseFromString (Transfer_SerializeToString t) = (True, t) \<and>
    AskOrder_ParseFromString (AskOrder_SerializeToString k) = (True, k) \<and>
    BidOrder_ParseFromString (BidOrder_SerializeToString b) = (True, b) \<and>
    Offer_ParseFromString (Offer_SerializeToString x) = (True, x) \<and>
    DealOrder_ParseFromString (DealOrder_SerializeToString d) = (True, d) \<and>
    RepaymentOrder_ParseFromString (RepaymentOrder_SerializeToString r) = (True, r)"
  using assms by (simp add: Wallet_parse_serialized Fee_parse_serialized Address_parse_serialized
      Transfer_parse_serialized AskOrder_parse_serialized BidOrder_parse_serialized Offer_parse_serialized
      DealOrder_parse_serialized RepaymentOrder_parse_serialized)

definition the_resale :: RepaymentOrder where
  "the_resale = RepaymentOrder_Clear\<lparr>repayment_blockchain := ''eth'', repayment_src_address := ''niocti1000a'',
     repayment_dst_address := ''niocti1000b'', repayment_amount := ''1050'', repayment_expiration := 2 ^ 63,
     repayment_deal := ''niocti5000d'', repayment_sighash := ''carol''\<rparr>"

lemma the_resale_wf: "RepaymentOrder_wf the_resale"
  by (simp add: the_resale_def RepaymentOrder_wf_def RepaymentOrder_Clear_def literal_wire ascii_def)

theorem messages_round_trip_witness:
  "DealOrder_ParseFromString (DealOrder_SerializeToString the_deal) = (True, the_deal) \<and>
   RepaymentOrder_ParseFromString (RepaymentOrder_SerializeToString the_resale) = (True, the_resale)"
  using messages_round_trip [OF Wallet_wf_Clear Fee_wf_Clear the_records_wf(8,2,5,6,7,1) the_resale_wf] by blast

text \<open>The size computed before writing is the number of bytes written, for each of the nine classes,
  unknown fields included.\<close>

theorem serialized_size_is_predicted:
  "Wallet_ByteSizeLong wl = length (Wallet_SerializeToString wl) \<and>
   Fee_ByteSizeLong f = length (Fee_SerializeToString f) \<and>
   Address_ByteSizeLong a = length (Address_SerializeToString a) \<and>
   Transfer_ByteSizeLong t = length (Transfer_SerializeToString t) \<and>
   AskOrder_ByteSizeLong k = length (AskOrder_SerializeToString k) \<and>
   BidOrder_ByteSizeLong b = length (BidOrder_SerializeToString b) \<and>
   Offer_ByteSizeLong x = length (Offer_SerializeToString x) \<and>
   DealOrder_ByteSizeLong d = length (DealOrder_SerializeToString d) \<and>
   RepaymentOrder_ByteSizeLong r = length (RepaymentOrder_SerializeToString r)"
  by (simp add: Wallet_size Fee_size Address_size Transfer_size AskOrder_size BidOrder_size Offer_size
      DealOrder_size RepaymentOrder_size)

text \<open>C33. Parsing returns on every input: the bound on the loop over the fields, the length of what is left
  to read, is never reached, whatever the bytes are.\<close>

theorem parsing_returns:
  "(\<exists>ok legit m. merge Wallet_fields Wallet_add_unknown Wallet_Clear s = Some (ok, legit, m)) \<and>
   (\<exists>ok legit m. merge Fee_fields Fee_add_unknown Fee_Clear s = Some (ok, legit, m)) \<and>
   (\<exists>ok legit m. merge Address_fields Address_add_unknown Address_Clear s = Some (ok, legit, m)) \<and>
   (\<exists>ok legit m. merge Transfer_fields Transfer_add_unknown Transfer_Clear s = Some (ok, legit, m)) \<and>
   (\<exists>ok legit m. merge AskOrder_fields AskOrder_add_unknown AskOrder_Clear s = Some (ok, legit, m)) \<and>
   (\<exists>ok legit m. merge BidOrder_fields BidOrder_add_unknown BidOrder_Clear s = Some (ok, legit, m)) \<and>
   (\<exists>ok legit m. merge Offer_fields Offer_add_unknown Offer_Clear s = Some (ok, legit, m)) \<and>
   (\<exists>ok legit m. merge DealOrder_fields DealOrder_add_unknown DealOrder_Clear s = Some (ok, legit, m)) \<and>
   (\<exists>ok legit m. merge RepaymentOrder_fields RepaymentOrder_add_unknown RepaymentOrder_Clear s = Some (ok, legit, m))"
  by (intro conjI parse_message_total Wallet_consuming Fee_consuming Address_consuming Transfer_consuming
      AskOrder_consuming BidOrder_consuming Offer_consuming DealOrder_consuming RepaymentOrder_consuming)

subsection \<open>Varints and UTF-8\<close>

lemma varint64_short: "length (WriteVarint64ToArray v) \<le> 10"
proof -
  have "unat v < 2 ^ 64" using unsigned_less [of v] by simp
  then show ?thesis unfolding WriteVarint64_nat by (intro varint_length) simp_all
qed

lemma varint32_short: "length (WriteVarint32ToArray v) \<le> 5"
proof -
  have "unat v < 2 ^ 32" using unsigned_less [of v] by simp
  then show ?thesis unfolding WriteVarint32_nat by (intro varint_length) simp_all
qed

text \<open>A varint of either width is read back, leaving what follows it alone; it has at most 10 (5) bytes
  and exactly as many as the size computation by the position of the top bit says.\<close>

theorem varints_round_trip:
  "ReadVarint64 (WriteVarint64ToArray v @ rest) = Some (v, rest) \<and>
   ReadVarint32 (WriteVarint32ToArray u @ rest) = Some (u, rest) \<and>
   VarintSize64 v = length (WriteVarint64ToArray v) \<and> VarintSize64 v \<le> 10 \<and>
   VarintSize32 u = length (WriteVarint32ToArray u) \<and> VarintSize32 u \<le> 5"
  by (simp add: ReadVarint64_Write ReadVarint32_Write VarintSize64_length VarintSize32_length varint64_short varint32_short)

text \<open>C32. The table-driven scanner accepts exactly UTF-8: the concatenations of encoded code points, without
  surrogates, overlong forms or values above 10FFFF (hexadecimal).\<close>

theorem utf8_validation_is_exact: "IsStructurallyValidUTF8 s \<longleftrightarrow> utf8_text (bytes_of s)"
  by (rule valid_utf8_iff_text)

subsection \<open>Base64\<close>

text \<open>C35. Decoding gives back every encoded byte vector, and text with a character outside the alphabet
  (and no pad character) is rejected.\<close>

theorem base64_round_trip:
  "decodeBase64 (encodeBase64 v) = Inr v \<and>
   (CHR ''='' \<notin> set s \<longrightarrow> \<not> set s \<subseteq> set base64lookupString \<longrightarrow>
      decodeBase64 s = Inl (InvalidTransaction ''Invalid character in base64''))"
proof -
  have "decodeBase64 (encodeBase64 v) = Inr v" by (simp add: decodeBase64_def encodeBase64_def decode_encode_loop)
  then show ?thesis by (simp add: decode_bad_char)
qed

theorem base64_round_trip_witness:
  "decodeBase64 ''TW!u'' = Inl (InvalidTransaction ''Invalid character in base64'')"
proof -
  have "CHR ''!'' \<notin> set base64lookupString" by (simp add: base64lookupString_def)
  then show ?thesis using base64_round_trip [of "[]" "''TW!u''"] by simp
qed

subsection \<open>CBOR and the command of a transaction\<close>

text \<open>C30. The CBOR decoder reads back every value the encoder writes, of any nesting, and ignores what
  follows it.\<close>

theorem cbor_round_trip: "cbor_ok j \<Longrightarrow> from_cbor (to_cbor j @ rest) = Inr j"
  by (rule from_cbor_encoded)

theorem cbor_round_trip_witness:
  "from_cbor (to_cbor (JObject [(''a'', JArray [JInteger (- 300), JNull, JBool True]), (''v'', JString ''x'')]) @ [7]) =
     Inr (JObject [(''a'', JArray [JInteger (- 300), JNull, JBool True]), (''v'', JString ''x'')])"
  by (rule cbor_round_trip) (simp add: sorted_map_def less_list_code less_char_def)

text \<open>C34. Decoding a payload ends on every input with a value or with an exception of the library, which the
  processor turns into an error: the recursion is bounded by twice the length of the input.\<close>

theorem cbor_decoding_returns: "case from_cbor v of Inr j \<Rightarrow> True | Inl e \<Rightarrow> \<exists>n. e = StdException n"
  using from_cbor_only_throws [of v] by (cases "from_cbor v") auto

text \<open>The command of a transaction is the verb of the object in its payload.\<close>

lemma payload_gives_command:
  assumes "cbor_ok j"
  shows "cborToParams env (to_cbor j) =
    (case j of
       JObject ms \<Rightarrow>
         (case map_of ms ''v'' of
            Some (JString cmd) \<Rightarrow> Inr (j, dump_escaped cmd)
          | Some other \<Rightarrow> sbnd (trimQuotes (asserts env) (dump (snprintf_g env) other)) (\<lambda>cmd. Inr (j, cmd))
          | None \<Rightarrow> Inl (InvalidTransaction ''verb is required''))
     | _ \<Rightarrow> Inl (InvalidTransaction ''CBOR Object as the encoded command''))"
proof -
  have "from_cbor (to_cbor j) = Inr j" using from_cbor_encoded [OF assms, of "[]"] by simp
  moreover have "trimQuotes a (dump f (JString s)) = Inr (dump_escaped s)" for a f s
    using trimQuotes_quoted [of a "dump_escaped s"] by simp
  ultimately show ?thesis
    by (simp add: cborToParams_def sbnd_def json_find_def del: dump.simps split: json.split option.split)
qed

text \<open>C36. A text parameter of a command is its JSON text without the quotes: exactly the text when it needs no
  escape, else its escaped form; a missing parameter is rejected, and anything but a string
  ends the process in a build with assertions.\<close>

theorem string_parameter:
  assumes "\<forall>x. fmt x \<noteq> [] \<and> hd (fmt x) \<noteq> CHR 0x22"
  shows "getString fmt True query key name =
      (case json_find query key of
         None \<Rightarrow> Inl (InvalidTransaction (''Expecting '' @ name))
       | Some (JString s) \<Rightarrow> Inr (dump_escaped s)
       | Some _ \<Rightarrow> Inl (Aborted ''assert'')) \<and>
    (dump_escaped s = s \<longleftrightarrow> plain s)"
proof (cases "json_find query key")
  case None
  then show ?thesis by (simp add: getString_missing dump_escaped_plain)
next
  case (Some j)
  show ?thesis
  proof (cases "\<exists>s. j = JString s")
    case True
    then show ?thesis using Some by (auto simp: getString_string dump_escaped_plain)
  next
    case False
    then have "getString fmt True query key name = Inl (Aborted ''assert'')"
      using getString_not_string [OF Some] assms by blast
    then show ?thesis using False Some by (cases j) (auto simp: dump_escaped_plain)
  qed
qed

theorem string_parameter_witness:
  "getString (\<lambda>_. ''1.5'') True (JObject [(''p1'', JString ''a/b'')]) ''p1'' ''memo'' = Inr ''a/b'' \<and>
   getString (\<lambda>_. ''1.5'') True (JObject [(''p1'', JUnsigned 7)]) ''p1'' ''memo'' = Inl (Aborted ''assert'')"
proof -
  have f: "\<forall>x :: 64 word. ''1.5'' \<noteq> [] \<and> hd ''1.5'' \<noteq> CHR 0x22" by simp
  have "plain ''a/b''" by (simp add: plain_def)
  then show ?thesis
    using string_parameter [OF f, of "JObject [(''p1'', JString ''a/b'')]" "''p1''" "''memo''" "''a/b''"]
      string_parameter [OF f, of "JObject [(''p1'', JUnsigned 7)]" "''p1''" "''memo''" "''a/b''"]
    by (simp add: json_find_def)
qed

subsection \<open>Text\<close>



text \<open>A public key is used in its compressed form: whatever \<open>compress\<close> accepts becomes a key of 66
  characters with marker 02 or 03, and a compressed key is left alone.\<close>

lemma compress_normalises: "compress k = Inr c \<Longrightarrow> compressed_key c \<and> compress c = Inr c"
  using compress_result compress_fixpoint by blast

lemma compress_example:
  "compress (''04'' @ replicate 64 (CHR ''a'') @ replicate 63 (CHR ''0'') @ ''7'') = Inr (''03'' @ replicate 64 (CHR ''a'')) \<and>
   compress (''03'' @ replicate 64 (CHR ''a'')) = Inr (''03'' @ replicate 64 (CHR ''a''))"
proof -
  have "compress (''04'' @ replicate 64 (CHR ''a'') @ replicate 63 (CHR ''0'') @ ''7'') = Inr (''03'' @ replicate 64 (CHR ''a''))"
    by (simp add: compress_def isHex_def isHexChar_def hex_val_def isdigit_def digit_val_def list_all_iff)
  then show ?thesis using compress_normalises by blast
qed

end
