(* ===== verification/Overlay.thy ===== *)
theory Overlay
  imports Sample
begin

section \<open>The layers that stand for the global state\<close>

text \<open>
  While an old chain is revalidated three sorted maps take the place of the validator.  To
  the handlers they are one state, the same that they see through the validator: moving the
  entries of a transaction to its block, and those of a block to the blocks below, changes
  nothing, and a listing visits exactly the live entries under its prefix.
\<close>

definition layers_sorted :: "'v world \<Rightarrow> bool" where
  "layers_sorted w \<longleftrightarrow> sorted_map (ctx_currentState (ctx w)) \<and> sorted_map (tipCurrentState w) \<and>
     sorted_map (transitioningState w)"

lemma layers_sorted_kept:
  "layers_sorted w \<Longrightarrow> layers_sorted (set_current kvs w)"
  "layers_sorted w \<Longrightarrow> layers_sorted (commit_ctx w)"
  "layers_sorted w \<Longrightarrow> layers_sorted (flush_tip w)"
  by (simp_all add: layers_sorted_def set_current_def commit_ctx_def flush_tip_def)

lemma map_of_rev_sorted: "sorted_map m \<Longrightarrow> map_of (rev m) k = map_find m k"
proof (cases "map_of m k")
  case None
  then have "map_of (rev m) k = None" by (simp add: map_of_eq_None_iff)
  then show ?thesis using None by (simp add: map_find_def)
next
  case (Some v)
  assume "sorted_map m"
  then have "distinct (map fst (rev m))" using sorted_map_distinct by (simp add: rev_map [symmetric])
  moreover have "(k, v) \<in> set (rev m)" using map_of_SomeD [OF Some] by simp
  ultimately show ?thesis using Some by (simp add: map_find_def)
qed

lemma overlay_commit: "overlay (commit_ctx w) k = overlay w k"
  by (simp add: overlay_def commit_ctx_def map_find_insert_range map_find_def [symmetric] split: option.split)

lemma overlay_flush:
  assumes "layers_sorted w"
  shows "overlay (flush_tip w) k = overlay w k"
  using assms by (simp add: overlay_def flush_tip_def map_find_set_all map_of_rev_sorted layers_sorted_def split: option.split)

lemma view_by_overlay:
  assumes "\<And>k. overlay w' k = overlay w k" and "ctx_transitioning (ctx w') = ctx_transitioning (ctx w)"
    and "validator w' = validator w"
  shows "view env w' = view env w"
  by (rule ext) (simp add: view_def assms)

text \<open>C25. The three layers are one state: what the handlers see is unchanged when the entries of a
  transaction move to its block and when those of a block move below, and a write shows up
  at its address only; the layers stay sorted.\<close>

theorem layers_are_one_state:
  assumes "layers_sorted w"
  shows "view env (commit_ctx w) = view env w \<and> view env (flush_tip w) = view env w \<and>
    (ctx_transitioning (ctx w) \<longrightarrow> view env (set_current [(k, d)] w) = (view env w)(k := d)) \<and>
    layers_sorted (commit_ctx w) \<and> layers_sorted (flush_tip w) \<and> layers_sorted (set_current [(k, d)] w)"
proof -
  have "view env (commit_ctx w) = view env w"
    by (rule view_by_overlay [OF overlay_commit]) (simp_all add: commit_ctx_def)
  moreover have "view env (flush_tip w) = view env w"
    by (rule view_by_overlay [OF overlay_flush [OF assms]]) (simp_all add: flush_tip_def)
  ultimately show ?thesis using assms by (simp add: view_set_current layers_sorted_kept)
qed

definition replayed_world :: "(string \<Rightarrow> string) world" where
  \<comment> \<open>block 3 of an old chain: an entry below, one deleted in the block, one written by the transaction\<close>
  "replayed_world = (sample_world [] ''alice'')\<lparr>
     ctx := (new_Ctx True)\<lparr>ctx_currentState := [(''niocti3000b'', ''two'')], ctx_tip := 3, ctx_sighash := ''alice''\<rparr>,
     transitioning := True, tipCurrentState := [(''niocti3000a'', [])],
     transitioningState := [(''niocti3000a'', ''one''), (''niocti3000c'', ''three''), (''niocti4000x'', ''bid'')]\<rparr>"

lemma replayed_sorted: "layers_sorted replayed_world" "ctx_transitioning (ctx replayed_world)"
  by (simp_all add: layers_sorted_def replayed_world_def sorted_map_def new_Ctx_def less_list_code less_char_def)

theorem layers_are_one_state_witness:
  "view sample_env (flush_tip replayed_world) ''niocti3000a'' = [] \<and>
   view sample_env (commit_ctx replayed_world) ''niocti3000b'' = ''two'' \<and>
   view sample_env (set_current [(''niocti3000d'', ''four'')] replayed_world) ''niocti3000d'' = ''four''"
  using layers_are_one_state [OF replayed_sorted(1), of sample_env "''niocti3000d''" "''four''"] replayed_sorted(2)
  by (simp add: view_overlay) (simp add: overlay_def replayed_world_def new_Ctx_def map_find_def)

subsection \<open>Listing\<close>

lemma overlay_current:
  "overlay w k = (case map_find (map_insert_range (ctx_currentState (ctx w)) (tipCurrentState w)) k of
     Some d \<Rightarrow> Some d | None \<Rightarrow> map_find (transitioningState w) k)"
  by (simp add: overlay_def map_find_insert_range map_find_def [symmetric] split: option.split)

lemma overlay_entries_exact:
  assumes "layers_sorted w" and t: "ctx_transitioning (ctx w)"
  shows "distinct (map fst (overlay_entries w prefix))"
    and "(k, d) \<in> set (overlay_entries w prefix) \<longleftrightarrow> starts_with prefix k \<and> d = view env w k \<and> d \<noteq> []"
proof -
  let ?cur = "map_insert_range (ctx_currentState (ctx w)) (tipCurrentState w)"
  let ?live = "\<lambda>(k, d). starts_with prefix k \<and> 0 < length d"
  have s: "sorted_map ?cur" "sorted_map (transitioningState w)" using assms(1) by (simp_all add: layers_sorted_def)
  note e = sorted_map_entry [OF s(1)] sorted_map_entry [OF s(2)]
  have o: "overlay_entries w prefix = List.filter (\<lambda>e. map_find ?cur (fst e) = None \<and> ?live e) (transitioningState w) @
      List.filter ?live ?cur" by (simp add: overlay_entries_def Let_def)
  show "(k, d) \<in> set (overlay_entries w prefix) \<longleftrightarrow> starts_with prefix k \<and> d = view env w k \<and> d \<noteq> []"
    unfolding o using t by (auto simp: e view_overlay overlay_current split: option.splits)
  have "distinct (map fst (List.filter P m))" if "distinct (map fst m)" for P and m :: "string smap"
    using that by (simp add: distinct_map_filter)
  moreover have "set (map fst (List.filter (\<lambda>e. map_find ?cur (fst e) = None \<and> ?live e) (transitioningState w))) \<inter>
      set (map fst (List.filter ?live ?cur)) = {}"
    using e(1) by fastforce
  ultimately show "distinct (map fst (overlay_entries w prefix))"
    unfolding o map_append distinct_append using sorted_map_distinct [OF s(1)] sorted_map_distinct [OF s(2)] by blast
qed

text \<open>C26. While transitioning, a listing visits each live entry under its prefix exactly once, with the data
  the handlers see there, whichever layer it is in.\<close>

theorem listing_is_exact:
  assumes "layers_sorted w" and "ctx_transitioning (ctx w)"
  shows "distinct (map fst (overlay_entries w prefix)) \<and>
    set (overlay_entries w prefix) = {(k, d). starts_with prefix k \<and> d = view env w k \<and> d \<noteq> []}"
  using overlay_entries_exact [OF assms] by auto

theorem listing_is_exact_witness:
  "set (overlay_entries replayed_world ''niocti3000'') =
     {(k, d). starts_with ''niocti3000'' k \<and> d = view sample_env replayed_world k \<and> d \<noteq> []} \<and>
   overlay_entries replayed_world ''niocti3000'' = [(''niocti3000c'', ''three''), (''niocti3000b'', ''two'')]"
proof -
  have "overlay_entries replayed_world ''niocti3000'' = [(''niocti3000c'', ''three''), (''niocti3000b'', ''two'')]"
    by (simp add: overlay_entries_def replayed_world_def new_Ctx_def map_find_def starts_with_def less_list_code less_char_def)
  then show ?thesis using listing_is_exact [OF replayed_sorted, of "''niocti3000''" sample_env] by simp
qed

end
