(* ===== verification/Cleanup.thy ===== *)
theory Cleanup
  imports Formats Overlay
begin

section \<open>What housekeeping does\<close>

text \<open>
  The steps of \<open>Housekeeping\<close>: orders past their expiration disappear and nothing else
  does, a deal that nobody funded returns its fee, old fee records go without being paid
  back, signers of confirmed blocks are rewarded, and the confirmed block only advances.
\<close>

lemma bnd_assoc: "bnd (bnd m f) g = bnd m (\<lambda>x. bnd (f x) g)"
  by (auto simp: bnd_def fun_eq_iff split: prod.split sum.split)

subsection \<open>Sweeping expired orders\<close>

definition swept :: "string \<Rightarrow> (string \<Rightarrow> bool) \<Rightarrow> (string \<Rightarrow> string) \<Rightarrow> string \<Rightarrow> string" where
  \<comment> \<open>the state without the entries under a prefix whose data are dead\<close>
  "swept prefix dead st k = (if starts_with prefix k \<and> st k \<noteq> [] \<and> dead (st k) then [] else st k)"

lemma sweep_ok:
  assumes "session_ok env w" and "distinct (map fst es)" and "\<And>k d. (k, d) \<in> set es \<Longrightarrow> d = view env w k"
    and "\<And>k d. lister k d = bnd (lift (dead d)) (\<lambda>b. if b then deleteState env k else ret ())"
    and "forEach es (\<lambda>(k, d). lister k d) w = (Inr u, w')"
  shows "session_ok env w' \<and> same_session env w w' \<and>
    view env w' = (\<lambda>k. if k \<in> fst ` set es \<and> dead (view env w k) = Inr True then [] else view env w k)"
  using assms(1-3,5)
proof (induction es arbitrary: w)
  case Nil
  then show ?case by (simp add: act_ok)
next
  case (Cons e es)
  obtain k d where e: "e = (k, d)" by (cases e) auto
  have d: "d = view env w k" using Cons.prems(3) e by simp
  obtain b w1 where b: "dead d = Inr b" and w1: "(if b then deleteState env k else ret ()) w = (Inr (), w1)"
      and rest: "forEach es (\<lambda>(k, d). lister k d) w1 = (Inr u, w')"
    using Cons.prems(4) by (auto simp: e assms(4) act_ok)
  have v: "session_ok env w1 \<and> same_session env w w1 \<and> view env w1 = (if b then (view env w)(k := []) else view env w)"
    using w1 state.del_ok [OF Cons.prems(1), of k "()" w1] Cons.prems(1) state.same_refl [of env w]
    by (cases b) (auto simp: act_ok)
  have fresh: "k \<notin> fst ` set es" using Cons.prems(2) e by simp
  have "d1 = view env w1 k1" if "(k1, d1) \<in> set es" for k1 d1
    using that Cons.prems(3) [of k1 d1] fresh v by (force simp: e)
  then have "session_ok env w' \<and> same_session env w1 w' \<and>
      view env w' = (\<lambda>k. if k \<in> fst ` set es \<and> dead (view env w1 k) = Inr True then [] else view env w1 k)"
    using v Cons.prems(2) e by (intro Cons.IH rest) simp_all
  then show ?case using v b d fresh state.same_trans [of env w w1 w'] by (auto simp: e fun_eq_iff)
qed

lemma filter_kind_transitioning:
  "ctx_transitioning (ctx w) \<Longrightarrow> filter_kind env kind lister w =
     forEach (overlay_entries w (namespacePrefix env @ kind)) (\<lambda>(k, d). lister k d) w"
  by (simp add: filter_kind_def filter_states_def)

lemma sweep_kind:
  assumes w: "session_ok env w" "ctx_transitioning (ctx w)" "layers_sorted w"
    and l: "\<And>k d. lister k d = bnd (lift (dead d)) (\<lambda>b. if b then deleteState env k else ret ())"
    and run: "filter_kind env kind lister w = (Inr u, w')"
  shows "view env w' = swept (namespacePrefix env @ kind) (\<lambda>d. dead d = Inr True) (view env w)"
proof -
  let ?es = "overlay_entries w (namespacePrefix env @ kind)"
  note e = overlay_entries_exact(1) [OF w(3,2), of "namespacePrefix env @ kind"]
    overlay_entries_exact(2) [where env = env and prefix = "namespacePrefix env @ kind", OF w(3,2)]
  have "view env w' = (\<lambda>k. if k \<in> fst ` set ?es \<and> dead (view env w k) = Inr True then [] else view env w k)"
    by (rule sweep_ok [OF w(1) e(1) _ l run [unfolded filter_kind_transitioning [OF w(2)]], THEN conjunct2, THEN conjunct2])
      (simp add: e(2))
  moreover have "k \<in> fst ` set ?es \<longleftrightarrow> starts_with (namespacePrefix env @ kind) k \<and> view env w k \<noteq> []" for k
    using e(2) by force
  ultimately show ?thesis by (simp add: swept_def fun_eq_iff)
qed

lemma house_orders:
  "house_ask env b k d = bnd (lift (order_expired env (ask_block (ask_from d)) (ask_expiration (ask_from d)) b))
     (\<lambda>x. if x then deleteState env k else ret ())"
  "house_bid env b k d = bnd (lift (order_expired env (bid_block (bid_from d)) (bid_expiration (bid_from d)) b))
     (\<lambda>x. if x then deleteState env k else ret ())"
  "house_offer env b k d = bnd (lift (order_expired env (offer_block (offer_from d)) (offer_expiration (offer_from d)) b))
     (\<lambda>x. if x then deleteState env k else ret ())"
  "house_repayment env b k d = bnd (lift (sbnd (order_expired env (repayment_block (repayment_from d))
       (repayment_expiration (repayment_from d)) b) (\<lambda>x. Inr (x \<and> repayment_previous_owner (repayment_from d) = []))))
     (\<lambda>x. if x then deleteState env k else ret ())"
  by (simp_all add: house_ask_def house_bid_def house_offer_def house_repayment_def expired_at_def fun_eq_iff act_run
      split: sum.split)


definition sweep_world :: "(string \<Rightarrow> string) world" where
  \<comment> \<open>an old chain with an ask and a bid of block 95\<close>
  "sweep_world = (sample_world [] ''alice'')\<lparr>ctx := new_Ctx True, transitioning := True, transitioningState :=
     [(''niocti3000k'', AskOrder_SerializeToString the_ask), (''niocti4000b'', BidOrder_SerializeToString the_bid)]\<rparr>"

lemma sweep_world_ok: "session_ok sample_env sweep_world" "ctx_transitioning (ctx sweep_world)" "layers_sorted sweep_world"
proof -
  show "session_ok sample_env sweep_world"
    using sample_session_ok [of "[]" "''alice''"] by (simp add: session_ok_def sweep_world_def new_Ctx_def)
qed (simp_all add: layers_sorted_def sweep_world_def sorted_map_def new_Ctx_def less_list_code less_char_def
      sample_world_def)

lemma sweep_world_view:
  "view sample_env sweep_world ''niocti3000k'' = AskOrder_SerializeToString the_ask"
  "view sample_env sweep_world ''niocti4000b'' = BidOrder_SerializeToString the_bid"
  using sweep_world_ok(2)
  by (simp_all add: view_overlay) (simp_all add: overlay_def sweep_world_def new_Ctx_def map_find_def sample_world_def)


subsection \<open>Deals nobody funded, and old fees\<close>

lemma house_deal_dead:
  assumes "order_expired env (deal_block (deal_from d)) (deal_expiration (deal_from d)) b = Inr x"
    and "\<not> (x \<and> deal_loan_transfer (deal_from d) = [])"
  shows "house_deal env b k d w = (Inr (), w)"
  using assms by (cases x) (simp_all add: house_deal_def Let_def expired_at_def act_step ret_def)



lemma wallet_bytes:
  assumes "wallet_amount m \<noteq> []"
  shows "\<exists>t. Wallet_SerializeToString m = CHR 0x0A # t"
proof -
  have "WriteVarint32ToArray (MakeTag 1 2) = [CHR 0x0A]" by (simp add: WriteVarint32_nat MakeTag_nat varint_nat.simps char_of_def bit_0)
  then show ?thesis using assms by (simp add: Wallet_SerializeToString_def str_out_def WriteStringToArray_def)
qed


definition old_fee :: Fee where
  "old_fee = Fee_Clear\<lparr>fee_sighash := ''bob'', fee_block := ''95''\<rparr>"


end
