(* ===== verification/Confirmation.thy ===== *)
theory Confirmation
  imports Cleanup
begin

section \<open>Rewards and the confirmed block\<close>

subsection \<open>The reward of a block\<close>

lemma award_paid:
  assumes s: "session_ok env w" "bigint_ok env" "clean_wallets env (view env w)"
      "bigint env REWARD_AMOUNT_STRING = Inr REWARD_AMOUNT"
    and small: "\<forall>t. balance env (view env w) t + REWARD_AMOUNT < max_amount"
    and run: "award env False i miner w = (Inr u, w')"
  shows "session_ok env w' \<and> same_session env w w' \<and> clean_wallets env (view env w') \<and>
    (\<forall>t. balance env (view env w') t = balance env (view env w) t + (if sha512id env miner = Inr t then REWARD_AMOUNT else 0))"
proof -
  have pos: "0 < REWARD_AMOUNT" by (simp add: REWARD_AMOUNT_def)
  obtain r wallet where r: "sha512id env miner = Inr r"
    and c: "credited env (view env w (walletIdOf env r)) REWARD_AMOUNT_STRING REWARD_AMOUNT wallet"
    and set: "setStates env [(walletIdOf env r, Wallet_SerializeToString wallet)] w = (Inr u, w')"
    using run pos by (auto simp: award_def Let_def act_ok state.rd_ok [OF s(1)])
  note v = state.wr_ok [OF s(1) set]
  have view: "view env w' = (view env w)(walletIdOf env r := Wallet_SerializeToString wallet)" using v by simp
  have clean: "wallet_unknown (wallet_from (view env w (walletIdOf env t))) = []" for t
    using s(3) by (simp add: clean_wallets_def)
  have len: "length REWARD_AMOUNT_STRING < 2 ^ 31" by (simp add: REWARD_AMOUNT_STRING_def)
  note mine = credited_balance [where st = "view env w" and st' = "view env w'" and s = r, OF s(2) c s(4) len clean _]
  have mine: "balance env (view env w') r = balance env (view env w) r + REWARD_AMOUNT"
      "wallet_unknown (wallet_from (view env w' (walletIdOf env r))) = []"
    using mine small by (simp_all add: view)
  have other: "view env w' (walletIdOf env t) = view env w (walletIdOf env t)" if "t \<noteq> r" for t
    using that by (simp add: view)
  have "balance env (view env w') t = balance env (view env w) t + (if sha512id env miner = Inr t then REWARD_AMOUNT else 0)" for t
    using mine(1) r other [of t] balance_same [of "view env w'" env t "view env w"] by (cases "t = r") auto
  moreover have "clean_wallets env (view env w')"
    unfolding clean_wallets_def using mine(2) other clean by metis
  ultimately show ?thesis using v by blast
qed

lemma awards_paid:
  assumes s: "session_ok env w" "bigint_ok env" "clean_wallets env (view env w)"
      "bigint env REWARD_AMOUNT_STRING = Inr REWARD_AMOUNT"
    and small: "\<forall>t. balance env (view env w) t + REWARD_AMOUNT * int (length is) < max_amount"
    and run: "forEach is (award_block env False) w = (Inr u, w')"
  shows "\<forall>t. balance env (view env w') t = balance env (view env w) t + REWARD_AMOUNT *
    int (length (List.filter (\<lambda>i. sha512id env (block_signer (blocks w ! nat (to_int env i))) = Inr t) is))"
  using s(1,3) small run
proof (induction "is" arbitrary: w)
  case Nil
  then show ?case by (simp add: act_ok)
next
  case (Cons i "is")
  obtain w1 where block: "award_block env False i w = (Inr (), w1)" and rest: "forEach is (award_block env False) w1 = (Inr u, w')"
    using Cons.prems(4) by (auto simp: act_ok)
  have one: "award env False i (block_signer (blocks w ! nat (to_int env i))) w = (Inr (), w1)"
    using block by (auto simp: award_block_def Let_def act_ok split: if_splits)
  have "REWARD_AMOUNT \<le> REWARD_AMOUNT * int (length (i # is))" by (simp add: REWARD_AMOUNT_def)
  then have "\<forall>t. balance env (view env w) t + REWARD_AMOUNT < max_amount" using Cons.prems(3) by (meson add_left_mono le_less_trans)
  from award_paid [OF Cons.prems(1) s(2) Cons.prems(2) s(4) this one]
  have w1: "session_ok env w1" "blocks w1 = blocks w" "clean_wallets env (view env w1)"
    and b: "\<And>t. balance env (view env w1) t = balance env (view env w) t +
      (if sha512id env (block_signer (blocks w ! nat (to_int env i))) = Inr t then REWARD_AMOUNT else 0)"
    using same_session_simps(9) by blast+
  have "balance env (view env w1) t + REWARD_AMOUNT * int (length is) < max_amount" for t
  proof -
    have "balance env (view env w1) t \<le> balance env (view env w) t + REWARD_AMOUNT" by (simp add: b REWARD_AMOUNT_def)
    moreover have "REWARD_AMOUNT * int (length (i # is)) = REWARD_AMOUNT + REWARD_AMOUNT * int (length is)"
      by (simp add: algebra_simps)
    ultimately show ?thesis using Cons.prems(3) [rule_format, of t] by linarith
  qed
  from Cons.IH [OF w1(1,3) _ rest] this show ?case by (auto simp: b w1(2) algebra_simps)
qed

text \<open>When replaying, a request for the next ten rewards (block 0) pays nobody: the loop runs down from 0.\<close>

lemma replayed_request_pays_nobody:
  assumes "ctx_transitioning (ctx w)" and "0 \<le> p"
  shows "reward env p 0 w = (Inr (), w)"
  using assms by (simp add: reward_def reward_transitioning_def act_run to_rpc_failure_def)


definition mined_world :: "(string \<Rightarrow> string) world" where
  "mined_world = (sample_world [] ''alice'')\<lparr>blocks :=
     [\<lparr>block_signer = ''genesis'', block_txs = []\<rparr>, \<lparr>block_signer = ''miner'', block_txs = []\<rparr>]\<rparr>"

lemma mined_world_ok:
  "session_ok sample_env mined_world" "view sample_env mined_world = (\<lambda>_. [])" "ctx_transitioning (ctx mined_world)"
  "ctx_tip (ctx mined_world) = 100" "blocks mined_world ! 1 = \<lparr>block_signer = ''miner'', block_txs = []\<rparr>"
  "length (blocks mined_world) = 2"
proof -
  show "session_ok sample_env mined_world"
    using sample_session_ok [of "[]" "''alice''"] by (simp add: session_ok_def mined_world_def)
  show t: "ctx_transitioning (ctx mined_world)" by (simp add: mined_world_def sample_world_def)
  show "view sample_env mined_world = (\<lambda>_. [])"
    using t by (auto simp: view_overlay overlay_def mined_world_def sample_world_def fun_eq_iff)
qed (simp_all add: mined_world_def sample_world_def)

lemma literal_reward: "bigint sample_env REWARD_AMOUNT_STRING = Inr REWARD_AMOUNT"
  by (simp add: sample_bigint read_integer_def split_sign_def digits_only_def isdigit_def dec_val_def digit_val_def
      REWARD_AMOUNT_STRING_def REWARD_AMOUNT_def)


subsection \<open>What every step keeps\<close>

definition keeps :: "('s \<Rightarrow> bool) \<Rightarrow> ('s, 'a) act \<Rightarrow> bool" where
  \<comment> \<open>an action that returns keeps the predicate\<close>
  "keeps P m \<longleftrightarrow> (\<forall>s x s'. P s \<longrightarrow> m s = (Inr x, s') \<longrightarrow> P s')"

lemma keeps_bnd: "keeps P m \<Longrightarrow> (\<And>x. keeps P (f x)) \<Longrightarrow> keeps P (bnd m f)"
  unfolding keeps_def by (intro allI impI) (metis bnd_ok)

lemma keeps_then: "keeps P m \<Longrightarrow> P s \<Longrightarrow> bnd m f s = (Inr y, s') \<Longrightarrow> \<exists>x s1. P s1 \<and> f x s1 = (Inr y, s')"
  unfolding keeps_def by (metis bnd_ok)

lemma keeps_simple: "keeps P (ret x)" "keeps P (throw e)" "keeps P (lift r)" "keeps P (reads g)" "keeps P (throwIf b msg)"
  by (auto simp: keeps_def act_ok)

lemma keeps_pure: "pure_act m \<Longrightarrow> keeps P m"
  unfolding keeps_def using pure_actD by metis

lemma keeps_if: "keeps P m \<Longrightarrow> keeps P n \<Longrightarrow> keeps P (if b then m else n)"
  by simp

lemma keeps_prod: "(\<And>a b. keeps P (f a b)) \<Longrightarrow> keeps P (case p of (a, b) \<Rightarrow> f a b)"
  by (cases p) simp

lemma keeps_forEach: "(\<And>x. keeps P (f x)) \<Longrightarrow> keeps P (forEach xs f)"
  by (induction xs) (auto intro: keeps_bnd keeps_simple)

definition pages_keep :: "('s \<Rightarrow> bool) \<Rightarrow> 'v env \<Rightarrow> ('s \<Rightarrow> 'v) \<Rightarrow> string \<Rightarrow> 's lister \<Rightarrow> bool" where
  \<comment> \<open>visiting the entries of any page keeps the predicate\<close>
  "pages_keep P env val prefix lister \<longleftrightarrow> (\<forall>w root start page root1 start1. P w \<longrightarrow>
     GetStatesByPrefix env (val w) prefix root start = Inr (page, root1, start1) \<longrightarrow>
     keeps P (forEach page (\<lambda>(k, d). lister k d)))"

definition walks :: "(string \<Rightarrow> 's \<Rightarrow> bool) \<Rightarrow> ('s \<Rightarrow> bool) \<Rightarrow> 'v env \<Rightarrow> ('s \<Rightarrow> 'v) \<Rightarrow> string \<Rightarrow> 's lister \<Rightarrow> bool" where
  \<comment> \<open>visiting the page at a position leads to the next position, or to the end\<close>
  "walks P Q env val prefix lister \<longleftrightarrow> (\<forall>w root start page root1 start1 w1. P start w \<longrightarrow>
     GetStatesByPrefix env (val w) prefix root start = Inr (page, root1, start1) \<longrightarrow>
     forEach page (\<lambda>(k, d). lister k d) w = (Inr (), w1) \<longrightarrow> (if start1 = [] then Q w1 else P start1 w1))"

lemma page_step:
  assumes IH: "\<And>env val prefix lister root start w y. f env val prefix lister root start w = Some y \<Longrightarrow>
      walks P Q env val prefix lister \<longrightarrow> P start w \<longrightarrow> fst y = Inr u \<longrightarrow> Q (snd y)"
    and step: "(case GetStatesByPrefix env (val w) prefix root start of
        Inl e \<Rightarrow> Some (Inl e, w)
      | Inr (page, root1, start1) \<Rightarrow>
          (case forEach page (\<lambda>(k, d). lister k d) w of
             (Inl e, w1) \<Rightarrow> Some (Inl e, w1)
           | (Inr _, w1) \<Rightarrow> if start1 = [] then Some (Inr (), w1) else f env val prefix lister root1 start1 w1)) = Some y"
  shows "walks P Q env val prefix lister \<longrightarrow> P start w \<longrightarrow> fst y = Inr u \<longrightarrow> Q (snd y)"
proof (intro impI)
  assume l: "walks P Q env val prefix lister" and w: "P start w" and ok: "fst y = Inr u"
  obtain page root1 start1 where p: "GetStatesByPrefix env (val w) prefix root start = Inr (page, root1, start1)"
    using step ok by (cases "GetStatesByPrefix env (val w) prefix root start") auto
  obtain r w1 where r: "forEach page (\<lambda>(k, d). lister k d) w = (r, w1)" by fastforce
  have "r = Inr ()" using step ok by (cases r) (auto simp: p r)
  then have run: "forEach page (\<lambda>(k, d). lister k d) w = (Inr (), w1)" using r by simp
  have "if start1 = [] then Q w1 else P start1 w1" using l w p run unfolding walks_def by blast
  then show "Q (snd y)" using step ok l IH [of env val prefix lister root1 start1 w1 y] by (auto simp: p run split: if_splits)
qed

lemma walk_pages:
  assumes "walks P Q env val prefix lister"
    and "filter_pages (env :: 'a env) (val :: 'b \<Rightarrow> 'a) prefix lister root start w = Some (Inr u, w')" and "P start w"
  shows "Q w'"
proof -
  define R where "R = (\<lambda>(env :: 'a env) (val :: 'b \<Rightarrow> 'a) (prefix :: string) (lister :: 'b lister) (root :: string) start w (y :: (err + unit) \<times> 'b).
      walks P Q env val prefix lister \<longrightarrow> P start w \<longrightarrow> fst y = Inr u \<longrightarrow> Q (snd y))"
  have "R env val prefix lister root start w (Inr u, w')"
    by (rule filter_pages.raw_induct [where P = R, OF _ assms(2)]) (unfold R_def, rule page_step [rotated], assumption, blast)
  then show ?thesis using assms(1,3) by (simp add: R_def)
qed

lemma keeps_pages:
  assumes "pages_keep P env val prefix lister"
    and "filter_pages env val prefix lister root start w = Some (Inr u, w')" and "P w"
  shows "P w'"
proof (rule walk_pages [where P = "\<lambda>_. P", OF _ assms(2,3)])
  show "walks (\<lambda>_. P) P env val prefix lister"
    using assms(1) unfolding walks_def pages_keep_def keeps_def if_cancel by blast
qed

lemma keeps_writes:
  "keeps (session_ok env) (setStates env kvs)" "keeps (session_ok env) (deleteState env k)"
  "keeps (session_ok env) (setState_raw env d k)" "keeps (session_ok env) (setState_uptr env d k)"
proof -
  show "keeps (session_ok env) (setStates env kvs)" unfolding keeps_def using state.wr_ok by blast
  show "keeps (session_ok env) (deleteState env k)" unfolding keeps_def using state.del_ok by blast
  have raw: "keeps (session_ok env) (setState_raw env d k)" for d k
    unfolding keeps_def by (auto dest: setState_raw_effect [of env _ d k])
  then show "keeps (session_ok env) (setState_raw env d k)" "keeps (session_ok env) (setState_uptr env d k)"
    by (simp_all add: setState_uptr_def)
qed

lemma keeps_reads: "keeps P (getStateData env k existing)" "keeps P (getState env k)" "keeps P (lastBlockInt env)"
  "keeps P (credit env d t n)"
  using keeps_pure [OF pure_getStateData] keeps_pure [OF pure_credit]
  by (auto simp: getState_def lastBlockInt_def intro: keeps_simple)

lemmas keeps_intros = keeps_bnd keeps_if keeps_prod keeps_simple keeps_reads keeps_writes keeps_forEach

lemma keeps_listers:
  "keeps (session_ok env) (house_ask env b k d)" "keeps (session_ok env) (house_bid env b k d)"
  "keeps (session_ok env) (house_offer env b k d)" "keeps (session_ok env) (house_deal env b k d)"
  "keeps (session_ok env) (house_repayment env b k d)" "keeps (session_ok env) (house_fee env b k d)"
  unfolding house_ask_def house_bid_def house_offer_def house_deal_def house_repayment_def house_fee_def Let_def expired_at_def
  by (intro keeps_intros)+

lemma keeps_filter_entries:
  assumes t: "\<And>w. P w \<Longrightarrow> ctx_transitioning (ctx w) \<Longrightarrow>
      keeps P (forEach (overlay_entries w (namespacePrefix env @ kind)) (\<lambda>(k, d). lister k d))"
    and n: "\<And>w. P w \<Longrightarrow> \<not> ctx_transitioning (ctx w) \<Longrightarrow> pages_keep P env validator (namespacePrefix env @ kind) lister"
  shows "keeps P (filter_kind env kind lister)"
  unfolding keeps_def filter_kind_def filter_states_def
proof (intro allI impI)
  fix w x w'
  let ?pre = "namespacePrefix env @ kind"
  assume w: "P w" and run: "(if ctx_transitioning (ctx w) then forEach (overlay_entries w ?pre) (\<lambda>(k, d). lister k d) w
      else case filter_pages env validator ?pre lister [] [] w of None \<Rightarrow> (Inl (Aborted ''filter''), w)
        | Some (r, w1) \<Rightarrow> (to_invalid r, w1)) = (Inr x, w')"
  have "P w1" if "\<not> ctx_transitioning (ctx w)" "filter_pages env validator ?pre lister [] [] w = Some (r, w1)" "to_invalid r = Inr x" for r w1
  proof -
    have "r = Inr x" using that(3) by (auto simp: to_invalid_def split: sum.splits err.splits)
    then show ?thesis using keeps_pages [OF n [OF w that(1)]] that(2) w by blast
  qed
  then show "P w'" using run t [OF w] w unfolding keeps_def
    by (auto split: if_splits option.splits)
qed

lemma keeps_filter: "(\<And>k d. keeps P (lister k d)) \<Longrightarrow> keeps P (filter_kind env kind lister)"
  by (rule keeps_filter_entries) (auto simp: pages_keep_def intro!: keeps_forEach keeps_prod)

lemma keeps_award:
  assumes "\<And>s d. keeps P (setStates env [(walletIdOf env s, d)])"
  shows "keeps P (award env f i miner)"
  unfolding award_def Let_def
  by (intro keeps_bnd keeps_if keeps_prod keeps_simple keeps_reads assms) (auto intro: keeps_simple split: option.split)

lemma keeps_reward:
  assumes "\<And>s d. keeps P (setStates env [(walletIdOf env s, d)])"
  shows "keeps P (reward env p u)"
proof -
  note rules = keeps_bnd keeps_if keeps_prod keeps_simple keeps_reads keeps_forEach keeps_award assms
  have t: "keeps P (reward_transitioning env p u)"
    unfolding reward_transitioning_def award_block_def Let_def by (intro rules)
  have n: "keeps P (reward_normal env p u)"
    unfolding reward_normal_def Let_def by (intro rules)
  have "P w'" if w: "P w" and run: "reward env p u w = (Inr x, w')" for w x w'
  proof (cases "if ctx_transitioning (ctx w) then reward_transitioning env p u w else reward_normal env p u w")
    case (Pair r w1)
    then have "to_rpc_failure r = Inr x" "w1 = w'" using run by (auto simp: reward_def split: if_splits)
    then have "r = Inr x" by (auto simp: to_rpc_failure_def split: sum.splits err.splits)
    then show ?thesis using Pair w t n \<open>w1 = w'\<close>
      unfolding keeps_def by (metis (full_types))
  qed
  then show ?thesis unfolding keeps_def by blast
qed

lemma verifyGatewaySigner_keeps:
  assumes "verifyGatewaySigner env w = (Inr u, w1)"
  shows "view env w1 = view env w \<and> tip_of env w1 = tip_of env w \<and> session_ok env w1 = session_ok env w"
proof -
  have a: "view env (apply_settings env m w) = view env w \<and> tip_of env (apply_settings env m w) = tip_of env w \<and>
      session_ok env (apply_settings env m w) = session_ok env w" for m
    by (auto simp: apply_settings_def Let_def view_def overlay_def tip_of_def session_ok_def fun_eq_iff
        split: option.split sum.split)
  have "w1 = w \<or> (\<exists>m. w1 = apply_settings env m w)"
    using assms by (auto simp: verifyGatewaySigner_def doUpdateSettings_def act_ok
        split: if_splits option.splits sum.splits prod.splits err.splits)
  then show ?thesis using a by auto
qed

lemma confirmed_before_write:
  assumes "housekeeping_confirmed env prev b w = (Inr u, w')" and "session_ok env w"
  shows "\<exists>w1. session_ok env w1 \<and> setState_uptr env (processedBlockAddress env) (toString env b) w1 = (Inr u, w')"
proof -
  let ?before = "bnd (filter_kind env ASK_ORDER (house_ask env b)) (\<lambda>_.
     bnd (filter_kind env BID_ORDER (house_bid env b)) (\<lambda>_.
     bnd (filter_kind env OFFER (house_offer env b)) (\<lambda>_.
     bnd (filter_kind env DEAL_ORDER (house_deal env b)) (\<lambda>_.
     bnd (filter_kind env REPAYMENT_ORDER (house_repayment env b)) (\<lambda>_.
     bnd (filter_kind env FEE (house_fee env b)) (\<lambda>_. reward env prev b))))))"
  have k: "keeps (session_ok env) ?before"
    by (intro keeps_bnd keeps_filter keeps_listers keeps_reward keeps_writes)
  have "bnd ?before (\<lambda>_. setState_uptr env (processedBlockAddress env) (toString env b)) w = (Inr u, w')"
    using assms(1) by (simp add: housekeeping_confirmed_def bnd_assoc)
  from keeps_then [OF k assms(2) this] show ?thesis by simp
qed

text \<open>C20. The processed block only advances, and only over confirmed blocks: a block number from the gateway
  is recorded exactly when it is at least 60, above the last one and more than 30 below the
  tip, otherwise the command changes nothing; without a number (0) the record moves by ten
  blocks, when the last one is more than 70 behind.\<close>

theorem processed_block_only_advances:
  assumes s: "session_ok env w" "bigint_ok env"
    and q: "query_bigint env query ''p1'' ''blockIdx'' = Inr (t, b)"
    and last: "if view env w (processedBlockAddress env) = [] then prev = 0
      else bigint env (view env w (processedBlockAddress env)) = Inr prev"
    and run: "Housekeeping env query w = (Inr u, w')"
  shows "if b = 0 \<and> prev + 70 < tip_of env w then bigint env (view env w' (processedBlockAddress env)) = Inr (prev + 10)
    else if b \<noteq> 0 \<and> 60 \<le> b \<and> prev < b \<and> b < tip_of env w - 30
    then bigint env (view env w' (processedBlockAddress env)) = Inr b
    else view env w' = view env w"
proof -
  let ?p = "processedBlockAddress env"
  have "0 \<le> prev" "0 \<le> b" using last q bigint_nonneg
    by (auto simp: query_bigint_def sbnd_ok split: if_splits)
  have numbers: "CONFIRMATION_COUNT * 2 = 60" "CONFIRMATION_COUNT * 2 + BLOCK_REWARD_PROCESSING_COUNT = 70"
    "CONFIRMATION_COUNT = 30" "BLOCK_REWARD_PROCESSING_COUNT = 10"
    by (simp_all add: CONFIRMATION_COUNT_def BLOCK_REWARD_PROCESSING_COUNT_def)
  have stored: "bigint env (view env w2 ?p) = Inr n"
    if "setState_uptr env ?p (toString env n) w1 = (Inr u, w2)" "session_ok env w1" "0 \<le> n" for w1 w2 n and u :: unit
    using setState_raw_effect [OF that(2), of "toString env n" ?p] that(1,3) bigint_toString [OF s(2)]
    by (auto simp: setState_uptr_def)
  have read: "(if view env w ?p = [] then ret 0 else lift (bigint env (view env w ?p))) w = (Inr prev, w)"
    using last by (auto simp: ret_def lift_def)
  note start = run [unfolded Housekeeping_def, simplified act_ok q state.rd_ok [OF s(1)]]
  show ?thesis
  proof (cases "b = 0")
    case True
    have "if prev + 70 < tip_of env w then \<exists>w1. reward env prev 0 w = (Inr (), w1) \<and>
        setState_uptr env ?p (toString env (prev + 10)) w1 = (Inr u, w') else w' = w"
      using run True read
      by (simp add: Housekeeping_def q act_step state.rd_run [OF s(1)] tip_read [OF s(1)] numbers act_ok split: if_splits)
    then show ?thesis using True stored [of "prev + 10"] keeps_reward [OF keeps_writes(1), of env prev 0] s(1) \<open>0 \<le> prev\<close>
      unfolding keeps_def by (auto split: if_splits)
  next
    case False
    obtain w1 where w1: "verifyGatewaySigner env w = (Inr (), w1)"
      and rest: "(if b < 60 \<or> b \<le> prev then ret () else bnd (lastBlockInt env) (\<lambda>tip.
         if tip - 30 \<le> b then ret () else housekeeping_confirmed env prev b)) w1 = (Inr u, w')"
      using run [unfolded Housekeeping_def numbers] False read
      by (simp add: q act_step state.rd_run [OF s(1)]) (auto simp: act_ok)
    have v: "view env w1 = view env w" "tip_of env w1 = tip_of env w" "session_ok env w1"
      using verifyGatewaySigner_keeps [OF w1] s(1) by simp_all
    have "bigint env (view env w' ?p) = Inr b" if c: "housekeeping_confirmed env prev b w1 = (Inr u, w')"
    proof -
      obtain w2 where w2: "session_ok env w2" "setState_uptr env ?p (toString env b) w2 = (Inr u, w')"
        using confirmed_before_write [OF c v(3)] by blast
      then show ?thesis using stored \<open>0 \<le> b\<close> by blast
    qed
    then show ?thesis using rest False v by (auto simp: tip_read [OF v(3)] act_step act_ok split: if_splits)
  qed
qed

theorem processed_block_only_advances_witness:
  "\<exists>w'. Housekeeping sample_env (text_query [(''p1'', ''0'')]) (sample_world [] ''alice'') = (Inr (), w') \<and>
    bigint sample_env (view sample_env w' (processedBlockAddress sample_env)) = Inr 10"
proof -
  let ?w = "sample_world [] ''alice''"
  have p: "\<forall>(k, v) \<in> set [(''p1'', ''0'')]. plain v" by (simp add: plain_def)
  have "bigint sample_env ''0'' = Inr 0"
    by (simp add: sample_bigint read_integer_def split_sign_def digits_only_def isdigit_def dec_val_def digit_val_def)
  then have q: "query_bigint sample_env (text_query [(''p1'', ''0'')]) ''p1'' ''blockIdx'' = Inr (''0'', 0)"
    using text_query_string [OF p] by (simp add: query_bigint_def sbnd_def)
  have none: "reward sample_env 0 0 ?w = (Inr (), ?w)"
    by (simp add: reward_def reward_transitioning_def act_run to_rpc_failure_def) (simp add: sample_world_def)
  obtain w' where set: "setState_uptr sample_env (processedBlockAddress sample_env) (toString sample_env 10) ?w = (Inr (), w')"
    using setState_raw_effect [OF sample_session_ok] unfolding setState_uptr_def by blast
  have run: "Housekeeping sample_env (text_query [(''p1'', ''0'')]) ?w = (Inr (), w')"
    using set by (simp add: Housekeeping_def q act_step none CONFIRMATION_COUNT_def BLOCK_REWARD_PROCESSING_COUNT_def ret_def)
  have "if view sample_env ?w (processedBlockAddress sample_env) = [] then (0 :: int) = 0
      else bigint sample_env (view sample_env ?w (processedBlockAddress sample_env)) = Inr 0" by simp
  from processed_block_only_advances [OF sample_session_ok sample_bigint_ok q this run]
  show ?thesis using run by simp
qed

end
