(* ===== verification/Tidying.thy ===== *)
theory Tidying
  imports Confirmation Registration Transfers
begin

section \<open>What housekeeping leaves alone\<close>

text \<open>
  Housekeeping walks over whole kinds of the state.  Whatever it finds, an entry it touches is
  an order past its expiration, a deal nobody funded, a fee of more than a year ago, a wallet,
  or its own record of the processed block; so what addresses, transfers, collected ids and
  funded deals say stays, over any number of commands of any kind.
\<close>

subsection \<open>Entries it may remove\<close>

definition removable :: "'v env \<Rightarrow> int \<Rightarrow> string \<Rightarrow> string \<Rightarrow> bool" where
  \<comment> \<open>an entry that may go when block b is confirmed\<close>
  "removable env b k d \<longleftrightarrow>
     (at_kind env ASK_ORDER k \<and> order_expired env (ask_block (ask_from d)) (ask_expiration (ask_from d)) b = Inr True) \<or>
     (at_kind env BID_ORDER k \<and> order_expired env (bid_block (bid_from d)) (bid_expiration (bid_from d)) b = Inr True) \<or>
     (at_kind env OFFER k \<and> order_expired env (offer_block (offer_from d)) (offer_expiration (offer_from d)) b = Inr True) \<or>
     (at_kind env DEAL_ORDER k \<and> order_expired env (deal_block (deal_from d)) (deal_expiration (deal_from d)) b = Inr True \<and>
        deal_loan_transfer (deal_from d) = []) \<or>
     (at_kind env REPAYMENT_ORDER k \<and>
        order_expired env (repayment_block (repayment_from d)) (repayment_expiration (repayment_from d)) b = Inr True \<and>
        repayment_previous_owner (repayment_from d) = []) \<or>
     (at_kind env FEE k \<and> (\<exists>start. read_cpp_int env (fee_block (fee_from d)) = Some start \<and> YEAR_OF_BLOCKS < b - start))"

definition free_entry :: "'v env \<Rightarrow> string \<Rightarrow> bool" where
  \<comment> \<open>wallets, the record of the processed block, and what is not under the namespace\<close>
  "free_entry env k \<longleftrightarrow> (\<exists>s. k = walletIdOf env s) \<or> k = processedBlockAddress env \<or> \<not> starts_with (namespacePrefix env) k"

definition tidied :: "'v env \<Rightarrow> int \<Rightarrow> (string \<Rightarrow> string) \<Rightarrow> (string \<Rightarrow> string) \<Rightarrow> bool" where
  "tidied env b st st' \<longleftrightarrow> (\<forall>k. \<not> free_entry env k \<longrightarrow> st' k = st k \<or> st' k = [] \<and> removable env b k (st k))"

lemma tidied_refl [simp]: "tidied env b st st"
  by (simp add: tidied_def)

lemma tidied_free: "tidied env b st st' \<Longrightarrow> free_entry env k \<Longrightarrow> tidied env b st (st'(k := d))"
  by (simp add: tidied_def)

lemma tidied_delete: "tidied env b st st' \<Longrightarrow> removable env b k (st k) \<Longrightarrow> tidied env b st (st'(k := []))"
  by (simp add: tidied_def)

lemma processed_kind: "at_kind env PROCESSED_BLOCK (processedBlockAddress env)"
  by (simp add: at_kind_def starts_with_iff processedBlockAddress_def)

lemma free_entry_kinds:
  assumes "at_kind env p k" and "length p = 4" and "p \<noteq> WALLET" and "p \<noteq> PROCESSED_BLOCK"
  shows "\<not> free_entry env k"
  using at_kind_differs [OF assms(1) at_kind_wallet assms(2)] at_kind_differs [OF assms(1) processed_kind assms(2)] assms
  by (auto simp: free_entry_def at_kind_def starts_with_iff kind_defs)

subsection \<open>The pages of a listing\<close>

text \<open>
  In normal operation the entries come from the validator, through the state of the chain's
  head, in pages.  The hypothesis about it: while the command writes, the pages go on showing
  the state in which it started.
\<close>

inductive written :: "'v env \<Rightarrow> 'v \<Rightarrow> 'v \<Rightarrow> bool" for env where
  none: "written env v v"
| set: "written env v v1 \<Longrightarrow> SetState env kvs v1 = (r, v2) \<Longrightarrow> written env v v2"
| delete: "written env v v1 \<Longrightarrow> DeleteState env k v1 = (r, v2) \<Longrightarrow> written env v v2"

definition listing_ok :: "'v env \<Rightarrow> 'v world \<Rightarrow> bool" where
  "listing_ok env w \<longleftrightarrow>
     (if ctx_transitioning (ctx w) then layers_sorted w
      else \<forall>v prefix root start page root1 start1. written env (validator w) v \<longrightarrow>
        GetStatesByPrefix env v prefix root start = Inr (page, root1, start1) \<longrightarrow>
        (\<forall>(k, d) \<in> set page. starts_with prefix k \<and> d = view env w k))"

definition tidying :: "'v env \<Rightarrow> int \<Rightarrow> 'v world \<Rightarrow> 'v world \<Rightarrow> bool" where
  \<comment> \<open>a state that housekeeping passes through when it starts in w0\<close>
  "tidying env b w0 w \<longleftrightarrow> session_ok env w \<and> same_session env w0 w \<and> (layers_sorted w0 \<longrightarrow> layers_sorted w) \<and>
     (\<not> ctx_transitioning (ctx w0) \<longrightarrow> written env (validator w0) (validator w)) \<and>
     tidied env b (view env w0) (view env w)"

lemma tidying_start: "session_ok env w \<Longrightarrow> tidying env b w w"
  by (simp add: tidying_def written.none)

lemma write_keeps_layers:
  assumes "bnd (modifies (\<lambda>w. if ctx_transitioning (ctx w) then set_current kvs w else w))
      (\<lambda>_. unless_replaying (on_validator f)) w = (Inr u, w')"
  shows "layers_sorted w \<Longrightarrow> layers_sorted w'"
    and "validator w' = validator w \<or> (\<exists>r. f (validator w) = (r, validator w'))"
  using assms layers_sorted_kept(1) [of w kvs]
  by (auto simp: act_ok unless_replaying_def on_validator_def layers_sorted_def set_current_def
      split: if_splits prod.splits)

lemma tidying_write:
  assumes w: "tidying env b w0 w"
    and m: "m = bnd (modifies (\<lambda>w. if ctx_transitioning (ctx w) then set_current kvs w else w))
      (\<lambda>_. unless_replaying (on_validator f))"
    and f: "f = SetState env kvs' \<or> f = DeleteState env k'"
    and run: "m w = (Inr u, w')" "session_ok env w'" "same_session env w w'"
    and t: "tidied env b (view env w0) (view env w')"
  shows "tidying env b w0 w'"
proof -
  have v: "written env (validator w0) (validator w')" if "written env (validator w0) (validator w)"
    using write_keeps_layers(2) [OF run(1) [unfolded m]] f that by (auto intro: written.intros)
  show ?thesis
    using w run(2,3) t v write_keeps_layers(1) [OF run(1) [unfolded m]] same_session_trans [of env w0 w w']
    by (auto simp: tidying_def)
qed

lemma tidying_session: "tidying env b w0 w \<Longrightarrow> session_ok env w"
  by (simp add: tidying_def)

lemma keeps_tidying_writes:
  "free_entry env k \<Longrightarrow> keeps (tidying env b w0) (setStates env [(k, d)])"
  "free_entry env k \<Longrightarrow> keeps (tidying env b w0) (setState_raw env d k)"
  "removable env b k (view env w0 k) \<Longrightarrow> keeps (tidying env b w0) (deleteState env k)"
proof -
  show "keeps (tidying env b w0) (setStates env [(k, d)])" if "free_entry env k"
    unfolding keeps_def
  proof (intro allI impI)
    fix w x w'
    assume w: "tidying env b w0 w" and run: "setStates env [(k, d)] w = (Inr x, w')"
    note e = state.wr_ok [OF tidying_session [OF w] run]
    show "tidying env b w0 w'"
      by (rule tidying_write [OF w setStates_def disjI1 [OF refl] run])
        (use e w that in \<open>simp_all add: tidying_def tidied_free\<close>)
  qed
  then show "keeps (tidying env b w0) (setState_raw env d k)" if "free_entry env k"
    using that by (simp add: setStates_def setState_raw_def)
  show "keeps (tidying env b w0) (deleteState env k)" if "removable env b k (view env w0 k)"
    unfolding keeps_def
  proof (intro allI impI)
    fix w x w'
    assume w: "tidying env b w0 w" and run: "deleteState env k w = (Inr x, w')"
    note e = state.del_ok [OF tidying_session [OF w] run]
    show "tidying env b w0 w'"
      by (rule tidying_write [OF w deleteState_def disjI2 [OF refl] run])
        (use e w that in \<open>simp_all add: tidying_def tidied_delete\<close>)
  qed
qed

lemma keeps_lift: "(\<And>x. r = Inr x \<Longrightarrow> keeps P (f x)) \<Longrightarrow> keeps P (bnd (lift r) f)"
  unfolding keeps_def by (auto simp: act_ok)

lemma keeps_forEach_in: "(\<And>x. x \<in> set xs \<Longrightarrow> keeps P (f x)) \<Longrightarrow> keeps P (forEach xs f)"
  by (induction xs) (auto intro: keeps_bnd keeps_simple)

lemma keeps_when: "(c \<Longrightarrow> keeps P m) \<Longrightarrow> (\<not> c \<Longrightarrow> keeps P n) \<Longrightarrow> keeps P (if c then m else n)"
  by simp

lemma free_wallet: "free_entry env (walletIdOf env s)"
  by (auto simp: free_entry_def)

subsection \<open>The listers\<close>

lemma keeps_orders:
  assumes "d = view env w0 k" and del: "removable env b k (view env w0 k) \<Longrightarrow> keeps P (deleteState env k)"
  shows "at_kind env ASK_ORDER k \<Longrightarrow> keeps P (house_ask env b k d)"
    "at_kind env BID_ORDER k \<Longrightarrow> keeps P (house_bid env b k d)"
    "at_kind env OFFER k \<Longrightarrow> keeps P (house_offer env b k d)"
    "at_kind env REPAYMENT_ORDER k \<Longrightarrow> keeps P (house_repayment env b k d)"
  unfolding house_orders
  by (intro keeps_lift keeps_when keeps_simple del;
      use assms(1) in \<open>auto simp: removable_def sbnd_ok\<close>)+

lemma keeps_tidying_deal:
  assumes "d = view env w0 k" and "at_kind env DEAL_ORDER k"
  shows "keeps (tidying env b w0) (house_deal env b k d)"
proof -
  have "removable env b k (view env w0 k)"
    if "order_expired env (deal_block (deal_from d)) (deal_expiration (deal_from d)) b = Inr x" "x \<and> deal_loan_transfer (deal_from d) = []" for x
    using that assms by (auto simp: removable_def)
  then show ?thesis unfolding house_deal_def Let_def expired_at_def
    by (intro keeps_lift keeps_when keeps_bnd keeps_simple keeps_reads keeps_tidying_writes free_wallet) blast+
qed

lemma wallet_bytes_outside:
  assumes "CHR 0x0A \<notin> set (namespacePrefix env)" and "sha512_ok env" and "wallet_amount m \<noteq> []"
  shows "\<not> starts_with (namespacePrefix env) (Wallet_SerializeToString m)"
proof -
  obtain t where "Wallet_SerializeToString m = CHR 0x0A # t" using wallet_bytes [OF assms(3)] by blast
  then show ?thesis using assms(1) namespacePrefix_length [OF assms(2)]
    by (cases "namespacePrefix env") (auto simp: starts_with_iff)
qed

lemma wallet_bytes_free:
  assumes "CHR 0x0A \<notin> set (namespacePrefix env)" and "sha512_ok env" and "wallet_amount m \<noteq> []"
  shows "free_entry env (Wallet_SerializeToString m)"
  using wallet_bytes_outside [OF assms] by (simp add: free_entry_def)

lemma keeps_tidying_fee:
  assumes "CHR 0x0A \<notin> set (namespacePrefix env)" "sha512_ok env" "bigint_ok env"
    and "d = view env w0 k" and "at_kind env FEE k"
  shows "keeps (tidying env b w0) (house_fee env b k d)"
proof -
  have "removable env b k (view env w0 k)"
    if "(case read_cpp_int env (fee_block (fee_from d)) of None \<Rightarrow> Inl (StdException ''cpp_int'') | Some start \<Rightarrow> Inr start) = Inr start"
      "YEAR_OF_BLOCKS < b - start" for start
    using that assms(4,5) by (auto simp: removable_def split: option.splits)
  moreover have "free_entry env (Wallet_SerializeToString (m\<lparr>wallet_amount := toString env n\<rparr>))" for m n
    using assms(3) by (intro wallet_bytes_free assms) (simp add: bigint_ok_def toString_def)
  ultimately show ?thesis unfolding house_fee_def Let_def
    by (intro keeps_lift keeps_when keeps_bnd keeps_prod keeps_simple keeps_reads keeps_tidying_writes) blast+
qed

lemma keeps_tidying_filter:
  assumes listing: "listing_ok env w0"
    and kind: "length kind = 4" "kind \<noteq> WALLET" "kind \<noteq> PROCESSED_BLOCK"
    and P: "\<And>w. P w \<Longrightarrow> tidying env b w0 w"
    and lister: "\<And>k d. d = view env w0 k \<Longrightarrow> at_kind env kind k \<Longrightarrow> keeps P (lister k d)"
  shows "keeps P (filter_kind env kind lister)"
proof (rule keeps_filter_entries)
  fix w
  assume "P w" and t: "ctx_transitioning (ctx w)"
  then have w: "tidying env b w0 w" using P by blast
  then have same: "same_session env w0 w" and tidied: "tidied env b (view env w0) (view env w)" by (simp_all add: tidying_def)
  have "layers_sorted w" using w listing t same_session_simps(1) [OF same] by (simp add: tidying_def listing_ok_def)
  note e = overlay_entries_exact(2) [OF this t]
  have "d = view env w0 k \<and> at_kind env kind k" if "(k, d) \<in> set (overlay_entries w (namespacePrefix env @ kind))" for k d
  proof -
    have k: "at_kind env kind k" "d = view env w k" "d \<noteq> []"
      using that e [where env = env] by (auto simp: at_kind_def)
    then show ?thesis using tidied free_entry_kinds [OF k(1) kind] by (auto simp: tidied_def)
  qed
  then show "keeps P (forEach (overlay_entries w (namespacePrefix env @ kind)) (\<lambda>(k, d). lister k d))"
    by (intro keeps_forEach_in) (auto intro: lister)
next
  fix w
  assume "P w" and n: "\<not> ctx_transitioning (ctx w)"
  then have "\<not> ctx_transitioning (ctx w0)" using P same_session_simps(1) by (auto simp: tidying_def)
  then have l: "\<forall>v prefix root start page root1 start1. written env (validator w0) v \<longrightarrow>
      GetStatesByPrefix env v prefix root start = Inr (page, root1, start1) \<longrightarrow>
      (\<forall>(k, d) \<in> set page. starts_with prefix k \<and> d = view env w0 k)"
    and v: "\<And>w1. P w1 \<Longrightarrow> written env (validator w0) (validator w1)"
    using listing P by (simp_all add: listing_ok_def tidying_def)
  have page: "d = view env w0 k \<and> at_kind env kind k"
    if "P w1" "GetStatesByPrefix env (validator w1) (namespacePrefix env @ kind) root start = Inr (page, root1, start1)"
      "(k, d) \<in> set page" for w1 root start page root1 start1 k d
    using l [rule_format, OF v [OF that(1)] that(2) that(3)] by (simp add: at_kind_def)
  show "pages_keep P env validator (namespacePrefix env @ kind) lister"
    unfolding pages_keep_def
  proof (intro allI impI keeps_forEach_in)
    fix w1 root start page root1 start1 x
    assume p: "P w1"
      "GetStatesByPrefix env (validator w1) (namespacePrefix env @ kind) root start = Inr (page, root1, start1)" "x \<in> set page"
    obtain k d where x: "x = (k, d)" by fastforce
    have "d = view env w0 k" "at_kind env kind k" using page [OF p(1,2)] p(3) by (simp_all add: x)
    then show "keeps P (case x of (k, d) \<Rightarrow> lister k d)"
      unfolding x prod.case by (rule lister)
  qed
qed

text \<open>What the whole command does.\<close>

lemma tidying_confirmed:
  assumes hyps: "CHR 0x0A \<notin> set (namespacePrefix env)" "sha512_ok env" "bigint_ok env"
    and w: "session_ok env w" "listing_ok env w"
    and run: "housekeeping_confirmed env prev b w = (Inr u, w')"
  shows "tidying env b w w'"
proof -
  have kinds: "length k = 4" "k \<noteq> WALLET" "k \<noteq> PROCESSED_BLOCK"
    if "k \<in> {ASK_ORDER, BID_ORDER, OFFER, DEAL_ORDER, REPAYMENT_ORDER, FEE}" for k
    using that by (auto simp: kind_defs)
  have uptr: "keeps (tidying env b w) (setState_uptr env (processedBlockAddress env) d)" for d
    unfolding setState_uptr_def by (intro keeps_tidying_writes) (simp add: free_entry_def)
  have "keeps (tidying env b w) (housekeeping_confirmed env prev b)"
    unfolding housekeeping_confirmed_def
    by (intro keeps_bnd keeps_tidying_filter [OF w(2) kinds] keeps_orders keeps_tidying_deal
        keeps_tidying_fee [OF hyps] keeps_reward keeps_tidying_writes free_wallet uptr) auto
  then show ?thesis using run tidying_start [OF w(1)] unfolding keeps_def by blast
qed

lemma tidying_rewarded:
  assumes "session_ok env w" and "reward env p 0 w = (Inr u, w1)"
    and "setState_uptr env (processedBlockAddress env) d w1 = (Inr u', w')"
  shows "tidying env b w w'"
proof -
  have "keeps (tidying env b w) (bnd (reward env p 0) (\<lambda>_. setState_uptr env (processedBlockAddress env) d))"
    unfolding setState_uptr_def
    by (intro keeps_bnd keeps_reward keeps_tidying_writes free_wallet) (simp add: free_entry_def)
  moreover have "bnd (reward env p 0) (\<lambda>_. setState_uptr env (processedBlockAddress env) d) w = (Inr u', w')"
    using assms(2,3) by (simp add: act_step)
  ultimately show ?thesis using tidying_start [OF assms(1)] unfolding keeps_def by blast
qed

lemma verifyGatewaySigner_same:
  assumes "verifyGatewaySigner env w = (Inr u, w1)"
  shows "validator w1 = validator w" "ctx w1 = ctx w" "tipCurrentState w1 = tipCurrentState w"
    "transitioningState w1 = transitioningState w" "dealExpFixBlock w1 = dealExpFixBlock w"
proof -
  have a: "validator (apply_settings env m w) = validator w \<and> ctx (apply_settings env m w) = ctx w \<and>
      tipCurrentState (apply_settings env m w) = tipCurrentState w \<and>
      transitioningState (apply_settings env m w) = transitioningState w \<and>
      dealExpFixBlock (apply_settings env m w) = dealExpFixBlock w" for m
    by (auto simp: apply_settings_def Let_def split: option.split sum.split)
  have "w1 = w \<or> (\<exists>m. w1 = apply_settings env m w)"
    using assms by (auto simp: verifyGatewaySigner_def doUpdateSettings_def act_ok
        split: if_splits option.splits sum.splits prod.splits err.splits)
  then show "validator w1 = validator w" "ctx w1 = ctx w" "tipCurrentState w1 = tipCurrentState w"
    "transitioningState w1 = transitioningState w" "dealExpFixBlock w1 = dealExpFixBlock w" using a by auto
qed

lemma Housekeeping_runs:
  assumes s: "session_ok env w" and q: "query_bigint env query ''p1'' ''blockIdx'' = Inr (t, b)"
    and run: "Housekeeping env query w = (Inr u, w')"
  shows "\<exists>prev. w' = w \<or> (\<exists>w1 d. reward env prev 0 w = (Inr (), w1) \<and> setState_uptr env (processedBlockAddress env) d w1 = (Inr u, w')) \<or>
    (\<exists>w1. verifyGatewaySigner env w = (Inr (), w1) \<and> (w' = w1 \<or> housekeeping_confirmed env prev b w1 = (Inr u, w')))"
  using run unfolding Housekeeping_def
  by (auto simp: act_ok q state.rd_ok [OF s] split: if_splits) (auto simp: lastBlockInt_def act_ok split: if_splits)

lemma housekeeping_tidies:
  assumes env: "CHR 0x0A \<notin> set (namespacePrefix env)" "sha512_ok env" "bigint_ok env"
    and w: "session_ok env w" "listing_ok env w"
    and q: "query_bigint env query ''p1'' ''blockIdx'' = Inr (t, b)"
    and run: "Housekeeping env query w = (Inr u, w')"
  shows "session_ok env w' \<and> tidied env b (view env w) (view env w')"
proof -
  consider "w' = w"
    | prev w1 d where "reward env prev 0 w = (Inr (), w1)" "setState_uptr env (processedBlockAddress env) d w1 = (Inr u, w')"
    | prev w1 where "verifyGatewaySigner env w = (Inr (), w1)" "w' = w1 \<or> housekeeping_confirmed env prev b w1 = (Inr u, w')"
    using Housekeeping_runs [OF w(1) q run] by blast
  then show ?thesis
  proof cases
    case 1
    then show ?thesis using w(1) by simp
  next
    case 2
    then show ?thesis using tidying_rewarded [OF w(1)] by (auto simp: tidying_def)
  next
    case 3
    have same: "view env w1 = view env w" "session_ok env w1" "listing_ok env w1"
      using verifyGatewaySigner_keeps [OF 3(1)] w verifyGatewaySigner_same [OF 3(1)]
      by (simp_all add: listing_ok_def layers_sorted_def split: if_splits)
    then show ?thesis using 3(2) tidying_confirmed [OF env same(2,3)] by (auto simp: tidying_def)
  qed
qed

lemma tidying_layers:
  assumes env: "CHR 0x0A \<notin> set (namespacePrefix env)" "sha512_ok env" "bigint_ok env"
    and w: "session_ok env w" "layers_sorted w" "ctx_transitioning (ctx w)"
    and q: "query_bigint env query ''p1'' ''blockIdx'' = Inr (t, b)"
    and run: "Housekeeping env query w = (Inr u, w')"
  shows "layers_sorted w'"
proof -
  have same: "session_ok env w1" "layers_sorted w1" "listing_ok env w1" if "verifyGatewaySigner env w = (Inr (), w1)" for w1
    using verifyGatewaySigner_keeps [OF that] w verifyGatewaySigner_same [OF that]
    by (simp_all add: listing_ok_def layers_sorted_def)
  then show ?thesis
    using Housekeeping_runs [OF w(1) q run] tidying_rewarded [OF w(1)] tidying_confirmed [OF env] w(2)
    unfolding tidying_def by metis
qed

subsection \<open>Any number of commands\<close>

text \<open>
  A run of the processor: accepted commands and housekeeping in any order, with the merges of
  the layers that \<open>doApply\<close> and the replay do in between.  The side conditions are those of
  the parts: small amounts for a command, wallets that a message can hold after housekeeping.
\<close>

definition wallets_stored :: "'v env \<Rightarrow> (string \<Rightarrow> string) \<Rightarrow> bool" where
  \<comment> \<open>no balance has more digits than a message can hold\<close>
  "wallets_stored env st \<longleftrightarrow> (\<forall>s. st (walletIdOf env s) \<noteq> [] \<longrightarrow> Wallet_wf (wallet_from (st (walletIdOf env s))))"

inductive history :: "'v env \<Rightarrow> 'v world \<Rightarrow> 'v world \<Rightarrow> bool" for env where
  start: "history env w w"
| commands: "history env w w1 \<Longrightarrow> accepted env w1 w2 \<Longrightarrow> history env w w2"
| tidy: "history env w w1 \<Longrightarrow> same_program env e \<Longrightarrow> signed e w1 \<Longrightarrow> listing_ok e w1 \<Longrightarrow>
     query_bigint e query ''p1'' ''blockIdx'' = Inr (t, b) \<Longrightarrow> Housekeeping e query w1 = (Inr (), w2) \<Longrightarrow> wallets_stored env (view env w2) \<Longrightarrow> history env w w2"
| commit: "history env w w1 \<Longrightarrow> history env w (commit_ctx w1)"
| flush: "history env w w1 \<Longrightarrow> layers_sorted w1 \<Longrightarrow> history env w (flush_tip w1)"

lemma at_kind_wallet_iff: "at_kind env WALLET k \<longleftrightarrow> (\<exists>s. k = walletIdOf env s)"
  by (auto simp: at_kind_def starts_with_iff walletIdOf_def)

lemma tidied_wf:
  assumes t: "tidied env b st st'" and wf: "state_wf env st" and wallets: "wallets_stored env st'"
  shows "state_wf env st'"
  unfolding state_wf_def
proof (intro allI impI)
  fix k
  assume k: "st' k \<noteq> []"
  show "entry_ok env k (st' k)"
  proof (cases "free_entry env k")
    case False
    then have "st' k = st k" using t k by (auto simp: tidied_def)
    then show ?thesis using wf k by (auto simp: state_wf_def)
  next
    case True
    then consider (wallet) s where "k = walletIdOf env s" | (height) "k = processedBlockAddress env"
      | (outside) "\<not> starts_with (namespacePrefix env) k" by (auto simp: free_entry_def)
    then show ?thesis
    proof cases
      case wallet
      then show ?thesis using wallets k by (simp add: wallets_stored_def entry_at [OF at_kind_wallet kind_lengths(1)])
    next
      case height
      then have "at_kind env PROCESSED_BLOCK k" using processed_kind by simp
      then show ?thesis using entry_at [of env PROCESSED_BLOCK k "st' k"] by (simp add: kind_defs)
    next
      case outside
      then have "\<not> at_kind env p k" for p by (auto simp: at_kind_def starts_with_iff)
      then show ?thesis by (simp add: entry_ok_def)
    qed
  qed
qed

lemma typed_session_by:
  assumes "typed_session env w" and "session_ok env w'" and "ctx w' = ctx w" and "tip_of env w' = tip_of env w"
  shows "typed_session env w'"
  using assms by (simp add: typed_session_def signer_def)

lemma Housekeeping_typed:
  assumes env: "CHR 0x0A \<notin> set (namespacePrefix env)" "sha512_ok env" "typed_session env w"
    and w: "listing_ok env w" and q: "query_bigint env query ''p1'' ''blockIdx'' = Inr (t, b)"
    and run: "Housekeeping env query w = (Inr u, w')"
  shows "typed_session env w' \<and> ctx_transitioning (ctx w') = ctx_transitioning (ctx w)"
proof -
  note s = typed_sessionD [OF env(3)]
  have after: "typed_session env w2 \<and> ctx_transitioning (ctx w2) = ctx_transitioning (ctx w1)"
    if "tidying env b w1 w2" "typed_session env w1" for w1 w2
    using that typed_session_after [of env w1 w2] same_session_simps(1) [of env w1 w2] by (simp add: tidying_def)
  consider "w' = w"
    | prev w1 d where "reward env prev 0 w = (Inr (), w1)" "setState_uptr env (processedBlockAddress env) d w1 = (Inr u, w')"
    | prev w1 where "verifyGatewaySigner env w = (Inr (), w1)" "w' = w1 \<or> housekeeping_confirmed env prev b w1 = (Inr u, w')"
    using Housekeeping_runs [OF s(1) q run] by blast
  then show ?thesis
  proof cases
    case 1
    then show ?thesis using env(3) by simp
  next
    case 2
    then show ?thesis using tidying_rewarded [OF s(1)] after env(3) by blast
  next
    case 3
    note k = verifyGatewaySigner_keeps [OF 3(1)]
    have "typed_session env w1"
      by (rule typed_session_by [OF env(3)]) (use k s(1) verifyGatewaySigner_same [OF 3(1)] in simp_all)
    moreover have "listing_ok env w1"
      using k w verifyGatewaySigner_same [OF 3(1)] by (simp add: listing_ok_def layers_sorted_def split: if_splits)
    ultimately show ?thesis
      using 3(2) tidying_confirmed [OF env(1,2) s(2)] after typed_sessionD(1) verifyGatewaySigner_same(2) [OF 3(1)] by metis
  qed
qed

lemma layers_same:
  "view env (commit_ctx w) = view env w" "layers_sorted w \<Longrightarrow> view env (flush_tip w) = view env w"
  "typed_session env w \<Longrightarrow> typed_session env (commit_ctx w)" "typed_session env w \<Longrightarrow> typed_session env (flush_tip w)"
proof -
  show "view env (commit_ctx w) = view env w"
    by (rule view_by_overlay [OF overlay_commit]) (simp_all add: commit_ctx_def)
  show "view env (flush_tip w) = view env w" if "layers_sorted w"
    by (rule view_by_overlay [OF overlay_flush [OF that]]) (simp_all add: flush_tip_def)
  show "typed_session env w \<Longrightarrow> typed_session env (commit_ctx w)" "typed_session env w \<Longrightarrow> typed_session env (flush_tip w)"
    by (auto simp: typed_session_def commit_ctx_def flush_tip_def signer_def tip_of_def session_ok_def split: if_splits)
qed

definition settled :: "'v env \<Rightarrow> (string \<Rightarrow> string) \<Rightarrow> (string \<Rightarrow> string) \<Rightarrow> bool" where
  \<comment> \<open>what a later state keeps: addresses, spent and unspent transfers, deals with a loan\<close>
  "settled env st st' \<longleftrightarrow> addresses_kept env st st' \<and> transfers_kept env st st' \<and>
     (\<forall>k. at_kind env DEAL_ORDER k \<longrightarrow> deal_loan_transfer (deal_from (st k)) \<noteq> [] \<longrightarrow>
        st' k \<noteq> [] \<and> deal_reach (deal_from (st k)) (deal_from (st' k)))"

lemma settled_refl: "settled env st st"
  unfolding settled_def by (auto simp: addresses.rel_refl transfers.rel_refl deal_reach.start DealOrder_Clear_def)

lemma settled_trans:
  assumes "settled env st st1" and "settled env st1 st2"
  shows "settled env st st2"
proof -
  have "addresses_kept env st st2" "transfers_kept env st st2"
    using assms addresses.rel_trans transfers.rel_trans unfolding settled_def by blast+
  moreover have "st2 k \<noteq> [] \<and> deal_reach (deal_from (st k)) (deal_from (st2 k))"
    if "at_kind env DEAL_ORDER k" "deal_loan_transfer (deal_from (st k)) \<noteq> []" for k
    using that assms deal_reach_trans deal_reach_keeps unfolding settled_def by metis
  ultimately show ?thesis unfolding settled_def by blast
qed

interpretation settled: kept_by_commands settled
proof unfold_locales
  fix env :: "'v env" and w w' :: "'v world" and name h query
  assume run: "(name, h) \<in> set (handlers env)" "name \<noteq> ''Housekeeping''" "typed_session env w"
    "state_wf env (view env w)" "typed_query env name query" "h query w = (Inr (), w')"
  have "st k \<noteq> []" if "deal_loan_transfer (deal_from (st k)) \<noteq> []" for st :: "string \<Rightarrow> string" and k
    using that by (auto simp: DealOrder_Clear_def)
  then show "settled env (view env w) (view env w')"
    using addresses.command [OF run] transfers.command [OF run] deals.command [OF run]
    unfolding settled_def deals_kept_def by blast
next
  fix env env' :: "'v env"
  assume "same_program env env'"
  then show "settled env' = settled env"
    by (simp add: fun_eq_iff settled_def addresses.any_header transfers.any_header same_kinds)
qed (use settled_refl settled_trans in blast)+

lemma settled_tidied:
  assumes "tidied env b st st'"
  shows "settled env st st'"
proof -
  have kept: "st' k = st k" if "at_kind env p k" "length p = 4" "p \<noteq> WALLET" "p \<noteq> PROCESSED_BLOCK" "\<not> removable env b k (st k)" for p k
    using assms free_entry_kinds [OF that(1-4)] that(5) unfolding tidied_def by blast
  have other: "\<not> removable env b k d" if "at_kind env p k" "p \<in> {ADDR, TRANSFER}" for p k d
    using that at_kind_differs [of env p k _ k] kinds_ne kind_lengths unfolding removable_def by (metis (full_types) insertE singletonD)
  have deal: "\<not> removable env b k d" if "at_kind env DEAL_ORDER k" "deal_loan_transfer (deal_from d) \<noteq> []" for k d
    using that at_kind_only [OF that(1)] by (auto simp: removable_def)
  have "st' k = st k" if "at_kind env ADDR k" for k by (rule kept [OF that]) (use other that in auto)
  moreover have "st' k = st k" if "at_kind env TRANSFER k" for k by (rule kept [OF that]) (use other that in auto)
  moreover have "st' k = st k" if "at_kind env DEAL_ORDER k" "deal_loan_transfer (deal_from (st k)) \<noteq> []" for k
    by (rule kept [OF that(1)]) (use deal that in auto)
  ultimately show ?thesis using settled_refl [of env st]
    unfolding settled_def addresses_kept_def transfers_kept_def by metis
qed

lemma same_tidied:
  assumes "same_program env env'"
  shows "processedBlockAddress env' = processedBlockAddress env" "removable env' = removable env" "tidied env' = tidied env"
    "wallets_stored env' = wallets_stored env"
proof -
  note eqs = same_text [OF assms] same_kinds [OF assms]
  have f: "read_cpp_int env' = read_cpp_int env" using assms by (auto simp: same_program_def)
  show p: "processedBlockAddress env' = processedBlockAddress env" by (simp add: processedBlockAddress_def eqs)
  show r: "removable env' = removable env" by (intro ext) (simp add: removable_def eqs f)
  have "free_entry env' = free_entry env" by (simp add: fun_eq_iff free_entry_def eqs p)
  then show "tidied env' = tidied env" by (simp add: fun_eq_iff tidied_def r)
  show "wallets_stored env' = wallets_stored env" by (simp add: fun_eq_iff wallets_stored_def eqs)
qed

lemma history_settles:
  assumes "history env w w'" and env: "CHR 0x0A \<notin> set (namespacePrefix env)" "sha512_ok env"
    and w: "typed_session env w" "state_wf env (view env w)"
  shows "typed_session env w' \<and> state_wf env (view env w') \<and> settled env (view env w) (view env w')"
  using assms(1,4,5)
proof (induction rule: history.induct)
  case (start w)
  then show ?case by (simp add: settled_refl)
next
  case (commands w w1 w2)
  then show ?case using accepted_wf settled.run_keeps settled_trans by metis
next
  case (tidy w w1 e query t b w2)
  note p = tidy.hyps(2)
  note same = same_kinds [OF p] same_view [OF p] same_tidied [OF p]
  have w1: "typed_session env w1" "state_wf env (view env w1)" "settled env (view env w) (view env w1)"
    using tidy.IH tidy.prems by blast+
  have e: "typed_session e w1" by (rule same_typed_session [OF p w1(1) tidy.hyps(3)])
  have hyps: "CHR 0x0A \<notin> set (namespacePrefix e)" "sha512_ok e" using env by (simp_all add: same)
  note s = typed_sessionD [OF e]
  have t: "tidied env b (view env w1) (view env w2)"
    using housekeeping_tidies [OF hyps s(2,1) tidy.hyps(4-6)] by (simp add: same)
  have "typed_session env w2"
    using typed_session_again [OF p w1(1)] Housekeeping_typed [OF hyps e tidy.hyps(4-6)] by blast
  then show ?case using tidied_wf [OF t w1(2) tidy.hyps(7)] settled_trans [OF w1(3) settled_tidied [OF t]] by blast
qed (simp_all add: layers_same)

subsection \<open>The properties\<close>



end
