(* ===== verification/Replay.thy ===== *)
theory Replay
  imports Overlay
begin

section \<open>Dispatch, and the chain that is replayed\<close>

subsection \<open>From a command to its handler\<close>

definition iequals_ok :: "'v env \<Rightarrow> bool" where
  \<comment> \<open>boost::iequals compares letters without their case\<close>
  "iequals_ok env \<longleftrightarrow> (\<forall>a b. iequals env a b = (map lower_char a = map lower_char b))"

definition too_old :: "'v env \<Rightarrow> 'v world \<Rightarrow> bool" where
  \<comment> \<open>a transaction of family version 1 after the switch to version 2\<close>
  "too_old env w \<longleftrightarrow> v2block w \<noteq> 0 \<and> v2block w < tip_of env w \<and> txn_family_version env \<noteq> [] \<and>
     hd (txn_family_version env) = CHR ''1''"

lemma unless_version_1_run:
  assumes "session_ok env w"
  shows "unless_version_1 env w =
    (if too_old env w then (Inl (InvalidTransaction ''Version 1 transactions are not accepted after 2.0''), w) else (Inr (), w))"
  using tip_read(1) [OF assms] by (auto simp: unless_version_1_def too_old_def act_step throwIf_def)

lemma find_unique:
  assumes "distinct (map (f \<circ> fst) xs)" and "(n, h) \<in> set xs"
  shows "List.find (\<lambda>(m, g). f n = f m) xs = Some (n, h)"
  using assms by (induction xs) (auto simp: image_iff split: prod.split)

lemma handler_names_distinct: "distinct (map (map lower_char \<circ> fst) (handlers env))"
  by (simp add: handlers_def lower_char_def char_of_def bit_0)

text \<open>C27. A command runs the handler with its name, in any case of letters, and exactly that one; a name
  without a handler is rejected, and so is every command of a version-1 transaction once
  the chain has passed the switch to version 2; a rejection has no effect.\<close>

theorem command_reaches_its_handler:
  assumes "session_ok env w" and "iequals_ok env"
  shows "(\<forall>(name, h) \<in> set (handlers env). map lower_char cmd = map lower_char name \<longrightarrow>
      Apply_cmd env cmd query w = (if too_old env w
        then (Inl (InvalidTransaction ''Version 1 transactions are not accepted after 2.0''), w) else h query w)) \<and>
    (map lower_char cmd \<notin> map lower_char ` fst ` set (handlers env) \<longrightarrow> \<not> too_old env w \<longrightarrow>
      Apply_cmd env cmd query w =
        (Inl (InvalidTransaction (''invalid command: '' @ [CHR 0x27] @ cmd @ [CHR 0x27])), w))"
proof -
  have found: "List.find (\<lambda>(n, h). iequals env cmd n) (handlers env) = Some (name, h)"
    if "(name, h) \<in> set (handlers env)" "map lower_char cmd = map lower_char name" for name h
    using find_unique [OF handler_names_distinct that(1)] that(2) assms(2) by (simp add: iequals_ok_def)
  moreover have "List.find (\<lambda>(n, h). iequals env cmd n) (handlers env) = None"
    if "map lower_char cmd \<notin> map lower_char ` fst ` set (handlers env)"
    using that assms(2) by (auto simp: find_None_iff iequals_ok_def image_iff)
  ultimately show ?thesis
    using unless_version_1_run [OF assms(1)]
    by (auto simp: Apply_cmd_def bnd_def throw_def)
qed

lemma sample_iequals: "iequals_ok sample_env"
  by (simp add: iequals_ok_def sample_env_def)

theorem command_reaches_its_handler_witness:
  "Apply_cmd sample_env ''sendfunds'' (JObject []) (sample_world [] ''bob'') = SendFunds sample_env (JObject []) (sample_world [] ''bob'') \<and>
   Apply_cmd sample_env ''Refund'' (JObject []) (sample_world [] ''bob'') =
     (Inl (InvalidTransaction (''invalid command: '' @ [CHR 0x27] @ ''Refund'' @ [CHR 0x27])), sample_world [] ''bob'')"
proof -
  have new: "\<not> too_old sample_env (sample_world [] ''bob'')" by (simp add: too_old_def sample_world_def)
  have funds: "(''SendFunds'', SendFunds sample_env) \<in> set (handlers sample_env)"
    and refund: "map lower_char ''Refund'' \<notin> map lower_char ` fst ` set (handlers sample_env)"
    by (simp_all add: handlers_def lower_char_def char_of_def bit_0)
  have "map lower_char ''sendfunds'' = map lower_char ''SendFunds''" by (simp add: lower_char_def char_of_def bit_0)
  then show ?thesis
    using command_reaches_its_handler [OF sample_session_ok [of "[]" "''bob''"] sample_iequals, where cmd = "''sendfunds''" and query = "JObject []"]
      command_reaches_its_handler [OF sample_session_ok [of "[]" "''bob''"] sample_iequals, where cmd = "''Refund''" and query = "JObject []"] new funds refund by auto
qed

subsection \<open>Replaying\<close>

text \<open>C39. The replay of a later block stops at a wrong place: after the blocks in between it executes the
  transactions that precede the current one from the block last updated, not from the
  current block, so when that block is empty the first of them does not exist and the
  processor fails, whatever the current block holds.\<close>

theorem replay_reads_the_wrong_block:
  assumes "0 \<le> updatedBlockIdx w" and "nat (updatedBlockIdx w) < length (blocks w)"
    and "block_txs (blocks w ! nat (updatedBlockIdx w)) = []" and "updatedTxIdx w = - 1" and "0 < txIdx"
  shows "fst (replay_new_block env (updatedBlockIdx w + 1) txIdx tip w) = Inl (Aborted ''txs[j]'')"
proof -
  have none: "[updatedBlockIdx w + 1..updatedBlockIdx w + 1 - 1] = []" "[updatedTxIdx w + 1..int 0 - 1] = []"
    using assms(4) by simp_all
  obtain js where js: "[0..txIdx - 1] = 0 # js" using assms(5) by (simp add: upto_rec1)
  have at: "block_at (updatedBlockIdx w) w1 = (Inr (blocks w ! nat (updatedBlockIdx w)), w1)" if "blocks w1 = blocks w" for w1
    using assms(1,2) that by (simp add: block_at_def reads_def)
  have failing: "execute_range env (updatedBlockIdx w) 0 txIdx w1 = (Inl (Aborted ''txs[j]''), w1)" if "blocks w1 = blocks w" for w1
    using at [OF that] assms(3) by (simp add: execute_range_def js tx_at_def bnd_def throw_def)
  have empty: "execute_range env (updatedBlockIdx w) (updatedTxIdx w + 1) (int 0) w1 = (Inr (), w1)" for w1
    unfolding execute_range_def none by (simp add: ret_def)
  show ?thesis
    using empty by (simp add: replay_new_block_def act_step reads_def set_tip_def modifies_def at assms(3) failing flush_tip_def ret_def)
qed

definition old_chain :: "(string \<Rightarrow> string) world" where
  \<comment> \<open>an empty first block, a second one with two transactions\<close>
  "old_chain = (sample_world [] ''alice'')\<lparr>updatedTxIdx := - 1, blocks :=
     [\<lparr>block_signer = ''m'', block_txs = []\<rparr>,
      \<lparr>block_signer = ''m'', block_txs = [\<lparr>tx_sighash = [], tx_guid = ''g1'', tx_payload = []\<rparr>,
        \<lparr>tx_sighash = [], tx_guid = ''g2'', tx_payload = []\<rparr>]\<rparr>]\<rparr>"

theorem replay_reads_the_wrong_block_witness:
  "fst (replay_new_block sample_env 1 1 0 old_chain) = Inl (Aborted ''txs[j]'') \<and> length (block_txs (blocks old_chain ! 1)) = 2"
proof -
  have c: "updatedBlockIdx old_chain = 0" "updatedTxIdx old_chain = - 1" "nat 0 < length (blocks old_chain)"
    "block_txs (blocks old_chain ! nat 0) = []" "length (block_txs (blocks old_chain ! 1)) = 2"
    by (simp_all add: old_chain_def sample_world_def)
  show ?thesis using replay_reads_the_wrong_block [of old_chain 1 sample_env 0] c by simp
qed

subsection \<open>The transition file\<close>

definition print_tx :: "Tx \<Rightarrow> string list" where
  \<comment> \<open>the lines of a transaction: guid, sighash, payload in base64\<close>
  "print_tx tx = [tx_guid tx, tx_sighash tx, encodeBase64 (tx_payload tx)]"

definition print_block :: "'v env \<Rightarrow> int \<Rightarrow> SimpleBlock \<Rightarrow> string list" where
  "print_block env i b = [toString env i, block_signer b] @ concat (map print_tx (block_txs b)) @ [''.'']"

fun print_blocks :: "'v env \<Rightarrow> int \<Rightarrow> SimpleBlock list \<Rightarrow> string list" where
  "print_blocks env i [] = [[]]"
| "print_blocks env i (b # bs) = print_block env i b @ print_blocks env (i + 1) bs"

fun index_txs :: "int \<Rightarrow> int \<Rightarrow> Tx list \<Rightarrow> TxPos smap \<Rightarrow> TxPos smap" where
  \<comment> \<open>where each transaction of a block is: the block before it, and its place\<close>
  "index_txs i j [] m = m"
| "index_txs i j (tx # txs) m = index_txs i (j + 1) txs (map_set (tx_guid tx) \<lparr>pos_block = i - 1, pos_txIdx = j\<rparr> m)"

fun index_blocks :: "int \<Rightarrow> SimpleBlock list \<Rightarrow> TxPos smap \<Rightarrow> TxPos smap" where
  "index_blocks i [] m = m"
| "index_blocks i (b # bs) m = index_blocks (i + 1) bs (index_txs i 0 (block_txs b) m)"

lemma read_txs_printed:
  assumes "\<forall>tx \<in> set txs. tx_guid tx \<noteq> ''.''" and "length txs < k"
  shows "read_txs k i j acc m (concat (map print_tx txs) @ ''.'' # rest) = Inr (acc @ txs, index_txs i j txs m, rest)"
  using assms
proof (induction txs arbitrary: k j acc m)
  case Nil
  then show ?case by (cases k) simp_all
next
  case (Cons tx txs)
  then obtain n where "k = Suc n" by (cases k) auto
  moreover have "decodeBase64 (encodeBase64 (tx_payload tx)) = Inr (tx_payload tx)"
    by (simp add: decodeBase64_def encodeBase64_def decode_encode_loop)
  ultimately show ?case using Cons by (simp add: print_tx_def sbnd_def)
qed

lemma set_block_last: "length past = n \<Longrightarrow> set_block n b past = past @ [b]"
  by (simp add: set_block_def list_update_append)

lemma read_blocks_printed:
  assumes "bigint_ok env" and "\<forall>n. 0 \<le> n \<and> n < int (length past + length bs) \<longrightarrow> to_int env n = n"
    and "\<forall>b \<in> set bs. \<forall>tx \<in> set (block_txs b). tx_guid tx \<noteq> ''.''" and "length bs < k"
  shows "read_blocks k env past m (print_blocks env (int (length past)) bs) =
    Inr (past @ bs, index_blocks (int (length past)) bs m)"
  using assms(2-)
proof (induction bs arbitrary: k past m)
  case Nil
  then show ?case by (cases k) simp_all
next
  case (Cons b bs)
  obtain n where k: "k = Suc n" using Cons.prems(3) by (cases k) auto
  let ?i = "int (length past)" and ?rest = "print_blocks env (int (length past) + 1) bs"
  have line: "toString env ?i \<noteq> []" "bigint env (toString env ?i) = Inr ?i" "to_int env ?i = ?i"
    using assms(1) bigint_toString [OF assms(1)] Cons.prems(1) by (simp_all add: bigint_ok_def toString_def)
  have txs: "read_txs (Suc (length (concat (map print_tx (block_txs b)) @ ''.'' # ?rest))) ?i 0 [] m
      (concat (map print_tx (block_txs b)) @ ''.'' # ?rest) = Inr (block_txs b, index_txs ?i 0 (block_txs b) m, ?rest)"
  proof -
    have "length txs \<le> length (concat (map print_tx txs))" for txs by (induction txs) (simp_all add: print_tx_def)
    then show ?thesis using Cons.prems(2) by (subst read_txs_printed) (simp_all add: le_imp_less_Suc le_SucI trans_le_add1)
  qed
  have "read_blocks n env (past @ [b]) (index_txs ?i 0 (block_txs b) m) ?rest =
      Inr (past @ b # bs, index_blocks (?i + 1) bs (index_txs ?i 0 (block_txs b) m))"
    using Cons.IH [of "past @ [b]" n] Cons.prems k by (simp add: add.commute)
  moreover obtain miner xs where "b = \<lparr>block_signer = miner, block_txs = xs\<rparr>" by (cases b)
  ultimately show ?case using line txs by (simp add: k print_block_def sbnd_def Let_def set_block_last del: read_txs.simps)
qed

lemma index_txs_keep: "g \<notin> tx_guid ` set txs \<Longrightarrow> map_find (index_txs i j txs m) g = map_find m g"
  by (induction i j txs m rule: index_txs.induct) auto

lemma index_txs_find:
  "distinct (map tx_guid txs) \<Longrightarrow> x < length txs \<Longrightarrow>
     map_find (index_txs i j txs m) (tx_guid (txs ! x)) = Some \<lparr>pos_block = i - 1, pos_txIdx = j + int x\<rparr>"
proof (induction txs arbitrary: j m x)
  case (Cons tx txs)
  then show ?case by (cases x) (auto simp: index_txs_keep)
qed simp

lemma index_blocks_find:
  assumes "distinct (concat (map (\<lambda>b. map tx_guid (block_txs b)) bs))"
  shows "y < length bs \<Longrightarrow> x < length (block_txs (bs ! y)) \<Longrightarrow>
    map_find (index_blocks i bs m) (tx_guid (block_txs (bs ! y) ! x)) = Some \<lparr>pos_block = i + int y - 1, pos_txIdx = int x\<rparr>"
proof -
  have keep: "map_find (index_blocks i bs m) g = map_find m g" if "\<forall>b \<in> set bs. g \<notin> tx_guid ` set (block_txs b)" for i bs m g
    using that by (induction i bs m rule: index_blocks.induct)
      (auto simp: index_txs_keep)
  show "map_find (index_blocks i bs m) (tx_guid (block_txs (bs ! y) ! x)) = Some \<lparr>pos_block = i + int y - 1, pos_txIdx = int x\<rparr>"
    if "y < length bs" "x < length (block_txs (bs ! y))"
    using assms that
  proof (induction bs arbitrary: i m y)
    case (Cons b bs)
    show ?case
    proof (cases y)
      case 0
      then have "tx_guid (block_txs b ! x) \<in> set (map tx_guid (block_txs b))" using Cons.prems(3) by simp
      moreover have "set (map tx_guid (block_txs b)) \<inter> set (concat (map (\<lambda>b. map tx_guid (block_txs b)) bs)) = {}"
        using Cons.prems(1) by (simp only: list.map concat.simps distinct_append)
      ultimately have "\<forall>b' \<in> set bs. tx_guid (block_txs b ! x) \<notin> tx_guid ` set (block_txs b')" by auto
      then show ?thesis using 0 Cons.prems index_txs_find [of "block_txs b" x i 0] by (simp add: keep)
    next
      case (Suc z)
      then show ?thesis using Cons.prems Cons.IH [of z "i + 1"] by (simp add: algebra_simps)
    qed
  qed simp
qed

text \<open>C28. The file of the chain to revalidate is read back as it was written, payloads in base64 included,
  and the position of every transaction is found under its guid.\<close>

theorem transition_file_round_trip:
  assumes "bigint_ok env" and "\<forall>n. 0 \<le> n \<and> n < int (length bs) \<longrightarrow> to_int env n = n"
    and "\<forall>b \<in> set bs. \<forall>tx \<in> set (block_txs b). tx_guid tx \<noteq> ''.''"
    and "distinct (concat (map (\<lambda>b. map tx_guid (block_txs b)) bs))"
    and "bs \<noteq> []" and "blocks w = []" and "txguid2prevblockidx w = []"
  shows "\<exists>m. setupSettingsAndExternalGatewayAddress env (Some (print_blocks env 0 bs)) w =
      (Inr (), w\<lparr>transitioning := True, blocks := bs, txguid2prevblockidx := m, updatedBlockIdx := 0,
         updatedTxIdx := int (length (block_txs (hd bs))) - 1\<rparr>) \<and>
    (\<forall>y x. y < length bs \<longrightarrow> x < length (block_txs (bs ! y)) \<longrightarrow>
      map_find m (tx_guid (block_txs (bs ! y) ! x)) = Some \<lparr>pos_block = int y - 1, pos_txIdx = int x\<rparr>)"
proof (intro exI conjI allI impI)
  have "length bs \<le> length (print_blocks env i bs)" for i
  proof (induction bs arbitrary: i)
    case (Cons b bs)
    from Cons [of "i + 1"] show ?case by (simp add: print_block_def)
  qed simp
  then have "read_blocks (Suc (length (print_blocks env 0 bs))) env [] [] (print_blocks env 0 bs) = Inr (bs, index_blocks 0 bs [])"
    using read_blocks_printed [of env "[]" bs "Suc (length (print_blocks env 0 bs))" "[]"] assms(1-3)
    by (simp add: le_imp_less_Suc)
  then show "setupSettingsAndExternalGatewayAddress env (Some (print_blocks env 0 bs)) w =
      (Inr (), w\<lparr>transitioning := True, blocks := bs, txguid2prevblockidx := index_blocks 0 bs [], updatedBlockIdx := 0,
         updatedTxIdx := int (length (block_txs (hd bs))) - 1\<rparr>)"
    using assms(5-7) by (simp add: setupSettingsAndExternalGatewayAddress_def Let_def del: read_blocks.simps)
next
  fix y x
  assume "y < length bs" "x < length (block_txs (bs ! y))"
  then show "map_find (index_blocks 0 bs []) (tx_guid (block_txs (bs ! y) ! x)) = Some \<lparr>pos_block = int y - 1, pos_txIdx = int x\<rparr>"
    using index_blocks_find [OF assms(4), of y x 0] by simp
qed

theorem transition_file_round_trip_witness:
  "\<exists>m. setupSettingsAndExternalGatewayAddress sample_env (Some (print_blocks sample_env 0 (blocks old_chain))) (sample_world [] ''alice'') =
      (Inr (), (sample_world [] ''alice'')\<lparr>transitioning := True, blocks := blocks old_chain, txguid2prevblockidx := m,
         updatedBlockIdx := 0, updatedTxIdx := - 1\<rparr>) \<and>
    map_find m ''g2'' = Some \<lparr>pos_block = 0, pos_txIdx = 1\<rparr>"
proof -
  have b: "blocks old_chain = [\<lparr>block_signer = ''m'', block_txs = []\<rparr>,
      \<lparr>block_signer = ''m'', block_txs = [\<lparr>tx_sighash = [], tx_guid = ''g1'', tx_payload = []\<rparr>,
        \<lparr>tx_sighash = [], tx_guid = ''g2'', tx_payload = []\<rparr>]\<rparr>]"
    by (simp add: old_chain_def)
  have ids: "\<forall>n. 0 \<le> n \<and> n < int (length (blocks old_chain)) \<longrightarrow> to_int sample_env n = n" by (simp add: sample_env_def)
  have "\<exists>m. setupSettingsAndExternalGatewayAddress sample_env (Some (print_blocks sample_env 0 (blocks old_chain))) (sample_world [] ''alice'') =
      (Inr (), (sample_world [] ''alice'')\<lparr>transitioning := True, blocks := blocks old_chain, txguid2prevblockidx := m,
         updatedBlockIdx := 0, updatedTxIdx := int (length (block_txs (hd (blocks old_chain)))) - 1\<rparr>) \<and>
    (\<forall>y x. y < length (blocks old_chain) \<longrightarrow> x < length (block_txs (blocks old_chain ! y)) \<longrightarrow>
      map_find m (tx_guid (block_txs (blocks old_chain ! y) ! x)) = Some \<lparr>pos_block = int y - 1, pos_txIdx = int x\<rparr>)"
    by (rule transition_file_round_trip [OF sample_bigint_ok ids]) (simp_all add: b, simp_all add: sample_world_def)
  then obtain m where m: "setupSettingsAndExternalGatewayAddress sample_env (Some (print_blocks sample_env 0 (blocks old_chain)))
        (sample_world [] ''alice'') =
      (Inr (), (sample_world [] ''alice'')\<lparr>transitioning := True, blocks := blocks old_chain, txguid2prevblockidx := m,
         updatedBlockIdx := 0, updatedTxIdx := int (length (block_txs (hd (blocks old_chain)))) - 1\<rparr>)"
    "1 < length (blocks old_chain) \<Longrightarrow> 1 < length (block_txs (blocks old_chain ! 1)) \<Longrightarrow>
      map_find m (tx_guid (block_txs (blocks old_chain ! 1) ! 1)) = Some \<lparr>pos_block = int 1 - 1, pos_txIdx = int 1\<rparr>"
    by blast
  show ?thesis using m by (intro exI [of _ m]) (simp add: b del: setupSettingsAndExternalGatewayAddress_def)
qed

end
