(* ===== verification/Rewind.thy ===== *)
theory Rewind
  imports Tidying Replay
begin

section \<open>Going back in a block\<close>

text \<open>
  The validator may process a block of the old chain again, or another fork of it, so the
  replay must be able to return to an earlier transaction of the block.  It does so by
  dropping what the block wrote and executing its transactions again.  That this gives the
  same state rests on two facts: a replayed command writes to the layers only, and what the
  context keeps from the command before (guid and signer) has no influence on the next.
\<close>

subsection \<open>A replayed command writes to its layer only\<close>

definition quiet :: "'v world \<Rightarrow> 'v world \<Rightarrow> bool" where
  \<comment> \<open>a state of a replayed command that started in w0\<close>
  "quiet w0 w \<longleftrightarrow> ctx_transitioning (ctx w) \<and> ctx_replaying (ctx w) \<and> transitioning w \<and>
     (\<exists>cs. w = w0\<lparr>ctx := (ctx w0)\<lparr>ctx_currentState := cs\<rparr>\<rparr>)"

lemma quiet_start:
  assumes "ctx_transitioning (ctx w)" "ctx_replaying (ctx w)" "transitioning w"
  shows "quiet w w"
proof -
  have "w = w\<lparr>ctx := (ctx w)\<lparr>ctx_currentState := ctx_currentState (ctx w)\<rparr>\<rparr>" by simp
  then show ?thesis using assms unfolding quiet_def by blast
qed

lemma quiet_write:
  assumes "quiet w0 w" and "bnd (modifies (\<lambda>w. if ctx_transitioning (ctx w) then set_current kvs w else w))
      (\<lambda>_. unless_replaying (on_validator f)) w = (Inr u, w')"
  shows "quiet w0 w'"
proof -
  obtain cs where w: "w = w0\<lparr>ctx := (ctx w0)\<lparr>ctx_currentState := cs\<rparr>\<rparr>" using assms(1) by (auto simp: quiet_def)
  have "w' = set_current kvs w" using assms by (auto simp: act_ok unless_replaying_def quiet_def)
  then show ?thesis using assms(1) w by (auto simp: quiet_def set_current_def)
qed

lemma keeps_quiet_writes:
  "keeps (quiet w0) (setStates env kvs)" "keeps (quiet w0) (deleteState env k)"
  "keeps (quiet w0) (setState_raw env d k)" "keeps (quiet w0) (setState_uptr env d k)"
  unfolding keeps_def setStates_def deleteState_def setState_raw_def setState_uptr_def
  using quiet_write by blast+

lemma keeps_replayed:
  assumes "(name, h) \<in> set (handlers env)"
  shows "keeps (quiet w0) (h query)"
proof -
  note rules = keeps_bnd keeps_if keeps_prod keeps_simple keeps_quiet_writes
  have market: "keeps (quiet w0) (SendFunds env query)" "keeps (quiet w0) (RegisterAddress env query)"
    "keeps (quiet w0) (RegisterTransfer env query)" "keeps (quiet w0) (AddAskOrder env query)"
    "keeps (quiet w0) (AddBidOrder env query)" "keeps (quiet w0) (AddOffer env query)"
    "keeps (quiet w0) (AddDealOrder env query)" "keeps (quiet w0) (CompleteDealOrder env query)"
    "keeps (quiet w0) (LockDealOrder env query)" "keeps (quiet w0) (CloseDealOrder env query)"
    "keeps (quiet w0) (Exempt env query)" "keeps (quiet w0) (AddRepaymentOrder env query)"
    "keeps (quiet w0) (CompleteRepaymentOrder env query)" "keeps (quiet w0) (CloseRepaymentOrder env query)"
    "keeps (quiet w0) (CollectCoins env query)"
    unfolding SendFunds_def RegisterAddress_def RegisterTransfer_def AddAskOrder_def AddBidOrder_def AddOffer_def
      AddDealOrder_def CompleteDealOrder_def LockDealOrder_def CloseDealOrder_def Exempt_def AddRepaymentOrder_def
      CompleteRepaymentOrder_def CloseRepaymentOrder_def CollectCoins_def Let_def
    by ((rule rules | rule keeps_pure, rule pure_rules)+)
  have listers: "keeps (quiet w0) (house_ask env b k d)" "keeps (quiet w0) (house_bid env b k d)"
    "keeps (quiet w0) (house_offer env b k d)" "keeps (quiet w0) (house_deal env b k d)"
    "keeps (quiet w0) (house_repayment env b k d)" "keeps (quiet w0) (house_fee env b k d)" for b k d
    unfolding house_ask_def house_bid_def house_offer_def house_deal_def house_repayment_def house_fee_def Let_def expired_at_def
    by (intro rules keeps_reads)+
  have gateway: "keeps (quiet w0) (verifyGatewaySigner env)"
    by (auto simp: keeps_def quiet_def verifyGatewaySigner_def)
  have "keeps (quiet w0) (Housekeeping env query)"
    unfolding Housekeeping_def housekeeping_confirmed_def
    by (intro rules keeps_reads gateway keeps_filter listers keeps_reward)
  then show ?thesis using assms market by (auto simp: handlers_def)
qed

lemma keeps_Apply_cmd: "keeps (quiet w0) (Apply_cmd env cmd query)"
proof -
  have "pure_act (bnd (lastBlockInt env) (\<lambda>head. throwIf (head > v \<and> b) msg))" for v b msg
    by (intro pure_rules)
  then have "pure_act (unless_version_1 env)"
    by (simp add: pure_act_def unless_version_1_def)
  moreover have "keeps (quiet w0) (case List.find (\<lambda>(name, h). iequals env cmd name) (handlers env) of
       Some (name, h) \<Rightarrow> h query | None \<Rightarrow> throw e)" for e
  proof (cases "List.find (\<lambda>(name, h). iequals env cmd name) (handlers env)")
    case None
    then show ?thesis by (simp add: keeps_simple)
  next
    case (Some p)
    then have "p \<in> set (handlers env)" using nth_mem by (force simp: find_Some_iff)
    then show ?thesis using Some keeps_replayed [of "fst p" "snd p" env w0 query] by (simp add: case_prod_beta)
  qed
  ultimately show ?thesis unfolding Apply_cmd_def by (intro keeps_bnd [OF keeps_pure])
qed

subsection \<open>Between two transactions\<close>

definition idle :: "'v world \<Rightarrow> bool" where
  "idle w \<longleftrightarrow> ctx_transitioning (ctx w) \<and> transitioning w \<and> \<not> ctx_replaying (ctx w) \<and> ctx_currentState (ctx w) = []"

definition alike :: "'v world \<Rightarrow> 'v world \<Rightarrow> bool" where
  \<comment> \<open>the same but for the guid and the signer of the last transaction\<close>
  "alike w w' \<longleftrightarrow> (\<exists>g s. w' = w\<lparr>ctx := (ctx w)\<lparr>ctx_guid := g, ctx_sighash := s\<rparr>\<rparr>)"

lemma alikeI: "w' = w\<lparr>ctx := (ctx w)\<lparr>ctx_guid := g, ctx_sighash := s\<rparr>\<rparr> \<Longrightarrow> alike w w'"
  by (auto simp: alike_def)

lemma alike_refl [simp]: "alike w w"
  by (rule alikeI [where g = "ctx_guid (ctx w)" and s = "ctx_sighash (ctx w)"]) simp

lemma alike_trans: "alike w w1 \<Longrightarrow> alike w1 w2 \<Longrightarrow> alike w w2"
  unfolding alike_def by force

lemma alike_sym: "alike w w' \<Longrightarrow> alike w' w"
  unfolding alike_def by (elim exE, rule exI [of _ "ctx_guid (ctx w)"], rule exI [of _ "ctx_sighash (ctx w)"]) simp

lemma alike_same:
  assumes "alike w w'"
  shows "tipCurrentState w' = tipCurrentState w" "view env w' = view env w" "blocks w' = blocks w"
    "updatedBlockIdx w' = updatedBlockIdx w" "updatedTxIdx w' = updatedTxIdx w" "idle w' = idle w"
  using assms by (auto simp: alike_def view_def overlay_def idle_def fun_eq_iff split: option.split)

lemma execute_idle:
  assumes "idle w" and "execute env p g s w = (Inr u, w')"
  shows "idle w' \<and> (\<exists>t. alike (w\<lparr>tipCurrentState := t\<rparr>) w')"
proof (cases "p \<noteq> [] \<and> g \<noteq> []")
  case False
  then have "w' = w" using assms(2) by (auto simp: execute_def act_ok)
  then show ?thesis using assms(1) by (auto intro: exI [of _ "tipCurrentState w"])
next
  case True
  let ?w = "w\<lparr>ctx := (ctx w)\<lparr>ctx_replaying := True, ctx_guid := g, ctx_sighash := s\<rparr>\<rparr>"
  obtain query cmd w1 where run: "Apply_cmd env cmd query ?w = (Inr (), w1)"
    and w': "w' = (commit_ctx w1)\<lparr>ctx := (ctx (commit_ctx w1))\<lparr>ctx_replaying := False\<rparr>\<rparr>"
    using assms(2) True by (auto simp: execute_def doApply_def set_replaying_def act_ok)
  have "quiet ?w ?w" using assms(1) by (intro quiet_start) (simp_all add: idle_def)
  then have "quiet ?w w1" using keeps_Apply_cmd run unfolding keeps_def by blast
  then obtain cs where w1: "w1 = ?w\<lparr>ctx := (ctx ?w)\<lparr>ctx_currentState := cs\<rparr>\<rparr>" by (auto simp: quiet_def)
  have "idle w'" using assms(1) by (simp add: w' w1 idle_def commit_ctx_def)
  moreover have "alike (w\<lparr>tipCurrentState := tipCurrentState w'\<rparr>) w'"
    using assms(1) by (intro alikeI [where g = g and s = s]) (simp add: w' w1 idle_def commit_ctx_def)
  ultimately show ?thesis by blast
qed

lemma execute_alike:
  assumes "alike w v" and "execute env p g s w = (r, w')"
  shows "\<exists>v'. execute env p g s v = (r, v') \<and> alike w' v'"
proof -
  obtain a b where v: "v = w\<lparr>ctx := (ctx w)\<lparr>ctx_guid := a, ctx_sighash := b\<rparr>\<rparr>" using assms(1) by (auto simp: alike_def)
  have same: "bnd (set_replaying True) (\<lambda>_. bnd (doApply env cmd query g s) (\<lambda>_. set_replaying False)) v =
      bnd (set_replaying True) (\<lambda>_. bnd (doApply env cmd query g s) (\<lambda>_. set_replaying False)) w" for cmd query
    by (simp add: v set_replaying_def doApply_def act_step bnd_def modifies_def)
  show ?thesis
  proof (cases "p \<noteq> [] \<and> g \<noteq> []")
    case False
    then show ?thesis using assms by (auto simp: execute_def ret_def)
  next
    case True
    then show ?thesis using assms
      by (cases "cborToParams env p") (auto simp: execute_def act_step same)
  qed
qed

lemma alike_tip:
  assumes "alike w w'"
  shows "alike (w\<lparr>tipCurrentState := t\<rparr>) (w'\<lparr>tipCurrentState := t\<rparr>)"
proof -
  obtain g s where "w' = w\<lparr>ctx := (ctx w)\<lparr>ctx_guid := g, ctx_sighash := s\<rparr>\<rparr>" using assms by (auto simp: alike_def)
  then show ?thesis by (intro alikeI [where g = g and s = s] world.equality) simp_all
qed

lemma tx_step: "bnd (tx_at i j) (execute_tx env) w =
    (case tx_at i j w of (Inl e, _) \<Rightarrow> (Inl e, w) | (Inr tx, _) \<Rightarrow> execute_tx env tx w)"
proof -
  have "pure_act (tx_at i j)"
    unfolding tx_at_def block_at_def by (intro pure_rules)
  then obtain r where "tx_at i j w = (r, w)" by (metis pure_actD surj_pair)
  then show ?thesis by (cases r) (simp_all add: bnd_def)
qed

lemma execute_tx_alike:
  assumes "alike w v" and "bnd (tx_at i j) (execute_tx env) w = (r, w')"
  shows "\<exists>v'. bnd (tx_at i j) (execute_tx env) v = (r, v') \<and> alike w' v'"
proof -
  have "fst (tx_at i j v) = fst (tx_at i j w)"
    using alike_same(3) [OF assms(1)] by (simp add: tx_at_def block_at_def bnd_def reads_def ret_def throw_def split: sum.split)
  then show ?thesis using assms execute_alike [OF assms(1)]
    by (auto simp: tx_step execute_tx_def ret_def split: prod.splits sum.splits if_splits)
qed

lemma execute_range_alike:
  assumes "alike w v" and "execute_range env i a b w = (Inr u, w')"
  shows "\<exists>v'. execute_range env i a b v = (Inr u, v') \<and> alike w' v'"
proof -
  have "\<exists>v'. forEach js (\<lambda>j. bnd (tx_at i j) (execute_tx env)) v = (Inr u, v') \<and> alike w' v'"
    if "alike w v" "forEach js (\<lambda>j. bnd (tx_at i j) (execute_tx env)) w = (Inr u, w')" for js
    using that
  proof (induction js arbitrary: w v)
    case Nil
    then show ?case by (auto simp: ret_def)
  next
    case (Cons j js)
    obtain w1 where w1: "bnd (tx_at i j) (execute_tx env) w = (Inr (), w1)"
        "forEach js (\<lambda>j. bnd (tx_at i j) (execute_tx env)) w1 = (Inr u, w')" using Cons.prems(2) by (auto simp: act_ok)
    obtain v1 where "bnd (tx_at i j) (execute_tx env) v = (Inr (), v1)" "alike w1 v1"
      using execute_tx_alike [OF Cons.prems(1) w1(1)] by blast
    then show ?case using Cons.IH [OF _ w1(2)] by (auto simp: act_step)
  qed
  then show ?thesis using assms unfolding execute_range_def by blast
qed

lemma execute_range_idle:
  assumes "idle w" and "execute_range env i a b w = (Inr u, w')"
  shows "idle w' \<and> (\<exists>t. alike (w\<lparr>tipCurrentState := t\<rparr>) w')"
proof (rule forEach_ok_invariant [OF assms(2) [unfolded execute_range_def]])
  show "idle w \<and> (\<exists>t. alike (w\<lparr>tipCurrentState := t\<rparr>) w)"
    using assms(1) by (auto intro: exI [of _ "tipCurrentState w"])
  fix j w1 x w2
  assume w1: "idle w1 \<and> (\<exists>t. alike (w\<lparr>tipCurrentState := t\<rparr>) w1)" and run: "bnd (tx_at i j) (execute_tx env) w1 = (Inr x, w2)"
  have "w2 = w1 \<or> (\<exists>p g s. execute env p g s w1 = (Inr x, w2))"
    using run by (auto simp: tx_step execute_tx_def ret_def split: prod.splits sum.splits if_splits)
  then have "idle w2 \<and> (\<exists>t. alike (w1\<lparr>tipCurrentState := t\<rparr>) w2)"
    using execute_idle w1 by (metis alike_refl world.surjective world.update_convs(3))
  moreover obtain t where "alike (w\<lparr>tipCurrentState := t\<rparr>) w1" using w1 by blast
  ultimately show "idle w2 \<and> (\<exists>t. alike (w\<lparr>tipCurrentState := t\<rparr>) w2)"
    using alike_tip alike_trans by fastforce
qed

subsection \<open>Going back\<close>

lemma set_tip_alike:
  assumes "alike w v"
  shows "\<exists>v'. set_tip tip v = (Inr (), v') \<and> alike (snd (set_tip tip w)) v'"
proof -
  obtain g s where "v = w\<lparr>ctx := (ctx w)\<lparr>ctx_guid := g, ctx_sighash := s\<rparr>\<rparr>" using assms by (auto simp: alike_def)
  then show ?thesis
    by (auto simp: set_tip_def modifies_def intro!: alikeI [where g = g and s = s] world.equality)
qed

text \<open>C38. The replay can go back: when the processor has executed the first m transactions of a block and
  is asked for transaction n of it, whether n is before or after m, it succeeds and ends in the
  state that executing the first n transactions from the start of the block gives.\<close>

theorem going_back_is_exact:
  assumes start: "idle w" "tipCurrentState w = []" "0 \<le> m" "0 \<le> n"
    and here: "updatedBlockIdx w = i" "updatedTxIdx w = m - 1" "ctx_tip (ctx w) = tip"
    and seen: "execute_range env i 0 m w = (Inr (), wm)"
    and before: "execute_range env i 0 n w = (Inr (), wn)"
  shows "\<exists>w'. replay_same_block env n tip wm = (Inr (), w') \<and>
    tipCurrentState w' = tipCurrentState wn \<and> view env w' = view env wn"
proof -
  obtain t where t: "alike (w\<lparr>tipCurrentState := t\<rparr>) wm" and idle: "idle wm"
    using execute_range_idle [OF start(1) seen] by blast
  have pos: "updatedBlockIdx wm = i" "updatedTxIdx wm = m - 1" using alike_same(4,5) [OF t] here by simp_all
  have tip: "wm\<lparr>ctx := (ctx wm)\<lparr>ctx_tip := tip\<rparr>\<rparr> = wm"
    using t here(3) by (auto simp: alike_def intro!: world.equality Ctx.equality)
  have run: "replay_same_block env n tip wm =
      (if n \<le> m - 1 then execute_range env i 0 n (wm\<lparr>tipCurrentState := []\<rparr>) else execute_range env i m n wm)"
    by (simp add: replay_same_block_def set_tip_def act_step pos tip)
  have "\<exists>w'. replay_same_block env n tip wm = (Inr (), w') \<and> alike wn w'"
  proof (cases "n \<le> m - 1")
    case True
    have "alike w (wm\<lparr>tipCurrentState := []\<rparr>)"
      using alike_tip [OF t, of "[]"] start(2) by (metis world.update_convs(3) world.surjective world.select_convs(3))
    then show ?thesis using execute_range_alike [OF _ before] run True by fastforce
  next
    case False
    then have "[0..n - 1] = [0..m - 1] @ [m..n - 1]" using start(3) upto_split1 [of 0 m "n - 1"] by (cases "m = n") auto
    then have "execute_range env i 0 n w = bnd (execute_range env i 0 m) (\<lambda>_. execute_range env i m n) w"
      by (simp add: execute_range_def forEach_append)
    then have "execute_range env i m n wm = (Inr (), wn)" using before seen by (simp add: act_step)
    then show ?thesis using run False by simp
  qed
  then show ?thesis using alike_same(1,2) by blast
qed

subsection \<open>An instance\<close>

definition reward_request :: json where
  "reward_request = JObject [(''p1'', JString ''0''), (''v'', JString ''Housekeeping'')]"

definition two_requests :: "(string \<Rightarrow> string) world" where
  \<comment> \<open>a block with two requests for rewards: each moves the processed block by ten\<close>
  "two_requests = (sample_world [] ''alice'')\<lparr>updatedTxIdx := 1, blocks :=
     [\<lparr>block_signer = ''m'', block_txs =
       [\<lparr>tx_sighash = ''alice'', tx_guid = ''g1'', tx_payload = to_cbor reward_request\<rparr>,
        \<lparr>tx_sighash = ''bob'', tx_guid = ''g2'', tx_payload = to_cbor reward_request\<rparr>]\<rparr>]\<rparr>"

lemma reward_request_run:
  assumes w: "idle w" "ctx_tip (ctx w) = 100" "v2block w = 0"
    and prev: "view sample_env w (processedBlockAddress sample_env) = (if p = 0 then [] else dump_integer p)" "0 \<le> p" "p < 30"
    and s: "g \<noteq> []"
  shows "\<exists>w'. execute sample_env (to_cbor reward_request) g s w = (Inr (), w') \<and> ctx_tip (ctx w') = 100 \<and> v2block w' = 0 \<and>
    view sample_env w' (processedBlockAddress sample_env) = dump_integer (p + 10)"
proof -
  let ?w = "w\<lparr>ctx := (ctx w)\<lparr>ctx_replaying := True, ctx_guid := g, ctx_sighash := s\<rparr>\<rparr>" and ?p = "processedBlockAddress sample_env"
  have "cbor_ok reward_request" by (simp add: reward_request_def sorted_map_def less_list_code less_char_def)
  then have "from_cbor (to_cbor reward_request) = Inr reward_request" using from_cbor_encoded [of reward_request "[]"] by simp
  moreover have "dump_escaped ''Housekeeping'' = ''Housekeeping''" by (simp add: dump_escaped_plain plain_def)
  ultimately have params: "cborToParams sample_env (to_cbor reward_request) = Inr (reward_request, ''Housekeeping'')"
    using trimQuotes_quoted [of "asserts sample_env" "''Housekeeping''"]
    by (simp add: cborToParams_def sbnd_def reward_request_def json_find_def)
  have ok: "session_ok sample_env ?w" using w(1) by (simp add: session_ok_def idle_def)
  have v: "view sample_env ?w = view sample_env w" by (rule view_by_overlay) (simp_all add: overlay_def split: option.split)
  have as_text: "reward_request = text_query [(''p1'', ''0''), (''v'', ''Housekeeping'')]" by (simp add: reward_request_def text_query_def)
  have plain: "\<forall>(k, v) \<in> set [(''p1'', ''0''), (''v'', ''Housekeeping'')]. plain v" by (simp add: plain_def)
  have "bigint sample_env ''0'' = Inr 0"
    by (simp add: sample_bigint read_integer_def split_sign_def digits_only_def isdigit_def dec_val_def digit_val_def)
  then have q: "query_bigint sample_env reward_request ''p1'' ''blockIdx'' = Inr (''0'', 0)"
    using text_query_string [OF plain] by (simp add: query_bigint_def as_text sbnd_def)
  have none: "reward sample_env p 0 ?w = (Inr (), ?w)"
    using w(1) prev(2) by (simp add: reward_def reward_transitioning_def act_run to_rpc_failure_def idle_def)
  obtain w1 where w1: "setState_uptr sample_env ?p (toString sample_env (p + 10)) ?w = (Inr (), w1)"
      "same_session sample_env ?w w1" "view sample_env w1 = (view sample_env w)(?p := dump_integer (p + 10))"
    using setState_raw_effect [OF ok, of "toString sample_env (p + 10)" ?p] by (auto simp: setState_uptr_def v sample_toString)
  have tip: "tip_of sample_env ?w = 100" using w(1,2) by (simp add: tip_of_def idle_def)
  have "Housekeeping sample_env reward_request ?w = (Inr (), w1)"
    using prev dump_integer_head [of p] none w1(1)
    by (cases "p = 0") (simp_all add: Housekeeping_def q act_step state.rd_run [OF ok] v tip_read [OF ok] tip
        CONFIRMATION_COUNT_def BLOCK_REWARD_PROCESSING_COUNT_def)
  moreover have "unless_version_1 sample_env ?w = (Inr (), ?w)" using w(3) by (simp add: unless_version_1_def)
  moreover have "List.find (\<lambda>(name, h). iequals sample_env ''Housekeeping'' name) (handlers sample_env) =
      Some (''Housekeeping'', Housekeeping sample_env)"
    by (simp add: handlers_def sample_env_def lower_char_def char_of_def bit_0)
  ultimately have "Apply_cmd sample_env ''Housekeeping'' reward_request ?w = (Inr (), w1)"
    by (simp add: Apply_cmd_def act_step)
  moreover have "to_cbor reward_request \<noteq> []" using params by (auto simp: cborToParams_def sbnd_def from_cbor_def from_cbor_internal.simps parse_error_def)
  ultimately have run: "execute sample_env (to_cbor reward_request) g s w =
      (Inr (), (commit_ctx w1)\<lparr>ctx := (ctx (commit_ctx w1))\<lparr>ctx_replaying := False\<rparr>\<rparr>)"
    using s by (simp add: execute_def params act_step set_replaying_def doApply_def)
  have "view sample_env ((commit_ctx w1)\<lparr>ctx := (ctx (commit_ctx w1))\<lparr>ctx_replaying := False\<rparr>\<rparr>) = view sample_env w1"
    using layers_same(1) [of sample_env w1] by (subst view_by_overlay [of _ "commit_ctx w1"]) (simp_all add: overlay_def split: option.split)
  then show ?thesis using run same_session_simps [OF w1(2)] w by (simp add: w1(3) commit_ctx_def)
qed

lemma two_requests_ok: "idle two_requests" "ctx_tip (ctx two_requests) = 100" "v2block two_requests = 0"
  "tipCurrentState two_requests = []" "updatedBlockIdx two_requests = 0" "updatedTxIdx two_requests = 1"
  "view sample_env two_requests (processedBlockAddress sample_env) = []" "length (blocks two_requests) = 1"
  "block_txs (blocks two_requests ! 0) = [\<lparr>tx_sighash = ''alice'', tx_guid = ''g1'', tx_payload = to_cbor reward_request\<rparr>,
     \<lparr>tx_sighash = ''bob'', tx_guid = ''g2'', tx_payload = to_cbor reward_request\<rparr>]"
  by (simp_all add: two_requests_def sample_world_def idle_def view_overlay) (simp add: overlay_def)

theorem going_back_is_exact_witness:
  "\<exists>wm w'. execute_range sample_env 0 0 2 two_requests = (Inr (), wm) \<and>
    view sample_env wm (processedBlockAddress sample_env) = dump_integer 20 \<and>
    replay_same_block sample_env 1 100 wm = (Inr (), w') \<and>
    view sample_env w' (processedBlockAddress sample_env) = dump_integer 10"
proof -
  note two = two_requests_ok
  obtain w1 where w1: "execute sample_env (to_cbor reward_request) ''g1'' ''alice'' two_requests = (Inr (), w1)"
      "ctx_tip (ctx w1) = 100" "v2block w1 = 0" "view sample_env w1 (processedBlockAddress sample_env) = dump_integer 10"
    using reward_request_run [OF two(1-3), of 0 "''g1''" "''alice''"] two(7) by auto
  obtain t where i: "idle w1" "alike (two_requests\<lparr>tipCurrentState := t\<rparr>) w1" using execute_idle [OF two(1) w1(1)] by blast
  have "blocks w1 = blocks two_requests" using alike_same(3) [OF i(2)] by simp
  then have at: "tx_at 0 0 two_requests = (Inr \<lparr>tx_sighash = ''alice'', tx_guid = ''g1'', tx_payload = to_cbor reward_request\<rparr>, two_requests)"
      "tx_at 0 1 w1 = (Inr \<lparr>tx_sighash = ''bob'', tx_guid = ''g2'', tx_payload = to_cbor reward_request\<rparr>, w1)"
    using two(8,9) by (auto simp: tx_at_def block_at_def act_run)
  obtain w2 where w2: "execute sample_env (to_cbor reward_request) ''g2'' ''bob'' w1 = (Inr (), w2)"
      "view sample_env w2 (processedBlockAddress sample_env) = dump_integer 20"
    using reward_request_run [OF i(1) w1(2,3), of 10 "''g2''" "''bob''"] w1(4) by auto
  have b: "[0..0 :: int] = [0]" "[0..1 :: int] = [0, 1]" by (simp_all add: upto.simps)
  have "execute_range sample_env 0 0 1 two_requests = (Inr (), w1)" and m: "execute_range sample_env 0 0 2 two_requests = (Inr (), w2)"
    using at w1(1) w2(1) by (simp_all add: execute_range_def b act_step execute_tx_def)
  moreover have "\<exists>w'. replay_same_block sample_env 1 100 w2 = (Inr (), w') \<and>
      tipCurrentState w' = tipCurrentState w1 \<and> view sample_env w' = view sample_env w1"
    by (rule going_back_is_exact [OF two(1,4) _ _ two(5) _ two(2) m]) (simp_all add: two(6) calculation)
  ultimately show ?thesis using w1(4) w2(2) by metis
qed

end
