(* ===== verification/Entry.thy ===== *)
theory Entry
  imports Replay Formats
begin

section \<open>From the bytes of a transaction to its handler\<close>

text \<open>
  The whole way in normal operation: a new context, the payload decoded, the signer's key
  brought into its short form and hashed, the handler found by the verb.
\<close>

lemma encoded_command:
  assumes "cbor_ok (JObject ms)"
  shows "cborToParams env (to_cbor (JObject ms)) =
    (case map_of ms ''v'' of
       Some (JString cmd) \<Rightarrow> Inr (JObject ms, dump_escaped cmd)
     | Some other \<Rightarrow> sbnd (trimQuotes (asserts env) (dump (snprintf_g env) other)) (\<lambda>cmd. Inr (JObject ms, cmd))
     | None \<Rightarrow> Inl (InvalidTransaction ''verb is required''))"
  using payload_gives_command [OF assms, of env] by simp

lemma Apply_cmd_found:
  assumes "session_ok env w" and "iequals_ok env" and "(name, h) \<in> set (handlers env)" and "map lower_char cmd = map lower_char name"
  shows "Apply_cmd env cmd query w = (if too_old env w
    then (Inl (InvalidTransaction ''Version 1 transactions are not accepted after 2.0''), w) else h query w)"
proof -
  have "List.find (\<lambda>(n, h). iequals env cmd n) (handlers env) = Some (name, h)"
    using find_unique [OF handler_names_distinct assms(3)] assms(2,4) by (simp add: iequals_ok_def)
  then show ?thesis using unless_version_1_run [OF assms(1)] by (auto simp: Apply_cmd_def bnd_def)
qed

text \<open>C31. A transaction runs its command: when the payload is an encoded object with the verb of a handler
  (in any case of letters) and the signer's key is in one of the two forms, then \<open>Apply\<close> is
  that handler on that object in a new context, unless the transaction is of version 1 and
  too late; without a verb, or with a key of another form, it is rejected before any handler.\<close>

theorem transaction_runs_its_command:
  assumes w: "validator_ok env" "sha512_ok env" "iequals_ok env" "\<not> transitioning w"
    and payload: "txn_payload env = to_cbor (JObject ms)" "cbor_ok (JObject ms)"
    and h: "(name, h) \<in> set (handlers env)" "map lower_char cmd = map lower_char name"
  shows "let w0 = w\<lparr>ctx := new_Ctx False\<rparr> in
    (map_of ms ''v'' = None \<longrightarrow> Apply env w = (Inl (InvalidTransaction ''verb is required''), w0)) \<and>
    (map_of ms ''v'' = Some (JString cmd) \<and> plain cmd \<longrightarrow>
      Apply env w = (case compress (txn_signer_public_key env) of
         Inl e \<Rightarrow> (Inl e, w0)
       | Inr key \<Rightarrow> if too_old env w0
           then (Inl (InvalidTransaction ''Version 1 transactions are not accepted after 2.0''), w0) else h (JObject ms) w0))"
proof -
  let ?w0 = "w\<lparr>ctx := new_Ctx False\<rparr>"
  note params = encoded_command [OF payload(2), of env, folded payload(1)]
  have ok: "session_ok env ?w0" "\<not> ctx_transitioning (ctx ?w0)" using w(1) by (simp_all add: session_ok_def new_Ctx_def)
  have start: "Apply env w = bnd (lift (cborToParams env (txn_payload env))) (\<lambda>(query, cmd).
     bnd (lift (sbnd (compress (txn_signer_public_key env)) (sha512id env))) (\<lambda>sighash.
     Apply_guid env cmd query (txn_nonce env) sighash)) ?w0"
    using w(4) by (simp add: Apply_def act_step)
  have "Apply env w = (Inl (InvalidTransaction ''verb is required''), ?w0)" if "map_of ms ''v'' = None"
    using that by (simp add: start params act_step)
  moreover have "Apply env w = (case compress (txn_signer_public_key env) of
         Inl e \<Rightarrow> (Inl e, ?w0)
       | Inr key \<Rightarrow> if too_old env ?w0
           then (Inl (InvalidTransaction ''Version 1 transactions are not accepted after 2.0''), ?w0) else h (JObject ms) ?w0)"
    if v: "map_of ms ''v'' = Some (JString cmd)" "plain cmd"
  proof -
    have "cborToParams env (txn_payload env) = Inr (JObject ms, cmd)" using v by (simp add: params dump_escaped_plain)
    note run = start [unfolded this] Apply_cmd_found [OF ok(1) w(3) h] ok(2)
    show ?thesis
    proof (cases "compress (txn_signer_public_key env)")
      case (Inl e)
      then show ?thesis by (simp add: run(1) act_step sbnd_def)
    next
      case (Inr key)
      obtain r where "sha512id env key = Inr r" using sha512id_ok [OF w(2), of key] by blast
      then show ?thesis using Inr run(2,3) by (simp add: run(1) act_step sbnd_def Apply_guid_def)
    qed
  qed
  ultimately show ?thesis by (simp add: Let_def)
qed

definition lock_request :: json where
  "lock_request = JObject [(''p1'', JString ''niocti5000d''), (''v'', JString ''lockdealorder'')]"

definition lock_env :: "(string \<Rightarrow> string) env" where
  \<comment> \<open>the sample environment, with a transaction that locks a deal\<close>
  "lock_env = sample_env\<lparr>txn_payload := to_cbor lock_request\<rparr>"

theorem transaction_runs_its_command_witness:
  "let w0 = (sample_world [] ''bob'')\<lparr>transitioning := False, ctx := new_Ctx False\<rparr> in
    Apply lock_env ((sample_world [] ''bob'')\<lparr>transitioning := False\<rparr>) = LockDealOrder lock_env lock_request w0"
proof -
  let ?w = "(sample_world [] ''bob'')\<lparr>transitioning := False\<rparr>"
  have "stored lock_env = stored sample_env" unfolding stored_def lock_env_def by simp
  then have v: "validator_ok lock_env" using sample_validator_ok by (simp add: validator_ok_def lock_env_def)
  have env: "sha512_ok lock_env" "iequals_ok lock_env" "txn_payload lock_env = to_cbor lock_request"
    using sample_sha512_ok sample_iequals by (simp_all add: lock_env_def sha512_ok_def iequals_ok_def)
  have w: "\<not> transitioning ?w" by simp
  have c: "cbor_ok lock_request" by (simp add: lock_request_def sorted_map_def less_list_code less_char_def)
  have h: "(''LockDealOrder'', LockDealOrder lock_env) \<in> set (handlers lock_env)" by (simp add: handlers_def)
  have name: "map lower_char ''lockdealorder'' = map lower_char ''LockDealOrder''" by (simp add: lower_char_def char_of_def bit_0)
  have key: "compress (txn_signer_public_key lock_env) = Inr (''02'' @ replicate 64 CHR ''a'')"
    using compress_fixpoint [of "''02'' @ replicate 64 CHR ''a''"] by (simp add: lock_env_def sample_env_def compressed_key_def)
  have new: "\<not> too_old lock_env (?w\<lparr>ctx := new_Ctx False\<rparr>)" by (simp add: too_old_def sample_world_def)
  have "plain ''lockdealorder''" by (simp add: plain_def)
  then show ?thesis
    using transaction_runs_its_command [OF v env(1,2) w _ _ h name, of "[(''p1'', JString ''niocti5000d''), (''v'', JString ''lockdealorder'')]"] env(3) c key new
    by (simp add: Let_def lock_request_def [symmetric])
qed

end
