(* ===== verification/Reproduction.thy ===== *)
theory Reproduction
  imports Rewind Entry
begin

section \<open>The replay of the old chain and the validator that built it\<close>

text \<open>
  A transitioning processor executes the transactions of a file instead of asking for the blocks
  (\<open>Applicator::execute\<close>, the loops of \<open>Apply\<close>).  Here its run is compared with that of the
  processor that accepted these transactions when their blocks were made.  \<open>sim\<close> is
  simulation of actions, composed along \<open>bnd\<close> by the rules in \<open>sims\<close>, and \<open>mirrors\<close> the relation it
  is used with.  Each handler simulates itself,
  because it meets the state only through reads and writes that do: \<open>Housekeeping\<close> is left out,
  which lists the state in another order, finds the signers to reward in another way, and pays
  nobody when it is asked for the next ten rewards (\<open>replayed_request_pays_nobody\<close>).
  \<open>produced\<close> is the chain as the validator built it, block by block.
\<close>

subsection \<open>Simulation\<close>

definition sim :: "('s \<Rightarrow> 't \<Rightarrow> bool) \<Rightarrow> ('s, 'a) act \<Rightarrow> ('t, 'a) act \<Rightarrow> bool" where
  "sim R m n \<longleftrightarrow> (\<forall>s t x s'. R s t \<longrightarrow> m s = (Inr x, s') \<longrightarrow> (\<exists>t'. n t = (Inr x, t') \<and> R s' t'))"

lemma sim_run: "sim R m n \<Longrightarrow> R s t \<Longrightarrow> m s = (Inr x, s') \<Longrightarrow> \<exists>t'. n t = (Inr x, t') \<and> R s' t'"
  unfolding sim_def by blast

named_theorems sims "actions that simulate each other"

lemma sim_bnd [sims]: "sim R m n \<Longrightarrow> (\<And>x. sim R (f x) (g x)) \<Longrightarrow> sim R (bnd m f) (bnd n g)"
  unfolding sim_def by (intro allI impI, unfold bnd_ok, elim exE conjE) blast

lemma sim_simple [sims]: "sim R (ret x) (ret x)" "sim R (lift r) (lift r)" "sim R (throwIf b msg) (throwIf b msg)" "sim R (throw e) n"
  by (auto simp: sim_def act_ok)

lemma sim_if [sims]: "sim R m n \<Longrightarrow> sim R m' n' \<Longrightarrow> sim R (if b then m else m') (if b then n else n')"
  by simp

lemma sim_prod [sims]: "(\<And>a b. sim R (f a b) (g a b)) \<Longrightarrow> sim R (case p of (a, b) \<Rightarrow> f a b) (case p of (a, b) \<Rightarrow> g a b)"
  by (cases p) simp

lemma sim_read: "(\<And>s t x s'. R s t \<Longrightarrow> m s = (Inr x, s') \<Longrightarrow> s' = s \<and> n t = (Inr x, t)) \<Longrightarrow> sim R m n"
  unfolding sim_def by blast

definition mirrors :: "'v env \<Rightarrow> 'v env \<Rightarrow> 'v world \<Rightarrow> 'v world \<Rightarrow> bool" where
  \<comment> \<open>a replaying processor sees what the first one saw: the state, the head, the signer, the guid\<close>
  "mirrors env env' w v \<longleftrightarrow> session_ok env w \<and> session_ok env' v \<and> layers_sorted v \<and>
     \<not> ctx_transitioning (ctx w) \<and> \<not> transitioning w \<and>
     ctx_transitioning (ctx v) \<and> transitioning v \<and> v2block v = 0 \<and>
     view env' v = view env w \<and> tip_of env' v = tip_of env w \<and>
     signer env' v = signer env w \<and> guid_of env' v = guid_of env w"

lemma same_session_signer:
  assumes "same_session env w w'"
  shows "signer env w' = signer env w" "guid_of env w' = guid_of env w"
  using same_session_simps [OF assms] by (simp_all add: signer_def guid_of_def)

lemma mirrors_write:
  assumes "mirrors env env' w v" and "session_ok env w1" "same_session env w w1" "view env w1 = f (view env w)"
    and "session_ok env' v1" "same_session env' v v1" "view env' v1 = f (view env' v)" "layers_sorted v1"
  shows "mirrors env env' w1 v1"
  using assms same_session_simps [OF assms(3)] same_session_simps [OF assms(6)]
  by (simp add: mirrors_def same_session_signer [OF assms(3)] same_session_signer [OF assms(6)])

lemma sim_access [sims]:
  "sim (mirrors env env') (getStateData env k existing) (getStateData env' k existing)"
  "sim (mirrors env env') (getSighash env) (getSighash env')"
  "sim (mirrors env env') (getGuid env) (getGuid env')"
  "sim (mirrors env env') (lastBlockInt env) (lastBlockInt env')"
  by (rule sim_read; auto simp: mirrors_def state.rd_ok state.rd_run getSighash_ok getGuid_ok tip_read)+

lemma sim_setStates [sims]: "sim (mirrors env env') (setStates env kvs) (setStates env' kvs)"
  unfolding sim_def
proof (intro allI impI)
  fix w v x w1
  assume m: "mirrors env env' w v" and run: "setStates env kvs w = (Inr x, w1)"
  have s: "session_ok env w" "session_ok env' v" "layers_sorted v" using m by (simp_all add: mirrors_def)
  obtain v1 where v1: "setStates env' kvs v = (Inr (), v1)" "session_ok env' v1" "same_session env' v v1"
      "view env' v1 = write_all kvs (view env' v)" using state.wr [OF s(2)] by blast
  have "layers_sorted v1" using write_keeps_layers(1) [OF v1(1) [unfolded setStates_def] s(3)] .
  then show "\<exists>v1. setStates env' kvs v = (Inr x, v1) \<and> mirrors env env' w1 v1"
    using mirrors_write [OF m] state.wr_ok [OF s(1) run] v1 by auto
qed

lemma sim_deleteState [sims]: "sim (mirrors env env') (deleteState env k) (deleteState env' k)"
  unfolding sim_def
proof (intro allI impI)
  fix w v x w1
  assume m: "mirrors env env' w v" and run: "deleteState env k w = (Inr x, w1)"
  have s: "session_ok env w" "session_ok env' v" "layers_sorted v" using m by (simp_all add: mirrors_def)
  obtain v1 where v1: "deleteState env' k v = (Inr (), v1)" "session_ok env' v1" "same_session env' v v1"
      "view env' v1 = (view env' v)(k := [])" using state.del [OF s(2)] by blast
  have "layers_sorted v1" using write_keeps_layers(1) [OF v1(1) [unfolded deleteState_def] s(3)] .
  then show "\<exists>v1. deleteState env' k v = (Inr x, v1) \<and> mirrors env env' w1 v1"
    using mirrors_write [where f = "\<lambda>g. g(k := [])", OF m] state.del_ok [OF s(1) run] v1 by auto
qed

lemma sim_verify [sims]: "sim (mirrors env env') (verify env c) (verify env' c)"
proof (rule sim_read)
  fix w v x w'
  assume "mirrors env env' w v" and run: "verify env c w = (Inr x, w')"
  then have "transitioning v" by (simp add: mirrors_def)
  then show "w' = w \<and> verify env' c v = (Inr x, v)" using verify_pure [OF run] by (simp add: verify_def)
qed

lemma sim_steps [sims]:
  assumes "same_program env env'"
  shows "sim (mirrors env env') (lastBlock env) (lastBlock env')"
    "sim (mirrors env env') (charge env s) (charge env' s)"
    "sim (mirrors env env') (addFee env s states) (addFee env' s states)"
    "sim (mirrors env env') (addFee_wallet env s states k wallet) (addFee_wallet env' s states k wallet)"
    "sim (mirrors env env') (credit env d t n) (credit env d t n)"
proof -
  note eqs = same_text [OF assms]
  show b: "sim (mirrors env env') (lastBlock env) (lastBlock env')"
    unfolding lastBlock_def eqs by (intro sims)
  show "sim (mirrors env env') (charge env s) (charge env' s)"
    unfolding charge_def Let_def eqs by (intro sims)
  show "sim (mirrors env env') (credit env d t n) (credit env d t n)"
    unfolding credit_def Let_def by (intro sims)
  show f: "sim (mirrors env env') (addFee env s states) (addFee env' s states)" for states
    unfolding addFee_def eqs by (intro sims b)
  show "sim (mirrors env env') (addFee_wallet env s states k wallet) (addFee_wallet env' s states k wallet)"
    unfolding addFee_wallet_def by (intro sims f)
qed

lemma sim_market:
  assumes p: "same_program env env'"
  shows "list_all2 (\<lambda>(name, h) (name', h'). name' = name \<and> (name \<noteq> ''Housekeeping'' \<longrightarrow> sim (mirrors env env') (h query) (h' query)))
    (handlers env) (handlers env')"
proof -
  note eqs = same_text [OF p]
  show ?thesis unfolding handlers_def
    by (simp, intro conjI; unfold SendFunds_def RegisterAddress_def RegisterTransfer_def AddAskOrder_def AddBidOrder_def AddOffer_def
      AddDealOrder_def CompleteDealOrder_def LockDealOrder_def CloseDealOrder_def Exempt_def AddRepaymentOrder_def
      CompleteRepaymentOrder_def CloseRepaymentOrder_def CollectCoins_def Let_def eqs; (rule sims | rule p)+)
qed

lemma find_all2:
  assumes "list_all2 (\<lambda>(n, h) (n', h'). n' = n \<and> P n h h') xs ys" and "List.find (\<lambda>(n, h). f n) xs = Some (n, h)"
  shows "f n \<and> (\<exists>h'. List.find (\<lambda>(n, h). f n) ys = Some (n, h') \<and> P n h h')"
  using assms by (induction rule: list_all2_induct) (auto split: if_splits)

lemma sim_Apply_cmd:
  assumes p: "same_program env env'" and "\<not> iequals env cmd ''Housekeeping''"
  shows "sim (mirrors env env') (Apply_cmd env cmd query) (Apply_cmd env' cmd query)"
proof -
  have version: "sim (mirrors env env') (unless_version_1 env) (unless_version_1 env')"
  proof (rule sim_read)
    fix w v x w'
    assume "mirrors env env' w v" and "unless_version_1 env w = (Inr x, w')"
    then show "w' = w \<and> unless_version_1 env' v = (Inr x, v)"
      by (auto simp: mirrors_def unless_version_1_def act_ok tip_read split: if_splits)
  qed
  have "sim (mirrors env env')
      (case List.find (\<lambda>(name, h). iequals env cmd name) (handlers env) of Some (name, h) \<Rightarrow> h query | None \<Rightarrow> throw e)
      (case List.find (\<lambda>(name, h). iequals env cmd name) (handlers env') of Some (name, h) \<Rightarrow> h query | None \<Rightarrow> throw e')" for e e'
  proof (cases "List.find (\<lambda>(name, h). iequals env cmd name) (handlers env)")
    case None
    then show ?thesis by (simp add: sims)
  next
    case (Some nh)
    obtain name h where nh: "nh = (name, h)" by force
    obtain h' where "iequals env cmd name" and h': "List.find (\<lambda>(name, h). iequals env cmd name) (handlers env') = Some (name, h')"
      and "name \<noteq> ''Housekeeping'' \<longrightarrow> sim (mirrors env env') (h query) (h' query)"
      using find_all2 [OF sim_market [OF p, of query] Some [unfolded nh]] by blast
    then have "sim (mirrors env env') (h query) (h' query)" using assms(2) by blast
    then show ?thesis using Some h' by (simp add: nh)
  qed
  then show ?thesis unfolding Apply_cmd_def same_text(3) [OF p] by (intro sim_bnd version)
qed

subsection \<open>One transaction\<close>

definition validator_tip :: "'v env \<Rightarrow> 'v \<Rightarrow> int" where
  \<comment> \<open>the number of the last block\<close>
  "validator_tip env u = (case GetTip env u of Inr tip \<Rightarrow> uint (tip - 1) | Inl _ \<Rightarrow> 0)"

definition held :: "'v env \<Rightarrow> 'v \<Rightarrow> 'v world \<Rightarrow> bool" where
  \<comment> \<open>between two transactions: the layers hold the state of the validator at that point\<close>
  "held env u v \<longleftrightarrow> idle v \<and> layers_sorted v \<and> v2block v = 0 \<and> view env v = stored env u"

definition mirrored :: "'v env \<Rightarrow> 'v \<Rightarrow> 'v world \<Rightarrow> bool" where
  "mirrored env u v \<longleftrightarrow> held env u v \<and> ctx_tip (ctx v) = validator_tip env u"

definition recorded :: "'v env \<Rightarrow> 'v env \<Rightarrow> Tx \<Rightarrow> bool" where
  \<comment> \<open>the entry of the file that stands for the transaction with the header of e\<close>
  "recorded env e tx \<longleftrightarrow> same_program env e \<and> tx_payload tx = txn_payload e \<and>
     tx_guid tx = txn_nonce e \<and> txn_nonce e \<noteq> [] \<and>
     sbnd (compress (txn_signer_public_key e)) (sha512id e) = Inr (tx_sighash tx) \<and> tx_sighash tx \<noteq> [] \<and>
     (\<forall>query cmd. cborToParams e (txn_payload e) = Inr (query, cmd) \<longrightarrow> \<not> iequals e cmd ''Housekeeping'')"

lemma cborToParams_Nil: "cborToParams env [] \<noteq> Inr p"
  by (auto simp: cborToParams_def sbnd_def from_cbor_def from_cbor_internal.simps parse_error_def)

lemma mirrors_start:
  assumes env: "validator_ok env" "same_program env e" and "\<not> transitioning w" and m: "mirrored env (validator w) v"
    and s: "sbnd (compress (txn_signer_public_key e)) (sha512id e) = Inr sighash"
  shows "mirrors e env (w\<lparr>ctx := new_Ctx False\<rparr>)
    (v\<lparr>ctx := (ctx v)\<lparr>ctx_replaying := True, ctx_guid := txn_nonce e, ctx_sighash := sighash\<rparr>\<rparr>)"
proof -
  let ?v = "v\<lparr>ctx := (ctx v)\<lparr>ctx_replaying := True, ctx_guid := txn_nonce e, ctx_sighash := sighash\<rparr>\<rparr>"
    and ?w = "w\<lparr>ctx := new_Ctx False\<rparr>"
  have view: "view env ?v = view env v" by (rule view_by_overlay) (simp_all add: overlay_def split: option.split)
  have "view e ?w = stored e (validator w)" by (rule ext) (simp add: view_validator new_Ctx_def)
  then have "view env ?v = view e ?w" using m view same_text(20) [OF env(2)] by (simp add: mirrored_def held_def)
  moreover have "tip_of env ?v = tip_of e ?w"
    using m same_text(19) [OF env(2)] by (simp add: tip_of_def mirrored_def held_def validator_tip_def idle_def new_Ctx_def)
  ultimately show ?thesis using assms(3) m s env same_validator [OF env(2)]
    by (simp add: mirrors_def session_ok_def mirrored_def held_def idle_def new_Ctx_def layers_sorted_def signer_def guid_of_def)
qed

lemma mirrors_end:
  assumes "validator_ok env" "same_program env e" and m: "mirrors e env w1 v1"
    and v': "v' = (commit_ctx v1)\<lparr>ctx := (ctx (commit_ctx v1))\<lparr>ctx_replaying := False\<rparr>\<rparr>"
  shows "mirrored env (validator w1) v' \<and> \<not> transitioning w1"
proof -
  have "view env v' = view env (commit_ctx v1)"
    by (rule view_by_overlay) (simp_all add: v' overlay_def split: option.split)
  then have "view env v' = view env v1" using layers_same(1) by metis
  moreover have "view e w1 = stored e (validator w1)" using m by (intro ext) (simp add: view_validator mirrors_def)
  moreover have "layers_sorted v'" using layers_sorted_kept(2) [of v1] m by (simp add: v' layers_sorted_def mirrors_def)
  moreover have "ctx_tip (ctx v') = validator_tip env (validator w1)"
    using m same_text(19) [OF assms(2)] by (auto simp: v' commit_ctx_def mirrors_def tip_of_def validator_tip_def)
  ultimately show ?thesis using m same_text(20) [OF assms(2)]
    by (simp add: mirrored_def held_def mirrors_def idle_def v' commit_ctx_def)
qed

lemma replayed_tx:
  assumes env: "validator_ok env" "recorded env e tx" and w: "\<not> transitioning w" "Apply e w = (Inr (), w')"
    and m: "mirrored env (validator w) v"
  shows "\<exists>v'. execute_tx env tx v = (Inr (), v') \<and> mirrored env (validator w') v' \<and> \<not> transitioning w' \<and>
    (\<exists>t. alike (v\<lparr>tipCurrentState := t\<rparr>) v')"
proof -
  have p: "same_program env e" "same_program e env"
    using env(2) same_program_trans [OF _ same_program_refl] by (auto simp: recorded_def)
  obtain query cmd sighash where q: "cborToParams e (txn_payload e) = Inr (query, cmd)"
    and s: "sbnd (compress (txn_signer_public_key e)) (sha512id e) = Inr sighash"
    and run: "Apply_cmd e cmd query (w\<lparr>ctx := new_Ctx False\<rparr>) = (Inr (), w')"
    using w by (auto simp: Apply_def act_ok Apply_guid_def new_Ctx_def)
  have r: "tx_payload tx = txn_payload e" "tx_guid tx = txn_nonce e" "txn_nonce e \<noteq> []" "tx_sighash tx = sighash"
    "sighash \<noteq> []" "\<not> iequals e cmd ''Housekeeping''" "txn_payload e \<noteq> []"
    using env(2) q s cborToParams_Nil [of e] by (auto simp: recorded_def)
  let ?v = "v\<lparr>ctx := (ctx v)\<lparr>ctx_replaying := True, ctx_guid := txn_nonce e, ctx_sighash := sighash\<rparr>\<rparr>"
  obtain v1 where v1: "Apply_cmd env cmd query ?v = (Inr (), v1)" "mirrors e env w' v1"
    using sim_run [OF sim_Apply_cmd [OF p(2) r(6)] mirrors_start [OF env(1) p(1) w(1) m s] run] by blast
  let ?v' = "(commit_ctx v1)\<lparr>ctx := (ctx (commit_ctx v1))\<lparr>ctx_replaying := False\<rparr>\<rparr>"
  have exec: "execute env (tx_payload tx) (tx_guid tx) (tx_sighash tx) v = (Inr (), ?v')"
    using q r(3,7) v1(1) same_text(17) [OF p(1)]
    by (simp add: r(1,2,4) execute_def act_step set_replaying_def doApply_def)
  moreover have "idle v" using m by (simp add: mirrored_def held_def)
  ultimately have "\<exists>t. alike (v\<lparr>tipCurrentState := t\<rparr>) ?v'" using execute_idle by blast
  then show ?thesis using exec r(4,5) mirrors_end [OF env(1) p(1) v1(2) refl] by (simp add: execute_tx_def)
qed

subsection \<open>The rest of a block, and the blocks after it\<close>

definition same_file :: "'v world \<Rightarrow> 'v world \<Rightarrow> bool" where
  \<comment> \<open>the old chain, and how far the replay had come\<close>
  "same_file v v' \<longleftrightarrow> blocks v' = blocks v \<and> updatedBlockIdx v' = updatedBlockIdx v \<and> updatedTxIdx v' = updatedTxIdx v"

lemma same_file_step: "alike (v\<lparr>tipCurrentState := t\<rparr>) v' \<Longrightarrow> same_file v v'"
  using alike_same [of "v\<lparr>tipCurrentState := t\<rparr>" v'] by (simp add: same_file_def)

lemma replayed_txs:
  assumes "list_all2 (recorded env) es txs" and env: "validator_ok env"
    and "\<not> transitioning w" and "forEach es Apply w = (Inr (), w')" and "mirrored env (validator w) v"
  shows "\<exists>v'. forEach txs (execute_tx env) v = (Inr (), v') \<and> mirrored env (validator w') v' \<and> same_file v v'"
  using assms(1,3-5)
proof (induction arbitrary: w v rule: list_all2_induct)
  case Nil
  then show ?case by (auto simp: act_ok ret_def same_file_def)
next
  case (Cons e es tx txs)
  obtain w1 where w1: "Apply e w = (Inr (), w1)" "forEach es Apply w1 = (Inr (), w')"
    using Cons.prems(2) by (auto simp: act_ok)
  obtain v1 t where v1: "execute_tx env tx v = (Inr (), v1)" "mirrored env (validator w1) v1" "\<not> transitioning w1"
      "alike (v\<lparr>tipCurrentState := t\<rparr>) v1"
    using replayed_tx [OF env Cons.hyps(1) Cons.prems(1) w1(1) Cons.prems(3)] by blast
  then show ?case using Cons.IH [OF v1(3) w1(2) v1(2)] same_file_step [OF v1(4)]
    by (fastforce simp: act_step same_file_def)
qed

lemma execute_range_slice:
  assumes "forEach (drop (nat k) (block_txs b)) (execute_tx env) v = (Inr (), v')"
    and "idle v" and i: "0 \<le> i" "nat i < length (blocks v)" "blocks v ! nat i = b" and "0 \<le> k"
  shows "execute_range env i k (int (length (block_txs b))) v = (Inr (), v')"
  using assms
proof (induction "length (block_txs b) - nat k" arbitrary: k v)
  case 0
  then show ?case by (simp add: execute_range_def)
next
  case (Suc n)
  let ?tx = "block_txs b ! nat k" and ?n = "int (length (block_txs b))"
  have k: "nat k < length (block_txs b)" using Suc.hyps(2) by simp
  then have d: "drop (nat k) (block_txs b) = ?tx # drop (nat (k + 1)) (block_txs b)"
    using Cons_nth_drop_Suc [OF k] Suc.prems(6) by (simp add: nat_add_distrib)
  obtain v1 where v1: "execute_tx env ?tx v = (Inr (), v1)" "forEach (drop (nat (k + 1)) (block_txs b)) (execute_tx env) v1 = (Inr (), v')"
    using Suc.prems(1) by (auto simp: d act_ok)
  have "v1 = v \<or> (\<exists>p g s. execute env p g s v = (Inr (), v1))"
    using v1(1) by (auto simp: execute_tx_def ret_def split: if_splits)
  then have same: "idle v1" "blocks v1 = blocks v"
    using execute_idle [OF Suc.prems(2)] same_file_step Suc.prems(2) unfolding same_file_def by blast+
  have "tx_at i k v = (Inr ?tx, v)" using k Suc.prems(3-6) by (simp add: tx_at_def block_at_def act_step)
  moreover have "[k..?n - 1] = k # [k + 1..?n - 1]" using k Suc.prems(6) by (intro upto_rec1) linarith
  moreover have "execute_range env i (k + 1) ?n v1 = (Inr (), v')"
    by (rule Suc.hyps(1)) (use Suc.hyps(2) Suc.prems v1(2) same in \<open>auto simp: nat_add_distrib\<close>)
  ultimately show ?case using v1(1) by (simp add: execute_range_def act_step)
qed

inductive produced :: "'v env \<Rightarrow> 'v \<Rightarrow> 'v env list list \<Rightarrow> 'v \<Rightarrow> bool" for env where
  \<comment> \<open>each block is the headers of its transactions, all accepted; the validator then adds the block\<close>
  start: "produced env u [] u"
| block: "\<not> transitioning w \<Longrightarrow> validator w = u \<Longrightarrow> forEach es Apply w = (Inr (), w') \<Longrightarrow>
     stored env u1 = stored env (validator w') \<Longrightarrow> validator_tip env u1 = validator_tip env u + 1 \<Longrightarrow>
     produced env u1 bs u' \<Longrightarrow> produced env u (es # bs) u'"

inductive_cases produced_blockE: "produced env u (es # bs) u'"
inductive_simps produced_start: "produced env u [] u'"

lemma held_flush: "held env u v \<Longrightarrow> held env u (flush_tip v)"
  using layers_same(2) [of v env] layers_sorted_kept(3) [of v] by (simp add: held_def idle_def) (simp add: flush_tip_def)

lemma held_tip:
  assumes "held env u v" and "n = validator_tip env u"
  shows "set_tip n v = (Inr (), v\<lparr>ctx := (ctx v)\<lparr>ctx_tip := n\<rparr>\<rparr>)" and "mirrored env u (v\<lparr>ctx := (ctx v)\<lparr>ctx_tip := n\<rparr>\<rparr>)"
proof -
  let ?v = "v\<lparr>ctx := (ctx v)\<lparr>ctx_tip := n\<rparr>\<rparr>"
  have "view env ?v = view env v" by (rule view_by_overlay) (simp_all add: overlay_def split: option.split)
  then show "mirrored env u ?v" using assms by (simp add: mirrored_def held_def idle_def layers_sorted_def)
qed (simp add: set_tip_def modifies_def)

definition replay_block :: "'v env \<Rightarrow> int \<Rightarrow> ('v world, unit) act" where
  \<comment> \<open>one turn of the loop over the blocks in between\<close>
  "replay_block env i =
     bnd (set_tip (i - 1)) (\<lambda>_.
     bnd (block_at i) (\<lambda>b.
     bnd (forEach (block_txs b) (execute_tx env)) (\<lambda>_.
     modifies flush_tip)))"

lemma replayed_block:
  assumes env: "validator_ok env" and b: "list_all2 (recorded env) es (block_txs (blocks v ! nat i))" "0 \<le> i" "nat i < length (blocks v)"
    and w: "\<not> transitioning w" "forEach es Apply w = (Inr (), w')" and v: "held env (validator w) v" "validator_tip env (validator w) = i - 1"
  shows "\<exists>v'. replay_block env i v = (Inr (), v') \<and> held env (validator w') v' \<and> blocks v' = blocks v"
proof -
  let ?v = "v\<lparr>ctx := (ctx v)\<lparr>ctx_tip := i - 1\<rparr>\<rparr>"
  note t = held_tip [OF v(1), of "i - 1"]
  obtain v' where v': "forEach (block_txs (blocks v ! nat i)) (execute_tx env) ?v = (Inr (), v')" "mirrored env (validator w') v'" "same_file ?v v'"
    using replayed_txs [OF b(1) env w t(2)] v(2) by auto
  have "replay_block env i v = (Inr (), flush_tip v')"
    using b(2,3) t(1) v(2) v'(1) by (simp add: replay_block_def act_step block_at_def)
  moreover have "held env (validator w') (flush_tip v')" using v'(2) by (intro held_flush) (simp add: mirrored_def)
  ultimately show ?thesis using v'(3) by (simp add: same_file_def flush_tip_def)
qed

lemma replayed_blocks:
  assumes "produced env u bs u'" and env: "validator_ok env"
    and "list_all2 (\<lambda>es b. list_all2 (recorded env) es (block_txs b)) bs (take (length bs) (drop (nat i) (blocks v)))" and "0 \<le> i"
    and "held env u v" "validator_tip env u = i - 1"
  shows "\<exists>v'. forEach [i..i + int (length bs) - 1] (replay_block env) v = (Inr (), v') \<and> held env u' v'"
  using assms(1,3-)
proof (induction bs arbitrary: u v i)
  case Nil
  then show ?case by (simp add: produced_start ret_def)
next
  case (Cons es bs)
  obtain w w' u1 where w: "\<not> transitioning w" "validator w = u" "forEach es Apply w = (Inr (), w')"
    and u1: "stored env u1 = stored env (validator w')" "validator_tip env u1 = validator_tip env u + 1" "produced env u1 bs u'"
    using Cons.prems(1) by (rule produced_blockE)
  have len: "nat i < length (blocks v)"
  proof (rule ccontr)
    assume "\<not> nat i < length (blocks v)"
    then show False using Cons.prems(2) by simp
  qed
  then have d: "drop (nat i) (blocks v) = blocks v ! nat i # drop (nat (i + 1)) (blocks v)"
    using Cons_nth_drop_Suc [OF len] Cons.prems(3) by (simp add: nat_add_distrib)
  have bs: "list_all2 (recorded env) es (block_txs (blocks v ! nat i))"
    "list_all2 (\<lambda>es b. list_all2 (recorded env) es (block_txs b)) bs (take (length bs) (drop (nat (i + 1)) (blocks v)))"
    using Cons.prems(2) unfolding d by simp_all
  obtain v1 where v1: "replay_block env i v = (Inr (), v1)" "held env (validator w') v1" "blocks v1 = blocks v"
    using replayed_block [OF env bs(1) Cons.prems(3) len w(1,3)] Cons.prems(4,5) w(2) by blast
  have "held env u1 v1" using v1(2) u1(1) by (simp add: held_def)
  then obtain v' where "forEach [i + 1..i + 1 + int (length bs) - 1] (replay_block env) v1 = (Inr (), v')" "held env u' v'"
    using Cons.IH [OF u1(3), of "i + 1" v1] bs(2) v1(3) Cons.prems(3,5) u1(2) by auto
  moreover have "[i..i + int (length (es # bs)) - 1] = i # [i + 1..i + 1 + int (length bs) - 1]"
    using upto_rec1 [of i "i + int (length (es # bs)) - 1"] by (simp add: algebra_simps)
  ultimately show ?case using v1(1) by (simp add: act_step)
qed

text \<open>C6. The replay reproduces the chain: when a transitioning processor that has executed the first k
  transactions of a block goes to the first transaction of a later block, it executes the rest of that
  block and all blocks in between without an error, and then shows exactly the state of the validator
  after these blocks, whose transactions (of any command but Housekeeping) were accepted in
  normal operation.\<close>

theorem replay_reproduces_the_chain:
  assumes env: "validator_ok env"
    and v: "idle v" "layers_sorted v" "v2block v = 0" "view env v = stored env u" "validator_tip env u = i - 1"
    and at: "updatedBlockIdx v = i" "0 \<le> i" "updatedTxIdx v = k - 1" "0 \<le> k" "blocks v = before @ b # between @ after"
      "length before = nat i"
    and recorded: "list_all2 (recorded env) es (drop (nat k) (block_txs b))"
      "list_all2 (\<lambda>es b. list_all2 (recorded env) es (block_txs b)) bs between"
    and chain: "produced env u (es # bs) u'"
  shows "\<exists>v'. replay_new_block env (i + 1 + int (length between)) 0 tip v = (Inr (), v') \<and>
    view env v' = stored env u' \<and> ctx_tip (ctx v') = tip"
proof -
  obtain w w' u1 where w: "\<not> transitioning w" "validator w = u" "forEach es Apply w = (Inr (), w')"
    and u1: "stored env u1 = stored env (validator w')" "validator_tip env u1 = validator_tip env u + 1" "produced env u1 bs u'"
    using chain by (rule produced_blockE)
  have held: "held env u v" using v by (simp add: held_def)
  have b: "blocks v ! nat i = b" "nat i < length (blocks v)" using at(5,6) by (simp_all add: nth_append)
  have n: "length bs = length between" using list_all2_lengthD [OF recorded(2)] .
  let ?v = "v\<lparr>ctx := (ctx v)\<lparr>ctx_tip := i - 1\<rparr>\<rparr>"
  note t = held_tip [OF held, of "i - 1"]
  obtain v1 where v1: "forEach (drop (nat k) (block_txs b)) (execute_tx env) ?v = (Inr (), v1)" "mirrored env (validator w') v1" "same_file ?v v1"
    using replayed_txs [OF recorded(1) env w(1,3), of ?v] t(2) v(5) w(2) by auto
  have rest: "execute_range env i k (int (length (block_txs b))) ?v = (Inr (), v1)"
    by (rule execute_range_slice [OF v1(1)]) (use v(1) b at in \<open>simp_all add: idle_def\<close>)
  have "held env u1 (flush_tip v1)" using held_flush [of env "validator w'" v1] v1(2) u1(1) by (simp add: mirrored_def held_def)
  moreover have "drop (nat (i + 1)) (blocks (flush_tip v1)) = between @ after"
    using v1(3) at(2,5,6) by (simp add: same_file_def flush_tip_def nat_add_distrib)
  ultimately obtain v2 where v2: "forEach [i + 1..i + 1 + int (length bs) - 1] (replay_block env) (flush_tip v1) = (Inr (), v2)" "held env u' v2"
    using replayed_blocks [OF u1(3) env, of "i + 1" "flush_tip v1"] recorded(2) n at(2) v(5) u1(2) by auto
  let ?v' = "v2\<lparr>ctx := (ctx v2)\<lparr>ctx_tip := tip\<rparr>\<rparr>"
  have view: "view env ?v' = view env v2" by (rule view_by_overlay) (simp_all add: overlay_def split: option.split)
  have "replay_new_block env (i + 1 + int (length between)) 0 tip v = (Inr (), ?v')"
    unfolding replay_new_block_def replay_block_def [symmetric]
    using t(1) v(5) at(1,3) b rest v2(1) n at(2)
    by (simp add: act_step block_at_def set_tip_def execute_range_def [where first = 0 and till = 0] ret_def)
  then show ?thesis using v2(2) view by (auto simp: held_def)
qed

subsection \<open>An instance\<close>

definition clock_env :: "((string \<Rightarrow> string) \<times> 64 word) env" where
  \<comment> \<open>the sample environment with a validator that has a clock; its transaction collects coins\<close>
  "clock_env = \<lparr>asserts = True, sha512 = pad_digest, read_cpp_int = read_integer,
     show_cpp_int = dump_integer, to_int = (\<lambda>n. n), to_uint64 = word_of_int,
     to_lower = map lower_char, iequals = (\<lambda>a b. map lower_char a = map lower_char b),
     boost_starts_with = (\<lambda>s p. starts_with p s), snprintf_g = (\<lambda>_. ''1.5''),
     pow_fixed = (\<lambda>p. if p = 0 then ''1.000000'' else ''0.950000''),
     txn_signer_public_key = ''02'' @ replicate 64 CHR ''a'', txn_payload = to_cbor (text_query (collect_params @ [(''v'', ''CollectCoins'')])),
     txn_nonce = ''nonce'', txn_family_version = ''1.7'', txn_block_signature = [],
     GetState = (\<lambda>(st, t) k. Inr (st k \<noteq> [], st k)), SetState = (\<lambda>kvs (st, t). (Inr (), (write_all kvs st, t))),
     DeleteState = (\<lambda>k (st, t). (Inr (), (st(k := []), t))), GetTip = (\<lambda>(st, t). Inr t),
     GetStatesByPrefix = (\<lambda>v prefix root start. Inr ([], [], [])),
     GetSigByNum = (\<lambda>v n. Inr ''miner''), GetRewardBlockSignatures = (\<lambda>v s a b. Inr (replicate (nat (uint a - uint b + 1)) ''miner'')),
     read_settings = (\<lambda>_. []), local_gateway = (\<lambda>v cmd. Inr ''good''),
     external_gateway = (\<lambda>v a cmd. Inr None)\<rparr>"

lemma clock_validator: "validator_ok clock_env" "stored clock_env (st, t) = st" "validator_tip clock_env (st, t) = uint (t - 1)"
proof -
  show s: "stored clock_env (st, t) = st" for st t by (simp add: stored_def clock_env_def fun_eq_iff)
  show "validator_ok clock_env"
    unfolding validator_ok_def by (auto simp: s) (simp_all add: clock_env_def)
  show "validator_tip clock_env (st, t) = uint (t - 1)" by (simp add: validator_tip_def clock_env_def)
qed

lemma clock_text: "query_string clock_env = query_string sample_env" "getStringLower clock_env = getStringLower sample_env"
  "query_bigint clock_env = query_bigint sample_env" "makeAddress clock_env = makeAddress sample_env"
  "walletIdOf clock_env = walletIdOf sample_env" "sha512id clock_env = sha512id sample_env" "cborToParams clock_env = cborToParams sample_env"
proof -
  have f: "asserts clock_env = asserts sample_env" "snprintf_g clock_env = snprintf_g sample_env" "to_lower clock_env = to_lower sample_env"
    "read_cpp_int clock_env = read_cpp_int sample_env" "sha512 clock_env = sha512 sample_env"
    by (simp_all add: clock_env_def sample_env_def)
  show "query_string clock_env = query_string sample_env" "getStringLower clock_env = getStringLower sample_env"
    "query_bigint clock_env = query_bigint sample_env" "makeAddress clock_env = makeAddress sample_env"
    "walletIdOf clock_env = walletIdOf sample_env" "sha512id clock_env = sha512id sample_env" "cborToParams clock_env = cborToParams sample_env"
    by (intro ext; simp only: query_string_def getStringLower_def query_bigint_def bigint_def getBigint_def makeAddress_def walletIdOf_def
        sha512id_def cborToParams_def namespacePrefix_def f)+
qed

definition collector :: string where
  "collector = (case sha512id sample_env (''02'' @ replicate 64 CHR ''a'') of Inr s \<Rightarrow> s | Inl _ \<Rightarrow> [])"

definition collected :: "string \<Rightarrow> string" where
  \<comment> \<open>the state after the transaction\<close>
  "collected = (\<lambda>_. [])(walletIdOf sample_env collector := Wallet_SerializeToString (Wallet_Clear\<lparr>wallet_amount := ''1000''\<rparr>),
     (case makeAddress sample_env ERC20 ''0xt'' of Inr k \<Rightarrow> k | Inl _ \<Rightarrow> []) := ''1000'')"

definition clock_world :: "((string \<Rightarrow> string) \<times> 64 word) world" where
  "clock_world = \<lparr>validator = (\<lambda>_. [], 5), ctx = new_Ctx False, tipCurrentState = [], transitioningState = [], settings = [],
     externalGatewayAddress = [], v2block = 0, transitioning = False, blocks = [], txguid2prevblockidx = [],
     updatedBlockIdx = 0, updatedTxIdx = 0, dealExpFixBlock = 278890\<rparr>"

definition old_chain :: "((string \<Rightarrow> string) \<times> 64 word) world" where
  \<comment> \<open>block 5 holds the transaction, block 6 is empty\<close>
  "old_chain = clock_world\<lparr>ctx := new_Ctx True, transitioning := True,
     blocks := replicate 5 \<lparr>block_signer = ''m'', block_txs = []\<rparr> @
       [\<lparr>block_signer = ''m'', block_txs = [\<lparr>tx_sighash = collector, tx_guid = ''nonce'', tx_payload = txn_payload clock_env\<rparr>]\<rparr>,
        \<lparr>block_signer = ''m'', block_txs = []\<rparr>],
     updatedBlockIdx := 5, updatedTxIdx := - 1\<rparr>"

lemma collect_payload: "cborToParams sample_env (txn_payload clock_env) =
    Inr (text_query (collect_params @ [(''v'', ''CollectCoins'')]), ''CollectCoins'')"
proof -
  let ?q = "text_query (collect_params @ [(''v'', ''CollectCoins'')])"
  let ?ms = "[(''p1'', JString ''0xe''), (''p2'', JString ''1000''), (''p3'', JString ''0xt''), (''v'', JString ''CollectCoins'')]"
  have q: "?q = JObject ?ms" by (simp add: text_query_def collect_params_def)
  have "cbor_ok (JObject ?ms)" by (simp add: sorted_map_def less_list_code less_char_def)
  then have "cborToParams sample_env (to_cbor ?q) = Inr (?q, dump_escaped ''CollectCoins'')"
    using encoded_command [of ?ms sample_env] unfolding q by (simp del: to_cbor.simps)
  moreover have "dump_escaped ''CollectCoins'' = ''CollectCoins''" by (simp add: dump_escaped_plain plain_def)
  moreover have "txn_payload clock_env = to_cbor ?q" by (simp only: clock_env_def env.simps)
  ultimately show ?thesis by (simp only:)
qed

lemma collect_request:
  "getStringLower sample_env (text_query (collect_params @ [(''v'', ''CollectCoins'')])) ''p1'' nm = Inr ''0xe''"
  "query_bigint sample_env (text_query (collect_params @ [(''v'', ''CollectCoins'')])) ''p2'' nm = Inr (''1000'', 1000)"
  "getStringLower sample_env (text_query (collect_params @ [(''v'', ''CollectCoins'')])) ''p3'' nm = Inr ''0xt''"
proof -
  have p: "\<forall>(k, v) \<in> set (collect_params @ [(''v'', ''CollectCoins'')]). plain v" by (simp add: collect_params_def plain_def)
  show "getStringLower sample_env (text_query (collect_params @ [(''v'', ''CollectCoins'')])) ''p1'' nm = Inr ''0xe''"
    "getStringLower sample_env (text_query (collect_params @ [(''v'', ''CollectCoins'')])) ''p3'' nm = Inr ''0xt''"
    "query_bigint sample_env (text_query (collect_params @ [(''v'', ''CollectCoins'')])) ''p2'' nm = Inr (''1000'', 1000)"
    using text_query_lower [OF p] text_query_string [OF p]
    by (simp_all add: collect_params_def lower_char_def query_bigint_def sbnd_def)
qed

lemma the_signer: "sbnd (compress (txn_signer_public_key clock_env)) (sha512id clock_env) = Inr collector" "length collector = 60"
proof -
  let ?key = "''02'' @ replicate 64 CHR ''a''"
  obtain s where s: "sha512id sample_env ?key = Inr s" "length s = 60"
    using sha512id_ok [OF sample_sha512_ok, of ?key] by blast
  moreover have "compress (txn_signer_public_key clock_env) = Inr ?key"
    using compress_fixpoint [of ?key] by (simp add: clock_env_def compressed_key_def)
  ultimately show "sbnd (compress (txn_signer_public_key clock_env)) (sha512id clock_env) = Inr collector" "length collector = 60"
    by (simp_all add: sbnd_def clock_text collector_def)
qed

lemma clock_apply: "\<exists>w'. Apply clock_env clock_world = (Inr (), w') \<and> validator w' = (collected, 5)"
proof -
  let ?q = "text_query (collect_params @ [(''v'', ''CollectCoins'')])" and ?w = clock_world
  have w: "?w\<lparr>ctx := new_Ctx (transitioning ?w)\<rparr> = ?w" "\<not> transitioning ?w" "\<not> ctx_transitioning (ctx ?w)" "v2block ?w = 0"
    by (simp_all add: clock_world_def new_Ctx_def)
  have ok: "session_ok clock_env ?w" using clock_validator(1) by (simp add: session_ok_def clock_world_def new_Ctx_def)
  have empty: "view clock_env ?w k = []" for k
    using w(3) clock_validator(2) [of "\<lambda>_. []" 5] by (simp add: view_validator) (simp add: clock_world_def)
  obtain idn where idn: "makeAddress sample_env ERC20 ''0xt'' = Inr idn"
    using makeAddress_ok [OF sample_sha512_ok, of ERC20] by (auto simp: ERC20_def)
  have me: "getSighash clock_env ?w = (Inr collector, ?w)"
    using the_signer(1) w(3) by (simp add: getSighash_ok signer_def)
  have good: "verify clock_env c ?w = (Inr (), ?w)" for c
    using w(2) by (simp add: verify_def act_run) (simp add: clock_env_def)
  let ?kvs = "[(walletIdOf sample_env collector, Wallet_SerializeToString (Wallet_Clear\<lparr>wallet_amount := ''1000''\<rparr>)), (idn, ''1000'')]"
  have writes: "setStates clock_env ?kvs ?w = (Inr (), ?w\<lparr>validator := (collected, 5)\<rparr>)"
    using w(3) by (simp add: setStates_def act_step unless_replaying_def on_validator_def)
      (simp add: clock_env_def clock_world_def new_Ctx_def collected_def idn)
  have "CollectCoins clock_env ?q ?w = (Inr (), ?w\<lparr>validator := (collected, 5)\<rparr>)"
    using writes by (simp add: CollectCoins_def act_step clock_text collect_request idn state.rd_run [OF ok] empty me good credit_def Let_def)
  moreover have "List.find (\<lambda>(name, h). iequals clock_env ''CollectCoins'' name) (handlers clock_env) = Some (''CollectCoins'', CollectCoins clock_env)"
    by (simp add: handlers_def clock_env_def lower_char_def char_of_def bit_0)
  ultimately have "Apply_cmd clock_env ''CollectCoins'' ?q ?w = (Inr (), ?w\<lparr>validator := (collected, 5)\<rparr>)"
    using w(4) by (simp add: Apply_cmd_def unless_version_1_def act_step)
  then have "Apply clock_env ?w = (Inr (), ?w\<lparr>validator := (collected, 5)\<rparr>)"
    using w by (simp add: Apply_def act_step clock_text(7) collect_payload the_signer(1) Apply_guid_def)
  then show ?thesis by simp
qed

lemma clock_produced: "produced clock_env (\<lambda>_. [], 5) [[clock_env], []] (collected, 7)"
proof -
  obtain w' where w': "Apply clock_env clock_world = (Inr (), w')" "validator w' = (collected, 5)" using clock_apply by blast
  have one: "uint (5 - 1 :: 64 word) = 4" "uint (6 - 1 :: 64 word) = 5" "uint (7 - 1 :: 64 word) = 6" by simp_all
  let ?w = "clock_world\<lparr>validator := (collected, 6)\<rparr>"
  have "produced clock_env (collected, 6) [[]] (collected, 7)"
    by (rule produced.block [where w = ?w and w' = ?w and ?u1.0 = "(collected, 7)"])
      (simp_all add: clock_world_def ret_def clock_validator(2,3) produced.start one)
  moreover have "forEach [clock_env] Apply clock_world = (Inr (), w')" using w'(1) by (simp add: act_step)
  moreover have "\<not> transitioning clock_world" "validator clock_world = (\<lambda>_. [], 5)" by (simp_all add: clock_world_def)
  ultimately show ?thesis
    using produced.block [where w = clock_world and w' = w' and ?u1.0 = "(collected, 6)"] w'(2) one
    by (simp add: clock_validator(2,3))
qed

theorem replay_reproduces_the_chain_witness:
  "\<exists>v'. replay_new_block clock_env 7 0 6 old_chain = (Inr (), v') \<and> view clock_env v' = collected \<and> ctx_tip (ctx v') = 6"
proof -
  let ?tx = "\<lparr>tx_sighash = collector, tx_guid = ''nonce'', tx_payload = txn_payload clock_env\<rparr>"
  have "\<not> iequals clock_env ''CollectCoins'' ''Housekeeping''"
    by (simp add: clock_env_def lower_char_def char_of_def bit_0)
  moreover have "txn_nonce clock_env = ''nonce''" by (simp add: clock_env_def)
  ultimately have tx: "recorded clock_env clock_env ?tx"
    using the_signer collect_payload by (auto simp: recorded_def clock_text(7))
  have v: "idle old_chain" "layers_sorted old_chain" "v2block old_chain = 0" "validator_tip clock_env (\<lambda>_. [], 5) = 5 - 1"
    by (simp_all add: old_chain_def clock_world_def new_Ctx_def idle_def layers_sorted_def clock_validator(3))
  have "view clock_env old_chain = stored clock_env (\<lambda>_. [], 5)"
    by (intro ext, simp add: view_def clock_validator(2)) (simp add: old_chain_def clock_world_def new_Ctx_def overlay_def)
  note start = v(1-3) this v(4)
  have at: "updatedBlockIdx old_chain = 5" "updatedTxIdx old_chain = 0 - 1"
    "blocks old_chain = replicate 5 \<lparr>block_signer = ''m'', block_txs = []\<rparr> @ \<lparr>block_signer = ''m'', block_txs = [?tx]\<rparr> #
       [\<lparr>block_signer = ''m'', block_txs = []\<rparr>] @ []"
    by (simp_all add: old_chain_def)
  have "\<exists>v'. replay_new_block clock_env (5 + 1 + int (length [\<lparr>block_signer = ''m'', block_txs = []\<rparr> :: SimpleBlock])) 0 6 old_chain = (Inr (), v') \<and>
      view clock_env v' = stored clock_env (collected, 7) \<and> ctx_tip (ctx v') = 6"
    by (rule replay_reproduces_the_chain [OF clock_validator(1) start at(1) _ at(2) _ at(3) _ _ _ clock_produced])
      (use tx in simp_all)
  then show ?thesis by (auto simp: clock_validator(2))
qed

end
