(* ===== verification/Minting.thy ===== *)
theory Minting
  imports Supply Reproduction
begin

section \<open>All coins accounted for\<close>

text \<open>
  Housekeeping moves coins too: it refunds the fees of deals nobody funded, and it pays the
  rewards.  \<open>solvent\<close> extends the predicate \<open>tidying\<close> of \<open>Tidying\<close> by the sum of the coins, and each
  pass keeps it; the pass over the deals needs that the pages of the validator go through the
  addresses in order, or a deal could be refunded twice.  Together with the commands this gives
  the balance of a whole chain of transactions, each accepted by \<open>Apply\<close> in normal operation
  with a header of its own.
\<close>

subsection \<open>Bounds on one balance\<close>

lemma worth_nonneg: "0 \<le> worth env k d"
  using bigint_nonneg by (auto simp: worth_def amount_of_def split: sum.split)

lemma worths_le_coins:
  assumes "finite_state st"
  shows "worth env k (st k) \<le> coins env st" and "k \<noteq> j \<Longrightarrow> worth env k (st k) + worth env j (st j) \<le> coins env st"
proof -
  have le: "(\<Sum>i \<in> A. worth env i (st i)) \<le> coins env st" if "finite A" for A
  proof -
    let ?B = "A \<union> {i. st i \<noteq> []}"
    have B: "finite ?B" using assms that by (simp add: finite_state_def)
    have "(\<Sum>i \<in> A. worth env i (st i)) \<le> (\<Sum>i \<in> ?B. worth env i (st i))"
      by (rule sum_mono2 [OF B]) (simp_all add: worth_nonneg)
    then show ?thesis using coins_over [OF B, of st env] by simp
  qed
  show "worth env k (st k) \<le> coins env st" using le [of "{k}"] by simp
  show "k \<noteq> j \<Longrightarrow> worth env k (st k) + worth env j (st j) \<le> coins env st" using le [of "{k, j}"] by simp
qed

subsection \<open>States with a known sum\<close>

definition solvent :: "'v env \<Rightarrow> int \<Rightarrow> 'v world \<Rightarrow> int \<Rightarrow> 'v world \<Rightarrow> bool" where
  \<comment> \<open>a state that housekeeping passes through, with its coins\<close>
  "solvent env b w0 c w \<longleftrightarrow> tidying env b w0 w \<and> finite_state (view env w) \<and> wallets_stored env (view env w) \<and>
     coins env (view env w) = c"

lemma stored_clean: "wallets_stored env st \<Longrightarrow> clean_wallets env st"
proof -
  have "wallet_unknown (wallet_from []) = []" by (simp add: wallet_from_Nil Wallet_Clear_def)
  then show "wallets_stored env st \<Longrightarrow> clean_wallets env st"
    unfolding wallets_stored_def clean_wallets_def Wallet_wf_def by metis
qed

lemma solvent_session: "solvent env b w0 c w \<Longrightarrow> session_ok env w"
  by (simp add: solvent_def tidying_def)

lemma solvent_upd:
  assumes "solvent env b w0 c w" and "tidying env b w0 w'" and v: "view env w' = (view env w)(k := d)"
    and "\<And>s. k = walletIdOf env s \<Longrightarrow> d \<noteq> [] \<Longrightarrow> Wallet_wf (wallet_from d)"
  shows "solvent env b w0 (c - worth env k (view env w k) + worth env k d) w'"
  using assms(1,2,4) by (auto simp: solvent_def v coins_upd wallets_stored_def)

lemma solvent_same:
  assumes "solvent env b w0 c w" and "tidying env b w0 w'" and "view env w' = (view env w)(k := d)"
    and "\<And>s. k \<noteq> walletIdOf env s" and "\<And>d. worth env k d = 0"
  shows "solvent env b w0 c w'"
  using solvent_upd [OF assms(1-3)] assms(4,5) by simp

lemma keeps_solvent_writes:
  assumes "\<And>s. k \<noteq> walletIdOf env s" and "\<And>d. worth env k d = 0"
  shows "removable env b k (view env w0 k) \<Longrightarrow> keeps (solvent env b w0 c) (deleteState env k)"
    and "free_entry env k \<Longrightarrow> keeps (solvent env b w0 c) (setState_raw env d k)"
proof -
  show "keeps (solvent env b w0 c) (deleteState env k)" if "removable env b k (view env w0 k)"
    unfolding keeps_def
  proof (intro allI impI)
    fix w x w'
    assume w: "solvent env b w0 c w" and run: "deleteState env k w = (Inr x, w')"
    have "tidying env b w0 w'" using keeps_tidying_writes(3) [OF that] w run unfolding keeps_def solvent_def by blast
    then show "solvent env b w0 c w'"
      using solvent_same [OF w _ _ assms, of w' "[]"] state.del_ok [OF solvent_session [OF w] run] by blast
  qed
  show "keeps (solvent env b w0 c) (setState_raw env d k)" if "free_entry env k"
    unfolding keeps_def
  proof (intro allI impI)
    fix w x w'
    assume w: "solvent env b w0 c w" and run: "setState_raw env d k w = (Inr x, w')"
    have "tidying env b w0 w'" using keeps_tidying_writes(2) [OF that] w run unfolding keeps_def solvent_def by blast
    moreover have "view env w' = (view env w)(k := d)" using setState_raw_effect [OF solvent_session [OF w], of d k] run by auto
    ultimately show "solvent env b w0 c w'" using solvent_same [OF w _ _ assms] by blast
  qed
qed

lemma solvent_wallet:
  assumes w: "solvent env b w0 c w" and run: "setStates env [(walletIdOf env s, Wallet_SerializeToString wallet)] w = (Inr u, w')"
    and n: "balance env (view env w') s = n" "Wallet_wf wallet"
  shows "solvent env b w0 (c - balance env (view env w) s + n) w'"
proof -
  have v: "view env w' = (view env w)(walletIdOf env s := Wallet_SerializeToString wallet)"
    using state.wr_ok [OF solvent_session [OF w] run] by simp
  have "tidying env b w0 w'"
    using keeps_tidying_writes(1) [OF free_wallet] w run unfolding keeps_def solvent_def by blast
  moreover have "worth env (walletIdOf env s) (Wallet_SerializeToString wallet) = n"
    using n(1) worth_wallet [of env s "view env w'"] by (simp add: v)
  ultimately show ?thesis using solvent_upd [OF w _ v] n(2) by (simp add: worth_wallet)
qed

subsection \<open>The passes that touch no coins\<close>

lemma wallet_kind: "length p = 4 \<Longrightarrow> at_kind env p (walletIdOf env s) \<longleftrightarrow> p = WALLET"
  using at_kind_only [OF at_kind_wallet, of p env s] at_kind_wallet [of env s] by auto

definition before_deals :: "'v env \<Rightarrow> int \<Rightarrow> 'v world \<Rightarrow> int \<Rightarrow> 'v world \<Rightarrow> bool" where
  "before_deals env b w0 c w \<longleftrightarrow> solvent env b w0 c w \<and> (\<forall>k. at_kind env DEAL_ORDER k \<longrightarrow> view env w k = view env w0 k)"

lemma keeps_deletions:
  assumes "at_kind env p k" and "p \<in> {ASK_ORDER, BID_ORDER, OFFER, REPAYMENT_ORDER}" and "removable env b k (view env w0 k)"
  shows "keeps (solvent env b w0 c) (deleteState env k)" "keeps (before_deals env b w0 c) (deleteState env k)"
proof -
  have "k \<noteq> walletIdOf env s" for s using assms(1,2) by (auto simp: wallet_kind kind_defs)
  then show solvent: "keeps (solvent env b w0 c) (deleteState env k)"
    using assms by (intro keeps_solvent_writes(1)) auto
  have "\<not> at_kind env DEAL_ORDER k" using assms(2) at_kind_only [OF assms(1)] by (auto simp: kind_defs)
  then have "keeps (\<lambda>w. session_ok env w \<and> (\<forall>j. at_kind env DEAL_ORDER j \<longrightarrow> view env w j = view env w0 j)) (deleteState env k)"
    unfolding keeps_def by (auto dest: state.del_ok)
  then show "keeps (before_deals env b w0 c) (deleteState env k)"
    using solvent solvent_session unfolding keeps_def before_deals_def by blast
qed

lemma keeps_solvent_fee:
  assumes env: "CHR 0x0A \<notin> set (namespacePrefix env)" "sha512_ok env" "bigint_ok env"
    and "d = view env w0 k" and k: "at_kind env FEE k"
  shows "keeps (solvent env b w0 c) (house_fee env b k d)"
proof -
  have del: "keeps (solvent env b w0 c) (deleteState env k)"
    if "(case read_cpp_int env (fee_block (fee_from d)) of None \<Rightarrow> Inl (StdException ''cpp_int'') | Some start \<Rightarrow> Inr start) = Inr start"
      "YEAR_OF_BLOCKS < b - start" for start
    using that assms(4) k wallet_elsewhere(8) [OF k]
    by (intro keeps_solvent_writes(1)) (auto simp: removable_def split: option.splits)
  have "keeps (solvent env b w0 c) (setState_raw env x (Wallet_SerializeToString (m\<lparr>wallet_amount := toString env n\<rparr>)))" for x m n
  proof -
    let ?k = "Wallet_SerializeToString (m\<lparr>wallet_amount := toString env n\<rparr>)"
    have "\<not> starts_with (namespacePrefix env) ?k"
      using env(3) by (intro wallet_bytes_outside env) (simp add: bigint_ok_def toString_def)
    then have "\<not> at_kind env p ?k" for p by (auto simp: at_kind_def starts_with_iff)
    moreover from this have "?k \<noteq> walletIdOf env s" for s using at_kind_wallet by metis
    ultimately show ?thesis using \<open>\<not> starts_with (namespacePrefix env) ?k\<close>
      by (intro keeps_solvent_writes(2)) (simp_all add: worth_def free_entry_def)
  qed
  with del show ?thesis unfolding house_fee_def Let_def
    by (intro keeps_lift keeps_when keeps_bnd keeps_prod keeps_simple keeps_reads) blast+
qed

subsection \<open>The pass over the deals\<close>

text \<open>
  A deal that is listed twice would be refunded twice: the hypothesis on the pages of the
  validator is that they go through the addresses in order, each page from its start on and
  below the start of the next.
\<close>

definition pages_ordered :: "'v env \<Rightarrow> 'v world \<Rightarrow> bool" where
  "pages_ordered env w \<longleftrightarrow> (\<forall>v prefix root start page root1 start1. written env (validator w) v \<longrightarrow>
     GetStatesByPrefix env v prefix root start = Inr (page, root1, start1) \<longrightarrow>
     distinct (map fst page) \<and> (\<forall>(k, d) \<in> set page. start \<le> k \<and> (start1 \<noteq> [] \<longrightarrow> k < start1)) \<and>
     (start1 \<noteq> [] \<longrightarrow> start \<le> start1))"

lemma refunding_same: "same_session env w w' \<Longrightarrow> refunding w' = refunding w"
  by (simp add: refunding_def same_session_simps(3,10))

lemma solvent_deal:
  assumes w: "solvent env b w0 c w" and env: "bigint_ok env" "refunding w0" and k: "at_kind env DEAL_ORDER k"
    and d: "d = view env w0 k" "view env w k = d" and small: "c < max_amount" and run: "house_deal env b k d w = (Inr u, w')"
  shows "solvent env b w0 c w' \<and> (\<forall>j. at_kind env DEAL_ORDER j \<longrightarrow> j \<noteq> k \<longrightarrow> view env w' j = view env w j)"
proof -
  note s = solvent_session [OF w]
  obtain x where x: "order_expired env (deal_block (deal_from d)) (deal_expiration (deal_from d)) b = Inr x"
    using run by (auto simp: house_deal_def Let_def expired_at_def act_ok)
  show ?thesis
  proof (cases "x \<and> deal_loan_transfer (deal_from d) = []")
    case False
    then show ?thesis using run house_deal_dead [OF x False, of k w] w by simp
  next
    case True
    let ?s = "deal_sighash (deal_from d)"
    let ?m = "wallet_from (view env w (walletIdOf env ?s))"
    have "refunding w" using w env(2) refunding_same [of env w0 w] by (simp add: solvent_def tidying_def)
    then obtain n fee w1 where n: "view env w (walletIdOf env ?s) \<noteq> []" "bigint env (wallet_amount ?m) = Inr n"
      and fee: "bigint env (deal_fee (deal_from d)) = Inr fee"
      and w1: "setStates env [(walletIdOf env ?s, Wallet_SerializeToString (?m\<lparr>wallet_amount := toString env (n + fee)\<rparr>))] w = (Inr (), w1)"
      and del: "deleteState env k w1 = (Inr u, w')"
      using run True x by (auto simp: house_deal_def Let_def expired_at_def act_ok state.rd_ok [OF s])
    have wallets: "wallets_stored env (view env w)" and fin: "finite_state (view env w)" and c: "coins env (view env w) = c"
      using w by (simp_all add: solvent_def)
    note clean = stored_clean [OF wallets]
    have b: "balance env (view env w) ?s = n" using n by (rule balance_stored)
    have held: "worth env k (view env w k) = fee"
      using True fee d(2) by (simp add: worth_deal [OF env(1) k] deal_worth_def amount_of_def)
    have "n + fee \<le> c"
      using worths_le_coins(2) [OF fin, of "walletIdOf env ?s" k env] wallet_elsewhere(3) [OF k] by (simp add: worth_wallet b held c)
    moreover have "0 \<le> n + fee" by (intro add_nonneg_nonneg bigint_nonneg [OF n(2)] bigint_nonneg [OF fee])
    moreover have v1: "view env w1 = (view env w)(walletIdOf env ?s := Wallet_SerializeToString (?m\<lparr>wallet_amount := toString env (n + fee)\<rparr>))"
      using state.wr_ok [OF s w1] by simp
    ultimately have "balance env (view env w1) ?s = n + fee" using small by (intro wallet_set [OF env(1) clean]) simp_all
    moreover have "Wallet_wf (?m\<lparr>wallet_amount := toString env (n + fee)\<rparr>)"
      using clean wire_toString [OF env(1), of "n + fee"] \<open>n + fee \<le> c\<close> \<open>0 \<le> n + fee\<close> small
      by (simp add: clean_wallets_def Wallet_wf_def)
    ultimately have p1: "solvent env b w0 (c + fee) w1" using solvent_wallet [OF w w1] by (simp add: b)
    have v2: "view env w' = (view env w1)(k := [])" using state.del_ok [OF solvent_session [OF p1] del] by simp
    have "removable env b k (view env w0 k)" using True x k d(1) by (simp add: removable_def)
    then have "tidying env b w0 w'"
      using keeps_tidying_writes(3) p1 del unfolding keeps_def solvent_def by blast
    then have "solvent env b w0 (c + fee - worth env k (view env w1 k) + 0) w'"
      using solvent_upd [OF p1 _ v2] by simp
    moreover have "view env w1 j = view env w j" if "at_kind env DEAL_ORDER j" for j
      using wallet_elsewhere(3) [OF that, of ?s, symmetric] by (simp add: v1)
    ultimately show ?thesis using k v2 held by simp
  qed
qed

lemma page_of_deals:
  assumes env: "bigint_ok env" "refunding w0" and small: "c < max_amount"
    and "forEach page (\<lambda>(k, d). house_deal env b k d) w = (Inr u, w')" and "solvent env b w0 c w"
    and "distinct (map fst page)" and "\<forall>(k, d) \<in> set page. at_kind env DEAL_ORDER k \<and> d = view env w0 k \<and> view env w k = d"
  shows "solvent env b w0 c w' \<and> (\<forall>j. at_kind env DEAL_ORDER j \<longrightarrow> j \<notin> fst ` set page \<longrightarrow> view env w' j = view env w j)"
  using assms(4-)
proof (induction page arbitrary: w)
  case Nil
  then show ?case by (simp add: act_ok)
next
  case (Cons e page)
  obtain k d where e: "e = (k, d)" by fastforce
  obtain w1 where w1: "house_deal env b k d w = (Inr (), w1)" "forEach page (\<lambda>(k, d). house_deal env b k d) w1 = (Inr u, w')"
    using Cons.prems(1) by (auto simp: e act_ok)
  have k: "at_kind env DEAL_ORDER k" "d = view env w0 k" "view env w k = d" using Cons.prems(4) by (auto simp: e)
  have one: "solvent env b w0 c w1" "\<And>j. at_kind env DEAL_ORDER j \<Longrightarrow> j \<noteq> k \<Longrightarrow> view env w1 j = view env w j"
    using solvent_deal [OF Cons.prems(2) env k small w1(1)] by blast+
  have "\<forall>(j, d) \<in> set page. at_kind env DEAL_ORDER j \<and> d = view env w0 j \<and> view env w1 j = d"
  proof (intro ballI)
    fix x
    assume x: "x \<in> set page"
    then have "fst x \<noteq> k" using Cons.prems(3) by (auto simp: e)
    then show "case x of (j, d) \<Rightarrow> at_kind env DEAL_ORDER j \<and> d = view env w0 j \<and> view env w1 j = d"
      using Cons.prems(4) x one(2) by (cases x) auto
  qed
  then show ?case using Cons.IH [OF w1(2) one(1)] Cons.prems(3) one(2) by (simp add: e)
qed

lemma solvent_deals:
  assumes env: "bigint_ok env" "refunding w0" and small: "c < max_amount"
    and listing: "listing_ok env w0" "pages_ordered env w0" and normal: "\<not> ctx_transitioning (ctx w0)"
    and w: "solvent env b w0 c w" "\<forall>k. at_kind env DEAL_ORDER k \<longrightarrow> view env w k = view env w0 k"
    and run: "filter_kind env DEAL_ORDER (house_deal env b) w = (Inr u, w')"
  shows "solvent env b w0 c w'"
proof -
  let ?pre = "namespacePrefix env @ DEAL_ORDER"
  let ?P = "\<lambda>start w. solvent env b w0 c w \<and> (\<forall>k. at_kind env DEAL_ORDER k \<longrightarrow> start \<le> k \<longrightarrow> view env w k = view env w0 k)"
  have n: "\<not> ctx_transitioning (ctx w1)" "written env (validator w0) (validator w1)" if "solvent env b w0 c w1" for w1
    using that normal same_session_simps(1) [of env w0 w1] by (auto simp: solvent_def tidying_def)
  have "walks ?P (solvent env b w0 c) env validator ?pre (house_deal env b)"
    unfolding walks_def
  proof (intro allI impI)
    fix w1 root start page root1 start1 w2
    assume p: "?P start w1" and page: "GetStatesByPrefix env (validator w1) ?pre root start = Inr (page, root1, start1)"
      and run: "forEach page (\<lambda>(k, d). house_deal env b k d) w1 = (Inr (), w2)"
    note v = n(2) [OF conjunct1 [OF p]]
    have l: "\<forall>(k, d) \<in> set page. starts_with ?pre k \<and> d = view env w0 k"
      using listing(1) normal v page unfolding listing_ok_def by simp blast
    have o: "distinct (map fst page)" "\<forall>(k, d) \<in> set page. start \<le> k \<and> (start1 \<noteq> [] \<longrightarrow> k < start1)" "start1 \<noteq> [] \<longrightarrow> start \<le> start1"
      using listing(2) v page unfolding pages_ordered_def by blast+
    have "\<forall>(k, d) \<in> set page. at_kind env DEAL_ORDER k \<and> d = view env w0 k \<and> view env w1 k = d"
      using l o(2) p by (fastforce simp: at_kind_def)
    note after = page_of_deals [OF env small run conjunct1 [OF p] o(1) this]
    have "view env w2 k = view env w0 k" if "at_kind env DEAL_ORDER k" "start1 \<noteq> []" "start1 \<le> k" for k
    proof -
      have "k \<notin> fst ` set page" using o(2) that(2,3) by fastforce
      moreover have "start \<le> k" using o(3) that(2,3) by (metis order_trans)
      ultimately show ?thesis using after p that(1) by metis
    qed
    then show "if start1 = [] then solvent env b w0 c w2 else ?P start1 w2" using after by simp
  qed
  moreover obtain r where "filter_pages env validator ?pre (house_deal env b) [] [] w = Some (r, w')" "to_invalid r = Inr u"
    using run n(1) [OF w(1)] by (auto simp: filter_kind_def filter_states_def split: option.splits)
  moreover have "r = Inr u" using calculation(3) by (auto simp: to_invalid_def split: sum.splits err.splits)
  ultimately show ?thesis using walk_pages [of ?P "solvent env b w0 c"] w by blast
qed

subsection \<open>The rewards\<close>

definition block_reward :: "'v env \<Rightarrow> bool \<Rightarrow> int \<Rightarrow> int" where
  \<comment> \<open>what the signer of a block is given, by the first or the second formula\<close>
  "block_reward env newFormula i =
     (if newFormula
      then case read_cpp_int env (fractionInWei (pow_fixed env (to_int env (i sdiv BLOCKS_IN_PERIOD_UPDATE1)))) of
             Some n \<Rightarrow> max 0 (28 * n) | None \<Rightarrow> 0
      else REWARD_AMOUNT)"

lemma block_reward_nonneg: "0 \<le> block_reward env f i"
  by (auto simp: block_reward_def REWARD_AMOUNT_def split: option.split)

lemma solvent_award:
  assumes w: "solvent env b w0 c w" and env: "bigint_ok env" "bigint env REWARD_AMOUNT_STRING = Inr REWARD_AMOUNT"
    and small: "c + block_reward env f i < max_amount" and run: "award env f i miner w = (Inr u, w')"
  shows "solvent env b w0 (c + block_reward env f i) w'"
proof -
  note s = solvent_session [OF w]
  obtain n t where n: "block_reward env f i = max 0 n" "0 < n \<Longrightarrow> bigint env t = Inr n \<and> wire_str t"
    and pay: "(if 0 < n then bnd (lift (sha512id env miner)) (\<lambda>h. bnd (getStateData env (walletIdOf env h) False) (\<lambda>d.
       bnd (credit env d t n) (\<lambda>wallet. setStates env [(walletIdOf env h, Wallet_SerializeToString wallet)]))) else ret ()) w = (Inr u, w')"
  proof (cases f)
    case True
    then obtain n where r: "read_cpp_int env (fractionInWei (pow_fixed env (to_int env (i sdiv BLOCKS_IN_PERIOD_UPDATE1)))) = Some n"
      and pay: "(if 0 < 28 * n then bnd (lift (sha512id env miner)) (\<lambda>h. bnd (getStateData env (walletIdOf env h) False) (\<lambda>d.
       bnd (credit env d (toString env (28 * n)) (28 * n)) (\<lambda>wallet. setStates env [(walletIdOf env h, Wallet_SerializeToString wallet)]))) else ret ()) w = (Inr u, w')"
      using run by (auto simp: award_def Let_def act_step throw_def split: if_splits option.splits)
    have amount: "block_reward env f i = max 0 (28 * n)" using True r by (simp add: block_reward_def)
    have c: "0 \<le> c" 
      using w worths_le_coins(1) [of "view env w" env "[]"] worth_nonneg [of env "[]" "view env w []"] by (simp add: solvent_def)
    show ?thesis
    proof (rule that [OF amount _ pay])
      assume "0 < 28 * n"
      then have "28 * n < max_amount" using small amount c by simp
      then show "bigint env (toString env (28 * n)) = Inr (28 * n) \<and> wire_str (toString env (28 * n))"
        using \<open>0 < 28 * n\<close> wire_toString [OF env(1), of "28 * n"] bigint_toString [OF env(1), of "28 * n"] by simp
    qed
  next
    case False
    show ?thesis
      by (rule that [of REWARD_AMOUNT REWARD_AMOUNT_STRING])
        (use run False env(2) in \<open>simp_all add: award_def Let_def act_step block_reward_def REWARD_AMOUNT_def REWARD_AMOUNT_STRING_def literal_wire ascii_def\<close>)
  qed
  show ?thesis
  proof (cases "0 < n")
    case False
    then show ?thesis using pay w by (simp add: n(1) act_ok)
  next
    case True
    obtain h wallet where c: "credited env (view env w (walletIdOf env h)) t n wallet"
      and set: "setStates env [(walletIdOf env h, Wallet_SerializeToString wallet)] w = (Inr u, w')"
      using pay True by (auto simp: act_ok state.rd_ok [OF s])
    have v: "view env w' (walletIdOf env h) = Wallet_SerializeToString wallet" using state.wr_ok [OF s set] by simp
    have fin: "finite_state (view env w)" "wallets_stored env (view env w)" "coins env (view env w) = c" using w by (simp_all add: solvent_def)
    note clean = stored_clean [OF fin(2)]
    have "balance env (view env w) h \<le> c" using worths_le_coins(1) [OF fin(1), of env "walletIdOf env h"] by (simp add: worth_wallet fin(3))
    then have "balance env (view env w) h + n < max_amount" using small True by (simp add: n(1))
    note paid = credited_balance [where st = "view env w" and st' = "view env w'" and s = h, OF env(1) c _ _ _ this v]
    have "0 \<le> m" if "bigint env s = Inr m" for s m using that by (rule bigint_nonneg)
    then have "Wallet_wf wallet"
      using c n(2) [OF True] clean \<open>balance env (view env w) h + n < max_amount\<close> True
      by (auto simp: credited_def Wallet_wf_def Wallet_Clear_def clean_wallets_def balance_def wire_toString [OF env(1)] split: if_splits)
    then have "solvent env b w0 (c - balance env (view env w) h + (balance env (view env w) h + n)) w'"
      by (intro solvent_wallet [OF w set]) (use paid n(2) [OF True] clean in \<open>simp_all add: clean_wallets_def wire_str_def\<close>)
    then show ?thesis using True by (simp add: n(1))
  qed
qed

lemma solvent_awards:
  assumes env: "bigint_ok env" "bigint env REWARD_AMOUNT_STRING = Inr REWARD_AMOUNT"
    and award: "\<And>x w w'. x \<in> set xs \<Longrightarrow> m x w = (Inr (), w') \<Longrightarrow> \<exists>miner. award env f (g x) miner w = (Inr (), w')"
    and "forEach xs m w = (Inr u, w')" and "solvent env b w0 c w" and "c + (\<Sum>x \<leftarrow> xs. block_reward env f (g x)) < max_amount"
  shows "solvent env b w0 (c + (\<Sum>x \<leftarrow> xs. block_reward env f (g x))) w'"
  using assms(3-)
proof (induction xs arbitrary: w c)
  case Nil
  then show ?case by (simp add: act_ok)
next
  case (Cons x xs)
  obtain w1 where w1: "m x w = (Inr (), w1)" "forEach xs m w1 = (Inr u, w')" using Cons.prems(2) by (auto simp: act_ok)
  obtain miner where "award env f (g x) miner w = (Inr (), w1)" using Cons.prems(1) [OF _ w1(1)] by auto
  moreover have "0 \<le> (\<Sum>x \<leftarrow> xs. block_reward env f (g x))" by (rule sum_list_nonneg) (auto simp: block_reward_nonneg)
  ultimately have "solvent env b w0 (c + block_reward env f (g x)) w1"
    using Cons.prems(4) by (intro solvent_award [OF Cons.prems(3) env]) simp_all
  then show ?case using Cons.IH [OF Cons.prems(1) w1(2), of "c + block_reward env f (g x)"] Cons.prems(4) by (simp add: add.assoc)
qed

lemma sum_list_upto: "(\<Sum>i \<leftarrow> [a..b]. h i) = (\<Sum>i = a..b. h i)"
  by (simp add: sum_list_distinct_conv_sum_set)

definition signatures_ok :: "'v env \<Rightarrow> bool" where
  \<comment> \<open>asked for the signers of some blocks, the validator names one for each\<close>
  "signatures_ok env \<longleftrightarrow> (\<forall>v s p u signatures. 0 \<le> p \<longrightarrow> p < u \<longrightarrow> u < 2 ^ 64 \<longrightarrow>
     GetRewardBlockSignatures env v s (to_uint64 env u) (to_uint64 env (p + 1)) = Inr signatures \<longrightarrow>
     int (length signatures) = u - p)"

lemma solvent_reward:
  assumes env: "bigint_ok env" "bigint env REWARD_AMOUNT_STRING = Inr REWARD_AMOUNT" "signatures_ok env"
    and w: "solvent env b w0 c w" "\<not> ctx_transitioning (ctx w)"
    and blocks: "n = (if u = 0 then p + BLOCK_REWARD_PROCESSING_COUNT else u)" "0 \<le> p" "p < n" "n < 2 ^ 64"
    and small: "\<forall>f. c + (\<Sum>i = p + 1..n. block_reward env f i) < max_amount"
    and run: "reward env p u w = (Inr x, w')"
  shows "\<exists>f. solvent env b w0 (c + (\<Sum>i = p + 1..n. block_reward env f i)) w'"
proof -
  have "reward_normal env p u w = (Inr x, w')"
    using run w(2) by (auto simp: reward_def to_rpc_failure_def split: if_splits sum.splits prod.splits err.splits)
  then obtain f where loop: "(if txn_block_signature env = [] then
       forEach [p + 1 .. n] (\<lambda>i. bnd (reads (\<lambda>w. GetSigByNum env (validator w) (to_uint64 env i))) (award env f i))
     else bnd (reads (\<lambda>w. GetRewardBlockSignatures env (validator w) (txn_block_signature env)
              (to_uint64 env n) (to_uint64 env (p + 1)))) (\<lambda>signatures.
       forEach (zip [p + 1 .. p + int (length signatures)] signatures) (\<lambda>(i, signature). award env f i signature))) w = (Inr x, w')"
    unfolding reward_normal_def Let_def blocks(1) by (auto simp: act_ok)
  have "solvent env b w0 (c + (\<Sum>i = p + 1..n. block_reward env f i)) w'"
  proof (cases "txn_block_signature env = []")
    case True
    then have run: "forEach [p + 1 .. n] (\<lambda>i. bnd (reads (\<lambda>w. GetSigByNum env (validator w) (to_uint64 env i))) (award env f i)) w = (Inr x, w')"
      using loop by simp
    show ?thesis
      using solvent_awards [where g = "\<lambda>i. i", OF env(1,2) _ run w(1)] small by (auto simp: sum_list_upto act_ok)
  next
    case False
    then obtain signatures where got: "GetRewardBlockSignatures env (validator w) (txn_block_signature env)
        (to_uint64 env n) (to_uint64 env (p + 1)) = Inr signatures"
      and run: "forEach (zip [p + 1 .. p + int (length signatures)] signatures) (\<lambda>(i, signature). award env f i signature) w = (Inr x, w')"
      using loop by (auto simp: act_ok)
    have l: "int (length signatures) = n - p" using env(3) blocks(2-4) got unfolding signatures_ok_def by blast
    have z: "map fst (zip [p + 1..p + int (length signatures)] signatures) = [p + 1..n]" using l by simp
    have sum: "(\<Sum>x \<leftarrow> zip [p + 1..p + int (length signatures)] signatures. block_reward env f (fst x)) = (\<Sum>i = p + 1..n. block_reward env f i)"
      using arg_cong [OF z, of "\<lambda>is. \<Sum>i \<leftarrow> is. block_reward env f i"] by (simp only: map_map comp_def sum_list_upto)
    show ?thesis
      using solvent_awards [where g = fst and f = f, OF env(1,2) _ run w(1), unfolded sum] small by fastforce
  qed
  then show ?thesis ..
qed

subsection \<open>The whole command\<close>

definition processed :: "'v env \<Rightarrow> (string \<Rightarrow> string) \<Rightarrow> err + int" where
  \<comment> \<open>the number of the last processed block\<close>
  "processed env st = (if st (processedBlockAddress env) = [] then Inr 0 else bigint env (st (processedBlockAddress env)))"

lemma record_elsewhere:
  "processedBlockAddress env \<noteq> walletIdOf env s" "at_kind env ADDR a \<Longrightarrow> processedBlockAddress env \<noteq> a"
  "at_kind env TRANSFER a \<Longrightarrow> processedBlockAddress env \<noteq> a" "at_kind env ASK_ORDER a \<Longrightarrow> processedBlockAddress env \<noteq> a"
  "at_kind env BID_ORDER a \<Longrightarrow> processedBlockAddress env \<noteq> a" "at_kind env OFFER a \<Longrightarrow> processedBlockAddress env \<noteq> a"
  "at_kind env DEAL_ORDER a \<Longrightarrow> processedBlockAddress env \<noteq> a" "at_kind env REPAYMENT_ORDER a \<Longrightarrow> processedBlockAddress env \<noteq> a"
  "at_kind env ERC20 a \<Longrightarrow> processedBlockAddress env \<noteq> a" "at_kind env FEE a \<Longrightarrow> processedBlockAddress env \<noteq> a"
proof -
  have "\<not> at_kind env p (processedBlockAddress env)" if "p \<in> {WALLET, ADDR, TRANSFER, ASK_ORDER, BID_ORDER, OFFER, DEAL_ORDER, REPAYMENT_ORDER, ERC20, FEE}" for p
    using that at_kind_only [OF processed_kind, of p env] by (auto simp: kind_defs)
  then have e: "at_kind env p a \<Longrightarrow> p \<in> {WALLET, ADDR, TRANSFER, ASK_ORDER, BID_ORDER, OFFER, DEAL_ORDER, REPAYMENT_ORDER, ERC20, FEE} \<Longrightarrow>
      processedBlockAddress env \<noteq> a" for p a by blast
  show "processedBlockAddress env \<noteq> walletIdOf env s" by (rule e [OF at_kind_wallet]) simp
  show "at_kind env ADDR a \<Longrightarrow> processedBlockAddress env \<noteq> a"
    "at_kind env TRANSFER a \<Longrightarrow> processedBlockAddress env \<noteq> a" "at_kind env ASK_ORDER a \<Longrightarrow> processedBlockAddress env \<noteq> a"
    "at_kind env BID_ORDER a \<Longrightarrow> processedBlockAddress env \<noteq> a" "at_kind env OFFER a \<Longrightarrow> processedBlockAddress env \<noteq> a"
    "at_kind env DEAL_ORDER a \<Longrightarrow> processedBlockAddress env \<noteq> a" "at_kind env REPAYMENT_ORDER a \<Longrightarrow> processedBlockAddress env \<noteq> a"
    "at_kind env ERC20 a \<Longrightarrow> processedBlockAddress env \<noteq> a" "at_kind env FEE a \<Longrightarrow> processedBlockAddress env \<noteq> a"
    by (erule e; simp)+
qed

lemma record_worth: "worth env (processedBlockAddress env) d = 0"
  using at_kind_only [OF processed_kind, of WALLET env] at_kind_only [OF processed_kind, of DEAL_ORDER env]
  by (simp add: worth_def kind_defs)

lemma solvent_record:
  assumes w: "solvent env b w0 c w" and env: "bigint_ok env" and "0 \<le> n"
    and run: "setState_uptr env (processedBlockAddress env) (toString env n) w = (Inr u, w')"
  shows "solvent env b w0 c w'" and "processed env (view env w') = Inr n"
proof -
  have "keeps (solvent env b w0 c) (setState_uptr env (processedBlockAddress env) (toString env n))"
    unfolding setState_uptr_def by (intro keeps_solvent_writes(2) record_elsewhere(1) record_worth) (simp add: free_entry_def)
  then show "solvent env b w0 c w'" using w run unfolding keeps_def by blast
  have "toString env n \<noteq> []" using env by (simp add: bigint_ok_def toString_def)
  moreover have "view env w' = (view env w)(processedBlockAddress env := toString env n)"
    using setState_raw_effect [OF solvent_session [OF w]] run unfolding setState_uptr_def by (metis prod.inject)
  ultimately show "processed env (view env w') = Inr n" using env assms(3) by (simp add: processed_def bigint_toString)
qed

lemma solvent_confirmed:
  assumes env: "CHR 0x0A \<notin> set (namespacePrefix env)" "sha512_ok env" "bigint_ok env"
      "bigint env REWARD_AMOUNT_STRING = Inr REWARD_AMOUNT" "signatures_ok env"
    and w: "session_ok env w" "finite_state (view env w)" "wallets_stored env (view env w)" "\<not> ctx_transitioning (ctx w)" "refunding w"
    and listing: "listing_ok env w" "pages_ordered env w"
    and blocks: "0 \<le> p" "p < b" "b < 2 ^ 64"
    and small: "\<forall>f. coins env (view env w) + (\<Sum>i = p + 1..b. block_reward env f i) < max_amount"
    and run: "housekeeping_confirmed env p b w = (Inr u, w')"
  shows "\<exists>f. solvent env b w (coins env (view env w) + (\<Sum>i = p + 1..b. block_reward env f i)) w' \<and>
    processed env (view env w') = Inr b"
proof -
  let ?S = "solvent env b w (coins env (view env w))"
  have kinds: "length k = 4" "k \<noteq> WALLET" "k \<noteq> PROCESSED_BLOCK"
    if "k \<in> {ASK_ORDER, BID_ORDER, OFFER, DEAL_ORDER, REPAYMENT_ORDER, FEE}" for k
    using that by (auto simp: kind_defs)
  let ?B = "before_deals env b w (coins env (view env w))"
  have start: "?B w" using w(1-3) tidying_start [OF w(1)] by (simp add: solvent_def before_deals_def)
  have P: "?S w' \<Longrightarrow> tidying env b w w'" "?B w' \<Longrightarrow> tidying env b w w'" for w' by (simp_all add: solvent_def before_deals_def)
  note pass = keeps_tidying_filter [OF listing(1) kinds P(1)] keeps_tidying_filter [OF listing(1) kinds P(2)]
  have asks: "keeps ?B (filter_kind env ASK_ORDER (house_ask env b))" "keeps ?B (filter_kind env BID_ORDER (house_bid env b))"
    "keeps ?B (filter_kind env OFFER (house_offer env b))"
    by (rule pass(2); (simp; fail)?; (rule keeps_orders, assumption, rule keeps_deletions(2), assumption, simp_all; fail))+
  have late: "keeps ?S (filter_kind env REPAYMENT_ORDER (house_repayment env b))" "keeps ?S (filter_kind env FEE (house_fee env b))"
    by (rule pass(1), simp_all add: keeps_orders keeps_deletions(1) keeps_solvent_fee [OF env(1-3)])+
  obtain w1 w2 w3 where
      w1: "bnd (filter_kind env ASK_ORDER (house_ask env b)) (\<lambda>_. bnd (filter_kind env BID_ORDER (house_bid env b)) (\<lambda>_.
        filter_kind env OFFER (house_offer env b))) w = (Inr (), w1)"
    and w2: "filter_kind env DEAL_ORDER (house_deal env b) w1 = (Inr (), w2)"
    and rest: "bnd (filter_kind env REPAYMENT_ORDER (house_repayment env b)) (\<lambda>_. filter_kind env FEE (house_fee env b)) w2 = (Inr (), w3)"
    and last: "bnd (reward env p b) (\<lambda>_. setState_uptr env (processedBlockAddress env) (toString env b)) w3 = (Inr u, w')"
    using run unfolding housekeeping_confirmed_def by (auto simp: act_ok)
  note small0 = small [rule_format, of False]
  have "?B w1" using start w1 keeps_bnd [OF asks(1) keeps_bnd [OF asks(2) asks(3)]] unfolding keeps_def by blast
  then have s1: "?S w1" "\<forall>k. at_kind env DEAL_ORDER k \<longrightarrow> view env w1 k = view env w k" by (simp_all add: before_deals_def)
  have "coins env (view env w) < max_amount" using small0 sum_nonneg [of "{p + 1..b}" "block_reward env False"] block_reward_nonneg by fastforce
  then have s2: "?S w2" using solvent_deals [OF env(3) w(5) _ listing w(4) s1 w2] by blast
  have s3: "?S w3" using s2 rest keeps_bnd [OF late] unfolding keeps_def by blast
  obtain w4 where w4: "reward env p b w3 = (Inr (), w4)" "setState_uptr env (processedBlockAddress env) (toString env b) w4 = (Inr u, w')"
    using last by (auto simp: act_ok)
  have n3: "\<not> ctx_transitioning (ctx w3)" using s3 w(4) same_session_simps(1) [of env w w3] by (simp add: solvent_def tidying_def)
  obtain f where "solvent env b w (coins env (view env w) + (\<Sum>i = p + 1..b. block_reward env f i)) w4"
    using solvent_reward [OF env(3-5) s3 n3 _ blocks small w4(1)] blocks(1,2) by auto
  then show ?thesis using solvent_record [OF _ env(3) _ w4(2)] blocks by (intro exI [of _ f]) simp
qed

lemma sum_below:
  assumes "0 \<le> p" "n \<le> m"
  shows "(\<Sum>i = p + 1..n. block_reward env f i) \<le> (\<Sum>i = 1..m. block_reward env f i)"
  by (rule sum_mono2) (use assms block_reward_nonneg in auto)

text \<open>In normal operation the coins grow by one reward for each block that is now processed.\<close>

lemma Housekeeping_coins:
  assumes env: "CHR 0x0A \<notin> set (namespacePrefix env)" "sha512_ok env" "bigint_ok env"
      "bigint env REWARD_AMOUNT_STRING = Inr REWARD_AMOUNT" "signatures_ok env"
    and w: "session_ok env w" "finite_state (view env w)" "wallets_stored env (view env w)" "\<not> ctx_transitioning (ctx w)" "refunding w"
    and listing: "listing_ok env w" "pages_ordered env w"
    and small: "\<forall>f. coins env (view env w) + (\<Sum>i = 1..tip_of env w. block_reward env f i) < max_amount"
    and run: "Housekeeping env query w = (Inr u, w')"
  shows "\<exists>newFormula p p'. processed env (view env w) = Inr p \<and> processed env (view env w') = Inr p' \<and> p \<le> p' \<and>
    finite_state (view env w') \<and> wallets_stored env (view env w') \<and> \<not> ctx_transitioning (ctx w') \<and>
    coins env (view env w') = coins env (view env w) + (\<Sum>i = p + 1..p'. block_reward env newFormula i)"
proof -
  let ?p = "processedBlockAddress env"
  obtain t b where q: "query_bigint env query ''p1'' ''blockIdx'' = Inr (t, b)"
    using run unfolding Housekeeping_def by (auto simp: act_ok)
  obtain prev where read: "(if view env w ?p = [] then ret 0 else lift (bigint env (view env w ?p))) w = (Inr prev, w)"
    using run unfolding Housekeeping_def q
    by (auto simp: act_step state.rd_run [OF w(1)]) (auto simp: act_ok split: if_splits)
  then have prev: "processed env (view env w) = Inr prev" "0 \<le> prev"
    using bigint_nonneg by (auto simp: processed_def act_ok split: if_splits)
  have stay: ?thesis if "view env w' = view env w" "ctx w' = ctx w" using that prev w(2-4) by (intro exI [of _ False] exI [of _ prev]) simp
  have bound: "tip_of env w < 2 ^ 64"
  proof -
    have "uint x < 2 ^ 64" for x :: "64 word" using unsigned_less [of x] by simp
    then show ?thesis using w(4) by (simp add: tip_of_def split: sum.split)
  qed
  have enough: "\<forall>f. coins env (view env w) + (\<Sum>i = prev + 1..n. block_reward env f i) < max_amount" if "n \<le> tip_of env w" for n
    using small sum_below [OF prev(2) that] by (meson add_left_mono le_less_trans)
  have numbers: "CONFIRMATION_COUNT * 2 = 60" "CONFIRMATION_COUNT * 2 + BLOCK_REWARD_PROCESSING_COUNT = 70"
    "CONFIRMATION_COUNT = 30" "BLOCK_REWARD_PROCESSING_COUNT = 10"
    by (simp_all add: CONFIRMATION_COUNT_def BLOCK_REWARD_PROCESSING_COUNT_def)
  have normal: "\<not> ctx_transitioning (ctx w2)" if "solvent env b w1 c w2" "ctx w1 = ctx w" for w1 w2 c
    using that w(4) same_session_simps(1) [of env w1 w2] by (simp add: solvent_def tidying_def)
  show ?thesis
  proof (cases "b = 0")
    case True
    have "if prev + 70 < tip_of env w then \<exists>w1. reward env prev 0 w = (Inr (), w1) \<and>
        setState_uptr env ?p (toString env (prev + 10)) w1 = (Inr u, w') else w' = w"
      using run True read
      by (simp add: Housekeeping_def q act_step state.rd_run [OF w(1)] tip_read [OF w(1)] numbers act_ok split: if_splits)
    then consider "w' = w" | w1 where "prev + 70 < tip_of env w" "reward env prev 0 w = (Inr (), w1)"
      "setState_uptr env ?p (toString env (prev + 10)) w1 = (Inr u, w')" by (auto split: if_splits)
    then show ?thesis
    proof cases
      case 1
      then show ?thesis by (intro stay; simp)
    next
      case 2
      have start: "solvent env b w (coins env (view env w)) w" using w(1-3) tidying_start [OF w(1)] by (simp add: solvent_def)
      obtain f where "solvent env b w (coins env (view env w) + (\<Sum>i = prev + 1..prev + 10. block_reward env f i)) w1"
        using solvent_reward [OF env(3-5) start w(4) _ prev(2) _ _ enough [of "prev + 10"] 2(2)] 2(1) bound by (auto simp: numbers)
      note after = solvent_record [OF this env(3) _ 2(3)]
      then show ?thesis using prev normal [OF after(1) refl]
        by (intro exI [of _ f] exI [of _ prev] exI [of _ "prev + 10"]) (simp add: solvent_def)
    qed
  next
    case False
    obtain w1 where w1: "verifyGatewaySigner env w = (Inr (), w1)"
      and rest: "(if b < 60 \<or> b \<le> prev then ret () else bnd (lastBlockInt env) (\<lambda>tip.
         if tip - 30 \<le> b then ret () else housekeeping_confirmed env prev b)) w1 = (Inr u, w')"
      using run [unfolded Housekeeping_def numbers] False read
      by (simp add: q act_step state.rd_run [OF w(1)]) (auto simp: act_ok)
    note same = verifyGatewaySigner_same [OF w1] verifyGatewaySigner_keeps [OF w1]
    show ?thesis
    proof (cases "housekeeping_confirmed env prev b w1 = (Inr u, w') \<and> prev < b \<and> b < tip_of env w - 30")
      case False
      then have "w' = w1" using rest same w(1) by (auto simp: tip_read act_step act_ok split: if_splits)
      then show ?thesis using same by (intro stay; simp)
    next
      case True
      have "refunding w1" using w(5) same(2,5) by (simp add: refunding_def)
      moreover have "listing_ok env w1" "pages_ordered env w1"
        using listing same w(4) by (simp_all add: listing_ok_def pages_ordered_def)
      ultimately obtain f where "solvent env b w1 (coins env (view env w) + (\<Sum>i = prev + 1..b. block_reward env f i)) w'"
        "processed env (view env w') = Inr b"
        using solvent_confirmed [OF env, of w1 prev b u w'] same w True prev bound enough [of b] by auto
      then show ?thesis using prev True normal [of w1 _ w'] same(2)
        by (intro exI [of _ f] exI [of _ prev] exI [of _ b]) (simp add: solvent_def)
    qed
  qed
qed

subsection \<open>Commands and the record of the processed block\<close>

lemma commands_keep_record:
  assumes "(name, h) \<in> set (handlers env)" and "name \<noteq> ''Housekeeping''"
    and "typed_session env w" and wf: "state_wf env (view env w)"
    and "typed_query env name query" and "h query w = (Inr u, w')"
  shows "processed env (view env w') = processed env (view env w)"
proof -
  have "view env w' (processedBlockAddress env) = view env w (processedBlockAddress env)"
    using assms(3,5,6)
    by (rule handlers_all [OF assms(1,2), where P = "\<lambda>name h. typed_session env w \<longrightarrow> typed_query env name query \<longrightarrow>
        h query w = (Inr u, w') \<longrightarrow> view env w' (processedBlockAddress env) = view env w (processedBlockAddress env)", rule_format, rotated -3])
      (drule market_effects [OF typed_sessionD(1)], assumption, elim exE conjE,
        auto simp: record_elsewhere at_kind_makeAddress state_wf_ids [OF wf] typed_ids [of env query]; fail)+
  then show ?thesis by (simp add: processed_def)
qed

subsection \<open>The whole chain\<close>

lemma same_sums:
  assumes "same_program env e"
  shows "coins e = coins env" "processed e = processed env" "block_reward e = block_reward env" "signatures_ok e = signatures_ok env"
proof -
  note eqs = same_text [OF assms] same_kinds [OF assms]
  have f: "read_cpp_int e = read_cpp_int env" "pow_fixed e = pow_fixed env" "to_int e = to_int env"
    using assms by (auto simp: same_program_def)
  have "worth e = worth env" by (simp add: fun_eq_iff worth_def amount_of_def eqs)
  then show "coins e = coins env" by (simp add: fun_eq_iff coins_def)
  show "processed e = processed env" by (simp add: fun_eq_iff processed_def eqs same_tidied [OF assms])
  show "block_reward e = block_reward env" by (simp add: fun_eq_iff block_reward_def f)
  show "signatures_ok e = signatures_ok env" using assms by (auto simp: same_program_def signatures_ok_def)
qed

definition fresh :: "'v world \<Rightarrow> 'v world" where
  \<comment> \<open>what \<open>GetApplicator\<close> starts a transaction with in normal operation\<close>
  "fresh w = w\<lparr>ctx := new_Ctx False\<rparr>"

definition transaction :: "'v env \<Rightarrow> 'v env \<Rightarrow> 'v world \<Rightarrow> string \<Rightarrow> json \<Rightarrow> 'v world \<Rightarrow> bool" where
  \<comment> \<open>\<open>Apply\<close> accepts the transaction with the header of e, which is a command of the given name\<close>
  "transaction env e w name query w' \<longleftrightarrow> same_program env e \<and> \<not> transitioning w \<and> Apply e w = (Inr (), w') \<and>
     (\<exists>cmd h. cborToParams e (txn_payload e) = Inr (query, cmd) \<and>
        List.find (\<lambda>(name, h). iequals e cmd name) (handlers e) = Some (name, h))"

definition well_meant :: "'v env \<Rightarrow> 'v world \<Rightarrow> string \<Rightarrow> json \<Rightarrow> bool" where
  \<comment> \<open>what a client of the processor sees to\<close>
  "well_meant e w name query \<longleftrightarrow> typed_session e (fresh w) \<and> typed_query e name query \<and> small_amounts e query (view e (fresh w))"

definition listed_well :: "'v env \<Rightarrow> 'v world \<Rightarrow> bool" where
  \<comment> \<open>what the validator sees to, and a bound on the amounts with all rewards up to now\<close>
  "listed_well e w \<longleftrightarrow> listing_ok e (fresh w) \<and> pages_ordered e (fresh w) \<and>
     (\<forall>f. coins e (view e (fresh w)) + (\<Sum>i = 1..tip_of e (fresh w). block_reward e f i) < max_amount)"

inductive chain :: "'v env \<Rightarrow> 'v \<Rightarrow> int \<Rightarrow> nat \<Rightarrow> 'v \<Rightarrow> bool" for env where
  \<comment> \<open>transactions of any signers accepted in normal operation, in any order: the coins collected, and how
     many commands took a fee; between them the validator adds blocks\<close>
  start: "chain env u 0 0 u"
| block: "chain env u c n u1 \<Longrightarrow> stored env u2 = stored env u1 \<Longrightarrow> chain env u c n u2"
| collect: "chain env u c n (validator w) \<Longrightarrow> transaction env e w ''CollectCoins'' query w' \<Longrightarrow>
     well_meant e w ''CollectCoins'' query \<Longrightarrow> query_bigint e query ''p2'' ''amount'' = Inr (s, a) \<Longrightarrow>
     chain env u (c + a) n (validator w')"
| command: "chain env u c n (validator w) \<Longrightarrow> transaction env e w name query w' \<Longrightarrow>
     name \<notin> {''CollectCoins'', ''Housekeeping''} \<Longrightarrow> well_meant e w name query \<Longrightarrow>
     chain env u c (Suc n) (validator w')"
| tidy: "chain env u c n (validator w) \<Longrightarrow> transaction env e w ''Housekeeping'' query w' \<Longrightarrow>
     listed_well e w \<Longrightarrow> chain env u c n (validator w')"

lemma transaction_handler:
  assumes "transaction env e w name query w'"
  shows "\<exists>h. (name, h) \<in> set (handlers e) \<and> h query (fresh w) = (Inr (), w')"
proof -
  have n: "\<not> transitioning w" and run: "Apply e w = (Inr (), w')" using assms by (simp_all add: transaction_def)
  obtain cmd h where q: "cborToParams e (txn_payload e) = Inr (query, cmd)"
    and h: "List.find (\<lambda>(name, h). iequals e cmd name) (handlers e) = Some (name, h)"
    using assms by (auto simp: transaction_def)
  have "Apply_cmd e cmd query (fresh w) = (Inr (), w')"
    using run n q by (auto simp: Apply_def act_ok Apply_guid_def new_Ctx_def fresh_def)
  then have "h query (fresh w) = (Inr (), w')"
    using h by (auto simp: Apply_cmd_def unless_version_1_def lastBlockInt_def act_ok split: if_splits)
  moreover have "(name, h) \<in> set (handlers e)" using h by (auto simp: find_Some_iff in_set_conv_nth)
  ultimately show ?thesis by blast
qed

lemma fresh_view: "view e (fresh w) = stored e (validator w)" "\<not> ctx_transitioning (ctx (fresh w))" "refunding (fresh w)"
  by (auto simp: fun_eq_iff view_validator fresh_def new_Ctx_def refunding_def)

lemma command_accepted:
  assumes t: "transaction env e w name query w'" and n: "name \<noteq> ''Housekeeping''" and m: "well_meant e w name query"
    and wf: "state_wf env (stored env (validator w))" and fin: "finite_state (stored env (validator w))"
  shows "state_wf env (stored env (validator w')) \<and> finite_state (stored env (validator w')) \<and>
    processed env (stored env (validator w')) = processed env (stored env (validator w)) \<and>
    coins env (stored env (validator w')) = (if name = ''CollectCoins''
      then coins env (stored env (validator w)) + snd (case query_bigint e query ''p2'' ''amount'' of Inr p \<Rightarrow> p)
      else coins env (stored env (validator w)) - TX_FEE)"
proof -
  have p: "same_program env e" using t by (simp add: transaction_def)
  note same = same_sums [OF p] same_kinds [OF p] same_text(20) [OF p]
  obtain h where h: "(name, h) \<in> set (handlers e)" "h query (fresh w) = (Inr (), w')" using transaction_handler [OF t] by blast
  have m: "typed_session e (fresh w)" "typed_query e name query" "small_amounts e query (view e (fresh w))"
    using m by (simp_all add: well_meant_def)
  note s = typed_sessionD [OF m(1)]
  have v: "view e (fresh w) = stored env (validator w)" by (simp add: fresh_view(1) same)
  then have wf': "state_wf e (view e (fresh w))" "finite_state (view e (fresh w))" using wf fin by (simp_all add: same)
  have "\<not> ctx_transitioning (ctx w')"
    using same_session_simps(1) [OF command_session [OF h(1) n s(1) h(2)]] fresh_view(2) by metis
  then have v': "view e w' = stored env (validator w')" by (intro ext) (simp add: view_validator same)
  have "state_wf e (view e w')" using state_wf_handlers [OF h(1) n m(1,3) wf'(1) m(2) h(2)] by simp
  moreover have "finite_state (view e w')" using writes_finite [OF h(1) n s(1) h(2)] wf'(2) by simp
  moreover note commands_keep_record [OF h(1) n m(1) wf'(1) m(2) h(2)]
  moreover have "coins e (view e w') = (if name = ''CollectCoins'' then coins e (view e (fresh w)) + snd (case query_bigint e query ''p2'' ''amount'' of Inr p \<Rightarrow> p)
      else coins e (view e (fresh w)) - TX_FEE)"
  proof (cases "name = ''CollectCoins''")
    case False
    then show ?thesis using command_coins [OF h(1) _ m(1) wf'(1) m(2,3) wf'(2) h(2)] n by simp
  next
    case True
    then have h': "h = CollectCoins e" using h(1) by (auto simp: handlers_def)
    obtain t a where "query_bigint e query ''p2'' ''amount'' = Inr (t, a)"
      using h(2) unfolding h' CollectCoins_def by (auto simp: act_ok)
    then show ?thesis using CollectCoins_coins [OF m(1) wf'(1) _ m(3) wf'(2) _ h(2) [unfolded h']] m(2) True by simp
  qed
  ultimately show ?thesis by (simp add: v v' same)
qed

definition balanced :: "'v env \<Rightarrow> 'v \<Rightarrow> int \<Rightarrow> nat \<Rightarrow> int \<Rightarrow> 'v \<Rightarrow> bool" where
  "balanced env u c n p u' \<longleftrightarrow> (\<exists>formula p'. processed env (stored env u') = Inr p' \<and> p \<le> p' \<and>
     coins env (stored env u') + int n * TX_FEE = coins env (stored env u) + c + (\<Sum>i = p + 1..p'. block_reward env (formula i) i))"

lemma balanced_tidy:
  assumes "balanced env u c n p u1" and "processed env (stored env u1) = Inr p1" "processed env (stored env u') = Inr p'" "p1 \<le> p'"
    and "coins env (stored env u') = coins env (stored env u1) + (\<Sum>i = p1 + 1..p'. block_reward env f i)"
  shows "balanced env u c n p u'"
proof -
  obtain g where g: "p \<le> p1" "coins env (stored env u1) + int n * TX_FEE =
      coins env (stored env u) + c + (\<Sum>i = p + 1..p1. block_reward env (g i) i)"
    using assms(1,2) by (auto simp: balanced_def)
  let ?g = "\<lambda>i. if i \<le> p1 then g i else f"
  have split: "{p + 1..p'} = {p + 1..p1} \<union> {p1 + 1..p'}" "{p + 1..p1} \<inter> {p1 + 1..p'} = {}" using g(1) assms(4) by auto
  have "(\<Sum>i = p + 1..p'. block_reward env (?g i) i) =
      (\<Sum>i = p + 1..p1. block_reward env (?g i) i) + (\<Sum>i = p1 + 1..p'. block_reward env (?g i) i)"
    unfolding split(1) by (rule sum.union_disjoint) (use split(2) in auto)
  also have "\<dots> = (\<Sum>i = p + 1..p1. block_reward env (g i) i) + (\<Sum>i = p1 + 1..p'. block_reward env f i)"
    by (intro arg_cong2 [where f = "(+)"] sum.cong) auto
  finally have "(\<Sum>i = p + 1..p'. block_reward env (?g i) i) = \<dots>" .
  then show ?thesis unfolding balanced_def
    by (intro exI [of _ ?g] exI [of _ p']) (use assms(3-5) g in simp)
qed

lemma chain_balanced:
  assumes "chain env u c n u'" and env: "CHR 0x0A \<notin> set (namespacePrefix env)" "sha512_ok env" "bigint_ok env" "validator_ok env"
      "bigint env REWARD_AMOUNT_STRING = Inr REWARD_AMOUNT" "signatures_ok env"
    and "state_wf env (stored env u)" "finite_state (stored env u)" "processed env (stored env u) = Inr p"
  shows "state_wf env (stored env u') \<and> finite_state (stored env u') \<and> balanced env u c n p u'"
  using assms(1,8-)
proof (induction rule: chain.induct)
  case (start u)
  then show ?case by (simp add: balanced_def)
next
  case (block u c n u1 u2)
  then show ?case by (simp add: balanced_def)
next
  case (collect u c n w e query w' s a)
  then show ?case using command_accepted [OF collect.hyps(2) _ collect.hyps(3)] by (auto simp: balanced_def)
next
  case (command u c n w e name query w')
  then show ?case using command_accepted [OF command.hyps(2) _ command.hyps(4)]
    by (simp add: balanced_def distrib_right)
next
  case (tidy u c n w e query w')
  have wf: "state_wf env (stored env (validator w))" "finite_state (stored env (validator w))" "balanced env u c n p (validator w)"
    using tidy.IH tidy.prems by blast+
  have p: "same_program env e" using tidy.hyps(2) by (simp add: transaction_def)
  note same = same_sums [OF p] same_kinds [OF p] same_tidied [OF p] same_validator [OF p] same_text(7,20) [OF p]
  obtain h where "(''Housekeeping'', h) \<in> set (handlers e)" "h query (fresh w) = (Inr (), w')" using transaction_handler [OF tidy.hyps(2)] by blast
  then have run: "Housekeeping e query (fresh w) = (Inr (), w')" by (auto simp: handlers_def)
  have l: "listing_ok e (fresh w)" "pages_ordered e (fresh w)"
    "\<forall>f. coins e (view e (fresh w)) + (\<Sum>i = 1..tip_of e (fresh w). block_reward e f i) < max_amount"
    using tidy.hyps(3) by (simp_all add: listed_well_def)
  have v: "view e (fresh w) = stored env (validator w)" by (simp add: fresh_view(1) same)
  have s: "session_ok e (fresh w)" using env(4) by (simp add: session_ok_def same fresh_def new_Ctx_def)
  have wallets: "wallets_stored e (view e (fresh w))"
    using state_wf_wallet [OF wf(1)] by (simp add: v same wallets_stored_def)
  have hyps: "CHR 0x0A \<notin> set (namespacePrefix e)" "sha512_ok e" "bigint_ok e" "bigint e REWARD_AMOUNT_STRING = Inr REWARD_AMOUNT" "signatures_ok e"
    using env by (simp_all add: same)
  obtain f p1 p' where r: "processed e (view e (fresh w)) = Inr p1" "processed e (view e w') = Inr p'" "p1 \<le> p'"
      "finite_state (view e w')" "wallets_stored e (view e w')" "\<not> ctx_transitioning (ctx w')"
      "coins e (view e w') = coins e (view e (fresh w)) + (\<Sum>i = p1 + 1..p'. block_reward e f i)"
    using Housekeeping_coins [OF hyps s _ wallets fresh_view(2,3) l run] wf(2) v by auto
  have v': "view e w' = stored env (validator w')" using r(6) by (intro ext) (simp add: view_validator same)
  obtain t b where q: "query_bigint e query ''p1'' ''blockIdx'' = Inr (t, b)" using run unfolding Housekeeping_def by (auto simp: act_ok)
  have "tidied env b (stored env (validator w)) (stored env (validator w'))"
    using housekeeping_tidies [OF hyps(1-3) s l(1) q run] by (simp add: v v' same)
  then have "state_wf env (stored env (validator w'))" using tidied_wf wf(1) r(5) by (metis same_tidied(4) [OF p] v')
  then show ?case using balanced_tidy [OF wf(3)] r by (simp add: v v' same)
qed


end
