(* ===== verification/Tidying_Sample.thy ===== *)
theory Tidying_Sample
  imports Tidying
begin

section \<open>Confirming a block of a small chain\<close>

text \<open>
  An old chain with an ask that has expired, a deal with its loan, and the record that block
  199 is processed; block 200 is confirmed.  The run is followed step by step.
\<close>

definition processed_id :: string where
  "processed_id = ''niocti9000'' @ PROCESSED_BLOCK_ID"

definition house_world :: "(string \<Rightarrow> string) world" where
  "house_world = (sample_world [] ''alice'')\<lparr>
     ctx := (new_Ctx True)\<lparr>ctx_tip := 1000, ctx_sighash := ''alice''\<rparr>, transitioning := True,
     transitioningState := [(''niocti3000k'', AskOrder_SerializeToString the_ask),
       (''niocti5000d'', DealOrder_SerializeToString the_deal), (processed_id, ''199'')],
     blocks := replicate 201 \<lparr>block_signer = ''miner'', block_txs = []\<rparr>\<rparr>"

lemma house_world_ok:
  "ctx_transitioning (ctx house_world)" "layers_sorted house_world" "session_ok sample_env house_world"
  "tip_of sample_env house_world = 1000" "ctx_tip (ctx house_world) = 1000"
  "blocks house_world = replicate 201 \<lparr>block_signer = ''miner'', block_txs = []\<rparr>" "transitioning house_world"
  "signer sample_env house_world = Inr ''alice''"
proof -
  show "session_ok sample_env house_world"
    using sample_session_ok [of "[]" "''alice''"] by (simp add: session_ok_def house_world_def new_Ctx_def)
qed (simp_all add: layers_sorted_def house_world_def sorted_map_def new_Ctx_def less_list_code less_char_def
      processed_id_def tip_of_def signer_def sample_world_def)

lemma house_view: "view sample_env house_world k =
    (if k = ''niocti3000k'' then AskOrder_SerializeToString the_ask else
     if k = ''niocti5000d'' then DealOrder_SerializeToString the_deal else if k = processed_id then ''199'' else [])"
  using house_world_ok(1)
  by (simp add: view_overlay) (simp add: overlay_def house_world_def new_Ctx_def map_find_def processed_id_def sample_world_def)

lemma listed_none:
  assumes "layers_sorted w" "ctx_transitioning (ctx w)" and "\<And>k. starts_with prefix k \<Longrightarrow> view sample_env w k = []"
  shows "overlay_entries w prefix = []"
  using overlay_entries_exact(2) [OF assms(1,2), of _ _ prefix, where env = sample_env] assms(3)
  by (cases "overlay_entries w prefix") fastforce+

lemma singleton_list: "set xs = {x} \<Longrightarrow> distinct xs \<Longrightarrow> xs = [x]"
proof (cases xs)
  case (Cons a l)
  assume "set xs = {x}" and "distinct xs"
  with Cons have "a = x" "set l \<subseteq> {x}" "a \<notin> set l" by auto
  then have "set l = {}" by (auto dest: subset_singletonD)
  then show ?thesis using Cons \<open>a = x\<close> by simp
qed simp

lemma listed_one:
  assumes "layers_sorted w" "ctx_transitioning (ctx w)" and "starts_with prefix k" "view sample_env w k = d" "d \<noteq> []"
    and "\<And>k'. starts_with prefix k' \<Longrightarrow> k' \<noteq> k \<Longrightarrow> view sample_env w k' = []"
  shows "overlay_entries w prefix = [(k, d)]"
proof -
  have "set (overlay_entries w prefix) = {(k, d)}"
    using overlay_entries_exact(2) [OF assms(1,2), of _ _ prefix, where env = sample_env] assms(3-6) by (auto; blast)
  moreover have "distinct (overlay_entries w prefix)"
    using overlay_entries_exact(1) [OF assms(1,2), of prefix] by (simp add: distinct_map)
  ultimately show ?thesis by (rule singleton_list)
qed

definition house_params :: "(string \<times> string) list" where
  "house_params = [(''p1'', ''200'')]"

lemma house_query: "query_bigint sample_env (text_query house_params) ''p1'' ''blockIdx'' = Inr (''200'', 200)"
proof -
  have p: "\<forall>(k, v) \<in> set house_params. plain v" by (simp add: house_params_def plain_def)
  have "bigint sample_env ''200'' = Inr 200"
    by (simp add: sample_bigint read_integer_def split_sign_def digits_only_def isdigit_def dec_val_def digit_val_def)
  then show ?thesis using text_query_string [OF p] by (simp add: query_bigint_def house_params_def sbnd_def)
qed

lemma dump_200: "dump_integer 200 = ''200''"
  by (simp add: dump_integer_def dump_digits.simps char_of_def bit_0)

lemma house_listing: "listing_ok sample_env house_world"
  using house_world_ok by (simp add: listing_ok_def)

lemma house_numbers: "bigint sample_env ''199'' = Inr 199"
  "order_expired sample_env (ask_block the_ask) (ask_expiration the_ask) 200 = Inr True"
  "order_expired sample_env (deal_block the_deal) (deal_expiration the_deal) 200 = Inr True"
  by (simp_all add: sample_bigint read_integer_def split_sign_def digits_only_def isdigit_def dec_val_def digit_val_def)
    (simp_all add: order_expired_def the_ask_def the_deal_def sbnd_def)

definition miner_id :: string where
  "miner_id = (case sha512id sample_env ''miner'' of Inr s \<Rightarrow> s | Inl _ \<Rightarrow> [])"

lemma miner_sighash: "sha512id sample_env ''miner'' = Inr miner_id"
  using sha512id_ok [OF sample_sha512_ok, of "''miner''"] by (auto simp: miner_id_def)

definition reward_wallet :: string where
  "reward_wallet = Wallet_SerializeToString (Wallet_Clear\<lparr>wallet_amount := REWARD_AMOUNT_STRING\<rparr>)"

definition asks_gone :: "(string \<Rightarrow> string) world \<Rightarrow> bool" where
  \<comment> \<open>where the run stands after the expired orders\<close>
  "asks_gone w1 \<longleftrightarrow> session_ok sample_env w1 \<and> same_session sample_env house_world w1 \<and> layers_sorted w1 \<and>
     view sample_env w1 = (view sample_env house_world)(''niocti3000k'' := [])"

lemma asks_gone_session:
  assumes "asks_gone w1"
  shows "ctx_transitioning (ctx w1)" "tip_of sample_env w1 = 1000" "ctx_tip (ctx w1) = 1000"
    "blocks w1 = replicate 201 \<lparr>block_signer = ''miner'', block_txs = []\<rparr>"
  using same_session_simps [of sample_env house_world w1] assms house_world_ok by (simp_all add: asks_gone_def)

lemma house_asks:
  "\<exists>w1. filter_kind sample_env ASK_ORDER (house_ask sample_env 200) house_world = (Inr (), w1) \<and> asks_gone w1"
proof -
  have "overlay_entries house_world (namespacePrefix sample_env @ ASK_ORDER) = [(''niocti3000k'', AskOrder_SerializeToString the_ask)]"
    by (rule listed_one [OF house_world_ok(2,1)]) (auto simp: house_view starts_with_iff kind_defs processed_id_def)
  moreover obtain w1 where w1: "deleteState sample_env ''niocti3000k'' house_world = (Inr (), w1)" "session_ok sample_env w1"
      "same_session sample_env house_world w1" "view sample_env w1 = (view sample_env house_world)(''niocti3000k'' := [])"
    using state.del [OF house_world_ok(3)] by blast
  ultimately have "filter_kind sample_env ASK_ORDER (house_ask sample_env 200) house_world = (Inr (), w1)"
    by (simp add: filter_kind_transitioning house_world_ok house_orders(1) house_numbers act_step ret_def del: sample_prefix)
  moreover have "layers_sorted w1" using write_keeps_layers(1) [OF w1(1) [unfolded deleteState_def] house_world_ok(2)] .
  ultimately show ?thesis using w1 by (auto simp: asks_gone_def)
qed

lemma house_others:
  assumes "asks_gone w1"
  shows "p \<in> {BID_ORDER, OFFER, REPAYMENT_ORDER, FEE} \<Longrightarrow> filter_kind sample_env p f w1 = (Inr (), w1)"
    and "filter_kind sample_env DEAL_ORDER (house_deal sample_env 200) w1 = (Inr (), w1)"
proof -
  let ?ns = "namespacePrefix sample_env"
  note t = asks_gone_session(1) [OF assms]
  have l: "layers_sorted w1" and v: "view sample_env w1 = (view sample_env house_world)(''niocti3000k'' := [])"
    using assms by (simp_all add: asks_gone_def)
  show "filter_kind sample_env p f w1 = (Inr (), w1)" if "p \<in> {BID_ORDER, OFFER, REPAYMENT_ORDER, FEE}"
  proof -
    have "overlay_entries w1 (?ns @ p) = []"
      by (rule listed_none [OF l t]) (use that in \<open>auto simp: v house_view starts_with_iff kind_defs processed_id_def\<close>)
    then show ?thesis using t by (simp add: filter_kind_transitioning ret_def)
  qed
  have has_loan: "deal_loan_transfer the_deal \<noteq> []" by (simp add: the_deal_def)
  have "overlay_entries w1 (?ns @ DEAL_ORDER) = [(''niocti5000d'', DealOrder_SerializeToString the_deal)]"
    by (rule listed_one [OF l t]) (auto simp: v house_view starts_with_iff kind_defs processed_id_def)
  moreover have "house_deal sample_env 200 ''niocti5000d'' (DealOrder_SerializeToString the_deal) w1 = (Inr (), w1)"
    using house_deal_dead [of sample_env "DealOrder_SerializeToString the_deal" 200 True] house_numbers(3) has_loan by simp
  ultimately show "filter_kind sample_env DEAL_ORDER (house_deal sample_env 200) w1 = (Inr (), w1)"
    using t by (simp add: filter_kind_transitioning act_step ret_def)
qed

lemma house_reward:
  assumes "asks_gone w1"
  shows "\<exists>w2. reward sample_env 199 200 w1 = (Inr (), w2) \<and> session_ok sample_env w2 \<and>
    view sample_env w2 = (view sample_env w1)(walletIdOf sample_env miner_id := reward_wallet)"
proof -
  have s: "session_ok sample_env w1" and v: "view sample_env w1 = (view sample_env house_world)(''niocti3000k'' := [])"
    using assms by (simp_all add: asks_gone_def)
  obtain w2 where w2: "setStates sample_env [(walletIdOf sample_env miner_id, reward_wallet)] w1 = (Inr (), w2)"
      "session_ok sample_env w2" "view sample_env w2 = (view sample_env w1)(walletIdOf sample_env miner_id := reward_wallet)"
    using state.wr [OF s, of "[(walletIdOf sample_env miner_id, reward_wallet)]"] by auto
  have id: "to_int sample_env 200 = 200" by (simp add: sample_env_def)
  have b: "[200..200 :: int] = [200]" by simp
  have new: "view sample_env w1 (walletIdOf sample_env miner_id) = []"
    by (simp add: v house_view sample_wallet_id processed_id_def)
  have "award sample_env False 200 ''miner'' w1 = (Inr (), w2)"
    using w2(1) state.rd_run [OF s, of False "walletIdOf sample_env miner_id"]
    by (simp add: award_def act_step Let_def REWARD_AMOUNT_def miner_sighash new credit_def ret_def bnd_def lift_def reward_wallet_def)
  then have "reward sample_env 199 200 w1 = (Inr (), w2)"
    by (simp add: reward_def reward_transitioning_def asks_gone_session [OF assms] Let_def b award_block_def id act_run to_rpc_failure_def)
  then show ?thesis using w2 by blast
qed

lemma house_run:
  "\<exists>w'. Housekeeping sample_env (text_query house_params) house_world = (Inr (), w') \<and>
    view sample_env w' = (view sample_env house_world)(''niocti3000k'' := [],
      ''niocti0000'' @ miner_id := reward_wallet, processed_id := ''200'')"
proof -
  have pid: "processedBlockAddress sample_env = processed_id"
    by (simp add: processedBlockAddress_def processed_id_def PROCESSED_BLOCK_def)
  obtain w1 where ask: "filter_kind sample_env ASK_ORDER (house_ask sample_env 200) house_world = (Inr (), w1)" and w1: "asks_gone w1"
    using house_asks by blast
  obtain w2 where w2: "reward sample_env 199 200 w1 = (Inr (), w2)" "session_ok sample_env w2"
      "view sample_env w2 = (view sample_env w1)(walletIdOf sample_env miner_id := reward_wallet)"
    using house_reward [OF w1] by blast
  obtain w3 where w3: "setState_uptr sample_env (processedBlockAddress sample_env) (toString sample_env 200) w2 = (Inr (), w3)"
      "view sample_env w3 = (view sample_env w2)(processed_id := ''200'')"
    using setState_raw_effect [OF w2(2), of "toString sample_env 200" processed_id]
    by (auto simp: setState_uptr_def pid sample_toString dump_200)
  have "housekeeping_confirmed sample_env 199 200 house_world = (Inr (), w3)"
    by (simp add: housekeeping_confirmed_def act_step ask house_others [OF w1] w2(1) w3)
  moreover have "verifyGatewaySigner sample_env house_world = (Inr (), house_world)"
    by (simp add: verifyGatewaySigner_def house_world_ok act_run)
  ultimately have "Housekeeping sample_env (text_query house_params) house_world = (Inr (), w3)"
    by (simp add: Housekeeping_def house_query act_step state.rd_run [OF house_world_ok(3)] pid house_view processed_id_def house_numbers
        tip_read [OF house_world_ok(3)] house_world_ok(4) CONFIRMATION_COUNT_def)
  then show ?thesis using w1 w2(3) w3(2) by (simp add: asks_gone_def sample_wallet_id)
qed

lemma house_env: "CHR 0x0A \<notin> set (namespacePrefix sample_env)"
  by simp


lemma house_wf: "state_wf sample_env (view sample_env house_world)" "typed_session sample_env house_world"
proof -
  have k: "at_kind sample_env PROCESSED_BLOCK processed_id" "at_kind sample_env ASK_ORDER ''niocti3000k''"
    by (simp_all add: at_kind_def starts_with_def kind_defs processed_id_def)
  have "ask_address the_ask = ''niocti1000a''" "deal_src_address the_deal = ''niocti1000a''" "deal_dst_address the_deal = ''niocti1000b''"
    by (simp_all add: the_ask_def the_deal_def)
  then have "entry_ok sample_env ''niocti3000k'' (AskOrder_SerializeToString the_ask)"
    "entry_ok sample_env ''niocti5000d'' (DealOrder_SerializeToString the_deal)"
    by (auto intro!: entry_written k)
  moreover have "entry_ok sample_env processed_id d" for d
    using entry_at [OF k(1), of d] by (simp add: kind_defs)
  ultimately show "state_wf sample_env (view sample_env house_world)" by (simp add: state_wf_def house_view)
  have "wire_str ''alice''" by (rule literal_wire) (simp_all add: ascii_def)
  then show "typed_session sample_env house_world"
    using house_world_ok by (simp add: typed_session_def max_amount_def) (simp add: sample_env_def)
qed

lemma house_wallets:
  assumes "view sample_env w' = (view sample_env house_world)(''niocti3000k'' := [],
    ''niocti0000'' @ miner_id := reward_wallet, processed_id := ''200'')"
  shows "wallets_stored sample_env (view sample_env w')"
proof -
  have "Wallet_wf (Wallet_Clear\<lparr>wallet_amount := REWARD_AMOUNT_STRING\<rparr>)"
    by (simp add: Wallet_wf_def Wallet_Clear_def REWARD_AMOUNT_STRING_def literal_wire ascii_def)
  then have "Wallet_wf (wallet_from reward_wallet)" by (simp add: reward_wallet_def)
  then show ?thesis by (auto simp: wallets_stored_def assms house_view sample_wallet_id processed_id_def)
qed


end
