(* ===== verification/Minting_Sample.thy ===== *)
theory Minting_Sample
  imports Minting Tidying_Sample
begin

section \<open>Two transactions of a small chain\<close>

text \<open>
  An empty chain: a signer collects 1000 coins, the validator adds blocks up to 99, and a
  transaction without a block number asks for the rewards of blocks 1 to 10.
\<close>

subsection \<open>The headers\<close>

definition house_env :: "((string \<Rightarrow> string) \<times> 64 word) env" where
  \<comment> \<open>the next transaction: no block number, so it asks for the rewards of ten blocks\<close>
  "house_env = clock_env\<lparr>txn_payload := to_cbor (text_query [(''p1'', ''0''), (''v'', ''Housekeeping'')])\<rparr>"

lemma house_env_same: "same_program clock_env house_env" "same_program house_env house_env"
proof -
  have "same_program env (env\<lparr>txn_payload := p\<rparr>)" for env :: "'v env" and p
    unfolding same_program_def
    by (intro exI [of _ "txn_signer_public_key env"] exI [of _ p] exI [of _ "txn_nonce env"]
        exI [of _ "txn_family_version env"] exI [of _ "txn_block_signature env"]) simp
  then show "same_program clock_env house_env" unfolding house_env_def .
qed (rule same_program_refl)

lemma clock_chain_env:
  "CHR 0x0A \<notin> set (namespacePrefix clock_env)" "sha512_ok clock_env" "bigint_ok clock_env"
  "bigint clock_env REWARD_AMOUNT_STRING = Inr REWARD_AMOUNT" "signatures_ok clock_env"
proof -
  have ns: "namespacePrefix clock_env = namespacePrefix sample_env" by (simp add: namespacePrefix_def clock_env_def sample_env_def)
  then show "CHR 0x0A \<notin> set (namespacePrefix clock_env)" by simp
  show "sha512_ok clock_env" using sample_sha512_ok by (simp add: sha512_ok_def clock_env_def sample_env_def)
  show "bigint_ok clock_env" by (rule decimal_bigint_ok) (simp_all add: clock_env_def)
  have "bigint clock_env = bigint sample_env" by (simp add: fun_eq_iff bigint_def getBigint_def clock_env_def sample_env_def)
  then show "bigint clock_env REWARD_AMOUNT_STRING = Inr REWARD_AMOUNT" using literal_reward by simp
  have word: "uint (word_of_int n :: 64 word) = n" if "0 \<le> n" "n < 2 ^ 64" for n
    using that by (simp add: unsigned_of_int take_bit_int_eq_self)
  show "signatures_ok clock_env" unfolding signatures_ok_def
  proof (intro allI impI)
    fix v s p u and signatures :: "string list"
    assume b: "(0 :: int) \<le> p" "p < u" "u < 2 ^ 64"
      and got: "GetRewardBlockSignatures clock_env v s (to_uint64 clock_env u) (to_uint64 clock_env (p + 1)) = Inr signatures"
    have "to_uint64 clock_env = word_of_int" by (simp add: clock_env_def)
    then have "length signatures = nat (u - p)" using got b word [of u] word [of "p + 1"] by (auto simp: clock_env_def)
    then show "int (length signatures) = u - p" using b by simp
  qed
qed

lemma short_digest:
  assumes "length m \<le> 68"
  shows "sha512id sample_env m = Inr (replicate 60 CHR ''0'')"
proof -
  have "pad_digest m = map lower_char (rev m) @ replicate (128 - length m) CHR ''0''"
    using assms by (simp add: pad_digest_def lower_char_def min_def)
  then have "drop 68 (pad_digest m) = replicate 60 CHR ''0''" "length (pad_digest m) = 128" using assms by simp_all
  then show ?thesis by (simp add: sha512id_def substr_def sbnd_def) (simp add: sample_env_def)
qed

lemma collector_zeros: "collector = replicate 60 CHR ''0''" "miner_id = collector"
  by (simp_all add: collector_def miner_id_def short_digest)

lemma house_env_simps:
  "stored house_env = stored clock_env" "bigint house_env = bigint sample_env" "toString house_env = toString sample_env"
  "sha512id house_env = sha512id sample_env" "walletIdOf house_env = walletIdOf sample_env" "block_reward house_env = block_reward clock_env"
  "coins house_env = coins clock_env" "query_bigint house_env = query_bigint sample_env" "validator_ok house_env"
proof -
  have c: "bigint clock_env = bigint sample_env" "toString clock_env = toString sample_env"
    by (simp_all add: fun_eq_iff bigint_def getBigint_def toString_def clock_env_def sample_env_def)
  show "stored house_env = stored clock_env" "bigint house_env = bigint sample_env" "toString house_env = toString sample_env"
    "sha512id house_env = sha512id sample_env" "walletIdOf house_env = walletIdOf sample_env" "block_reward house_env = block_reward clock_env"
    "coins house_env = coins clock_env" "query_bigint house_env = query_bigint sample_env" "validator_ok house_env"
    using same_text [OF house_env_same(1)] same_sums [OF house_env_same(1)] same_validator [OF house_env_same(1)] clock_text clock_validator(1) by (simp_all add: c)
qed

lemma collected_coins: "coins clock_env collected = 1000" "finite_state collected"
proof -
  obtain idn where idn: "makeAddress sample_env ERC20 ''0xt'' = Inr idn"
    using makeAddress_ok [OF sample_sha512_ok, of ERC20] by (auto simp: ERC20_def)
  then have erc: "at_kind clock_env ERC20 idn" using at_kind_makeAddress [of clock_env] clock_text(4) by metis
  let ?d = "Wallet_SerializeToString (Wallet_Clear\<lparr>wallet_amount := ''1000''\<rparr>)"
  have wf: "Wallet_wf (Wallet_Clear\<lparr>wallet_amount := ''1000''\<rparr>)"
    by (simp add: Wallet_wf_def Wallet_Clear_def literal_wire ascii_def)
  have "bigint clock_env ''1000'' = Inr 1000"
    using house_env_simps(2) same_text(7) [OF house_env_same(1)]
    by (simp add: sample_bigint read_integer_def split_sign_def digits_only_def isdigit_def dec_val_def digit_val_def)
  then have "worth clock_env (walletIdOf clock_env collector) ?d = 1000"
    using wf wallet_bytes [of "Wallet_Clear\<lparr>wallet_amount := ''1000''\<rparr>"] by (auto simp: worth_def amount_of_def)
  moreover have "coins clock_env (\<lambda>_. []) = 0" "finite_state (\<lambda>_. [])" by (simp_all add: coins_def finite_state_def)
  ultimately have "coins clock_env ((\<lambda>_. [])(walletIdOf clock_env collector := ?d, idn := ''1000'')) = 1000"
    "finite_state ((\<lambda>_. [])(walletIdOf clock_env collector := ?d, idn := ''1000''))"
    using worth_others(7) [OF erc] by (simp_all add: coins_upd)
  moreover have "collected = (\<lambda>_. [])(walletIdOf clock_env collector := ?d, idn := ''1000'')"
    by (simp add: collected_def idn clock_text(5))
  ultimately show "coins clock_env collected = 1000" "finite_state collected" by simp_all
qed

lemma clock_rewards: "block_reward clock_env f i \<le> 10 ^ 21"
proof -
  have zeros: "replicate 12 CHR ''0'' = ''000000000000''" by (simp add: numeral_eq_Suc)
  have "fractionInWei ''1.000000'' = ''1000000000000000000''" "fractionInWei ''0.950000'' = ''950000000000000000''"
    by (simp_all add: fractionInWei_def find_dot_def pad_right_def Let_def zeros)
  moreover have "read_integer ''1000000000000000000'' = Some (10 ^ 18)" "read_integer ''950000000000000000'' = Some (950000000000000000)"
    by (simp_all add: read_integer_def split_sign_def digits_only_def isdigit_def dec_val_def digit_val_def)
  ultimately show ?thesis
    by (simp add: block_reward_def REWARD_AMOUNT_def) (simp add: clock_env_def)
qed

lemma house_listed:
  assumes "validator w = (collected, 100)"
  shows "listed_well house_env w"
proof -
  have n: "\<not> ctx_transitioning (ctx (fresh w))" by (rule fresh_view)
  have pages: "GetStatesByPrefix house_env v prefix root start = Inr ([], [], [])" for v prefix root start
    by (simp add: house_env_def clock_env_def)
  have "listing_ok house_env (fresh w)" "pages_ordered house_env (fresh w)"
    using n by (auto simp: listing_ok_def pages_ordered_def pages)
  moreover have "tip_of house_env (fresh w) = 99"
    using n assms by (simp add: tip_of_def) (simp add: fresh_def house_env_def clock_env_def)
  moreover have "view house_env (fresh w) = collected" using assms by (simp add: fresh_view house_env_simps clock_validator)
  moreover have "1000 + (\<Sum>i = 1..99. block_reward house_env f i) < max_amount" for f
  proof -
    have "(\<Sum>i = 1..99. block_reward house_env f i) \<le> of_nat (card {1..99 :: int}) * 10 ^ 21"
      by (rule sum_bounded_above) (unfold house_env_simps, rule clock_rewards)
    then show ?thesis by (simp add: max_amount_def)
  qed
  ultimately show ?thesis
    unfolding listed_well_def by (simp add: house_env_simps(7) collected_coins(1))
qed

subsection \<open>The first transaction: coins are collected\<close>

lemma collect_clean: "\<forall>(k, v) \<in> set (collect_params @ [(''v'', ''CollectCoins'')]). plain v \<and> ascii v \<and> length v < 2 ^ 31"
  by (simp add: collect_params_def plain_def ascii_def)

lemma clock_fresh: "fresh clock_world = clock_world" "fresh (clock_world\<lparr>validator := u\<rparr>) = clock_world\<lparr>validator := u\<rparr>"
  by (simp_all add: fresh_def clock_world_def)

lemma collect_meant: "well_meant clock_env clock_world ''CollectCoins'' (text_query (collect_params @ [(''v'', ''CollectCoins'')]))"
proof -
  let ?q = "text_query (collect_params @ [(''v'', ''CollectCoins'')])"
  have p: "\<forall>(k, v) \<in> set (collect_params @ [(''v'', ''CollectCoins'')]). plain v" using collect_clean by auto
  have view: "view clock_env (fresh clock_world) = (\<lambda>_. [])"
    unfolding fresh_view(1) by (simp add: clock_world_def clock_validator)
  have s: "signer clock_env (fresh clock_world) = Inr collector"
    using the_signer(1) by (simp add: signer_def fresh_view(2))
  have "wire_str collector" by (rule wire_str_ascii) (simp_all add: collector_zeros ascii_def list_all_iff)
  moreover have "session_ok clock_env (fresh clock_world)"
    using clock_validator(1) by (simp add: session_ok_def fresh_def new_Ctx_def)
  moreover have "tip_of clock_env (fresh clock_world) = 4"
    using fresh_view(2) [of clock_world] by (simp add: tip_of_def) (simp add: fresh_def clock_world_def clock_env_def)
  moreover have "boost_starts_with clock_env s p = starts_with p s" for s p by (simp add: clock_env_def)
  ultimately have "typed_session clock_env (fresh clock_world)"
    using clock_chain_env(3) by (simp add: typed_session_def s max_amount_def)
  moreover have "typed_query clock_env ''CollectCoins'' ?q"
    using text_query_wire [OF collect_clean] by (auto simp: typed_query_def id_params_def clock_text(1,2))
  moreover have "small_amounts clock_env ?q (view clock_env (fresh clock_world))"
  proof -
    have b: "bigint clock_env = bigint sample_env" "getBigint clock_env = getBigint sample_env"
      by (simp_all add: fun_eq_iff bigint_def getBigint_def clock_env_def sample_env_def)
    have none: "bigint sample_env [] = Inl (InvalidTransaction ''Invalid number format'')"
      by (simp add: sample_bigint read_integer_def split_sign_def)
    have "\<bar>n\<bar> < max_amount div 4" if "query_string sample_env ?q key nm = Inr s" "getBigint sample_env s True = Inr n" for key nm s n
    proof -
      have "s \<in> {''0xe'', ''1000'', ''0xt'', ''CollectCoins''}"
        using that(1) unfolding text_query_string [OF p] by (auto simp: collect_params_def split: if_splits)
      then show ?thesis using that(2)
        by (auto simp: getBigint_def sample_env_def max_amount_def read_integer_def split_sign_def digits_only_def isdigit_def
            dec_val_def digit_val_def split: if_splits)
    qed
    then show ?thesis unfolding view using none
      by (auto simp: small_amounts_def balance_def max_amount_def DealOrder_Clear_def RepaymentOrder_Clear_def b clock_text(1))
  qed
  ultimately show ?thesis by (simp add: well_meant_def)
qed

lemma collect_transaction:
  "\<exists>w'. transaction clock_env clock_env clock_world ''CollectCoins'' (text_query (collect_params @ [(''v'', ''CollectCoins'')])) w' \<and>
    validator w' = (collected, 5)"
proof -
  obtain w' where w': "Apply clock_env clock_world = (Inr (), w')" "validator w' = (collected, 5)" using clock_apply by blast
  have "List.find (\<lambda>(name, h). iequals clock_env ''CollectCoins'' name) (handlers clock_env) = Some (''CollectCoins'', CollectCoins clock_env)"
    by (simp add: handlers_def clock_env_def lower_char_def char_of_def bit_0)
  moreover have "\<not> transitioning clock_world" by (simp add: clock_world_def)
  ultimately have "transaction clock_env clock_env clock_world ''CollectCoins'' (text_query (collect_params @ [(''v'', ''CollectCoins'')])) w'"
    using w'(1) collect_payload by (auto simp: transaction_def clock_text(7))
  then show ?thesis using w'(2) by blast
qed

subsection \<open>The second transaction: ten blocks are rewarded\<close>

definition house_query :: json where
  "house_query = text_query [(''p1'', ''0''), (''v'', ''Housekeeping'')]"

lemma house_payload: "cborToParams house_env (txn_payload house_env) = Inr (house_query, ''Housekeeping'')"
proof -
  let ?ms = "[(''p1'', JString ''0''), (''v'', JString ''Housekeeping'')]"
  have q: "house_query = JObject ?ms" by (simp add: house_query_def text_query_def)
  have "cbor_ok (JObject ?ms)" by (simp add: sorted_map_def less_list_code less_char_def)
  then have "cborToParams house_env (to_cbor house_query) = Inr (house_query, dump_escaped ''Housekeeping'')"
    using encoded_command [of ?ms house_env] unfolding q by (simp del: to_cbor.simps)
  moreover have "dump_escaped ''Housekeeping'' = ''Housekeeping''" by (simp add: dump_escaped_plain plain_def)
  moreover have "txn_payload house_env = to_cbor house_query" by (simp add: house_env_def house_query_def del: to_cbor.simps)
  ultimately show ?thesis by (simp only:)
qed

lemma house_block_number: "query_bigint house_env house_query ''p1'' ''blockIdx'' = Inr (''0'', 0)"
proof -
  have p: "\<forall>(k, v) \<in> set [(''p1'', ''0''), (''v'', ''Housekeeping'')]. plain v" by (simp add: plain_def)
  have "bigint sample_env ''0'' = Inr 0"
    by (simp add: sample_bigint read_integer_def split_sign_def digits_only_def isdigit_def dec_val_def digit_val_def)
  then show ?thesis unfolding house_env_simps house_query_def
    using text_query_string [OF p] by (simp add: query_bigint_def sbnd_def)
qed

lemma house_award:
  assumes w: "session_ok house_env w" "view house_env w (walletIdOf sample_env collector) = wallet_of m" and m: "0 \<le> m" "m < max_amount"
  shows "\<exists>w'. award house_env False i ''miner'' w = (Inr (), w') \<and> session_ok house_env w' \<and> same_session house_env w w' \<and>
    view house_env w' = (view house_env w)(walletIdOf sample_env collector := wallet_of (m + REWARD_AMOUNT))"
proof -
  have n: "bigint sample_env (wallet_amount (wallet_from (wallet_of m))) = Inr m" using m by simp
  have to: "wallet_from (wallet_of m)\<lparr>wallet_amount := toString sample_env (m + REWARD_AMOUNT)\<rparr> =
      Wallet_Clear\<lparr>wallet_amount := dump_integer (m + REWARD_AMOUNT)\<rparr>"
    using m by (simp add: wallet_of_from sample_toString)
  obtain w' where w': "setStates house_env [(walletIdOf sample_env collector, wallet_of (m + REWARD_AMOUNT))] w = (Inr (), w')"
      "session_ok house_env w'" "same_session house_env w w'"
      "view house_env w' = (view house_env w)(walletIdOf sample_env collector := wallet_of (m + REWARD_AMOUNT))"
    using state.wr [OF w(1), of "[(walletIdOf sample_env collector, wallet_of (m + REWARD_AMOUNT))]"] by auto
  have "award house_env False i ''miner'' w = (Inr (), w')"
    using w'(1) miner_sighash
    by (simp add: award_def act_step Let_def REWARD_AMOUNT_def house_env_simps collector_zeros(2) state.rd_run [OF w(1)] w(2)
        credit_def wallet_of_not_Nil n to [unfolded REWARD_AMOUNT_def] wallet_of_def [symmetric])
  then show ?thesis using w' by blast
qed

lemma house_awards:
  assumes step: "\<And>i w. step i w = award house_env False i ''miner'' w"
    and "session_ok house_env w" "view house_env w (walletIdOf sample_env collector) = wallet_of m" "0 \<le> m" "m + REWARD_AMOUNT * int (length is) < max_amount"
  shows "\<exists>w'. forEach is step w = (Inr (), w') \<and>
    session_ok house_env w' \<and> same_session house_env w w'"
  using assms(2-)
proof (induction "is" arbitrary: w m)
  case Nil
  then show ?case by (simp add: ret_def)
next
  case (Cons i "is")
  have pos: "0 \<le> REWARD_AMOUNT" by (simp add: REWARD_AMOUNT_def)
  have l: "REWARD_AMOUNT * int (length (i # is)) = REWARD_AMOUNT + REWARD_AMOUNT * int (length is)" by (simp add: algebra_simps)
  have "0 \<le> REWARD_AMOUNT * int (length is)" using pos by simp
  then have "m < max_amount" using Cons.prems(4) pos unfolding l by linarith
  then obtain w1 where w1: "award house_env False i ''miner'' w = (Inr (), w1)" "session_ok house_env w1"
      "same_session house_env w w1" "view house_env w1 (walletIdOf sample_env collector) = wallet_of (m + REWARD_AMOUNT)"
    using house_award [OF Cons.prems(1-3)] by fastforce
  obtain w2 where "forEach is step w1 = (Inr (), w2)"
      "session_ok house_env w2" "same_session house_env w1 w2"
    using Cons.IH [OF w1(2,4)] Cons.prems(3,4) pos unfolding l by (auto simp: add.assoc)
  moreover have "step i w = (Inr (), w1)" unfolding step by (rule w1(1))
  ultimately show ?case using same_session_trans [OF w1(3)] by (auto simp: act_step)
qed

lemma house_transaction:
  "\<exists>w'. transaction clock_env house_env (clock_world\<lparr>validator := (collected, 100)\<rparr>) ''Housekeeping'' house_query w' \<and>
    processed clock_env (stored clock_env (validator w')) = Inr 10"
proof -
  let ?w = "clock_world\<lparr>validator := (collected, 100)\<rparr>" and ?p = "processedBlockAddress house_env"
  have s: "session_ok house_env ?w" using house_env_simps(9) by (simp add: session_ok_def clock_world_def new_Ctx_def)
  have n: "\<not> ctx_transitioning (ctx ?w)" by (simp add: clock_world_def new_Ctx_def)
  have view: "view house_env ?w = collected"
    using fresh_view(1) [of house_env ?w] unfolding clock_fresh by (simp add: house_env_simps clock_validator)
  have "dump_integer 1000 = ''1000''" by (simp add: dump_integer_def dump_digits.simps char_of_def bit_0)
  obtain idn where idn: "makeAddress sample_env ERC20 ''0xt'' = Inr idn"
    using makeAddress_ok [OF sample_sha512_ok, of ERC20] by (auto simp: ERC20_def)
  then have erc: "at_kind sample_env ERC20 idn" by (rule at_kind_makeAddress)
  have p: "?p = processedBlockAddress sample_env"
    by (simp add: processedBlockAddress_def namespacePrefix_def) (simp add: house_env_def clock_env_def sample_env_def)
  have wallet: "collected (walletIdOf sample_env collector) = wallet_of 1000"
    using wallet_elsewhere(9) [OF erc, of collector] \<open>dump_integer 1000 = ''1000''\<close> by (simp add: collected_def idn wallet_of_def)
  have none: "collected ?p = []"
    using record_elsewhere(1,9) [of sample_env] erc by (simp add: collected_def idn p)
  have step: "bnd (reads (\<lambda>w. GetSigByNum house_env (validator w) (to_uint64 house_env i))) (award house_env False i) w =
      award house_env False i ''miner'' w" for i w
    by (simp add: bnd_def reads_def house_env_def clock_env_def)
  have "1000 + REWARD_AMOUNT * int (length [0 + 1..0 + BLOCK_REWARD_PROCESSING_COUNT]) < max_amount"
    by (simp add: REWARD_AMOUNT_def max_amount_def BLOCK_REWARD_PROCESSING_COUNT_def)
  then obtain w1 where w1: "forEach [0 + 1..0 + BLOCK_REWARD_PROCESSING_COUNT]
      (\<lambda>i. bnd (reads (\<lambda>w. GetSigByNum house_env (validator w) (to_uint64 house_env i))) (award house_env False i)) ?w = (Inr (), w1)" "session_ok house_env w1" "same_session house_env ?w w1"
    using house_awards [OF step s, of 1000 "[0 + 1..0 + BLOCK_REWARD_PROCESSING_COUNT]"] view wallet by auto
  have f: "settings ?w = []" "txn_block_signature house_env = []" "asserts house_env = True"
    by (simp_all add: clock_world_def house_env_def clock_env_def)
  have reward: "reward house_env 0 0 ?w = (Inr (), w1)"
    using w1(1) n by (simp add: reward_def reward_normal_def Let_def act_step f map_find_def to_rpc_failure_def)
  obtain w2 where w2: "setState_uptr house_env ?p (toString house_env 10) w1 = (Inr (), w2)" "same_session house_env w1 w2"
      "view house_env w2 = (view house_env w1)(?p := toString house_env 10)"
    using setState_raw_effect [OF w1(2)] unfolding setState_uptr_def by blast
  have tip: "tip_of house_env ?w = 99" using n by (simp add: tip_of_def) (simp add: house_env_def clock_env_def)
  have run: "Housekeeping house_env house_query ?w = (Inr (), w2)"
    using w2(1) by (simp add: Housekeeping_def house_block_number act_step state.rd_run [OF s] view none reward tip_read [OF s] tip
        CONFIRMATION_COUNT_def BLOCK_REWARD_PROCESSING_COUNT_def)
  have "List.find (\<lambda>(name, h). iequals house_env ''Housekeeping'' name) (handlers house_env) = Some (''Housekeeping'', Housekeeping house_env)"
    by (simp add: handlers_def house_env_def clock_env_def lower_char_def char_of_def bit_0)
  moreover have "sbnd (compress (txn_signer_public_key house_env)) (sha512id house_env) = Inr collector"
    using the_signer(1) by (simp add: house_env_simps(4) clock_text(6)) (simp add: house_env_def)
  moreover have "\<not> transitioning ?w" "?w\<lparr>ctx := new_Ctx False\<rparr> = ?w" "v2block ?w = 0"
    by (simp_all add: clock_world_def)
  moreover have "Apply_cmd house_env ''Housekeeping'' house_query ?w = (Inr (), w2)"
    using calculation(1) run calculation(5) by (simp add: Apply_cmd_def unless_version_1_def act_step)
  ultimately have "Apply house_env ?w = (Inr (), w2)" using house_payload n by (simp add: Apply_def act_step Apply_guid_def)
  then have "transaction clock_env house_env ?w ''Housekeeping'' house_query w2"
    using house_env_same(1) house_payload \<open>\<not> transitioning ?w\<close>
      \<open>List.find _ (handlers house_env) = Some (''Housekeeping'', Housekeeping house_env)\<close> by (auto simp: transaction_def)
  moreover have "\<not> ctx_transitioning (ctx w2)"
    using n same_session_simps(1) [OF w1(3)] same_session_simps(1) [OF w2(2)] by simp
  then have "view house_env w2 = stored clock_env (validator w2)" by (intro ext) (simp add: view_validator house_env_simps)
  moreover have "processed house_env (view house_env w2) = Inr 10"
    using bigint_toString [of house_env 10] same_kinds(6) [OF house_env_same(1)] clock_chain_env(3) sample_toString dump_integer_head
    by (simp add: processed_def w2(3) house_env_simps)
  ultimately show ?thesis using same_sums(2) [OF house_env_same(1)] by metis
qed


end
