(* ===== verification/Errors.thy ===== *)
theory Errors
  imports State_Invariant
begin

section \<open>How a command can fail\<close>

text \<open>
  A handler that fails tells so by an \<open>InvalidTransaction\<close>, which the validator takes for a
  rejection.  Any other exception, and an abort, would take the processor down.  The rules of
  \<open>fails_on\<close> follow the control flow of the handlers: reading steps keep the state, so what
  holds of the session at the start holds at every step.
\<close>

subsection \<open>The errors of an action\<close>

definition fails_on :: "('s \<Rightarrow> bool) \<Rightarrow> (err \<Rightarrow> bool) \<Rightarrow> ('s, 'a) act \<Rightarrow> bool" where
  \<comment> \<open>from a state with \<open>P\<close> the action only raises errors with \<open>E\<close>\<close>
  "fails_on P E m \<longleftrightarrow> (\<forall>s e s'. P s \<longrightarrow> m s = (Inl e, s') \<longrightarrow> E e)"

definition rejection :: "err \<Rightarrow> bool" where
  "rejection e \<longleftrightarrow> (\<exists>msg. e = InvalidTransaction msg)"

definition rejects :: "(err \<Rightarrow> bool) \<Rightarrow> err + 'a \<Rightarrow> bool" where
  "rejects E r \<longleftrightarrow> (\<forall>e. r = Inl e \<longrightarrow> E e)"

named_theorems failing "the errors of the steps of the handlers"

lemma fails_bnd: "pure_act m \<Longrightarrow> fails_on P E m \<Longrightarrow> (\<And>x. fails_on P E (f x)) \<Longrightarrow> fails_on P E (bnd m f)"
  unfolding fails_on_def bnd_err by (metis pure_actD)

lemma fails_total: "total_on P m \<Longrightarrow> fails_on P E m"
  by (fastforce simp: total_on_def fails_on_def)

lemma fails_prod: "(\<And>a b. fails_on P E (f a b)) \<Longrightarrow> fails_on P E (case p of (a, b) \<Rightarrow> f a b)"
  by (cases p) simp

lemma fails_if: "fails_on P E m \<Longrightarrow> fails_on P E n \<Longrightarrow> fails_on P E (if b then m else n)"
  by simp

lemma fails_weaken: "fails_on P E m \<Longrightarrow> (\<And>e. E e \<Longrightarrow> F e) \<Longrightarrow> fails_on P F m"
  unfolding fails_on_def by blast

lemma fails_simple [failing]: "fails_on P E (ret x)" "fails_on P rejection (throwIf b msg)"
  by (auto simp: fails_on_def ret_def throwIf_def rejection_def split: if_splits)

lemma fails_lift: "rejects E r \<Longrightarrow> fails_on P E (lift r)"
  by (simp add: fails_on_def lift_def rejects_def)

lemma rejects_sbnd: "rejects E r \<Longrightarrow> (\<And>x. r = Inr x \<Longrightarrow> rejects E (f x)) \<Longrightarrow> rejects E (sbnd r f)"
  by (auto simp: rejects_def sbnd_def split: sum.split)

lemma rejects_Inr [simp]: "rejects E (Inr x)"
  by (simp add: rejects_def)

subsection \<open>The steps\<close>

definition text_params :: "'v env \<Rightarrow> json \<Rightarrow> bool" where
  \<comment> \<open>every parameter is text; a build without assertions does not care\<close>
  "text_params env query \<longleftrightarrow> (asserts env \<longrightarrow> (\<forall>key j. json_find query key = Some j \<longrightarrow> (\<exists>s. j = JString s)))"

definition gateways_answer :: "'v env \<Rightarrow> bool" where
  \<comment> \<open>asking a gateway raises nothing, whether it replies or not\<close>
  "gateways_answer env \<longleftrightarrow> (\<forall>v cmd e. local_gateway env v cmd \<noteq> Inl e) \<and>
     (\<forall>v a cmd e. external_gateway env v a cmd \<noteq> Inl e)"

lemma dump_not_Nil: "dump fmt j \<noteq> []"
  using dump_integer_head by (cases j) (auto simp: dump_float_def Let_def)

lemma rejects_query:
  assumes "text_params env query"
  shows "rejects rejection (query_string env query key nm)" "rejects rejection (getStringLower env query key nm)"
    "rejects rejection (query_bigint env query key nm)" "rejects rejection (query_uint64 env query key nm)"
proof -
  have s: "rejects rejection (query_string env query key nm)"
  proof (cases "json_find query key")
    case None
    then show ?thesis by (simp add: query_string_def getString_def getParam_def sbnd_def rejects_def rejection_def)
  next
    case (Some j)
    then show ?thesis
    proof (cases "asserts env")
      case True
      then obtain t where "j = JString t" using assms Some by (auto simp: text_params_def)
      then show ?thesis using Some by (simp add: query_string_def getString_string)
    next
      case False
      then show ?thesis using Some dump_not_Nil [of "snprintf_g env" j]
        by (cases "dump (snprintf_g env) j") (auto simp: query_string_def getString_def getParam_def sbnd_def trimQuotes_def substr_def)
    qed
  qed
  have number: "rejects rejection (bigint env t)" for t
    by (auto simp: bigint_def getBigint_def rejects_def rejection_def split: option.split)
  have "rejects rejection (parseUint64 t)" for t
    by (auto simp: parseUint64_def rejects_def rejection_def split: option.split list.split)
  then show "rejects rejection (query_uint64 env query key nm)"
    using s unfolding query_uint64_def getUint64_def query_string_def by (intro rejects_sbnd)
  show "rejects rejection (query_string env query key nm)" by (fact s)
  show "rejects rejection (getStringLower env query key nm)" "rejects rejection (query_bigint env query key nm)"
    using s number unfolding getStringLower_def query_bigint_def by (auto intro!: rejects_sbnd)
qed

lemma fails_query [failing]:
  assumes "text_params env query"
  shows "fails_on P rejection (lift (query_string env query key nm))" "fails_on P rejection (lift (getStringLower env query key nm))"
    "fails_on P rejection (lift (query_bigint env query key nm))" "fails_on P rejection (lift (query_uint64 env query key nm))"
  by (intro fails_lift rejects_query assms)+

lemma rejects_numbers: "rejects rejection (bigint env s)" "rejects rejection (getBigint env s b)"
  by (auto simp: bigint_def getBigint_def rejects_def rejection_def split: option.split)

lemma fails_numbers [failing]:
  "fails_on P rejection (lift (bigint env s))" "fails_on P rejection (lift (getBigint env s b))"
  "fails_on P rejection (lift (order_expired env block expiration head))"
  "fails_on P rejection (lift (transfer_parties env orderId gain d))"
  by (auto intro!: fails_lift rejects_numbers rejects_sbnd simp: order_expired_def transfer_parties_def Let_def)
    (auto simp: rejects_def rejection_def)

lemma fails_store [failing]:
  "fails_on (session_ok env) rejection (getStateData env k existing)"
  "fails_on (session_ok env) rejection (lastBlockInt env)" "fails_on (session_ok env) rejection (lastBlock env)"
  "fails_on (session_ok env) rejection (setStates env states)" "fails_on (session_ok env) rejection (deleteState env k)"
  "fails_on (session_ok env) rejection (getGuid env)"
proof -
  show "fails_on (session_ok env) rejection (getStateData env k existing)"
    by (auto simp: fails_on_def state.rd rejection_def split: if_splits)
  show "fails_on (session_ok env) rejection (lastBlockInt env)" "fails_on (session_ok env) rejection (lastBlock env)"
    by (auto simp: fails_on_def tip_read)
  show "fails_on (session_ok env) rejection (setStates env states)" "fails_on (session_ok env) rejection (deleteState env k)"
    by (intro fails_total total_setStates total_deleteState)+
  show "fails_on (session_ok env) rejection (getGuid env)" by (simp add: fails_on_def getGuid_def reads_def)
qed

lemma fails_address:
  assumes "sha512_ok env"
  shows "length prefix = 4 \<Longrightarrow> fails_on P rejection (lift (makeAddress env prefix key))"
    and "fails_on P rejection (getSighash env)"
proof -
  have id: "rejects rejection (sha512id env m)" for m
    using sha512id_ok [OF assms, of m] by (auto simp: rejects_def)
  show "length prefix = 4 \<Longrightarrow> fails_on P rejection (lift (makeAddress env prefix key))"
    using makeAddress_ok [OF assms, of prefix key] by (auto simp: fails_on_def lift_def)
  have "rejects rejection (compress k)" for k
    by (auto simp: compress_def Let_def rejects_def rejection_def)
  then have "rejects rejection (sbnd (compress (txn_signer_public_key env)) (sha512id env))"
    using id by (intro rejects_sbnd)
  then show "fails_on P rejection (getSighash env)"
    by (auto simp: fails_on_def getSighash_def reads_def rejects_def split: if_splits)
qed

lemma fails_charge [failing]: "fails_on (session_ok env) rejection (charge env s)"
  unfolding charge_def Let_def
  by (intro fails_bnd failing pure_rules)

lemma fails_credit [failing]: "fails_on (session_ok env) rejection (credit env d t n)"
  unfolding credit_def Let_def
  by (intro fails_if fails_bnd failing pure_rules)

lemma fails_addFee:
  assumes "sha512_ok env"
  shows "fails_on (session_ok env) rejection (addFee env s states)"
    and "fails_on (session_ok env) rejection (addFee_wallet env s states k wallet)"
  unfolding addFee_wallet_def addFee_def
  by (intro fails_bnd failing pure_rules fails_address [OF assms] kind_lengths)+

lemma fails_verify: "gateways_answer env \<Longrightarrow> fails_on P rejection (verify env cmd)"
  unfolding fails_on_def verify_def gateways_answer_def
  by (auto simp: bnd_def reads_def throwIf_def rejection_def sbnd_def split: if_splits sum.splits)

subsection \<open>Division\<close>

definition crash :: "err \<Rightarrow> bool" where
  \<comment> \<open>the exception of a division by zero\<close>
  "crash e \<longleftrightarrow> e = StdException ''Division by zero.''"

lemma fails_division:
  "fails_on P (\<lambda>e. rejection e \<or> crash e) (lift (cpp_div a b))"
  "fails_on P (\<lambda>e. rejection e \<or> crash e) (lift (orders_mismatch env askOrder bidOrder))"
proof -
  have div: "rejects (\<lambda>e. rejection e \<or> crash e) (cpp_div a b)" for a b
    by (simp add: cpp_div_def rejects_def crash_def)
  have number: "rejects (\<lambda>e. rejection e \<or> crash e) (bigint env t)" for t
    using rejects_numbers(1) [of env t] by (auto simp: rejects_def)
  show "fails_on P (\<lambda>e. rejection e \<or> crash e) (lift (cpp_div a b))" by (intro fails_lift div)
  have "rejects (\<lambda>e. rejection e \<or> crash e) (rate env i m)" for i m
    unfolding rate_def by (intro rejects_sbnd number div)
  then have "rejects (\<lambda>e. rejection e \<or> crash e) (orders_mismatch env askOrder bidOrder)"
    unfolding orders_mismatch_def by (auto intro!: rejects_sbnd)
  then show "fails_on P (\<lambda>e. rejection e \<or> crash e) (lift (orders_mismatch env askOrder bidOrder))"
    by (rule fails_lift)
qed

subsection \<open>The handlers\<close>

lemmas fails_rules = fails_bnd fails_prod fails_if failing pure_rules

lemma fails_market:
  assumes q: "text_params env query" and s: "sha512_ok env" and g: "gateways_answer env"
  shows "fails_on (session_ok env) rejection (SendFunds env query)"
    "fails_on (session_ok env) rejection (RegisterAddress env query)"
    "fails_on (session_ok env) rejection (RegisterTransfer env query)"
    "fails_on (session_ok env) rejection (CollectCoins env query)"
    "fails_on (session_ok env) rejection (AddAskOrder env query)"
    "fails_on (session_ok env) rejection (AddBidOrder env query)"
    "fails_on (session_ok env) rejection (CompleteDealOrder env query)"
    "fails_on (session_ok env) rejection (LockDealOrder env query)"
    "fails_on (session_ok env) rejection (Exempt env query)"
    "fails_on (session_ok env) rejection (AddRepaymentOrder env query)"
    "fails_on (session_ok env) rejection (CompleteRepaymentOrder env query)"
    "fails_on (session_ok env) rejection (CloseRepaymentOrder env query)"
  unfolding SendFunds_def RegisterAddress_def RegisterTransfer_def CollectCoins_def AddAskOrder_def
    AddBidOrder_def CompleteDealOrder_def LockDealOrder_def Exempt_def
    AddRepaymentOrder_def CompleteRepaymentOrder_def CloseRepaymentOrder_def Let_def
  by (intro fails_rules fails_address [OF s] fails_addFee [OF s] fails_verify [OF g] kind_lengths q)+

lemma fails_deal_writes:
  "fails_on (session_ok env) rejection (bnd (setStates env states) (\<lambda>_. bnd (deleteState env a) (\<lambda>_.
     bnd (deleteState env b) (\<lambda>_. deleteState env c))))"
  by (intro fails_total total_bnd total_setStates total_deleteState)

lemma fails_AddDealOrder:
  assumes q: "text_params env query" and s: "sha512_ok env"
  shows "fails_on (session_ok env) rejection (AddDealOrder env query)"
  unfolding AddDealOrder_def Let_def
  by ((rule fails_deal_writes | rule fails_rules fails_address [OF s] fails_addFee [OF s] kind_lengths q)+)

lemma may_crash: "fails_on P rejection m \<Longrightarrow> fails_on P (\<lambda>e. rejection e \<or> crash e) m"
  by (erule fails_weaken) simp

lemma fails_dividing:
  assumes q: "text_params env query" and s: "sha512_ok env"
  shows "fails_on (session_ok env) (\<lambda>e. rejection e \<or> crash e) (AddOffer env query)"
    "fails_on (session_ok env) (\<lambda>e. rejection e \<or> crash e) (CloseDealOrder env query)"
  unfolding AddOffer_def CloseDealOrder_def Let_def
  by ((rule fails_bnd fails_prod fails_division pure_rules may_crash failing fails_address [OF s] fails_addFee [OF s] kind_lengths q)+)

lemma zero_maturity_raises:
  \<comment> \<open>an ask with maturity 0, which AddAskOrder accepts, makes the comparison of two orders throw\<close>
  assumes "ask_amount a = bid_amount b" and "\<not> ask_fee a > bid_fee b"
    and "bigint env (ask_interest a) = Inr i" and "bigint env (ask_maturity a) = Inr 0"
  shows "orders_mismatch env a b = Inl (StdException ''Division by zero.'')"
  using assms by (simp add: orders_mismatch_def rate_def sbnd_def cpp_div_def)

lemma fees_compare_as_text:
  \<comment> \<open>an ask with a fee of 9 does not match a bid with a fee of 10: their texts are compared\<close>
  "ask_fee a = ''9'' \<Longrightarrow> bid_fee b = ''10'' \<Longrightarrow> orders_mismatch env a b = Inr True"
  by (simp add: orders_mismatch_def less_list_code less_char_def)



end
