(* ===== verification/Progress.thy ===== *)
theory Progress
  imports Coins
begin

section \<open>A deal that is repaid can be closed\<close>

text \<open>
  The other direction of the checks: when the conditions of a handler hold, it accepts.  For
  the fundraiser this means that nobody can keep a deal open whose loan was paid back: two
  transactions of the fundraiser close it, whatever else the state holds.
\<close>

lemma charge_run:
  assumes "session_ok env w" and "TX_FEE \<le> balance env (view env w) s"
  shows "charge env s w = (Inr (walletIdOf env s, (wallet_from (view env w (walletIdOf env s)))
    \<lparr>wallet_amount := toString env (balance env (view env w) s - TX_FEE)\<rparr>), w)"
proof -
  let ?d = "view env w (walletIdOf env s)"
  have "?d \<noteq> [] \<and> bigint env (wallet_amount (wallet_from ?d)) = Inr (balance env (view env w) s)"
    using assms(2) TX_FEE_pos by (auto simp: balance_def Let_def split: if_splits sum.splits)
  then show ?thesis using assms(2)
    by (simp add: charge_def Let_def act_step state.rd_run [OF assms(1)])
qed

lemma addFee_wallet_run:
  assumes "session_ok env w" and "sha512_ok env"
  shows "\<exists>states1. addFee_wallet env s states k wallet w = (Inr states1, w)"
proof -
  obtain feeId where "makeAddress env FEE (guid_of env w) = Inr feeId"
    using makeAddress_ok [OF assms(2) kind_lengths(10)] by blast
  then show ?thesis using addFee_wallet_ok [OF assms(1), of s states k wallet] by blast
qed

lemma finish_run:
  assumes "session_ok env w" and "sha512_ok env"
  shows "\<exists>w'. bnd (addFee_wallet env s states k wallet) (\<lambda>states. setStates env states) w = (Inr (), w')"
  using addFee_wallet_run [OF assms] state.wr [OF assms(1)] by (metis bnd_step)

lemma signer_run: "signer env w = Inr my \<Longrightarrow> getSighash env w = (Inr my, w)"
  by (simp add: getSighash_ok)

lemma LockDealOrder_run:
  assumes ok: "session_ok env w" "sha512_ok env" and my: "signer env w = Inr my" "TX_FEE \<le> balance env (view env w) my"
    and q: "getStringLower env query ''p1'' ''dealOrderId'' = Inr dealId"
    and deal: "view env w dealId \<noteq> []" "deal_lock (deal_from (view env w dealId)) = []"
      "deal_loan_transfer (deal_from (view env w dealId)) \<noteq> []" "deal_sighash (deal_from (view env w dealId)) = my"
  shows "\<exists>w'. LockDealOrder env query w = (Inr (), w')"
  using finish_run [OF ok] by (simp add: LockDealOrder_def Let_def act_step signer_run [OF my(1)] charge_run [OF ok(1) my(2)] q
      state.rd_run [OF ok(1)] deal)

lemma due_ticks:
  assumes "start \<le> tip" and "0 < maturity"
  shows "cpp_div ((tip - start) + maturity) maturity = Inr ((tip - start) div maturity + 1)"
proof -
  have "cpp_div ((tip - start) + maturity) maturity = Inr (((tip - start) + maturity) div maturity)"
    using assms sdiv_nonneg [of "(tip - start) + maturity" maturity] by (simp add: cpp_div_def)
  then show ?thesis using assms(2) by (simp add: div_add_self2)
qed

lemma CloseDealOrder_run:
  assumes ok: "session_ok env w" "sha512_ok env" and my: "signer env w = Inr my" "TX_FEE \<le> balance env (view env w) my"
    and q: "getStringLower env query ''p1'' ''dealOrderId'' = Inr dealId"
      "getStringLower env query ''p2'' ''transferId'' = Inr transferId"
    and deal: "view env w dealId \<noteq> []" "d = deal_from (view env w dealId)" "deal_sighash d = my" "deal_lock d = my"
      "deal_repayment_transfer d = []" "view env w (deal_loan_transfer d) \<noteq> []"
    and transfer: "view env w transferId \<noteq> []" "t = transfer_from (view env w transferId)" "transfer_order t = dealId"
      "transfer_sighash t = my" "\<not> transfer_processed t"
    and due: "bigint env (transfer_block (transfer_from (view env w (deal_loan_transfer d)))) = Inr start"
      "bigint env (deal_maturity d) = Inr maturity" "bigint env (deal_amount d) = Inr amount"
      "bigint env (deal_interest d) = Inr interest" "bigint env (transfer_amount t) = Inr repaid"
      "start \<le> tip_of env w" "0 < maturity"
      "calcInterest amount ((tip_of env w - start) div maturity + 1) interest \<le> repaid"
  shows "\<exists>w'. CloseDealOrder env query w = (Inr (), w')"
  using finish_run [OF ok] due_ticks [OF due(6,7)]
  by (simp add: CloseDealOrder_def Let_def act_step signer_run [OF my(1)] charge_run [OF ok(1) my(2)] q
      state.rd_run [OF ok(1)] tip_read [OF ok(1)] deal(1,3-6) transfer(1,3-5) due(1-5) not_less [THEN iffD2, OF due(8)]
      deal(2) [symmetric] transfer(2) [symmetric])

lemma next_tx_signer:
  "signer env w = Inr my \<Longrightarrow> signer env (next_tx guid my w) = Inr my"
  "tip_of env (next_tx guid my w) = tip_of env w"
  by (auto simp: next_tx_def signer_def tip_of_def)

lemma locked_state:
  assumes typed: "typed_session env w" "state_wf env (view env w)" "typed_query env ''LockDealOrder'' query"
    and q: "getStringLower env query ''p1'' ''dealOrderId'' = Inr dealId"
    and my: "signer env w = Inr my" "\<forall>s. balance env (view env w) s < max_amount"
    and d: "d = deal_from (view env w dealId)" "deal_loan_transfer d \<noteq> []"
    and lock: "LockDealOrder env query w = (Inr (), w1)" and w'_def: "w' = next_tx guid my w1"
  shows "typed_session env w'" and "signer env w' = Inr my" and "tip_of env w' = tip_of env w"
    and "balance env (view env w') my = balance env (view env w) my - TX_FEE"
    and "view env w' dealId \<noteq> []" and "deal_from (view env w' dealId) = d\<lparr>deal_lock := my\<rparr>"
    and "at_kind env TRANSFER k \<Longrightarrow> view env w' k = view env w k"
proof -
  note s = typed_sessionD [OF typed(1)]
  have kind: "at_kind env DEAL_ORDER dealId" using typed_ids(8) [OF typed(3) q] .
  have wire: "wire_str my" using s(3) my(1) by blast
  obtain wallet feeId where fee: "makeAddress env FEE (guid_of env w) = Inr feeId"
    and same: "session_ok env w1" "same_session env w w1"
    and v: "view env w1 = (view env w)(dealId := DealOrder_SerializeToString (d\<lparr>deal_lock := my\<rparr>),
       feeId := fee_data env w my, walletIdOf env my := Wallet_SerializeToString wallet)"
    using LockDealOrder_ok [OF s(1) lock] q my(1) d(1) by auto
  have view: "view env w' = view env w1" by (simp add: w'_def next_tx_same(1))
  show "typed_session env w'" unfolding w'_def
    by (rule next_tx_same(2) [OF typed_session_after [OF typed(1) same] wire])
  have "signer env w1 = Inr my" using my(1) same_session_simps(1,4) [OF same(2)]
    by (simp add: signer_def split: if_splits)
  then show "signer env w' = Inr my" "tip_of env w' = tip_of env w"
    using same_session_simps(11) [OF same(2)] by (simp_all add: w'_def next_tx_signer)
  show "balance env (view env w') my = balance env (view env w) my - TX_FEE"
    using fee_commands_charged [where name = "''LockDealOrder''" and h = "LockDealOrder env", OF _ _ typed lock]
      charged_costs_fee [OF s(1,2) state_wf_clean [OF typed(2)] my(2)] my(1)
    by (auto simp: costs_fee_def handlers_def fee_commands_def view)
  have wf: "DealOrder_wf (d\<lparr>deal_lock := my\<rparr>)"
    using state_wf_read(5) [OF typed(2) kind] wire d(1) by (simp add: DealOrder_wf_def)
  have seen: "view env w' dealId = DealOrder_SerializeToString (d\<lparr>deal_lock := my\<rparr>)"
    using deal_elsewhere(1,17) [OF kind] fee by (simp add: view v)
  then show "deal_from (view env w' dealId) = d\<lparr>deal_lock := my\<rparr>" using wf by simp
  have "deal_loan_transfer (d\<lparr>deal_lock := my\<rparr>) \<noteq> deal_loan_transfer DealOrder_Clear"
    using d(2) by (simp add: DealOrder_Clear_def)
  then show "view env w' dealId \<noteq> []" using serialized_not_Nil(1) [OF wf] seen by metis
  show "view env w' k = view env w k" if "at_kind env TRANSFER k"
    using deal_elsewhere(3) [OF kind that] transfer_elsewhere(1,14) [OF that] fee by (auto simp: view v)
qed


subsection \<open>An instance\<close>

definition repaid_market :: "string smap" where
  \<comment> \<open>the market in which the fundraiser has the two fees\<close>
  "repaid_market = (''niocti0000bob'', wallet_of (2 * TX_FEE)) # market the_deal ''bob''"

lemma repaid_view: "view sample_env (sample_world repaid_market ''bob'') =
    (view sample_env (sample_world (market the_deal ''bob'') ''bob''))(walletIdOf sample_env ''bob'' := wallet_of (2 * TX_FEE))"
  by (rule ext) (simp add: repaid_market_def map_find_def sample_wallet_id)

lemma repaid_wf: "state_wf sample_env (view sample_env (sample_world repaid_market ''bob''))"
proof -
  have "entry_ok sample_env (walletIdOf sample_env ''bob'') (wallet_of (2 * TX_FEE))"
    unfolding wallet_of_def
    by (rule entry_written(1)) (simp add: Wallet_wf_def Wallet_Clear_def dump_integer_wire TX_FEE_def max_amount_def)
  then show ?thesis unfolding repaid_view by (intro state_wf_upd market_wf disjI2)
qed

lemma repaid_balance: "balance sample_env (view sample_env (sample_world repaid_market ''bob'')) s = (if s = ''bob'' then 2 * TX_FEE else 0)"
proof -
  have "(0::int) \<le> 2 * TX_FEE" "2 * TX_FEE < max_amount" by (simp_all add: TX_FEE_def max_amount_def)
  moreover have "view sample_env (sample_world repaid_market ''bob'') (walletIdOf sample_env s) =
      (if s = ''bob'' then wallet_of (2 * TX_FEE) else [])"
    unfolding repaid_view fun_upd_def sample_view sample_wallet_id market_find by simp
  ultimately show ?thesis by (simp add: balance_def Let_def wallet_of_not_Nil del: sample_view)
qed


end
