(* ===== verification/Process.thy ===== *)
theory Process
  imports Dispatch
begin

section \<open>Around the commands\<close>

text \<open>
  What the processor does besides applying transactions: how it introduces itself to the
  validator, the fields of block headers it reads from JSON, and how a processor that
  revalidates an old chain ends: a minute after the last transaction of the chain, or when
  nothing has come for five minutes.
\<close>

subsection \<open>The handler object\<close>

definition transaction_family_name :: string where
  "transaction_family_name = ''CREDITCOIN''"

definition versions :: "string list" where
  "versions = [''1.0'', ''1.1'', ''1.2'', ''1.3'', ''1.4'', ''1.5'', ''1.6'', ''1.7'']"

definition namespaces :: "'v env \<Rightarrow> string list" where
  "namespaces env = [namespacePrefix env]"

definition GetApplicator :: "'v world \<Rightarrow> 'v world" where
  \<comment> \<open>a new Applicator has a new Ctx\<close>
  "GetApplicator w = w\<lparr>ctx := new_Ctx (transitioning w)\<rparr>"

subsection \<open>Fields of a block header\<close>

definition type_name :: "json \<Rightarrow> string" where
  "type_name j = (case j of JNull \<Rightarrow> ''null'' | JObject _ \<Rightarrow> ''object'' | JArray _ \<Rightarrow> ''array'' | JString _ \<Rightarrow> ''string''
     | JBool _ \<Rightarrow> ''boolean'' | _ \<Rightarrow> ''number'')"

definition json_count :: "json \<Rightarrow> string \<Rightarrow> nat" where
  \<comment> \<open>0 for a value that is no object\<close>
  "json_count j key = (case json_find j key of None \<Rightarrow> 0 | Some _ \<Rightarrow> 1)"

definition json_at :: "json \<Rightarrow> string \<Rightarrow> err + json" where
  \<comment> \<open>operator[] of a constant value: a missing key is undefined behaviour, behind an assert\<close>
  "json_at j key =
     (case j of JObject _ \<Rightarrow> (case json_find j key of None \<Rightarrow> Inl (Aborted ''operator[]'') | Some v \<Rightarrow> Inr v)
      | _ \<Rightarrow> Inl (StdException (''[json.exception.type_error.305] cannot use operator[] with '' @ type_name j)))"

definition json_to_string :: "json \<Rightarrow> err + string" where
  "json_to_string j =
     (case j of JString s \<Rightarrow> Inr s
      | _ \<Rightarrow> Inl (StdException (''[json.exception.type_error.302] type must be string, but is '' @ type_name j)))"

definition getFromHeader :: "json \<Rightarrow> string \<Rightarrow> err + string" where
  "getFromHeader block fieldName =
     (if json_count block ''header'' \<noteq> 1 then Inl (InvalidTransaction ''Failed to process RPC response'')
      else sbnd (json_at block ''header'') (\<lambda>header.
        (case header of
           JObject _ \<Rightarrow> sbnd (json_at header fieldName) json_to_string
         | _ \<Rightarrow> Inl (InvalidTransaction ''Failed to process RPC response''))))"

definition blockNum :: "json \<Rightarrow> err + string" where
  "blockNum block = getFromHeader block ''block_num''"

definition blockNumInt :: "'v env \<Rightarrow> json \<Rightarrow> err + int" where
  "blockNumInt env block = sbnd (blockNum block) (bigint env)"

lemma blockNumInt_ok:
  "blockNumInt env block = Inr n \<longleftrightarrow> (\<exists>header s. json_find block ''header'' = Some header \<and>
     json_find header ''block_num'' = Some (JString s) \<and> bigint env s = Inr n)"
proof -
  have find: "json_find j key \<noteq> None \<Longrightarrow> \<exists>ms. j = JObject ms" for j key
    by (cases j) (simp_all add: json_find_def)
  show ?thesis using find
    by (auto simp: blockNumInt_def blockNum_def getFromHeader_def json_at_def json_to_string_def json_count_def sbnd_def
        split: option.splits json.splits sum.splits if_splits)
qed

lemma blockNumInt_nonneg: "blockNumInt env block = Inr n \<Longrightarrow> 0 \<le> n"
  using bigint_nonneg by (auto simp: blockNumInt_ok)

subsection \<open>The end of a revalidation\<close>

definition revalidated :: "'v world \<Rightarrow> bool" where
  \<comment> \<open>updatedBlockIdx == blocks.size() - 1 && updatedTxIdx == blocks[updatedBlockIdx].txs.size() - 1, after doApply\<close>
  "revalidated w \<longleftrightarrow> updatedBlockIdx w = int (length (blocks w)) - 1 \<and>
     updatedTxIdx w = int (length (block_txs (blocks w ! nat (updatedBlockIdx w)))) - 1"

record watch =
  killerStarted :: bool
  lastTime :: int        \<comment> \<open>in seconds\<close>

definition touch_killer :: "int \<Rightarrow> watch \<Rightarrow> watch \<times> bool" where
  \<comment> \<open>after every transaction of the old chain; whether a killer thread is started\<close>
  "touch_killer now k = (k\<lparr>lastTime := now, killerStarted := True\<rparr>, \<not> killerStarted k)"

definition killer_idle :: "int \<Rightarrow> watch \<Rightarrow> bool" where
  "killer_idle now k \<longleftrightarrow> lastTime k + 300 < now"

fun killer :: "(int \<times> watch) list \<Rightarrow> int option" where
  \<comment> \<open>what the thread sees when it wakes up, every minute: the time, and the watch; the time at which it gives up\<close>
  "killer [] = None"
| "killer ((now, k) # obs) = (if killer_idle now k then Some now else killer obs)"

lemma killer_waits:
  \<comment> \<open>while transactions come, at most five minutes apart, the process stays\<close>
  "(\<forall>(now, k) \<in> set obs. now \<le> lastTime k + 300) \<longleftrightarrow> killer obs = None"
  by (induction obs rule: killer.induct) (auto simp: killer_idle_def)

lemma killer_ends:
  \<comment> \<open>woken up every minute, it ends the process six minutes after the last transaction at the latest\<close>
  assumes "lastTime k \<le> t"
  shows "\<exists>now. killer (map (\<lambda>i. (t + 60 * i, k)) [1..6] @ later) = Some now \<and> now \<le> t + 360 \<and> lastTime k + 300 < now"
proof -
  have "[1..6 :: int] = [1, 2, 3, 4, 5, 6]" by (simp add: upto.simps)
  then show ?thesis using assms by (auto simp: killer_idle_def)
qed

end
