(* ===== verification/Spec2Isabelle.thy ===== *)
theory Spec2Isabelle
  imports Minting_Sample Errors Progress Process
begin

text \<open>
  The transaction processor of Creditcoin, \<open>src/ccprocessor/processor.cpp\<close>, with the library
  code it runs on every transaction: the generated message classes (\<open>*.pb.cc\<close> beside it), the
  part of the protobuf runtime under \<open>src/xtern\<close> they call, the JSON values and the CBOR
  decoder of \<open>nlohmann::json\<close>.

  \<^bold>\<open>The program.\<close>  A Sawtooth validator hands a transaction to \<open>Applicator::Apply()\<close>.  The
  payload is a CBOR object with a verb \<open>v\<close> and text parameters \<open>p1\<close>, \<open>p2\<close>, ...; the signer is
  the hash of the compressed public key; the verb selects a handler.  Handlers read and write
  the global state, a map from 70-character addresses (namespace, kind, id) to serialised
  messages, and reject by throwing \<open>InvalidTransaction\<close>.  Together they are a loan market:
  investors place ask orders, fundraisers bid orders, \<open>AddOffer\<close> matches two of them,
  \<open>AddDealOrder\<close> makes an offer a deal, \<open>CompleteDealOrder\<close> records the loan, \<open>LockDealOrder\<close>
  and \<open>CloseDealOrder\<close> the repayment, \<open>Exempt\<close> forgives it, and the repayment orders sell a
  running loan.  Money moves on other chains; the evidence for it is a transfer that
  \<open>RegisterTransfer\<close> records after a gateway process confirmed it.  Wallets hold the credits
  of the chain itself: \<open>SendFunds\<close>, \<open>CollectCoins\<close> and the fee every command takes.
  \<open>Housekeeping\<close> confirms the chain up to a block, rewards its miners and clears away what has
  expired.  When the processor starts with a file of an old chain it is \<^emph>\<open>transitioning\<close>: three
  sorted maps take the place of the state, and between two transactions it replays those of
  the file in between.

  \<^bold>\<open>The model.\<close>  Each operation of the code is one definition with the checks, errors and
  writes in the order of the code.
  \<^item> \<open>Prelude\<close>: exceptions (\<open>err\<close>), computations that fail (\<open>sbnd\<close>), and actions on the state
    of the processor (\<open>act\<close>, \<open>bnd\<close>), whose writes survive a throw as in C++.  \<open>Std_Map\<close>:
    \<open>std::map\<close> with string keys as the sorted list of its entries.
  \<^item> \<open>Text\<close>: \<open>trimQuotes\<close>, \<open>isHex\<close>, \<open>parseUint64\<close>, \<open>compress\<close>, \<open>testConnectString\<close>,
    \<open>parseArgs\<close>.  \<open>Base64\<close>: \<open>encodeBase64\<close>, \<open>decodeBase64\<close>.
  \<^item> \<open>Json\<close>: JSON values, \<open>dump\<close>, \<open>getParam\<close>, \<open>getString\<close>, \<open>getUint64\<close>.  \<open>Cbor\<close>:
    \<open>from_cbor\<close>, \<open>to_cbor\<close>; \<open>Cbor_Codec\<close>: their lemmas.
  \<^item> \<open>Utf8\<close>: the table scanner of \<open>stubs/structurally_valid.cc\<close>.  \<open>Wire\<close>: varints, tags,
    strings, sizes, over one contiguous buffer.  \<open>Wire_Fields\<close>: unknown fields and the parser
    loop of a generated class, as a function of its fields.  \<open>Codec\<close>: the contract of a message
    class, as locales.  \<open>Ledger_Messages\<close>, \<open>Market_Messages\<close>: the nine classes, each a record
    with \<open>Clear\<close>, parse, serialise, size, merge and copy.
  \<^item> \<open>Env\<close>: the parameters, constants, big integers, ids and addresses.  \<open>World\<close>: the members
    of the \<open>Applicator\<close>, the static variables and the validator's state as one record; access
    to the state (\<open>getState\<close>, \<open>setState\<close>, \<open>deleteState\<close>, \<open>filter\<close>) through the layers; the
    locale \<open>store\<close> is the contract of that access.
  \<^item> \<open>Ledger\<close>: the private helpers of the \<open>Applicator\<close> (signer, guid, fee, \<open>verify\<close>, \<open>award\<close>,
    \<open>reward\<close>, \<open>calcInterest\<close>).  \<open>Transactions\<close>: the handlers from \<open>SendFunds\<close> to \<open>AddDealOrder\<close>
    and \<open>CollectCoins\<close>.  \<open>Deals\<close>: those of deals and repayment orders.  \<open>Housekeeping\<close>: its six
    listers and the command.  \<open>Dispatch\<close>: \<open>Apply\<close>, \<open>execute\<close>, \<open>doApply\<close>, the replay, the reading
    of the file.  \<open>Process\<close>: the handler object, block headers, the thread that ends a
    revalidation.

  \<^bold>\<open>The lemmas.\<close>
  \<^item> \<open>Effects\<close>, \<open>Order_Effects\<close>, \<open>Deal_Effects\<close>: one elimination lemma per handler (which
    checks held, which state it leaves); the rest of the development uses these instead of the
    definitions.
  \<^item> \<open>State_Types\<close>, \<open>State_Invariant\<close>: the invariant of the untyped state, over runs of
    transactions each with a header of its own (\<open>Headers\<close>).  \<open>Lifecycle\<close>: the
    abstract protocol of a deal, which every command refines.  \<open>Loans\<close>, \<open>Transfers\<close>, \<open>Coins\<close>,
    \<open>Registration\<close>, \<open>Charges\<close>, \<open>Funds\<close>: what a command proves, moves and costs.  \<open>Progress\<close>: a
    repaid deal can always be closed.  \<open>Supply\<close>: all balances and held fees as one sum, which a
    command changes by what is collected and by its fee; \<open>Minting\<close>: \<open>Housekeeping\<close> adds the
    rewards and nothing else, and the sum over a whole chain of transactions.
  \<^item> Interfaces are locales: \<open>message_codec\<close> and \<open>sized_codec\<close> (nine interpretations, one
    per message class), \<open>store\<close> (interpreted by the access to the state with its layers),
    and \<open>kept_by_commands\<close> in \<open>State_Invariant\<close>: a relation of states that each accepted
    command establishes, whatever its header, holds over every run of them.  \<open>deals\<close>,
    \<open>transfers\<close>, \<open>addresses\<close> and \<open>settled\<close> are its interpretations, in the theories of these records.
  \<^item> \<open>Atomicity\<close>: a rejected transaction leaves no trace.  \<open>Errors\<close>: a failing command fails by
    \<open>InvalidTransaction\<close>; the exceptions to this.
  \<^item> \<open>Cleanup\<close>, \<open>Confirmation\<close>, \<open>Tidying\<close>: what \<open>Housekeeping\<close> removes, pays, and leaves alone.
  \<^item> \<open>Overlay\<close>, \<open>Replay\<close>, \<open>Rewind\<close>: the layers are one state, the file is read back as written,
    and going back within a block gives the state of going forward.  \<open>Reproduction\<close>: a simulation
    between normal operation and the replay, command by command (\<open>Housekeeping\<close> apart, which
    lists the state and finds the signers to reward in another way when replaying), and the
    state after a replay of several blocks.
  \<^item> \<open>Formats\<close>, \<open>Entry\<close>: round trips of all formats; from payload and key to the handler.
  \<^item> \<open>Sample\<close>, \<open>Market_Sample\<close>, \<open>Tidying_Sample\<close>, \<open>Minting_Sample\<close>: concrete
    parameters and states in which every hypothesis below holds and handlers are run.

  \<^bold>\<open>Parameters and hypotheses.\<close>  What is not in the repository is a field of the record \<open>env\<close>:
  SHA-512, reading and printing big integers, Boost's string algorithms, \<open>printf\<close>, the header
  of the transaction, the validator and the gateways.  The definitions assume nothing about
  them.  Theorems name what they use: \<open>validator_ok\<close> (reads succeed and writes take effect; in
  \<open>session_ok\<close> together with the fact that only a transitioning processor replays),
  \<open>bigint_ok\<close> (a number reads back from its text; text below \<open>max_amount\<close> fits a message),
  \<open>sha512_ok\<close> (length of a digest), \<open>iequals_ok\<close> (comparison without case), \<open>listing_ok\<close> (pages
  of a listing show the state), \<open>pages_ordered\<close> (they go through it in order), \<open>signatures_ok\<close>
  (one signer per block), \<open>gateways_answer\<close> (asking raises nothing), \<open>text_params\<close>
  (parameters are text).  \<open>typed_query\<close> says that a client sends ids of the kind a command
  expects and text a message can store: the code does not check it, and the invariant
  \<open>state_wf\<close> needs it.  \<open>small_amounts\<close> keeps numbers below \<open>10 ^ 100\<close>, so that their text
  is shorter than protobuf's limit on strings.

  \<^bold>\<open>Loops and bounds.\<close>  Structural recursion where the code has a counter or an iterator.  The
  parser loop has one step per tag and the length of the input plus one for fuel: every tag
  takes a byte (\<open>merge_any_fuel\<close>; \<open>skip_fuel\<close> for nested groups).  The CBOR decoder has
  \<open>2 * length + 2\<close>, since a level of nesting takes a byte and two calls (\<open>decoder_fuel\<close>).
  The file is read with one step more than it has lines, as every step takes one as long as there is one;
  only the loop for the end of a block that never comes runs out of it, where the program
  hangs.  \<open>filter_pages\<close>, whose end depends on the validator, is a \<open>partial_function\<close>
  with \<open>None\<close> for not returning.  Machine integers are words where they may wrap (block
  numbers, expirations, varints, the accumulator of base64); \<open>int\<close> stands for \<open>cpp_int\<close>, and
  for the counters of vectors.

  \<^bold>\<open>Not modelled.\<close>  \<open>main\<close> with its socket, threads and logging, and the exchange with the
  gateways (their replies are parameters; the C# gateway is another program).  The Sawtooth SDK
  and Crypto++ are headers without implementation here.  Of protobuf: reflection, descriptors,
  arenas, extensions, packed fields and streams in several chunks, which the nine messages do
  not use or which do not change what they compute.  Of \<open>nlohmann::json\<close>: parsing of text,
  iterators, patches and indented printing.  The Python files replace parts of other Sawtooth
  components.  The protobuf compilers, log4cxx and zmqpp are vendored libraries that no
  transaction depends on.
\<close>

end
